(* ===== verification/Rekor_Prelude.thy ===== *)
theory Rekor_Prelude
  imports Main "HOL-Library.Word" "HOL-Library.Multiset" "HOL-Library.List_Lexorder"
    "HOL-Library.Char_ord"
begin

text \<open>
  The prelude of the rekor-tiles development: names for the Go types the components share, the
  collections of facts their proofs use, and generic lemmas on lists, options, multisets and
  words.

  A Go \<open>string\<close> and a Go \<open>[]byte\<close> are both finite sequences of bytes, and HOL's
  \<open>char\<close> is the type of bytes, so both are \<open>char list\<close>: the conversions
  \<open>[]byte(s)\<close> and \<open>string(b)\<close> of the source are the identity.  Where the source tells
  a nil slice or a nil pointer from an empty one, the model has an \<open>option\<close>.
  Go's order on strings is the bytewise lexicographic order, which is the order the library
  theories List\_Lexorder and Char\_ord give to \<open>char list\<close>.
\<close>

section \<open>Names for Go's types\<close>

type_synonym bytes = string
type_synonym uint64 = "64 word"
type_synonym int64 = "64 word"
type_synonym uint32 = "32 word"
type_synonym uint8 = "8 word"

section \<open>Collections of facts\<close>

named_theorems go_defs \<open>definitions a component's proofs unfold\<close>
named_theorems go_result \<open>rules that invert a successful computation\<close>
named_theorems go_bounds \<open>bounds on lengths and values\<close>

section \<open>Lists and multisets\<close>

text \<open>
  Go does not specify the order in which \<open>range\<close> visits a map.  An iteration order is a
  function that permutes whatever list of entries it is given.
\<close>

definition range_order :: "('a list \<Rightarrow> 'a list) \<Rightarrow> bool" where
  "range_order p \<longleftrightarrow> (\<forall>xs. mset (p xs) = mset xs)"

lemma range_order_set [simp]: "range_order p \<Longrightarrow> set (p xs) = set xs"
  unfolding range_order_def by (metis set_mset_mset)

lemma range_order_length: "range_order p \<Longrightarrow> length (p xs) = length xs"
  unfolding range_order_def by (metis size_mset)

lemma range_order_distinct: "range_order p \<Longrightarrow> distinct (p xs) = distinct xs"
  unfolding range_order_def by (metis mset_eq_imp_distinct_iff)

lemma range_order_id [simp, intro]: "range_order id" "range_order (\<lambda>xs. xs)"
  by (simp_all add: range_order_def)

lemma range_order_rev [simp, intro]: "range_order rev"
  by (simp add: range_order_def)

lemma sort_range_order: "range_order p \<Longrightarrow> sort (p xs) = sort (xs :: 'a::linorder list)"
  unfolding range_order_def by (metis mset_sort properties_for_sort sorted_sort)

lemma map_of_eq_of_mset:
  assumes "mset xs = mset ys" and "distinct (map fst xs)"
  shows "map_of xs = map_of ys"
proof -
  have "distinct (map fst ys)"
    using assms by (metis mset_eq_imp_distinct_iff mset_map)
  moreover have "set xs = set ys"
    using assms(1) by (metis set_mset_mset)
  ultimately show ?thesis
    using assms(2) by (intro map_of_eqI) (auto simp: map_of_eq_Some_iff image_iff)
qed

lemma split_at_first:
  "a @ c # u = b @ c # v \<Longrightarrow> c \<notin> set a \<Longrightarrow> c \<notin> set b \<Longrightarrow> a = b \<and> u = v"
proof (induction a arbitrary: b)
  case Nil
  then show ?case by (cases b) auto
next
  case (Cons x a)
  then show ?case by (cases b) auto
qed

lemma list_all2_left: "list_all2 P xs ys \<Longrightarrow> x \<in> set xs \<Longrightarrow> \<exists>y\<in>set ys. P x y"
  by (induction rule: list_all2_induct) auto

lemma list_all2_right: "list_all2 P xs ys \<Longrightarrow> y \<in> set ys \<Longrightarrow> \<exists>x\<in>set xs. P x y"
  by (induction rule: list_all2_induct) auto

section \<open>Words\<close>

lemma msb_clear_sint_eq_uint:
  fixes w :: "64 word"
  assumes "uint w < 2 ^ 63"
  shows "sint w = uint w"
proof -
  have "signed_take_bit 63 (uint w) = uint w"
    by (rule signed_take_bit_int_eq_self) (use assms uint_ge_0 [of w] in linarith)+
  then show ?thesis by (simp add: sint_uint)
qed

lemma uint_less_unat:
  fixes w :: "64 word"
  assumes "uint w < 2 ^ 63"
  shows "unat w < 2 ^ 63"
proof -
  have "int (unat w) < int (2 ^ 63)" using assms by simp
  then show ?thesis by (simp only: of_nat_less_iff)
qed

end
