(* ===== verification/Go_Strings.thy ===== *)
theory Go_Strings
  imports Rekor_Prelude "HOL-Library.Sublist"
begin

text \<open>
  What the sources use of Go's \<open>strconv\<close>, \<open>strings\<close>, \<open>unicode\<close> and
  \<open>unicode/utf8\<close> packages, as functions on byte sequences: decimal printing and parsing,
  prefix tests, substring search, and UTF-8 decoding with the white-space class.
\<close>

section \<open>strconv: decimal printing and parsing\<close>

definition digit_char :: "nat \<Rightarrow> char" where
  "digit_char d = char_of (48 + d)"

fun FormatUint :: "nat \<Rightarrow> string" where
  "FormatUint n =
     (if n < 10 then [digit_char n] else FormatUint (n div 10) @ [digit_char (n mod 10)])"

declare FormatUint.simps [simp del]

definition Itoa :: "int \<Rightarrow> string" where
  "Itoa i = (if i < 0 then CHR ''-'' # FormatUint (nat (- i)) else FormatUint (nat i))"

definition is_digit :: "char \<Rightarrow> bool" where
  "is_digit c \<longleftrightarrow> 48 \<le> (of_char c :: nat) \<and> (of_char c :: nat) \<le> 57"

definition digit_val :: "char \<Rightarrow> nat" where
  "digit_val c = of_char c - 48"

definition parse_digits :: "string \<Rightarrow> nat option" where
  "parse_digits s =
     (if s \<noteq> [] \<and> list_all is_digit s then Some (foldl (\<lambda>n c. 10 * n + digit_val c) 0 s)
      else None)"

text \<open>
  \<open>strconv.Atoi\<close> on a 64-bit platform: an optional sign, then decimal digits, in the range
  of \<open>int64\<close>; \<open>None\<close> is its \<open>ErrSyntax\<close> or \<open>ErrRange\<close>.
\<close>

definition Atoi :: "string \<Rightarrow> int option" where
  "Atoi s =
     (let (neg, ds) =
        (case s of c # cs \<Rightarrow> (if c = CHR ''-'' then (True, cs)
                              else if c = CHR ''+'' then (False, cs) else (False, s))
         | [] \<Rightarrow> (False, []))
      in case parse_digits ds of
           None \<Rightarrow> None
         | Some n \<Rightarrow>
             (if neg then (if n \<le> 2 ^ 63 then Some (- int n) else None)
              else if n < 2 ^ 63 then Some (int n) else None))"

lemma digit_char_ascii: "d < 10 \<Longrightarrow> of_char (digit_char d) = (48 + d :: nat)"
  by (simp add: digit_char_def)

lemma is_digit_digit_char [simp]: "d < 10 \<Longrightarrow> is_digit (digit_char d)"
  by (simp add: is_digit_def digit_char_ascii)

lemma digit_val_digit_char [simp]: "d < 10 \<Longrightarrow> digit_val (digit_char d) = d"
  by (simp add: digit_val_def digit_char_ascii)

lemma FormatUint_nonempty [simp]: "FormatUint n \<noteq> []"
  by (subst FormatUint.simps) simp

lemma FormatUint_digits: "list_all is_digit (FormatUint n)"
proof (induction n rule: FormatUint.induct)
  case (1 n)
  then show ?case by (cases "n < 10") (simp_all add: FormatUint.simps [of n])
qed

lemma FormatUint_value: "foldl (\<lambda>n c. 10 * n + digit_val c) 0 (FormatUint n) = n"
proof (induction n rule: FormatUint.induct)
  case (1 n)
  then show ?case by (cases "n < 10") (simp_all add: FormatUint.simps [of n])
qed

lemma parse_digits_FormatUint [simp]: "parse_digits (FormatUint n) = Some n"
  by (simp add: parse_digits_def FormatUint_digits FormatUint_value)

lemma FormatUint_inj: "FormatUint m = FormatUint n \<Longrightarrow> m = n"
  by (metis FormatUint_value)

lemma hd_FormatUint: "is_digit (hd (FormatUint n))"
  using FormatUint_digits [of n] by (cases "FormatUint n") simp_all

lemma sign_not_digit [simp]: "\<not> is_digit (CHR ''-'')" "\<not> is_digit (CHR ''+'')"
  by (simp_all add: is_digit_def)

lemma Atoi_FormatUint: "n < 2 ^ 63 \<Longrightarrow> Atoi (FormatUint n) = Some (int n)"
proof -
  assume n: "n < 2 ^ 63"
  obtain c cs where c: "FormatUint n = c # cs" by (cases "FormatUint n") simp_all
  with hd_FormatUint [of n] have "c \<noteq> CHR ''-''" "c \<noteq> CHR ''+''" by auto
  moreover have "parse_digits (c # cs) = Some n"
    using parse_digits_FormatUint [of n] c by simp
  ultimately show ?thesis using c n by (simp add: Atoi_def Let_def)
qed

section \<open>strings: prefixes, substrings, indices\<close>

definition HasPrefix :: "string \<Rightarrow> string \<Rightarrow> bool" where
  "HasPrefix s p = prefix p s"

definition TrimPrefix :: "string \<Rightarrow> string \<Rightarrow> string" where
  "TrimPrefix s p = (if HasPrefix s p then drop (length p) s else s)"

fun Index :: "string \<Rightarrow> string \<Rightarrow> nat option" where
  "Index [] p = (if p = [] then Some 0 else None)"
| "Index (c # s) p = (if prefix p (c # s) then Some 0 else map_option Suc (Index s p))"

definition Contains :: "string \<Rightarrow> string \<Rightarrow> bool" where
  "Contains s p \<longleftrightarrow> Index s p \<noteq> None"

lemma Index_Some_prefix: "Index s p = Some i \<Longrightarrow> i \<le> length s \<and> prefix p (drop i s)"
  by (induction s p arbitrary: i rule: Index.induct) (auto split: if_splits)

lemma Contains_iff_sublist: "Contains s p \<longleftrightarrow> sublist p s"
  unfolding Contains_def by (induction s p rule: Index.induct) (auto simp: sublist_Cons_right)

lemma Contains_append: "Contains (xs @ p @ ys) p"
  by (simp add: Contains_iff_sublist)

lemma Contains_singleton: "Contains s [c] \<longleftrightarrow> c \<in> set s"
  by (induction s) (auto simp: Contains_iff_sublist sublist_Cons_right)

end
