(* ===== verification/Go_Errors.thy ===== *)
theory Go_Errors
  imports Go_Strings
begin

text \<open>
  Errors and results.  A Go function that returns \<open>(T, error)\<close> is a function into
  \<open>T result\<close>; the third outcome \<open>Panic\<close> is a run-time panic (a nil dereference, an
  invalid argument to a library call that panics).  The error values of the program are one
  datatype, since Go's \<open>error\<close> is one interface: opaque texts, texts that wrap another
  error (\<open>fmt.Errorf\<close> with \<open>%w\<close>), the sentinels the program looks for (tessera's
  pushback, a cancelled context, end of input), gRPC status errors, and the three error structs the
  repository declares.  \<open>errors.Is\<close> and \<open>errors.As\<close> walk the
  \<open>Unwrap\<close> chain.
\<close>

section \<open>Public keys and digest algorithms\<close>

text \<open>
  The dynamic types of \<open>crypto.PublicKey\<close> the sources distinguish: \<open>*rsa.PublicKey\<close>
  (modulus and exponent), \<open>*ecdsa.PublicKey\<close> (curve name and point),
  \<open>ed25519.PublicKey\<close>, and any other type, with its Go type name.
\<close>

datatype public_key =
    RsaPublicKey nat int
  | EcdsaPublicKey string nat nat
  | Ed25519PublicKey bytes
  | OtherPublicKey string

type_synonym crypto_hash = nat

definition SHA256 :: crypto_hash where "SHA256 = 5"
definition SHA384 :: crypto_hash where "SHA384 = 6"
definition SHA512 :: crypto_hash where "SHA512 = 7"

text \<open>\<open>crypto.Hash.String\<close>: the names of the registered digest identifiers 1 to 19.\<close>

definition hash_names :: "string list" where
  "hash_names =
    [''MD4'', ''MD5'', ''SHA-1'', ''SHA-224'', ''SHA-256'', ''SHA-384'', ''SHA-512'',
     ''MD5+SHA1'', ''RIPEMD-160'', ''SHA3-224'', ''SHA3-256'', ''SHA3-384'', ''SHA3-512'',
     ''SHA-512/224'', ''SHA-512/256'', ''BLAKE2s-256'', ''BLAKE2b-256'', ''BLAKE2b-384'',
     ''BLAKE2b-512'']"

definition hash_String :: "crypto_hash \<Rightarrow> string" where
  "hash_String h =
     (if 1 \<le> h \<and> h \<le> 19 then hash_names ! (h - 1)
      else ''unknown hash value '' @ FormatUint h)"

fun bit_len :: "nat \<Rightarrow> nat" where
  "bit_len n = (if n = 0 then 0 else Suc (bit_len (n div 2)))"

declare bit_len.simps [simp del]

definition rsa_Size :: "nat \<Rightarrow> nat" where
  "rsa_Size N = (bit_len N + 7) div 8"

section \<open>The error values\<close>

text \<open>The gRPC status codes the program uses, with their names.\<close>

datatype code =
    Canceled | Unknown | InvalidArgument | AlreadyExists | Unimplemented | Internal | Unavailable

fun code_String :: "code \<Rightarrow> string" where
  "code_String Canceled = ''Canceled''"
| "code_String Unknown = ''Unknown''"
| "code_String InvalidArgument = ''InvalidArgument''"
| "code_String AlreadyExists = ''AlreadyExists''"
| "code_String Unimplemented = ''Unimplemented''"
| "code_String Internal = ''Internal''"
| "code_String Unavailable = ''Unavailable''"

datatype err =
    ErrText string
  | Wrap string err
  | EOF
  | StatusError code string
  | ErrPushback
  | ContextCanceled
  | DuplicateError uint64
  | InclusionProofVerificationError uint64 err
  | UnsupportedAlgorithm public_key crypto_hash

definition DuplicateError_Error :: "uint64 \<Rightarrow> string" where
  "DuplicateError_Error index =
     ''an equivalent entry already exists in the transparency log with index ''
       @ FormatUint (unat index)"

definition InclusionProofVerificationError_Error :: "uint64 \<Rightarrow> string \<Rightarrow> string" where
  "InclusionProofVerificationError_Error index msg =
     ''verifying inclusion proof for index '' @ FormatUint (unat index) @ '': '' @ msg"

fun UnsupportedAlgorithm_Error :: "public_key \<Rightarrow> crypto_hash \<Rightarrow> string" where
  "UnsupportedAlgorithm_Error (RsaPublicKey N e) alg =
     ''unsupported entry algorithm for RSA key, size '' @ FormatUint (rsa_Size N * 8)
       @ '', digest '' @ hash_String alg"
| "UnsupportedAlgorithm_Error (EcdsaPublicKey curve x y) alg =
     ''unsupported entry algorithm for ECDSA key, curve '' @ curve
       @ '', digest '' @ hash_String alg"
| "UnsupportedAlgorithm_Error (Ed25519PublicKey k) alg =
     ''unsupported entry algorithm for Ed25519 key, digest '' @ hash_String alg"
| "UnsupportedAlgorithm_Error (OtherPublicKey ty) alg =
     ''unsupported key type '' @ ty @ '', digest '' @ hash_String alg"

text \<open>The \<open>Error()\<close> method of every error value; a wrapping text is followed by a colon.\<close>

fun err_Error :: "err \<Rightarrow> string" where
  "err_Error (ErrText s) = s"
| "err_Error (Wrap p e) = p @ '': '' @ err_Error e"
| "err_Error EOF = ''EOF''"
| "err_Error (StatusError c m) = ''rpc error: code = '' @ code_String c @ '' desc = '' @ m"
| "err_Error ErrPushback = ''pushback''"
| "err_Error ContextCanceled = ''context canceled''"
| "err_Error (DuplicateError i) = DuplicateError_Error i"
| "err_Error (InclusionProofVerificationError i e) =
     InclusionProofVerificationError_Error i (err_Error e)"
| "err_Error (UnsupportedAlgorithm k h) = UnsupportedAlgorithm_Error k h"

text \<open>\<open>fmt.Errorf(p + ": %v", e)\<close>: the text is kept, the chain is not.\<close>

definition errv :: "string \<Rightarrow> err \<Rightarrow> err" where
  "errv p e = ErrText (p @ '': '' @ err_Error e)"

section \<open>errors.Is and errors.As\<close>

text \<open>The \<open>Unwrap\<close> chain, the error itself first.\<close>

fun err_chain :: "err \<Rightarrow> err list" where
  "err_chain (Wrap p e) = Wrap p e # err_chain e"
| "err_chain (InclusionProofVerificationError i e) =
     InclusionProofVerificationError i e # err_chain e"
| "err_chain e = [e]"

definition errors_Is :: "err \<Rightarrow> err \<Rightarrow> bool" where
  "errors_Is e target \<longleftrightarrow> target \<in> set (err_chain e)"

fun dup_index :: "err \<Rightarrow> uint64 option" where
  "dup_index (DuplicateError i) = Some i"
| "dup_index _ = None"

text \<open>\<open>errors.As(err, &dupErr)\<close>: the first \<open>DuplicateError\<close> of the chain.\<close>

definition errors_As_Duplicate :: "err \<Rightarrow> uint64 option" where
  "errors_As_Duplicate e =
     (case List.map_filter dup_index (err_chain e) of [] \<Rightarrow> None | i # _ \<Rightarrow> Some i)"

fun is_inclusion_err :: "err \<Rightarrow> bool" where
  "is_inclusion_err (InclusionProofVerificationError i e) = True"
| "is_inclusion_err _ = False"

definition errors_As_Inclusion :: "err \<Rightarrow> bool" where
  "errors_As_Inclusion e \<longleftrightarrow> (\<exists>x \<in> set (err_chain e). is_inclusion_err x)"

lemma errors_Is_Wrap [simp]:
  "errors_Is (Wrap p e) ErrPushback = errors_Is e ErrPushback"
  "errors_Is (Wrap p e) ContextCanceled = errors_Is e ContextCanceled"
  by (simp_all add: errors_Is_def)

lemma errors_Is_EOF [simp]:
  "errors_Is (Wrap p e) EOF = errors_Is e EOF"
  "errors_Is (ErrText s) EOF = False"
  "errors_Is EOF EOF = True"
  by (simp_all add: errors_Is_def)

lemma errors_Is_leaf [simp]:
  "errors_Is (ErrText s) ErrPushback = False"
  "errors_Is (ErrText s) ContextCanceled = False"
  "errors_Is (DuplicateError i) ErrPushback = False"
  "errors_Is (DuplicateError i) ContextCanceled = False"
  "errors_Is ErrPushback ErrPushback = True"
  "errors_Is ErrPushback ContextCanceled = False"
  "errors_Is ContextCanceled ContextCanceled = True"
  "errors_Is (InclusionProofVerificationError i e) ErrPushback = errors_Is e ErrPushback"
  "errors_Is (InclusionProofVerificationError i e) ContextCanceled = errors_Is e ContextCanceled"
  by (simp_all add: errors_Is_def)

lemma errors_As_Duplicate_simps [simp]:
  "errors_As_Duplicate (Wrap p e) = errors_As_Duplicate e"
  "errors_As_Duplicate (DuplicateError i) = Some i"
  "errors_As_Duplicate (ErrText s) = None"
  "errors_As_Duplicate ErrPushback = None"
  "errors_As_Duplicate ContextCanceled = None"
  "errors_As_Duplicate (InclusionProofVerificationError i e) = errors_As_Duplicate e"
  by (simp_all add: errors_As_Duplicate_def map_filter_simps)

lemma errors_As_Inclusion_simps [simp]:
  "errors_As_Inclusion (Wrap p e) = errors_As_Inclusion e"
  "errors_As_Inclusion (InclusionProofVerificationError i e)"
  "\<not> errors_As_Inclusion (ErrText s)"
  "\<not> errors_As_Inclusion ErrPushback"
  "\<not> errors_As_Inclusion (DuplicateError i)"
  by (auto simp: errors_As_Inclusion_def)

section \<open>Results\<close>

datatype 'a result = Ok 'a | Err err | Panic

text \<open>
  The idiom \<open>x, err := m; if err != nil { return w(err) }; k(x)\<close>.
\<close>

fun go_bind :: "'a result \<Rightarrow> (err \<Rightarrow> err) \<Rightarrow> ('a \<Rightarrow> 'b result) \<Rightarrow> 'b result" where
  "go_bind (Ok x) w k = k x"
| "go_bind (Err e) w k = Err (w e)"
| "go_bind Panic w k = Panic"

text \<open>Dereferencing a pointer: nil panics.\<close>

fun deref :: "'a option \<Rightarrow> 'a result" where
  "deref None = Panic"
| "deref (Some x) = Ok x"

text \<open>A loop that returns at the first error.\<close>

fun for_each :: "('a \<Rightarrow> unit result) \<Rightarrow> 'a list \<Rightarrow> unit result" where
  "for_each f [] = Ok ()"
| "for_each f (x # xs) = go_bind (f x) id (\<lambda>_. for_each f xs)"

text \<open>A loop that appends one result per element and returns at the first error.\<close>

fun map_each :: "('a \<Rightarrow> 'b result) \<Rightarrow> 'a list \<Rightarrow> 'b list result" where
  "map_each f [] = Ok []"
| "map_each f (x # xs) =
     go_bind (f x) id (\<lambda>y. go_bind (map_each f xs) id (\<lambda>ys. Ok (y # ys)))"

lemma go_bind_eq_Ok [go_result]:
  "go_bind m w k = Ok y \<longleftrightarrow> (\<exists>x. m = Ok x \<and> k x = Ok y)"
  by (cases m) auto

lemma go_bind_eq_Err:
  "go_bind m w k = Err e \<longleftrightarrow> (\<exists>e'. m = Err e' \<and> e = w e') \<or> (\<exists>x. m = Ok x \<and> k x = Err e)"
  by (cases m) auto

lemma go_bind_not_Panic:
  "m \<noteq> Panic \<Longrightarrow> (\<And>x. m = Ok x \<Longrightarrow> k x \<noteq> Panic) \<Longrightarrow> go_bind m w k \<noteq> Panic"
  by (cases m) auto

lemma go_bind_eq_Panic:
  "go_bind m w k = Panic \<longleftrightarrow> m = Panic \<or> (\<exists>x. m = Ok x \<and> k x = Panic)"
  by (cases m) auto

lemma deref_eq_Ok [go_result]: "deref p = Ok x \<longleftrightarrow> p = Some x"
  by (cases p) auto

lemma deref_not_Err [simp]: "deref p \<noteq> Err e"
  by (cases p) auto

lemma for_each_Ok [go_result]: "for_each f xs = Ok u \<longleftrightarrow> (\<forall>x\<in>set xs. f x = Ok ())"
  by (induction xs) (auto simp: go_bind_eq_Ok)

lemma for_each_not_Panic: "(\<And>x. x \<in> set xs \<Longrightarrow> f x \<noteq> Panic) \<Longrightarrow> for_each f xs \<noteq> Panic"
  by (induction xs) (auto simp: go_bind_eq_Panic)

lemma map_each_Ok_list [go_result]:
  "map_each f xs = Ok ys \<longleftrightarrow> list_all2 (\<lambda>x y. f x = Ok y) xs ys"
proof (induction xs arbitrary: ys)
  case Nil
  then show ?case by auto
next
  case (Cons x xs)
  then show ?case by (cases ys) (auto simp: go_bind_eq_Ok)
qed

lemma map_each_not_Panic: "(\<And>x. x \<in> set xs \<Longrightarrow> f x \<noteq> Panic) \<Longrightarrow> map_each f xs \<noteq> Panic"
  by (induction xs) (auto simp: go_bind_eq_Panic)

end
