(* ===== verification/Signing_Stack.thy ===== *)
theory Signing_Stack
  imports Go_Errors
begin

text \<open>
  The workaround of \<open>internal/tessera/gcpcloudsql/gcpcloudsql.go\<close> for request signing.  A request
  of the AWS SDK passes through a stack of named middlewares; the API options of \<open>s3.Options\<close>
  change that stack before a request is sent.  The middlewares of the SDK (among them the signer)
  and the operations of the SDK's middleware groups are parameters: a middleware gets the rest
  of the stack as its continuation.  Headers map a canonical key to its values.
\<close>

section \<open>Requests and middlewares\<close>

type_synonym req_headers = "string \<Rightarrow> string list option"

text \<open>A request of another type than the HTTP one is named by its Go type.\<close>

datatype mw_request = SmithyRequest req_headers | OtherRequest string

definition Header_Get :: "req_headers \<Rightarrow> string \<Rightarrow> string" where
  "Header_Get hm k = (case hm k of Some (v # _) \<Rightarrow> v | _ \<Rightarrow> [])"

datatype finalize_mw = IgnoreHeaders "string list" | RestoreIgnored | SdkFinalize string

datatype initialize_mw = DisableTrailingChecksum | SdkInitialize string

fun finalize_id :: "finalize_mw \<Rightarrow> string" where
  "finalize_id (IgnoreHeaders hs) = ''IgnoreHeaders''"
| "finalize_id RestoreIgnored = ''RestoreIgnored''"
| "finalize_id (SdkFinalize n) = n"

fun initialize_id :: "initialize_mw \<Rightarrow> string" where
  "initialize_id DisableTrailingChecksum = ''DisableTrailingChecksum''"
| "initialize_id (SdkInitialize n) = n"

text \<open>
  The stack of one request: the operation's name, the two steps the program touches, and, if the
  SDK's checksum middleware is there, the value of its field \<open>EnableTrailingChecksum\<close>.  The
  field is \<open>None\<close> where the lookup of \<open>AWSChecksum:ComputeInputPayloadChecksum\<close> or the
  reflection on what it finds gives no Boolean field that can be set.
\<close>

record mw_stack =
  stk_operation :: string
  stk_initialize :: "initialize_mw list"
  stk_finalize :: "finalize_mw list"
  stk_trailingChecksum :: "bool option"

text \<open>
  \<open>Insert\<close> before (\<open>True\<close>) or after a named middleware, \<open>Remove\<close> by name, and \<open>Add\<close> in front.
\<close>

record step_ops =
  op_Insert :: "finalize_mw list \<Rightarrow> finalize_mw \<Rightarrow> string \<Rightarrow> bool \<Rightarrow> finalize_mw list result"
  op_Remove :: "finalize_mw list \<Rightarrow> string \<Rightarrow> finalize_mw list"
  op_AddBefore :: "initialize_mw list \<Rightarrow> initialize_mw \<Rightarrow> initialize_mw list result"

type_synonym api_option = "mw_stack \<Rightarrow> mw_stack result"

text \<open>\<open>s3.Options\<close>: path-style addressing, and the API options.\<close>

record s3_options =
  so_UsePathStyle :: bool
  so_APIOptions :: "api_option list"

definition zero_s3_options :: s3_options where
  "zero_s3_options = \<lparr>so_UsePathStyle = False, so_APIOptions = []\<rparr>"

section \<open>The options of gcpcloudsql\<close>

definition ignoreSigningHeaders :: "step_ops \<Rightarrow> s3_options \<Rightarrow> string list \<Rightarrow> s3_options" where
  "ignoreSigningHeaders ops opts headers =
     opts \<lparr>so_APIOptions := so_APIOptions opts @
       [\<lambda>stack.
          go_bind (op_Insert ops (stk_finalize stack) (IgnoreHeaders headers) ''Signing'' True) id (\<lambda>ms.
          go_bind (op_Insert ops ms RestoreIgnored ''Signing'' False) id (\<lambda>ms.
          Ok (stack \<lparr>stk_finalize := ms\<rparr>)))]\<rparr>"

definition disableTrailingChecksumForGCS :: "step_ops \<Rightarrow> s3_options \<Rightarrow> s3_options" where
  "disableTrailingChecksumForGCS ops opts =
     opts \<lparr>so_APIOptions := so_APIOptions opts @
       [\<lambda>stack.
          go_bind (op_AddBefore ops (stk_initialize stack) DisableTrailingChecksum) id (\<lambda>ms.
          Ok (stack \<lparr>stk_initialize := ms\<rparr>))]\<rparr>"

definition cloudsql_s3Opts :: "step_ops \<Rightarrow> s3_options \<Rightarrow> s3_options" where
  "cloudsql_s3Opts ops opts =
     (let opts = opts \<lparr>so_UsePathStyle := True\<rparr>;
          opts = ignoreSigningHeaders ops opts [''Accept-Encoding'']
      in disableTrailingChecksumForGCS ops opts)"

section \<open>The middlewares\<close>

text \<open>
  The values a context carries under the program's key are the ignored headers.  The loop saves
  the first value of each header and deletes the header.
\<close>

fun ignore_loop :: "string list \<Rightarrow> (string \<rightharpoonup> string) \<times> req_headers \<Rightarrow>
    (string \<rightharpoonup> string) \<times> req_headers" where
  "ignore_loop [] st = st"
| "ignore_loop (h # hs) (ignored, hm) =
     ignore_loop hs (ignored(h \<mapsto> Header_Get hm h), hm(h := None))"

fun ignoreHeaders ::
    "string list \<Rightarrow> ((string \<rightharpoonup> string) \<Rightarrow> mw_request \<Rightarrow> 'o result) \<Rightarrow> (string \<rightharpoonup> string) \<Rightarrow>
     mw_request \<Rightarrow> 'o result" where
  "ignoreHeaders headers next ctx (OtherRequest ty) =
     Err (ErrText (''(ignoreHeaders) unexpected request middleware type '' @ ty))"
| "ignoreHeaders headers next ctx (SmithyRequest hm) =
     (let (ignored, hm) = ignore_loop headers (Map.empty, hm) in next ignored (SmithyRequest hm))"

fun restoreIgnored ::
    "((string \<rightharpoonup> string) \<Rightarrow> mw_request \<Rightarrow> 'o result) \<Rightarrow> (string \<rightharpoonup> string) \<Rightarrow>
     mw_request \<Rightarrow> 'o result" where
  "restoreIgnored next ctx (OtherRequest ty) =
     Err (ErrText (''(restoreIgnored) unexpected request middleware type '' @ ty))"
| "restoreIgnored next ctx (SmithyRequest hm) =
     next ctx (SmithyRequest (\<lambda>k. case ctx k of Some v \<Rightarrow> Some [v] | None \<Rightarrow> hm k))"

text \<open>The finalize step; a middleware of the SDK gets the rest of the step.\<close>

fun HandleFinalize ::
    "(string \<Rightarrow> (mw_request \<Rightarrow> 'o result) \<Rightarrow> mw_request \<Rightarrow> 'o result) \<Rightarrow>
     (mw_request \<Rightarrow> 'o result) \<Rightarrow> finalize_mw list \<Rightarrow> (string \<rightharpoonup> string) \<Rightarrow> mw_request \<Rightarrow> 'o result" where
  "HandleFinalize sdk send [] ctx req = send req"
| "HandleFinalize sdk send (IgnoreHeaders hs # ms) ctx req =
     ignoreHeaders hs (HandleFinalize sdk send ms) ctx req"
| "HandleFinalize sdk send (RestoreIgnored # ms) ctx req =
     restoreIgnored (HandleFinalize sdk send ms) ctx req"
| "HandleFinalize sdk send (SdkFinalize n # ms) ctx req =
     sdk n (HandleFinalize sdk send ms ctx) req"

text \<open>
  The middleware of \<open>disableTrailingChecksumForGCS\<close>: for uploads it clears the field of the
  checksum middleware, if that is there, and removes the trailer.
\<close>

definition disable_trailing :: "step_ops \<Rightarrow> mw_stack \<Rightarrow> mw_stack" where
  "disable_trailing ops stk =
     (if stk_operation stk = ''UploadPart'' \<or> stk_operation stk = ''PutObject''
      then stk \<lparr>stk_trailingChecksum := map_option (\<lambda>_. False) (stk_trailingChecksum stk),
                stk_finalize := op_Remove ops (stk_finalize stk) ''addInputChecksumTrailer''\<rparr>
      else stk)"

text \<open>
  A request: the options change the stack; the middlewares of the initialize step run before
  those of the finalize step, which is read off the stack when it is reached.
\<close>

definition apply_api_options :: "api_option list \<Rightarrow> mw_stack \<Rightarrow> mw_stack result" where
  "apply_api_options os stk = fold (\<lambda>f r. go_bind r id f) os (Ok stk)"

fun HandleInitialize ::
    "step_ops \<Rightarrow> (string \<Rightarrow> (mw_stack \<Rightarrow> 'o result) \<Rightarrow> mw_stack \<Rightarrow> 'o result) \<Rightarrow> (mw_stack \<Rightarrow> 'o result) \<Rightarrow>
     initialize_mw list \<Rightarrow> mw_stack \<Rightarrow> 'o result" where
  "HandleInitialize ops sdk next [] stk = next stk"
| "HandleInitialize ops sdk next (DisableTrailingChecksum # ms) stk =
     HandleInitialize ops sdk next ms (disable_trailing ops stk)"
| "HandleInitialize ops sdk next (SdkInitialize n # ms) stk =
     sdk n (HandleInitialize ops sdk next ms) stk"

section \<open>What the SDK documents\<close>

text \<open>
  Names in a step are unique; inserting puts the new middleware next to the named one and is an
  error if there is none; removing takes the named middleware out; adding before puts it first.
\<close>

definition steps_documented :: "step_ops \<Rightarrow> bool" where
  "steps_documented ops \<longleftrightarrow>
     (\<forall>xs s ys m. finalize_id m \<notin> finalize_id ` set (xs @ s # ys) \<longrightarrow> distinct (map finalize_id (xs @ s # ys)) \<longrightarrow>
        op_Insert ops (xs @ s # ys) m (finalize_id s) True = Ok (xs @ m # s # ys)
      \<and> op_Insert ops (xs @ s # ys) m (finalize_id s) False = Ok (xs @ s # m # ys))
   \<and> (\<forall>ms m rel b. rel \<notin> finalize_id ` set ms \<longrightarrow> (\<exists>e. op_Insert ops ms m rel b = Err e))
   \<and> (\<forall>ms n. op_Remove ops ms n = filter (\<lambda>m. finalize_id m \<noteq> n) ms)
   \<and> (\<forall>ms m. initialize_id m \<notin> initialize_id ` set ms \<longrightarrow> op_AddBefore ops ms m = Ok (m # ms))"

text \<open>The stack the SDK builds: its own middlewares, under unique names, one of them the signer.\<close>

definition sdk_stack :: "string \<Rightarrow> string list \<Rightarrow> string list \<Rightarrow> string list \<Rightarrow> bool option \<Rightarrow> mw_stack" where
  "sdk_stack operation inits pre post checksum =
     \<lparr>stk_operation = operation, stk_initialize = map SdkInitialize inits,
      stk_finalize = map SdkFinalize (pre @ ''Signing'' # post), stk_trailingChecksum = checksum\<rparr>"

definition sdk_names :: "string list \<Rightarrow> string list \<Rightarrow> string list \<Rightarrow> bool" where
  "sdk_names inits pre post \<longleftrightarrow>
     distinct (pre @ ''Signing'' # post)
   \<and> ''IgnoreHeaders'' \<notin> set (pre @ post) \<and> ''RestoreIgnored'' \<notin> set (pre @ post)
   \<and> ''DisableTrailingChecksum'' \<notin> set inits"

section \<open>What the signer sees and what is sent\<close>

text \<open>
  Signing with the listed headers hidden: the signer sees the request without them, and what it
  passes on gets the first value of each of them back.
\<close>

definition around_signing ::
    "string list \<Rightarrow> ((mw_request \<Rightarrow> 'o result) \<Rightarrow> mw_request \<Rightarrow> 'o result) \<Rightarrow> (mw_request \<Rightarrow> 'o result) \<Rightarrow>
     mw_request \<Rightarrow> 'o result" where
  "around_signing hs sign rest req =
     (case req of
        OtherRequest ty \<Rightarrow> Err (ErrText (''(ignoreHeaders) unexpected request middleware type '' @ ty))
      | SmithyRequest hm \<Rightarrow>
          sign (\<lambda>r. case r of
                  OtherRequest ty \<Rightarrow>
                    Err (ErrText (''(restoreIgnored) unexpected request middleware type '' @ ty))
                | SmithyRequest hm' \<Rightarrow>
                    rest (SmithyRequest (\<lambda>k. if k \<in> set hs then Some [Header_Get hm k] else hm' k)))
            (SmithyRequest (\<lambda>k. if k \<in> set hs then None else hm k)))"

lemma ignore_loop_result:
  assumes "distinct hs"
  shows "ignore_loop hs (ig, hm) =
    (\<lambda>k. if k \<in> set hs then Some (Header_Get hm k) else ig k, \<lambda>k. if k \<in> set hs then None else hm k)"
  using assms
proof (induction hs arbitrary: ig hm)
  case (Cons h hs)
  then show ?case by (auto simp: fun_eq_iff Header_Get_def)
qed simp

lemma HandleFinalize_sdk:
  "HandleFinalize sdk send (map SdkFinalize ns @ ms) ctx = foldr sdk ns (HandleFinalize sdk send ms ctx)"
proof (induction ns)
  case (Cons n ns)
  have "HandleFinalize sdk send (map SdkFinalize (n # ns) @ ms) ctx req =
      sdk n (HandleFinalize sdk send (map SdkFinalize ns @ ms) ctx) req" for req
    by simp
  then show ?case unfolding Cons by (simp add: fun_eq_iff)
qed simp

lemma HandleFinalize_done: "HandleFinalize sdk send [] ctx = send"
  by (simp add: fun_eq_iff)

lemma HandleFinalize_around:
  assumes "distinct hs"
  shows "HandleFinalize sdk send
      (map SdkFinalize pre @ IgnoreHeaders hs # SdkFinalize ''Signing'' # RestoreIgnored # map SdkFinalize post) ctx =
    foldr sdk pre (around_signing hs (sdk ''Signing'') (foldr sdk post send))"
proof -
  define ig where "ig hm = (\<lambda>k. if k \<in> set hs then Some (Header_Get hm k) else None)" for hm
  have post: "HandleFinalize sdk send (map SdkFinalize post) c = foldr sdk post send" for c
    using HandleFinalize_sdk [of sdk send post "[]" c] by (simp add: HandleFinalize_done)
  have "restoreIgnored (HandleFinalize sdk send (map SdkFinalize post)) (ig hm) r =
      (case r of OtherRequest ty \<Rightarrow> Err (ErrText (''(restoreIgnored) unexpected request middleware type '' @ ty))
       | SmithyRequest hm' \<Rightarrow>
           foldr sdk post send (SmithyRequest (\<lambda>k. if k \<in> set hs then Some [Header_Get hm k] else hm' k)))"
    for hm r
    by (cases r) (auto simp: post ig_def intro!: arg_cong [of _ _ "foldr sdk post send"])
  then have "HandleFinalize sdk send (RestoreIgnored # map SdkFinalize post) (ig hm) =
      (\<lambda>r. case r of OtherRequest ty \<Rightarrow> Err (ErrText (''(restoreIgnored) unexpected request middleware type '' @ ty))
       | SmithyRequest hm' \<Rightarrow>
           foldr sdk post send (SmithyRequest (\<lambda>k. if k \<in> set hs then Some [Header_Get hm k] else hm' k)))"
    for hm by (simp add: fun_eq_iff)
  then have "HandleFinalize sdk send
      (IgnoreHeaders hs # SdkFinalize ''Signing'' # RestoreIgnored # map SdkFinalize post) ctx r =
    around_signing hs (sdk ''Signing'') (foldr sdk post send) r" for r
    by (cases r) (simp_all add: ignore_loop_result [OF assms] around_signing_def ig_def [symmetric])
  then have "HandleFinalize sdk send
      (IgnoreHeaders hs # SdkFinalize ''Signing'' # RestoreIgnored # map SdkFinalize post) ctx =
    around_signing hs (sdk ''Signing'') (foldr sdk post send)" by (rule ext)
  then show ?thesis by (simp only: HandleFinalize_sdk)
qed

definition is_upload :: "string \<Rightarrow> bool" where
  "is_upload operation \<longleftrightarrow> operation \<in> {''UploadPart'', ''PutObject''}"

text \<open>The names of the SDK's middlewares that are left for an operation.\<close>

definition remaining :: "string \<Rightarrow> string list \<Rightarrow> string list" where
  "remaining operation ns = filter (\<lambda>n. \<not> (is_upload operation \<and> n = ''addInputChecksumTrailer'')) ns"

lemma filter_SdkFinalize:
  "filter (\<lambda>m. finalize_id m \<noteq> t) (map SdkFinalize ns) = map SdkFinalize (filter (\<lambda>n. n \<noteq> t) ns)"
  by (induction ns) auto

lemma Insert_documented:
  assumes "steps_documented ops" "distinct (map finalize_id (m # xs @ s # ys))"
  shows "op_Insert ops (xs @ s # ys) m (finalize_id s) True = Ok (xs @ m # s # ys)"
    and "op_Insert ops (xs @ s # ys) m (finalize_id s) False = Ok (xs @ s # m # ys)"
proof -
  have "finalize_id m \<notin> finalize_id ` set (xs @ s # ys)" "distinct (map finalize_id (xs @ s # ys))"
    using assms(2) by auto
  with assms(1) show "op_Insert ops (xs @ s # ys) m (finalize_id s) True = Ok (xs @ m # s # ys)"
      "op_Insert ops (xs @ s # ys) m (finalize_id s) False = Ok (xs @ s # m # ys)"
    unfolding steps_documented_def by blast+
qed

text \<open>The options change the stack as intended.\<close>

lemma cloudsql_stack:
  assumes "steps_documented ops" "sdk_names inits pre post"
  shows "apply_api_options (so_APIOptions (cloudsql_s3Opts ops zero_s3_options))
      (sdk_stack operation inits pre post checksum) =
    Ok \<lparr>stk_operation = operation, stk_initialize = DisableTrailingChecksum # map SdkInitialize inits,
        stk_finalize = map SdkFinalize pre @ IgnoreHeaders [''Accept-Encoding''] #
          SdkFinalize ''Signing'' # RestoreIgnored # map SdkFinalize post,
        stk_trailingChecksum = checksum\<rparr>"
proof -
  let ?pre = "map SdkFinalize pre" and ?post = "map SdkFinalize post"
  let ?s = "SdkFinalize ''Signing''" and ?i = "IgnoreHeaders [''Accept-Encoding'']"
  have d: "distinct (map finalize_id (?i # ?pre @ ?s # ?post))"
      "distinct (map finalize_id (RestoreIgnored # (?pre @ [?i]) @ ?s # ?post))"
    using assms(2) by (auto simp: sdk_names_def o_def)
  have "op_Insert ops (?pre @ ?s # ?post) ?i ''Signing'' True = Ok (?pre @ ?i # ?s # ?post)"
    using Insert_documented(1) [OF assms(1) d(1)] by simp
  moreover have "op_Insert ops (?pre @ ?i # ?s # ?post) RestoreIgnored ''Signing'' False =
      Ok (?pre @ ?i # ?s # RestoreIgnored # ?post)"
    using Insert_documented(2) [OF assms(1) d(2)] by simp
  moreover have "initialize_id DisableTrailingChecksum \<notin> initialize_id ` set (map SdkInitialize inits)"
    using assms(2) by (auto simp: sdk_names_def)
  then have "op_AddBefore ops (map SdkInitialize inits) DisableTrailingChecksum =
      Ok (DisableTrailingChecksum # map SdkInitialize inits)"
    using assms(1) unfolding steps_documented_def by blast
  ultimately show ?thesis
    by (simp add: apply_api_options_def cloudsql_s3Opts_def ignoreSigningHeaders_def
        disableTrailingChecksumForGCS_def zero_s3_options_def sdk_stack_def Let_def)
qed

text \<open>
  C39. The signing workaround: whatever middlewares the SDK has around its signer, the options of the
  driver put theirs directly around it.  The signer then never sees the listed header, and what
  is sent carries the first value the header had before, or an empty one if it had none; all other
  headers are as the signer left them.  For uploads, trailing checksums are off before any other
  middleware runs.
\<close>

theorem signing_workaround:
  assumes "steps_documented ops" "sdk_names inits pre post"
  shows "\<exists>stk. apply_api_options (so_APIOptions (cloudsql_s3Opts ops zero_s3_options))
        (sdk_stack operation inits pre post checksum) = Ok stk
    \<and> (\<forall>sdk next. HandleInitialize ops sdk next (stk_initialize stk) stk =
         HandleInitialize ops sdk next (map SdkInitialize inits) (disable_trailing ops stk))
    \<and> (is_upload operation \<longrightarrow> stk_trailingChecksum (disable_trailing ops stk) \<noteq> Some True)
    \<and> (\<forall>sdk (send :: mw_request \<Rightarrow> 'o result) ctx.
         HandleFinalize sdk send (stk_finalize (disable_trailing ops stk)) ctx =
         foldr sdk (remaining operation pre)
           (around_signing [''Accept-Encoding''] (sdk ''Signing'')
             (foldr sdk (remaining operation post) send)))"
proof -
  let ?stk = "\<lparr>stk_operation = operation, stk_initialize = DisableTrailingChecksum # map SdkInitialize inits,
        stk_finalize = map SdkFinalize pre @ IgnoreHeaders [''Accept-Encoding''] #
          SdkFinalize ''Signing'' # RestoreIgnored # map SdkFinalize post,
        stk_trailingChecksum = checksum\<rparr>"
  have rm: "op_Remove ops ms n = filter (\<lambda>m. finalize_id m \<noteq> n) ms" for ms n
    using assms(1) by (simp add: steps_documented_def)
  have fin: "stk_finalize (disable_trailing ops ?stk) =
      map SdkFinalize (remaining operation pre) @ IgnoreHeaders [''Accept-Encoding''] #
        SdkFinalize ''Signing'' # RestoreIgnored # map SdkFinalize (remaining operation post)"
    by (simp add: disable_trailing_def rm filter_SdkFinalize remaining_def is_upload_def)
  show ?thesis
  proof (intro exI conjI allI impI)
    show "apply_api_options (so_APIOptions (cloudsql_s3Opts ops zero_s3_options))
        (sdk_stack operation inits pre post checksum) = Ok ?stk"
      by (rule cloudsql_stack [OF assms])
    show "HandleFinalize sdk send (stk_finalize (disable_trailing ops ?stk)) ctx =
         foldr sdk (remaining operation pre)
           (around_signing [''Accept-Encoding''] (sdk ''Signing'')
             (foldr sdk (remaining operation post) send))" for sdk send ctx
      unfolding fin by (rule HandleFinalize_around) simp
  qed (auto simp: disable_trailing_def is_upload_def)
qed

text \<open>Middleware groups that keep to the documentation.\<close>

fun insert_mw :: "finalize_mw list \<Rightarrow> finalize_mw \<Rightarrow> string \<Rightarrow> bool \<Rightarrow> finalize_mw list result" where
  "insert_mw [] m rel b = Err (ErrText ''not found'')"
| "insert_mw (x # xs) m rel b =
     (if finalize_id x = rel then Ok (if b then m # x # xs else x # m # xs)
      else go_bind (insert_mw xs m rel b) id (\<lambda>ms. Ok (x # ms)))"

definition demo_steps :: step_ops where
  "demo_steps =
     \<lparr>op_Insert = insert_mw, op_Remove = (\<lambda>ms n. filter (\<lambda>m. finalize_id m \<noteq> n) ms),
      op_AddBefore = (\<lambda>ms m. if initialize_id m \<in> initialize_id ` set ms
        then Err (ErrText ''already exists'') else Ok (m # ms))\<rparr>"

lemma insert_mw_at:
  "finalize_id s \<notin> finalize_id ` set xs \<Longrightarrow>
   insert_mw (xs @ s # ys) m (finalize_id s) b = Ok (xs @ (if b then m # s # ys else s # m # ys))"
  by (induction xs) auto

lemma insert_mw_missing: "rel \<notin> finalize_id ` set ms \<Longrightarrow> \<exists>e. insert_mw ms m rel b = Err e"
  by (induction ms) (auto simp: image_iff)

lemma demo_steps_documented: "steps_documented demo_steps"
proof -
  have "finalize_id s \<notin> finalize_id ` set xs" if "distinct (map finalize_id (xs @ s # ys))" for xs s ys
    using that by auto
  then show ?thesis
    unfolding steps_documented_def demo_steps_def step_ops.select_convs
    by (intro conjI allI impI) (simp_all add: insert_mw_at insert_mw_missing)
qed

theorem signing_workaround_witness:
  "sdk_names [] [''Retry''] [''addInputChecksumTrailer''] \<and>
   (\<exists>stk. apply_api_options (so_APIOptions (cloudsql_s3Opts demo_steps zero_s3_options))
        (sdk_stack ''PutObject'' [] [''Retry''] [''addInputChecksumTrailer''] (Some True)) = Ok stk
    \<and> (\<forall>sdk send. HandleFinalize sdk send (stk_finalize (disable_trailing demo_steps stk)) Map.empty =
         sdk ''Retry'' (around_signing [''Accept-Encoding''] (sdk ''Signing'') (send :: mw_request \<Rightarrow> unit result))))"
proof
  show n: "sdk_names [] [''Retry''] [''addInputChecksumTrailer'']" by (simp add: sdk_names_def)
  show "\<exists>stk. apply_api_options (so_APIOptions (cloudsql_s3Opts demo_steps zero_s3_options))
        (sdk_stack ''PutObject'' [] [''Retry''] [''addInputChecksumTrailer''] (Some True)) = Ok stk
    \<and> (\<forall>sdk send. HandleFinalize sdk send (stk_finalize (disable_trailing demo_steps stk)) Map.empty =
         sdk ''Retry'' (around_signing [''Accept-Encoding''] (sdk ''Signing'') (send :: mw_request \<Rightarrow> unit result)))"
    using signing_workaround [OF demo_steps_documented n, where 'o = unit, of "''PutObject''" "Some True"]
    by (auto simp: remaining_def is_upload_def)
qed

text \<open>Without a signer in the stack the options fail, and with them the request.\<close>

lemma no_signer_in_stack:
  assumes "steps_documented ops" "''Signing'' \<notin> finalize_id ` set (stk_finalize stk)"
  shows "\<exists>e. apply_api_options (so_APIOptions (cloudsql_s3Opts ops zero_s3_options)) stk = Err e"
proof -
  obtain e where "op_Insert ops (stk_finalize stk) (IgnoreHeaders [''Accept-Encoding'']) ''Signing'' True = Err e"
    using assms unfolding steps_documented_def by blast
  then show ?thesis
    by (simp add: apply_api_options_def cloudsql_s3Opts_def ignoreSigningHeaders_def
        disableTrailingChecksumForGCS_def zero_s3_options_def Let_def)
qed

end
