(* ===== verification/Go_Path.thy ===== *)
theory Go_Path
  imports Go_Strings
begin

text \<open>
  Go's \<open>path.Join\<close> and \<open>path.Clean\<close> for slash-separated paths: the path is cut at the
  slashes, empty and dot elements disappear, and a double dot removes the element before it.
\<close>

fun split_slash :: "string \<Rightarrow> string list" where
  "split_slash [] = [[]]"
| "split_slash (c # s) =
     (if c = CHR ''/'' then [] # split_slash s
      else case split_slash s of x # xs \<Rightarrow> (c # x) # xs | [] \<Rightarrow> [[c]])"

fun join_slash :: "string list \<Rightarrow> string" where
  "join_slash [] = []"
| "join_slash [x] = x"
| "join_slash (x # xs) = x @ CHR ''/'' # join_slash xs"

text \<open>One element, on a stack of the elements kept so far, the last one first.\<close>

definition clean_step :: "bool \<Rightarrow> string \<Rightarrow> string list \<Rightarrow> string list" where
  "clean_step rooted e stack =
     (if e = [] \<or> e = ''.'' then stack
      else if e = ''..'' then
        (case stack of
           [] \<Rightarrow> (if rooted then [] else [''..''])
         | t # ts \<Rightarrow> (if t = ''..'' then ''..'' # stack else ts))
      else e # stack)"

definition path_Clean :: "string \<Rightarrow> string" where
  "path_Clean p =
     (let rooted = HasPrefix p ''/'';
          body = join_slash (rev (fold (clean_step rooted) (split_slash p) []))
      in if rooted then CHR ''/'' # body else if body = [] then ''.'' else body)"

text \<open>\<open>path.Join\<close> of two elements: empty elements are ignored.\<close>

definition path_Join :: "string \<Rightarrow> string \<Rightarrow> string" where
  "path_Join a b =
     (let es = filter (\<lambda>e. e \<noteq> []) [a, b]
      in if es = [] then [] else path_Clean (join_slash es))"

lemma split_slash_nonempty [simp]: "split_slash s \<noteq> []"
  by (induction s) (auto split: list.splits)

lemma split_slash_append:
  "split_slash (a @ CHR ''/'' # b) = split_slash a @ split_slash b"
proof (induction a)
  case (Cons c a)
  obtain y ys where "split_slash a = y # ys" by (cases "split_slash a") simp_all
  with Cons show ?case by simp
qed simp

lemma join_slash_append:
  "xs \<noteq> [] \<Longrightarrow> ys \<noteq> [] \<Longrightarrow> join_slash (xs @ ys) = join_slash xs @ CHR ''/'' # join_slash ys"
proof (induction xs rule: join_slash.induct)
  case (2 x)
  then show ?case by (cases ys) simp_all
qed simp_all

text \<open>Elements that are neither empty nor dots are kept.\<close>

definition plain_element :: "string \<Rightarrow> bool" where
  "plain_element e \<longleftrightarrow> e \<noteq> [] \<and> e \<noteq> ''.'' \<and> e \<noteq> ''..'' \<and> CHR ''/'' \<notin> set e"

lemma fold_plain:
  "list_all plain_element es \<Longrightarrow> fold (clean_step r) es stack = rev es @ stack"
  by (induction es arbitrary: stack) (auto simp: clean_step_def plain_element_def)

lemma path_Clean_suffix:
  assumes "split_slash p = qs @ es" "list_all plain_element es" "es \<noteq> []"
  shows "\<exists>pre. path_Clean p = pre @ join_slash es \<and>
    (pre = [] \<or> (\<exists>q. pre = q @ ''/''))"
proof -
  define r where "r = HasPrefix p ''/''"
  define st where "st = rev (fold (clean_step r) qs [])"
  have "rev (fold (clean_step r) (split_slash p) []) = st @ es"
    unfolding assms(1) st_def using fold_plain [OF assms(2)] by simp
  then have body: "path_Clean p = (if r then CHR ''/'' # join_slash (st @ es)
      else if join_slash (st @ es) = [] then ''.'' else join_slash (st @ es))"
    unfolding path_Clean_def Let_def r_def [symmetric] by (simp only:)
  have ne: "join_slash es \<noteq> []"
    using assms(2,3) by (cases es rule: join_slash.cases) (auto simp: plain_element_def)
  show ?thesis
  proof (cases "st = []")
    case True
    then show ?thesis
      unfolding body using ne by (auto intro: exI [of _ "''/''"] exI [of _ "[]"])
  next
    case False
    then have j: "join_slash (st @ es) = (join_slash st @ ''/'') @ join_slash es"
      using assms(3) by (simp add: join_slash_append)
    show ?thesis
    proof (cases r)
      case True
      then show ?thesis
        unfolding body j by (intro exI [of _ "CHR ''/'' # join_slash st @ ''/''"]) auto
    next
      case False
      then show ?thesis
        unfolding body j using ne by (intro exI [of _ "join_slash st @ ''/''"]) auto
    qed
  qed
qed

end
