(* ===== verification/Protobuf.thy ===== *)
theory Protobuf
  imports Go_Errors
begin

text \<open>
  The protobuf messages of \<open>pkg/generated/protobuf\<close> as records, with the getters the program
  calls.  A message pointer is an \<open>option\<close> (\<open>None\<close> is nil), a \<open>oneof\<close> is a datatype
  with one constructor per wrapper struct, itself optional, and a getter on a nil message returns
  the zero value, as the generated code does.  The messages of the protobuf-specs module that the
  program fills in (\<open>HashOutput\<close>, \<open>TransparencyLogEntry\<close> and its parts, the DSSE
  \<open>Envelope\<close>) are records of the same form.  The bookkeeping fields of the protobuf runtime
  are left out.
\<close>

section \<open>Enumerations of protobuf-specs\<close>

text \<open>
  \<open>v1.PublicKeyDetails\<close>: the values the program names, and any other value by its number
  (0 is the unspecified one, which the getter of a nil message returns).
\<close>

datatype PublicKeyDetails =
    PKIX_RSA_PKCS1V15_2048_SHA256
  | PKIX_RSA_PKCS1V15_3072_SHA256
  | PKIX_RSA_PKCS1V15_4096_SHA256
  | PKIX_ECDSA_P256_SHA_256
  | PKIX_ECDSA_P384_SHA_384
  | PKIX_ECDSA_P521_SHA_512
  | PKIX_ED25519
  | PKIX_ED25519_PH
  | OtherKeyDetails int

datatype HashAlgorithm = SHA2_256 | OtherHashAlgorithm int

section \<open>verifier.proto\<close>

record pb_PublicKey =
  PublicKey_RawBytes :: bytes

record pb_X509Certificate =
  X509Certificate_RawBytes :: bytes

datatype Verifier_oneof =
    Verifier_PublicKey "pb_PublicKey option"
  | Verifier_X509Certificate "pb_X509Certificate option"

record pb_Verifier =
  Verifier_Verifier :: "Verifier_oneof option"
  Verifier_KeyDetails :: PublicKeyDetails

record pb_Signature =
  Signature_Content :: bytes
  Signature_Verifier :: "pb_Verifier option"

fun PublicKey_GetRawBytes :: "pb_PublicKey option \<Rightarrow> bytes" where
  "PublicKey_GetRawBytes (Some x) = PublicKey_RawBytes x"
| "PublicKey_GetRawBytes None = []"

fun X509Certificate_GetRawBytes :: "pb_X509Certificate option \<Rightarrow> bytes" where
  "X509Certificate_GetRawBytes (Some x) = X509Certificate_RawBytes x"
| "X509Certificate_GetRawBytes None = []"

definition Verifier_GetPublicKey :: "pb_Verifier option \<Rightarrow> pb_PublicKey option" where
  "Verifier_GetPublicKey v =
     (case v of
        Some x \<Rightarrow> (case Verifier_Verifier x of Some (Verifier_PublicKey k) \<Rightarrow> k | _ \<Rightarrow> None)
      | None \<Rightarrow> None)"

definition Verifier_GetX509Certificate :: "pb_Verifier option \<Rightarrow> pb_X509Certificate option" where
  "Verifier_GetX509Certificate v =
     (case v of
        Some x \<Rightarrow>
          (case Verifier_Verifier x of Some (Verifier_X509Certificate c) \<Rightarrow> c | _ \<Rightarrow> None)
      | None \<Rightarrow> None)"

fun Verifier_GetKeyDetails :: "pb_Verifier option \<Rightarrow> PublicKeyDetails" where
  "Verifier_GetKeyDetails (Some x) = Verifier_KeyDetails x"
| "Verifier_GetKeyDetails None = OtherKeyDetails 0"

section \<open>hashedrekord.proto\<close>

record pb_HashOutput =
  HashOutput_Algorithm :: HashAlgorithm
  HashOutput_Digest :: bytes

record HashedRekordRequestV002 =
  HashedRekordRequest_Digest :: bytes
  HashedRekordRequest_Signature :: "pb_Signature option"

record HashedRekordLogEntryV002 =
  HashedRekordLogEntry_Data :: "pb_HashOutput option"
  HashedRekordLogEntry_Signature :: "pb_Signature option"

section \<open>dsse.proto and the in-toto envelope\<close>

record pb_dsse_Signature =
  pbdsse_Sig :: bytes
  pbdsse_Keyid :: string

record pb_dsse_Envelope =
  pbdsse_Payload :: bytes
  pbdsse_PayloadType :: string
  pbdsse_Signatures :: "pb_dsse_Signature option list"

record DSSERequestV002 =
  DSSERequest_Envelope :: "pb_dsse_Envelope option"
  DSSERequest_Verifiers :: "pb_Verifier option list"

record DSSELogEntryV002 =
  DSSELogEntry_PayloadHash :: "pb_HashOutput option"
  DSSELogEntry_Signatures :: "pb_Signature option list"

section \<open>entry.proto\<close>

datatype Spec_oneof =
    Spec_HashedRekordV002 "HashedRekordLogEntryV002 option"
  | Spec_DsseV002 "DSSELogEntryV002 option"

record pb_Spec =
  Spec_Spec :: "Spec_oneof option"

record pb_Entry =
  Entry_Kind :: string
  Entry_ApiVersion :: string
  Entry_Spec :: "pb_Spec option"

datatype CreateEntryRequest_oneof =
    CreateEntryRequest_HashedRekordRequestV002 "HashedRekordRequestV002 option"
  | CreateEntryRequest_DsseRequestV002 "DSSERequestV002 option"

record pb_CreateEntryRequest =
  CreateEntryRequest_Spec :: "CreateEntryRequest_oneof option"

fun CreateEntryRequest_GetSpec ::
    "pb_CreateEntryRequest option \<Rightarrow> CreateEntryRequest_oneof option" where
  "CreateEntryRequest_GetSpec (Some x) = CreateEntryRequest_Spec x"
| "CreateEntryRequest_GetSpec None = None"

definition CreateEntryRequest_GetHashedRekordRequestV002 ::
    "pb_CreateEntryRequest option \<Rightarrow> HashedRekordRequestV002 option" where
  "CreateEntryRequest_GetHashedRekordRequestV002 r =
     (case r of
        Some x \<Rightarrow>
          (case CreateEntryRequest_Spec x of
             Some (CreateEntryRequest_HashedRekordRequestV002 h) \<Rightarrow> h | _ \<Rightarrow> None)
      | None \<Rightarrow> None)"

definition CreateEntryRequest_GetDsseRequestV002 ::
    "pb_CreateEntryRequest option \<Rightarrow> DSSERequestV002 option" where
  "CreateEntryRequest_GetDsseRequestV002 r =
     (case r of
        Some x \<Rightarrow>
          (case CreateEntryRequest_Spec x of
             Some (CreateEntryRequest_DsseRequestV002 d) \<Rightarrow> d | _ \<Rightarrow> None)
      | None \<Rightarrow> None)"

section \<open>rekor\_service.proto\<close>

record pb_TileRequest =
  TileRequest_L :: "32 word"
  TileRequest_N :: string

record pb_EntryBundleRequest =
  EntryBundleRequest_N :: string

fun TileRequest_GetL :: "pb_TileRequest option \<Rightarrow> 32 word" where
  "TileRequest_GetL (Some x) = TileRequest_L x"
| "TileRequest_GetL None = 0"

fun TileRequest_GetN :: "pb_TileRequest option \<Rightarrow> string" where
  "TileRequest_GetN (Some x) = TileRequest_N x"
| "TileRequest_GetN None = []"

fun EntryBundleRequest_GetN :: "pb_EntryBundleRequest option \<Rightarrow> string" where
  "EntryBundleRequest_GetN (Some x) = EntryBundleRequest_N x"
| "EntryBundleRequest_GetN None = []"

text \<open>The message \<open>google.api.HttpBody\<close>, without its extensions.\<close>

record pb_HttpBody =
  HttpBody_ContentType :: string
  HttpBody_Data :: bytes

section \<open>The messages of a transparency log entry\<close>

record pb_KindVersion =
  KindVersion_Kind :: string
  KindVersion_Version :: string

record pb_InclusionProof =
  InclusionProof_LogIndex :: int64
  InclusionProof_RootHash :: bytes
  InclusionProof_TreeSize :: int64
  InclusionProof_Hashes :: "bytes list"
  InclusionProof_Checkpoint :: "string option"

record pb_TransparencyLogEntry =
  TLE_LogIndex :: int64
  TLE_LogId :: "bytes option"
  TLE_KindVersion :: "pb_KindVersion option"
  TLE_InclusionProof :: "pb_InclusionProof option"
  TLE_CanonicalizedBody :: bytes

text \<open>
  \<open>entry.GetInclusionProof().GetCheckpoint().GetEnvelope()\<close>: the empty string when a
  message on the way is nil.  The field \<open>InclusionProof_Checkpoint\<close> is the
  \<open>Envelope\<close> of the checkpoint message, \<open>None\<close> when the message is nil.
\<close>

definition TLE_checkpoint_envelope :: "pb_TransparencyLogEntry \<Rightarrow> string" where
  "TLE_checkpoint_envelope e =
     (case TLE_InclusionProof e of
        None \<Rightarrow> []
      | Some p \<Rightarrow> (case InclusionProof_Checkpoint p of None \<Rightarrow> [] | Some c \<Rightarrow> c))"

section \<open>The getters\<close>

lemma Verifier_getters_exclusive:
  "Verifier_GetPublicKey v = None \<or> Verifier_GetX509Certificate v = None"
  by (auto simp: Verifier_GetPublicKey_def Verifier_GetX509Certificate_def
      split: option.splits Verifier_oneof.splits)

lemma Verifier_getter_nil [simp]:
  "Verifier_GetPublicKey None = None" "Verifier_GetX509Certificate None = None"
  by (simp_all add: Verifier_GetPublicKey_def Verifier_GetX509Certificate_def)

lemma Verifier_getter_set [simp]:
  "Verifier_GetPublicKey (Some \<lparr>Verifier_Verifier = Some (Verifier_PublicKey k), Verifier_KeyDetails = d\<rparr>) = k"
  "Verifier_GetX509Certificate (Some \<lparr>Verifier_Verifier = Some (Verifier_PublicKey k), Verifier_KeyDetails = d\<rparr>) = None"
  "Verifier_GetX509Certificate (Some \<lparr>Verifier_Verifier = Some (Verifier_X509Certificate c), Verifier_KeyDetails = d\<rparr>) = c"
  "Verifier_GetPublicKey (Some \<lparr>Verifier_Verifier = Some (Verifier_X509Certificate c), Verifier_KeyDetails = d\<rparr>) = None"
  by (simp_all add: Verifier_GetPublicKey_def Verifier_GetX509Certificate_def)

lemma GetRawBytes_nonempty:
  "PublicKey_GetRawBytes k \<noteq> [] \<longleftrightarrow> (\<exists>x. k = Some x \<and> PublicKey_RawBytes x \<noteq> [])"
  "X509Certificate_GetRawBytes c \<noteq> [] \<longleftrightarrow> (\<exists>x. c = Some x \<and> X509Certificate_RawBytes x \<noteq> [])"
  by (cases k; simp) (cases c; simp)

end
