(* ===== verification/Go_SHA256.thy ===== *)
theory Go_SHA256
  imports Rekor_Prelude
begin

text \<open>
  \<open>crypto/sha256\<close>: the digest \<open>sha256.Sum256\<close> (and \<open>sha256.New\<close> with \<open>Write\<close>
  and \<open>Sum\<close>, which hash the concatenation of what was written), computed as FIPS 180-4
  says: padding to 64-byte blocks, the message schedule, 64 rounds per block.  The constants are
  written in decimal.  \<open>binary.BigEndian.Uint32\<close> reads the first four bytes of a slice.
\<close>

unbundle bit_operations_syntax

definition sha_K :: "uint32 list" where
  "sha_K =
    [1116352408, 1899447441, 3049323471, 3921009573, 961987163, 1508970993,
     2453635748, 2870763221, 3624381080, 310598401, 607225278, 1426881987,
     1925078388, 2162078206, 2614888103, 3248222580, 3835390401, 4022224774,
     264347078, 604807628, 770255983, 1249150122, 1555081692, 1996064986,
     2554220882, 2821834349, 2952996808, 3210313671, 3336571891, 3584528711,
     113926993, 338241895, 666307205, 773529912, 1294757372, 1396182291,
     1695183700, 1986661051, 2177026350, 2456956037, 2730485921, 2820302411,
     3259730800, 3345764771, 3516065817, 3600352804, 4094571909, 275423344,
     430227734, 506948616, 659060556, 883997877, 958139571, 1322822218,
     1537002063, 1747873779, 1955562222, 2024104815, 2227730452, 2361852424,
     2428436474, 2756734187, 3204031479, 3329325298]"

definition sha_H0 :: "uint32 list" where
  "sha_H0 = [1779033703, 3144134277, 1013904242, 2773480762,
     1359893119, 2600822924, 528734635, 1541459225]"

definition byte_word :: "char \<Rightarrow> uint32" where
  "byte_word c = of_nat (of_char c)"

definition be_uint32 :: "char \<Rightarrow> char \<Rightarrow> char \<Rightarrow> char \<Rightarrow> uint32" where
  "be_uint32 a b c d =
     push_bit 24 (byte_word a) OR push_bit 16 (byte_word b) OR push_bit 8 (byte_word c)
       OR byte_word d"

definition be_bytes :: "uint32 \<Rightarrow> bytes" where
  "be_bytes w =
     [char_of (unat (drop_bit 24 w)), char_of (unat (drop_bit 16 w AND 255)),
      char_of (unat (drop_bit 8 w AND 255)), char_of (unat (w AND 255))]"

text \<open>The length field: the number of bits as eight big-endian bytes.\<close>

definition be_len :: "nat \<Rightarrow> bytes" where
  "be_len n =
     map (\<lambda>i. char_of (unat (drop_bit (8 * (7 - i)) (of_nat n :: uint64) AND 255))) [0..<8]"

definition sha_pad :: "bytes \<Rightarrow> bytes" where
  "sha_pad m =
     m @ [CHR 0x80] @ replicate ((119 - length m mod 64) mod 64) (CHR 0x00)
       @ be_len (8 * length m)"

fun words_of :: "bytes \<Rightarrow> uint32 list" where
  "words_of (a # b # c # d # r) = be_uint32 a b c d # words_of r"
| "words_of _ = []"

definition rotr :: "nat \<Rightarrow> uint32 \<Rightarrow> uint32" where
  "rotr n x = drop_bit n x OR push_bit (32 - n) x"

definition small_s0 :: "uint32 \<Rightarrow> uint32" where
  "small_s0 x = rotr 7 x XOR rotr 18 x XOR drop_bit 3 x"

definition small_s1 :: "uint32 \<Rightarrow> uint32" where
  "small_s1 x = rotr 17 x XOR rotr 19 x XOR drop_bit 10 x"

definition big_s0 :: "uint32 \<Rightarrow> uint32" where
  "big_s0 x = rotr 2 x XOR rotr 13 x XOR rotr 22 x"

definition big_s1 :: "uint32 \<Rightarrow> uint32" where
  "big_s1 x = rotr 6 x XOR rotr 11 x XOR rotr 25 x"

text \<open>
  The schedule keeps the last sixteen words; each step drops the oldest and appends the next.
\<close>

definition next_word :: "uint32 list \<Rightarrow> uint32" where
  "next_word ws = small_s1 (ws ! 14) + ws ! 9 + small_s0 (ws ! 1) + ws ! 0"

definition sha_round :: "uint32 \<Rightarrow> uint32 \<Rightarrow> uint32 list \<Rightarrow> uint32 list" where
  "sha_round k w st =
     (case st of
        [a, b, c, d, e, f, g, h] \<Rightarrow>
          (let t1 = h + big_s1 e + ((e AND f) XOR (NOT e AND g)) + k + w;
               t2 = big_s0 a + ((a AND b) XOR (a AND c) XOR (b AND c))
           in [t1 + t2, a, b, c, d + t1, e, f, g])
      | _ \<Rightarrow> st)"

fun sha_rounds :: "uint32 list \<Rightarrow> uint32 list \<Rightarrow> uint32 list \<Rightarrow> uint32 list" where
  "sha_rounds [] ws st = st"
| "sha_rounds (k # ks) ws st =
     sha_rounds ks (tl ws @ [next_word ws]) (sha_round k (hd ws) st)"

definition sha_block :: "uint32 list \<Rightarrow> uint32 list \<Rightarrow> uint32 list" where
  "sha_block st ws = map2 (+) st (sha_rounds sha_K ws st)"

fun sha_blocks :: "uint32 list \<Rightarrow> uint32 list \<Rightarrow> uint32 list" where
  "sha_blocks st ws =
     (if length ws < 16 then st else sha_blocks (sha_block st (take 16 ws)) (drop 16 ws))"

declare sha_blocks.simps [simp del]

definition Sum256 :: "bytes \<Rightarrow> bytes" where
  "Sum256 m = concat (map be_bytes (sha_blocks sha_H0 (words_of (sha_pad m))))"

definition BigEndian_Uint32 :: "bytes \<Rightarrow> uint32" where
  "BigEndian_Uint32 b = (case b of w # x # y # z # _ \<Rightarrow> be_uint32 w x y z | _ \<Rightarrow> 0)"

section \<open>The digest has 32 bytes\<close>

lemma length_sha_round: "length (sha_round k w st) = length st"
  by (auto simp: sha_round_def Let_def split: list.splits)

lemma length_sha_rounds: "length (sha_rounds ks ws st) = length st"
  by (induction ks ws st rule: sha_rounds.induct) (simp_all add: length_sha_round)

lemma length_sha_block: "length (sha_block st ws) = length st"
  by (simp add: sha_block_def length_sha_rounds)

lemma length_sha_blocks: "length (sha_blocks st ws) = length st"
proof (induction st ws rule: sha_blocks.induct)
  case (1 st ws)
  then show ?case by (simp add: sha_blocks.simps [of st ws] length_sha_block)
qed

lemma length_concat_be_bytes: "length (concat (map be_bytes ws)) = 4 * length ws"
  by (induction ws) (simp_all add: be_bytes_def)

lemma length_Sum256 [simp, go_bounds]: "length (Sum256 m) = 32"
  by (simp add: Sum256_def length_concat_be_bytes length_sha_blocks sha_H0_def)

lemma pad_below:
  fixes l q r :: nat
  assumes "r \<le> 55" "l = 64 * q + r"
  shows "l + 9 + (55 - r) = 64 * (q + 1)"
  using assms by simp

lemma pad_above:
  fixes l q r :: nat
  assumes "r < 64" "l = 64 * q + r"
  shows "l + 9 + (119 - r) = 64 * (q + 2)"
  using assms by simp

lemma length_sha_pad: "length (sha_pad m) mod 64 = 0"
proof -
  have "length (sha_pad m) = length m + 9 + (119 - length m mod 64) mod 64"
    by (simp add: sha_pad_def be_len_def)
  moreover have "(l + 9 + (119 - l mod 64) mod 64) mod 64 = 0" for l :: nat
  proof (cases "l mod 64 \<le> 55")
    case True
    then have "119 - l mod 64 = 64 + (55 - l mod 64)" by linarith
    then have m: "(119 - l mod 64) mod 64 = 55 - l mod 64"
      by (simp only: mod_add_self1) (rule mod_less, linarith)
    have "l + 9 + (119 - l mod 64) mod 64 = 64 * (l div 64 + 1)"
      unfolding m by (rule pad_below) (use True in simp_all)
    then show ?thesis by (simp only: mod_mult_self1_is_0)
  next
    case False
    then have m: "(119 - l mod 64) mod 64 = 119 - l mod 64" by (intro mod_less) simp
    have "l mod 64 < 64" by simp
    then have "l + 9 + (119 - l mod 64) mod 64 = 64 * (l div 64 + 2)"
      unfolding m by (intro pad_above) simp_all
    then show ?thesis by (simp only: mod_mult_self1_is_0)
  qed
  ultimately show ?thesis by simp
qed

end
