(* ===== verification/Verifiers.thy ===== *)
theory Verifiers
  imports Protobuf Go_SHA256
begin

text \<open>
  \<open>pkg/verifier\<close> (the interface, \<open>publickey\<close>, \<open>certificate\<close>, \<open>identity\<close>) and
  \<open>pkg/types/verifier\<close>.  Parsing and marshalling of keys and certificates (\<open>crypto/x509\<close>,
  \<open>cryptoutils\<close>) are the parameter \<open>pki\<close>: a record of the functions the code calls.
  The locale \<open>verifier_impl\<close> states what the \<open>Verifier\<close> interface promises to its
  clients; both implementations interpret it.
\<close>

section \<open>Keys, certificates, readers\<close>

record x509_certificate =
  cert_PublicKey :: public_key
  cert_Raw :: bytes

record pki =
  pki_ParsePKIXPublicKey :: "bytes \<Rightarrow> public_key result"
  pki_ParseCertificate :: "bytes \<Rightarrow> x509_certificate result"
  pki_MarshalPublicKeyToDER :: "public_key \<Rightarrow> bytes result"
  pki_MarshalPublicKeyToPEM :: "public_key \<Rightarrow> bytes result"
  pki_MarshalCertificateToPEM :: "x509_certificate \<Rightarrow> bytes result"
  pki_MarshalPKIXPublicKey :: "public_key \<Rightarrow> bytes result"

text \<open>
  An \<open>io.Reader\<close> argument: nil, or a reader whose \<open>io.ReadAll\<close> gives its bytes or an
  error.  \<open>bytes.NewReader(b)\<close> always gives its bytes.
\<close>

type_synonym reader = "bytes result option"

definition bytes_NewReader :: "bytes \<Rightarrow> reader" where
  "bytes_NewReader b = Some (Ok b)"

definition hex_digit :: "nat \<Rightarrow> char" where
  "hex_digit n = (if n < 10 then char_of (48 + n) else char_of (87 + n))"

definition hex_EncodeToString :: "bytes \<Rightarrow> string" where
  "hex_EncodeToString b =
     concat (map (\<lambda>c. [hex_digit (of_char c div 16), hex_digit (of_char c mod 16)]) b)"

section \<open>identity.Identity\<close>

datatype identity_crypto =
    IdentityKey public_key
  | IdentityCertificate x509_certificate

record Identity =
  Identity_Crypto :: identity_crypto
  Identity_Raw :: bytes
  Identity_Fingerprint :: string

section \<open>publickey.PublicKey\<close>

definition publickey_NewVerifier :: "pki \<Rightarrow> reader \<Rightarrow> public_key result" where
  "publickey_NewVerifier x r =
     (case r of
        None \<Rightarrow> Err (ErrText ''public key reader is nil'')
      | Some content \<Rightarrow>
          go_bind content id (\<lambda>derVerifier.
          go_bind (pki_ParsePKIXPublicKey x derVerifier) (errv ''parsing public key'') (\<lambda>key.
          Ok key)))"

definition publickey_String :: "pki \<Rightarrow> public_key \<Rightarrow> string result" where
  "publickey_String x k =
     (case pki_MarshalPublicKeyToPEM x k of
        Err e \<Rightarrow> Ok [] | Ok encoded \<Rightarrow> Ok encoded | Panic \<Rightarrow> Panic)"

definition publickey_PublicKey :: "public_key \<Rightarrow> public_key" where
  "publickey_PublicKey k = k"

definition publickey_Identity :: "pki \<Rightarrow> public_key \<Rightarrow> Identity result" where
  "publickey_Identity x k =
     go_bind (pki_MarshalPublicKeyToDER x k) id (\<lambda>pkixKey.
     let digest = Sum256 pkixKey
     in Ok \<lparr>Identity_Crypto = IdentityKey k, Identity_Raw = pkixKey,
            Identity_Fingerprint = hex_EncodeToString digest\<rparr>)"

section \<open>certificate.Certificate\<close>

definition certificate_NewVerifier :: "pki \<Rightarrow> reader \<Rightarrow> x509_certificate result" where
  "certificate_NewVerifier x r =
     (case r of
        None \<Rightarrow> Err (ErrText ''certificate reader is nil'')
      | Some content \<Rightarrow>
          go_bind content id (\<lambda>derVerifier.
          go_bind (pki_ParseCertificate x derVerifier) (errv ''parsing certificate'') (\<lambda>cert.
          Ok cert)))"

definition certificate_String :: "pki \<Rightarrow> x509_certificate \<Rightarrow> string result" where
  "certificate_String x c =
     (case pki_MarshalCertificateToPEM x c of
        Err e \<Rightarrow> Ok [] | Ok encoded \<Rightarrow> Ok encoded | Panic \<Rightarrow> Panic)"

definition certificate_PublicKey :: "x509_certificate \<Rightarrow> public_key" where
  "certificate_PublicKey c = cert_PublicKey c"

definition certificate_Identity :: "pki \<Rightarrow> x509_certificate \<Rightarrow> Identity result" where
  "certificate_Identity x c =
     (let digest = Sum256 (cert_Raw c)
      in Ok \<lparr>Identity_Crypto = IdentityCertificate c, Identity_Raw = cert_Raw c,
             Identity_Fingerprint = hex_EncodeToString digest\<rparr>)"

section \<open>The Verifier interface\<close>

datatype verifier =
    PublicKeyVerifier public_key
  | CertificateVerifier x509_certificate

fun verifier_PublicKey :: "verifier \<Rightarrow> public_key" where
  "verifier_PublicKey (PublicKeyVerifier k) = publickey_PublicKey k"
| "verifier_PublicKey (CertificateVerifier c) = certificate_PublicKey c"

fun verifier_Identity :: "pki \<Rightarrow> verifier \<Rightarrow> Identity result" where
  "verifier_Identity x (PublicKeyVerifier k) = publickey_Identity x k"
| "verifier_Identity x (CertificateVerifier c) = certificate_Identity x c"

fun verifier_String :: "pki \<Rightarrow> verifier \<Rightarrow> string result" where
  "verifier_String x (PublicKeyVerifier k) = publickey_String x k"
| "verifier_String x (CertificateVerifier c) = certificate_String x c"

section \<open>pkg/types/verifier: Validate\<close>

definition verifier_Validate :: "pb_Verifier option \<Rightarrow> unit result" where
  "verifier_Validate v =
     (let publicKey = Verifier_GetPublicKey v; x509Cert = Verifier_GetX509Certificate v
      in if publicKey = None \<and> x509Cert = None
         then Err (ErrText ''missing signature public key or X.509 certificate'')
         else if publicKey \<noteq> None \<and> length (PublicKey_GetRawBytes publicKey) = 0
         then Err (ErrText ''missing public key raw bytes'')
         else if x509Cert \<noteq> None \<and> length (X509Certificate_GetRawBytes x509Cert) = 0
         then Err (ErrText ''missing X.509 certificate raw bytes'')
         else Ok ())"

text \<open>The raw bytes a request's verifier carries, whichever kind it is.\<close>

definition verifier_raw :: "pb_Verifier option \<Rightarrow> bytes" where
  "verifier_raw v =
     (case Verifier_GetPublicKey v of
        Some pk \<Rightarrow> PublicKey_RawBytes pk
      | None \<Rightarrow>
          (case Verifier_GetX509Certificate v of
             Some c \<Rightarrow> X509Certificate_RawBytes c | None \<Rightarrow> []))"

lemma verifier_Validate_Ok [go_result]:
  "verifier_Validate v = Ok u \<longleftrightarrow> verifier_raw v \<noteq> []"
  using Verifier_getters_exclusive [of v]
  by (cases "Verifier_GetPublicKey v"; cases "Verifier_GetX509Certificate v")
     (auto simp: verifier_Validate_def verifier_raw_def Let_def)

lemma verifier_Validate_not_Panic [simp]: "verifier_Validate v \<noteq> Panic"
  by (simp add: verifier_Validate_def Let_def)

lemma verifier_raw_nonempty_Some: "verifier_raw v \<noteq> [] \<Longrightarrow> \<exists>x. v = Some x"
  by (cases v) (simp_all add: verifier_raw_def)

section \<open>What the interface promises\<close>

lemma length_hex_EncodeToString: "length (hex_EncodeToString b) = 2 * length b"
  by (induction b) (simp_all add: hex_EncodeToString_def)

locale verifier_impl =
  fixes NewVerifier :: "pki \<Rightarrow> reader \<Rightarrow> 'v result"
    and VIdentity :: "pki \<Rightarrow> 'v \<Rightarrow> Identity result"
  assumes nil_reader: "\<exists>m. NewVerifier x None = Err (ErrText m)"
    and read_error: "NewVerifier x (Some (Err e)) = Err e"
    and read_panic: "NewVerifier x (Some Panic) = Panic"
    and fingerprint: "VIdentity x v = Ok i \<Longrightarrow>
      Identity_Fingerprint i = hex_EncodeToString (Sum256 (Identity_Raw i))"
begin

lemma new_requires_bytes:
  assumes "NewVerifier x r = Ok v"
  shows "\<exists>b. r = Some (Ok b)"
proof (cases r)
  case None
  with assms nil_reader [of x] show ?thesis by auto
next
  case (Some c)
  with assms read_error [of x] read_panic [of x] show ?thesis by (cases c) auto
qed

lemma fingerprint_length:
  "VIdentity x v = Ok i \<Longrightarrow> length (Identity_Fingerprint i) = 64"
  by (simp add: fingerprint length_hex_EncodeToString)

lemma fingerprint_of_raw:
  assumes "VIdentity x v = Ok i" "VIdentity y w = Ok j" "Identity_Raw i = Identity_Raw j"
  shows "Identity_Fingerprint i = Identity_Fingerprint j"
  using assms by (simp add: fingerprint)

end

interpretation pk: verifier_impl publickey_NewVerifier publickey_Identity
  by unfold_locales
     (auto simp: publickey_NewVerifier_def publickey_Identity_def go_bind_eq_Ok Let_def)

interpretation crt: verifier_impl certificate_NewVerifier certificate_Identity
  by unfold_locales
     (auto simp: certificate_NewVerifier_def certificate_Identity_def Let_def)

text \<open>
  Whichever implementation a verifier is, the identity it reports has as fingerprint the
  64-character hexadecimal SHA-256 digest of the raw key or certificate it carries.
\<close>

theorem verifier_Identity_fingerprint:
  assumes "verifier_Identity x v = Ok i"
  shows "Identity_Fingerprint i = hex_EncodeToString (Sum256 (Identity_Raw i))
    \<and> length (Identity_Fingerprint i) = 64"
  using assms
  by (cases v) (auto dest: pk.fingerprint pk.fingerprint_length crt.fingerprint
      crt.fingerprint_length)

theorem verifier_Identity_fingerprint_witness:
  "\<exists>i. verifier_Identity
        \<lparr>pki_ParsePKIXPublicKey = (\<lambda>b. Ok (Ed25519PublicKey b)),
         pki_ParseCertificate = (\<lambda>b. Err (ErrText ''x509'')),
         pki_MarshalPublicKeyToDER = (\<lambda>k. Ok ''der''),
         pki_MarshalPublicKeyToPEM = (\<lambda>k. Ok ''pem''),
         pki_MarshalCertificateToPEM = (\<lambda>c. Ok ''pem''),
         pki_MarshalPKIXPublicKey = (\<lambda>k. Ok ''der'')\<rparr>
        (PublicKeyVerifier (Ed25519PublicKey ''k'')) = Ok i
     \<and> length (Identity_Fingerprint i) = 64"
  (is "\<exists>i. verifier_Identity ?x ?v = Ok i \<and> _")
proof -
  have "\<exists>i. verifier_Identity ?x ?v = Ok i"
    by (simp add: publickey_Identity_def Let_def)
  then show ?thesis using verifier_Identity_fingerprint [of ?x ?v] by blast
qed

end
