(* ===== verification/Algorithm_Registry.thy ===== *)
theory Algorithm_Registry
  imports Verifiers
begin

text \<open>
  \<open>internal/algorithmregistry\<close> and the default flag value \<open>internal/cli\<close> computes from
  it.  The sigstore signature package (flag names of algorithms, the registry, algorithm details,
  signature verification) is the parameter \<open>sigstore\<close>, a record of the functions the
  repository calls; \<open>'reg\<close> stands for \<open>signature.AlgorithmRegistryConfig\<close>.
\<close>

section \<open>The sigstore signature package\<close>

record AlgorithmDetails =
  GetHashType :: crypto_hash
  GetProtoHashType :: HashAlgorithm

text \<open>
  \<open>LoadVerifierWithOpts(key, WithED25519ph())\<close> gives an object whose \<open>VerifySignature\<close>
  checks a signature against a digest; \<open>LoadVerifier(key, hash)\<close> gives one that checks a
  signature against a message.
\<close>

type_synonym digest_verifier = "bytes \<Rightarrow> bytes \<Rightarrow> crypto_hash \<Rightarrow> unit result"
type_synonym message_verifier = "bytes \<Rightarrow> bytes \<Rightarrow> unit result"

record 'reg sigstore =
  ss_ParseSignatureAlgorithmFlag :: "string \<Rightarrow> PublicKeyDetails result"
  ss_FormatSignatureAlgorithmFlag :: "PublicKeyDetails \<Rightarrow> string result"
  ss_NewAlgorithmRegistryConfig :: "PublicKeyDetails list \<Rightarrow> 'reg result"
  ss_IsAlgorithmPermitted :: "'reg \<Rightarrow> public_key \<Rightarrow> crypto_hash \<Rightarrow> bool result"
  ss_GetAlgorithmDetails :: "PublicKeyDetails \<Rightarrow> AlgorithmDetails result"
  ss_LoadVerifierED25519ph :: "public_key \<Rightarrow> digest_verifier result"
  ss_LoadVerifier :: "public_key \<Rightarrow> crypto_hash \<Rightarrow> message_verifier result"

section \<open>The registry\<close>

definition AllowedClientSigningAlgorithms :: "PublicKeyDetails list" where
  "AllowedClientSigningAlgorithms =
    [PKIX_RSA_PKCS1V15_2048_SHA256, PKIX_RSA_PKCS1V15_3072_SHA256,
     PKIX_RSA_PKCS1V15_4096_SHA256, PKIX_ECDSA_P256_SHA_256, PKIX_ECDSA_P384_SHA_384,
     PKIX_ECDSA_P521_SHA_512, PKIX_ED25519, PKIX_ED25519_PH]"

text \<open>
  A nil \<open>algorithmOptions\<close> is \<open>None\<close>: the default set.  An empty slice that is not nil
  is \<open>Some []\<close>, and gives an empty registry.
\<close>

definition AlgorithmRegistry :: "'reg sigstore \<Rightarrow> string list option \<Rightarrow> 'reg result" where
  "AlgorithmRegistry ss algorithmOptions =
     go_bind
       (case algorithmOptions of
          None \<Rightarrow> Ok AllowedClientSigningAlgorithms
        | Some as \<Rightarrow>
            map_each (\<lambda>a. go_bind (ss_ParseSignatureAlgorithmFlag ss a)
                             (Wrap ''parsing signature algorithm flag'') Ok) as)
       id (\<lambda>algorithms.
     go_bind
       (map_each (\<lambda>a. go_bind (ss_FormatSignatureAlgorithmFlag ss a)
                        (Wrap ''formatting signature algorithm flag'') Ok) algorithms)
       id (\<lambda>algorithmsStr.
     go_bind (ss_NewAlgorithmRegistryConfig ss algorithms)
       (Wrap ''getting algorithm registry'') Ok))"

definition CheckEntryAlgorithms ::
    "'reg sigstore \<Rightarrow> public_key \<Rightarrow> crypto_hash \<Rightarrow> 'reg \<Rightarrow> bool result" where
  "CheckEntryAlgorithms ss pubKey alg algorithmRegistry =
     go_bind (ss_IsAlgorithmPermitted ss algorithmRegistry pubKey alg)
       (Wrap ''checking if algorithm is permitted'') (\<lambda>isPermitted.
     if \<not> isPermitted then Ok False else Ok True)"

section \<open>internal/cli: the default of --client-signing-algorithms\<close>

definition defaultKeyAlgorithms :: "'reg sigstore \<Rightarrow> string list result" where
  "defaultKeyAlgorithms ss =
     go_bind (map_each (ss_FormatSignatureAlgorithmFlag ss) AllowedClientSigningAlgorithms) id
       (\<lambda>keyAlgorithmTypes. Ok (sort keyAlgorithmTypes))"

section \<open>Facts about the registry\<close>

lemma CheckEntryAlgorithms_True [go_result]:
  "CheckEntryAlgorithms ss k h reg = Ok b \<longleftrightarrow> ss_IsAlgorithmPermitted ss reg k h = Ok b"
  by (cases "ss_IsAlgorithmPermitted ss reg k h") (auto simp: CheckEntryAlgorithms_def)

lemma map_each_wrap_Ok:
  "map_each (\<lambda>a. go_bind (f a) w Ok) xs = Ok ys \<longleftrightarrow> list_all2 (\<lambda>a y. f a = Ok y) xs ys"
  by (simp add: map_each_Ok_list go_bind_eq_Ok)

lemma list_all2_ex_total:
  "(\<And>x. x \<in> set xs \<Longrightarrow> \<exists>y. P x y) \<Longrightarrow> \<exists>ys. list_all2 P xs ys"
proof (induction xs)
  case Nil
  then show ?case by auto
next
  case (Cons x xs)
  then obtain y where "P x y" by (meson list.set_intros(1))
  moreover obtain ys where "list_all2 P xs ys" using Cons by (meson list.set_intros(2))
  ultimately have "list_all2 P (x # xs) (y # ys)" by simp
  then show ?case by blast
qed

lemma AlgorithmRegistry_flags:
  assumes p: "list_all2 (\<lambda>a d. ss_ParseSignatureAlgorithmFlag ss a = Ok d) as ds"
    and f: "\<And>d. d \<in> set ds \<Longrightarrow> \<exists>s. ss_FormatSignatureAlgorithmFlag ss d = Ok s"
  shows "AlgorithmRegistry ss (Some as) =
    go_bind (ss_NewAlgorithmRegistryConfig ss ds) (Wrap ''getting algorithm registry'') Ok"
proof -
  have "map_each (\<lambda>a. go_bind (ss_ParseSignatureAlgorithmFlag ss a)
          (Wrap ''parsing signature algorithm flag'') Ok) as = Ok ds"
    using p by (simp add: map_each_wrap_Ok)
  moreover obtain ss' where
    "map_each (\<lambda>a. go_bind (ss_FormatSignatureAlgorithmFlag ss a)
          (Wrap ''formatting signature algorithm flag'') Ok) ds = Ok ss'"
    using list_all2_ex_total [of ds "\<lambda>d s. ss_FormatSignatureAlgorithmFlag ss d = Ok s"] f
    by (auto simp: map_each_wrap_Ok)
  ultimately show ?thesis by (simp add: AlgorithmRegistry_def)
qed

lemma defaultKeyAlgorithms_parse:
  assumes fmt: "list_all2 (\<lambda>d s. ss_FormatSignatureAlgorithmFlag ss d = Ok s) ds fs"
    and rt: "\<And>d s. ss_FormatSignatureAlgorithmFlag ss d = Ok s \<Longrightarrow>
                  ss_ParseSignatureAlgorithmFlag ss s = Ok d"
  shows "\<exists>es. list_all2 (\<lambda>a d. ss_ParseSignatureAlgorithmFlag ss a = Ok d) (sort fs) es
    \<and> mset es = mset ds"
proof -
  define g where "g s = (case ss_ParseSignatureAlgorithmFlag ss s of Ok d \<Rightarrow> d
                        | _ \<Rightarrow> PKIX_ED25519)" for s
  have g: "map g fs = ds \<and> (\<forall>s\<in>set fs. ss_ParseSignatureAlgorithmFlag ss s = Ok (g s))"
    using fmt by induction (auto simp: g_def rt)
  have "mset (map g (sort fs)) = mset ds"
    using g by (metis mset_map mset_sort)
  moreover have "list_all2 (\<lambda>a d. ss_ParseSignatureAlgorithmFlag ss a = Ok d) (sort fs)
      (map g (sort fs))"
    using g by (simp add: list_all2_conv_all_nth) (metis nth_mem length_sort set_sort)
  ultimately show ?thesis by blast
qed

text \<open>
  The flag default is the built-in default: when parsing a formatted algorithm name gives the
  algorithm back, a server started with the default value of
  \<open>--client-signing-algorithms\<close> builds its registry from a permutation of
  \<open>AllowedClientSigningAlgorithms\<close>, the list used when no algorithms are given.
\<close>

theorem default_flag_registry:
  assumes rt: "\<And>d s. ss_FormatSignatureAlgorithmFlag ss d = Ok s \<Longrightarrow>
                  ss_ParseSignatureAlgorithmFlag ss s = Ok d"
    and flags: "defaultKeyAlgorithms ss = Ok fs"
  shows "\<exists>ds. mset ds = mset AllowedClientSigningAlgorithms
    \<and> AlgorithmRegistry ss (Some fs) =
        go_bind (ss_NewAlgorithmRegistryConfig ss ds) (Wrap ''getting algorithm registry'') Ok
    \<and> AlgorithmRegistry ss None =
        go_bind (ss_NewAlgorithmRegistryConfig ss AllowedClientSigningAlgorithms)
          (Wrap ''getting algorithm registry'') Ok"
proof -
  obtain gs where gs: "fs = sort gs"
      "list_all2 (\<lambda>d s. ss_FormatSignatureAlgorithmFlag ss d = Ok s)
         AllowedClientSigningAlgorithms gs"
    using flags by (auto simp: defaultKeyAlgorithms_def go_bind_eq_Ok map_each_Ok_list)
  obtain es where es: "list_all2 (\<lambda>a d. ss_ParseSignatureAlgorithmFlag ss a = Ok d) fs es"
      "mset es = mset AllowedClientSigningAlgorithms"
    using defaultKeyAlgorithms_parse [OF gs(2) rt] gs(1) by auto
  have fmt: "\<exists>s. ss_FormatSignatureAlgorithmFlag ss d = Ok s"
    if "d \<in> set AllowedClientSigningAlgorithms" for d
    using list_all2_left [OF gs(2) that] by blast
  have "set es = set AllowedClientSigningAlgorithms"
    using es(2) by (metis set_mset_mset)
  then have "AlgorithmRegistry ss (Some fs) =
      go_bind (ss_NewAlgorithmRegistryConfig ss es) (Wrap ''getting algorithm registry'') Ok"
    using AlgorithmRegistry_flags [OF es(1)] fmt by auto
  moreover have "AlgorithmRegistry ss None =
      go_bind (ss_NewAlgorithmRegistryConfig ss AllowedClientSigningAlgorithms)
        (Wrap ''getting algorithm registry'') Ok"
    using gs(2) by (simp add: AlgorithmRegistry_def map_each_wrap_Ok [THEN iffD2])
  ultimately show ?thesis using es(2) by blast
qed

text \<open>An instance of the flag names, for the witness: each algorithm's name is its own.\<close>

definition demo_flag :: "PublicKeyDetails \<Rightarrow> string result" where
  "demo_flag d =
     (case d of
        PKIX_RSA_PKCS1V15_2048_SHA256 \<Rightarrow> Ok ''rsa-sign-pkcs1-2048-sha256''
      | PKIX_RSA_PKCS1V15_3072_SHA256 \<Rightarrow> Ok ''rsa-sign-pkcs1-3072-sha256''
      | PKIX_RSA_PKCS1V15_4096_SHA256 \<Rightarrow> Ok ''rsa-sign-pkcs1-4096-sha256''
      | PKIX_ECDSA_P256_SHA_256 \<Rightarrow> Ok ''ecdsa-sha2-256-nistp256''
      | PKIX_ECDSA_P384_SHA_384 \<Rightarrow> Ok ''ecdsa-sha2-384-nistp384''
      | PKIX_ECDSA_P521_SHA_512 \<Rightarrow> Ok ''ecdsa-sha2-512-nistp521''
      | PKIX_ED25519 \<Rightarrow> Ok ''ed25519''
      | PKIX_ED25519_PH \<Rightarrow> Ok ''ed25519-ph''
      | OtherKeyDetails i \<Rightarrow> Err (ErrText ''unknown algorithm''))"

definition demo_parse :: "string \<Rightarrow> PublicKeyDetails result" where
  "demo_parse s =
     (case find (\<lambda>d. demo_flag d = Ok s) AllowedClientSigningAlgorithms of
        Some d \<Rightarrow> Ok d | None \<Rightarrow> Err (ErrText ''unknown algorithm''))"

definition demo_sigstore :: "PublicKeyDetails list sigstore" where
  "demo_sigstore =
     \<lparr>ss_ParseSignatureAlgorithmFlag = demo_parse,
      ss_FormatSignatureAlgorithmFlag = demo_flag,
      ss_NewAlgorithmRegistryConfig = Ok,
      ss_IsAlgorithmPermitted = (\<lambda>reg k h. Ok (reg \<noteq> [])),
      ss_GetAlgorithmDetails =
        (\<lambda>d. case d of OtherKeyDetails i \<Rightarrow> Err (ErrText ''unknown algorithm'')
              | _ \<Rightarrow> Ok \<lparr>GetHashType = SHA256, GetProtoHashType = SHA2_256\<rparr>),
      ss_LoadVerifierED25519ph =
        (\<lambda>k. Ok (\<lambda>sig digest h. if sig = digest then Ok () else Err (ErrText ''bad signature''))),
      ss_LoadVerifier =
        (\<lambda>k h. Ok (\<lambda>sig msg. if sig = msg then Ok () else Err (ErrText ''bad signature'')))\<rparr>"

lemma demo_flag_roundtrip: "demo_flag d = Ok s \<Longrightarrow> demo_parse s = Ok d"
  by (cases d) (auto simp: demo_parse_def demo_flag_def AllowedClientSigningAlgorithms_def)

theorem default_flag_registry_witness:
  "\<exists>fs ds. defaultKeyAlgorithms demo_sigstore = Ok fs
     \<and> mset ds = mset AllowedClientSigningAlgorithms
     \<and> AlgorithmRegistry demo_sigstore (Some fs) = Ok ds"
proof -
  obtain fs where fs: "defaultKeyAlgorithms demo_sigstore = Ok fs"
    by (simp add: defaultKeyAlgorithms_def demo_sigstore_def AllowedClientSigningAlgorithms_def
        demo_flag_def)
  have rt: "ss_ParseSignatureAlgorithmFlag demo_sigstore s = Ok d"
    if "ss_FormatSignatureAlgorithmFlag demo_sigstore d = Ok s" for d s
    using that by (simp add: demo_sigstore_def demo_flag_roundtrip)
  show ?thesis
    using default_flag_registry [of demo_sigstore, OF rt fs] fs by (auto simp: demo_sigstore_def)
qed

end
