(* ===== verification/Log_Entry_Type.thy ===== *)
theory Log_Entry_Type
  imports Algorithm_Registry
begin

text \<open>
  What \<open>internal/server\<close> relies on in the two entry types of \<open>pkg/types\<close>: a
  \<open>ToLogEntry\<close> that turns a request into a log entry of the type's kind or refuses it.
  \<open>Hashedrekord\<close> and \<open>Dsse\<close> interpret the locale.  The theory also holds the step both
  types share: the key a request's verifier message stands for.
\<close>

section \<open>The key of a verifier message\<close>

text \<open>
  \<open>request_key\<close> is the specification of the two \<open>extractVerifier\<close> functions: a public
  key message is parsed as a PKIX key, a certificate message as an X.509 certificate.
\<close>

inductive request_key :: "pki \<Rightarrow> pb_Verifier option \<Rightarrow> verifier \<Rightarrow> bool" for x where
  from_public_key:
    "Verifier_GetPublicKey pv = Some pk \<Longrightarrow>
     pki_ParsePKIXPublicKey x (PublicKey_RawBytes pk) = Ok k \<Longrightarrow>
     request_key x pv (PublicKeyVerifier k)"
| from_certificate:
    "Verifier_GetPublicKey pv = None \<Longrightarrow> Verifier_GetX509Certificate pv = Some c \<Longrightarrow>
     pki_ParseCertificate x (X509Certificate_RawBytes c) = Ok crt \<Longrightarrow>
     request_key x pv (CertificateVerifier crt)"

inductive_simps request_key_iff: "request_key x pv v"

lemma request_key_unique: "request_key x pv v \<Longrightarrow> request_key x pv w \<Longrightarrow> v = w"
  by (auto simp: request_key_iff)

lemma NewVerifier_bytes:
  "publickey_NewVerifier x (bytes_NewReader b) = Ok k \<longleftrightarrow> pki_ParsePKIXPublicKey x b = Ok k"
  "certificate_NewVerifier x (bytes_NewReader b) = Ok c \<longleftrightarrow> pki_ParseCertificate x b = Ok c"
  by (auto simp: publickey_NewVerifier_def certificate_NewVerifier_def bytes_NewReader_def
      go_bind_eq_Ok)

section \<open>The interface of an entry type\<close>

locale log_entry_type =
  fixes ToLogEntry :: "'req option \<Rightarrow> pb_Entry result"
    and kind :: string
    and is_spec :: "pb_Spec \<Rightarrow> bool"
  assumes entry_kind: "ToLogEntry r = Ok e \<Longrightarrow> Entry_Kind e = kind"
    and entry_version: "ToLogEntry r = Ok e \<Longrightarrow> Entry_ApiVersion e = ''0.0.2''"
    and entry_spec: "ToLogEntry r = Ok e \<Longrightarrow> \<exists>s. Entry_Spec e = Some s \<and> is_spec s"
    and nil_request: "ToLogEntry None = Panic"
begin

lemma entry_shape:
  assumes "ToLogEntry r = Ok e"
  obtains q s where "r = Some q"
    and "e = \<lparr>Entry_Kind = kind, Entry_ApiVersion = ''0.0.2'', Entry_Spec = Some s\<rparr>"
    and "is_spec s"
proof -
  obtain q where "r = Some q"
    using assms nil_request by (cases r) auto
  moreover obtain s where "Entry_Spec e = Some s" "is_spec s"
    using entry_spec [OF assms] by blast
  ultimately show ?thesis
    using that entry_kind [OF assms] entry_version [OF assms] by (cases e) auto
qed

end

end
