(* ===== verification/Hashedrekord.thy ===== *)
theory Hashedrekord
  imports Log_Entry_Type
begin

text \<open>
  \<open>pkg/types/hashedrekord\<close>: \<open>ToLogEntry\<close> validates a request, parses its verifier, checks
  the algorithm against the registry, verifies the signature over the digest and builds the log
  entry.  A request pointer may be nil, and dereferencing it panics, as in Go.
\<close>

section \<open>The code\<close>

definition hashedrekord_validate :: "HashedRekordRequestV002 option \<Rightarrow> unit result" where
  "hashedrekord_validate p =
     go_bind (deref p) id (\<lambda>hr.
     case HashedRekordRequest_Signature hr of
       None \<Rightarrow> Err (ErrText ''missing signature'')
     | Some sig \<Rightarrow>
         (if length (Signature_Content sig) = 0 then Err (ErrText ''missing signature'')
          else if Signature_Verifier sig = None then Err (ErrText ''missing verifier'')
          else if length (HashedRekordRequest_Digest hr) = 0 then Err (ErrText ''missing digest'')
          else go_bind (verifier_Validate (Signature_Verifier sig)) (errv ''invalid verifier'')
                 (\<lambda>_. Ok ())))"

definition hashedrekord_extractVerifier ::
    "pki \<Rightarrow> HashedRekordRequestV002 option \<Rightarrow> verifier result" where
  "hashedrekord_extractVerifier x p =
     go_bind (deref p) id (\<lambda>hr.
     go_bind (deref (HashedRekordRequest_Signature hr)) id (\<lambda>sig.
     case Verifier_GetPublicKey (Signature_Verifier sig) of
       Some pubKey \<Rightarrow>
         go_bind (publickey_NewVerifier x (bytes_NewReader (PublicKey_RawBytes pubKey)))
           (Wrap ''parsing verifier'') (\<lambda>v. Ok (PublicKeyVerifier v))
     | None \<Rightarrow>
         (case Verifier_GetX509Certificate (Signature_Verifier sig) of
            Some cert \<Rightarrow>
              go_bind
                (certificate_NewVerifier x (bytes_NewReader (X509Certificate_RawBytes cert)))
                (Wrap ''parsing verifier'') (\<lambda>v. Ok (CertificateVerifier v))
          | None \<Rightarrow>
              Err (ErrText ''must contain either a public key or X.509 certificate''))))"

definition verifySupportedAlgorithm ::
    "'reg sigstore \<Rightarrow> PublicKeyDetails \<Rightarrow> verifier \<Rightarrow> 'reg \<Rightarrow> AlgorithmDetails result" where
  "verifySupportedAlgorithm ss keyDetails v algorithmRegistry =
     go_bind (ss_GetAlgorithmDetails ss keyDetails) (Wrap ''getting key algorithm details'')
       (\<lambda>algDetails.
     let alg = GetHashType algDetails in
     go_bind (CheckEntryAlgorithms ss (verifier_PublicKey v) alg algorithmRegistry)
       (Wrap ''checking entry algorithm'') (\<lambda>valid.
     if \<not> valid then Err (UnsupportedAlgorithm (verifier_PublicKey v) alg)
     else Ok algDetails))"

definition hashedrekord_verifySignature ::
    "'reg sigstore \<Rightarrow> HashedRekordRequestV002 option \<Rightarrow> verifier \<Rightarrow> crypto_hash \<Rightarrow> unit result"
where
  "hashedrekord_verifySignature ss p v hashAlg =
     go_bind (ss_LoadVerifierED25519ph ss (verifier_PublicKey v)) (errv ''loading verifier'')
       (\<lambda>sigVerifier.
     go_bind (deref p) id (\<lambda>hr.
     go_bind (deref (HashedRekordRequest_Signature hr)) id (\<lambda>sig.
     go_bind (sigVerifier (Signature_Content sig) (HashedRekordRequest_Digest hr) hashAlg)
       (Wrap ''verifying signature'') (\<lambda>_. Ok ()))))"

definition hashedrekord_entry ::
    "HashedRekordRequestV002 \<Rightarrow> AlgorithmDetails \<Rightarrow> pb_Entry" where
  "hashedrekord_entry hr algDetails =
     \<lparr>Entry_Kind = ''hashedrekord'', Entry_ApiVersion = ''0.0.2'',
      Entry_Spec = Some \<lparr>Spec_Spec = Some (Spec_HashedRekordV002 (Some
        \<lparr>HashedRekordLogEntry_Data = Some
           \<lparr>HashOutput_Algorithm = GetProtoHashType algDetails,
            HashOutput_Digest = HashedRekordRequest_Digest hr\<rparr>,
         HashedRekordLogEntry_Signature = HashedRekordRequest_Signature hr\<rparr>))\<rparr>\<rparr>"

definition hashedrekord_ToLogEntry ::
    "pki \<Rightarrow> 'reg sigstore \<Rightarrow> 'reg \<Rightarrow> HashedRekordRequestV002 option \<Rightarrow> pb_Entry result" where
  "hashedrekord_ToLogEntry x ss algorithmRegistry p =
     go_bind (hashedrekord_validate p) id (\<lambda>_.
     go_bind (hashedrekord_extractVerifier x p) id (\<lambda>v.
     go_bind (deref p) id (\<lambda>hr.
     go_bind (deref (HashedRekordRequest_Signature hr)) id (\<lambda>sig.
     go_bind (deref (Signature_Verifier sig)) id (\<lambda>pv.
     go_bind (verifySupportedAlgorithm ss (Verifier_KeyDetails pv) v algorithmRegistry) id
       (\<lambda>algDetails.
     go_bind (hashedrekord_verifySignature ss p v (GetHashType algDetails)) id (\<lambda>_.
     Ok (hashedrekord_entry hr algDetails))))))))"

section \<open>The specification\<close>

text \<open>
  An entry is admissible for a request when the request is complete, its verifier parses to a
  key, the registry permits that key with the digest of its declared algorithm, the signature
  verifies over the digest, and the entry has the kind and version of the type and carries exactly
  the request's digest, under the hash algorithm of the key, and the request's signature.
\<close>

definition hr_admissible ::
    "pki \<Rightarrow> 'reg sigstore \<Rightarrow> 'reg \<Rightarrow> HashedRekordRequestV002 \<Rightarrow> pb_Entry \<Rightarrow> bool" where
  "hr_admissible x ss reg hr e \<longleftrightarrow>
     (\<exists>sig pv v d dv.
        HashedRekordRequest_Signature hr = Some sig \<and> Signature_Content sig \<noteq> []
      \<and> Signature_Verifier sig = Some pv \<and> HashedRekordRequest_Digest hr \<noteq> []
      \<and> verifier_raw (Some pv) \<noteq> [] \<and> request_key x (Some pv) v
      \<and> ss_GetAlgorithmDetails ss (Verifier_KeyDetails pv) = Ok d
      \<and> ss_IsAlgorithmPermitted ss reg (verifier_PublicKey v) (GetHashType d) = Ok True
      \<and> ss_LoadVerifierED25519ph ss (verifier_PublicKey v) = Ok dv
      \<and> dv (Signature_Content sig) (HashedRekordRequest_Digest hr) (GetHashType d) = Ok ()
      \<and> Entry_Kind e = ''hashedrekord'' \<and> Entry_ApiVersion e = ''0.0.2''
      \<and> Entry_Spec e = Some \<lparr>Spec_Spec = Some (Spec_HashedRekordV002 (Some
          \<lparr>HashedRekordLogEntry_Data = Some
             \<lparr>HashOutput_Algorithm = GetProtoHashType d,
              HashOutput_Digest = HashedRekordRequest_Digest hr\<rparr>,
           HashedRekordLogEntry_Signature = Some sig\<rparr>))\<rparr>)"

section \<open>Each step\<close>

lemma hashedrekord_validate_Ok [go_result]:
  "hashedrekord_validate (Some hr) = Ok u \<longleftrightarrow>
     (\<exists>sig pv. HashedRekordRequest_Signature hr = Some sig \<and> Signature_Content sig \<noteq> []
       \<and> Signature_Verifier sig = Some pv \<and> HashedRekordRequest_Digest hr \<noteq> []
       \<and> verifier_raw (Some pv) \<noteq> [])"
  by (cases "HashedRekordRequest_Signature hr")
     (auto simp: hashedrekord_validate_def go_bind_eq_Ok verifier_Validate_Ok)

lemma hashedrekord_extractVerifier_Ok [go_result]:
  "HashedRekordRequest_Signature hr = Some sig \<Longrightarrow>
   hashedrekord_extractVerifier x (Some hr) = Ok v \<longleftrightarrow> request_key x (Signature_Verifier sig) v"
  by (auto simp: hashedrekord_extractVerifier_def request_key_iff go_bind_eq_Ok NewVerifier_bytes
      split: option.splits)

lemma verifySupportedAlgorithm_Ok [go_result]:
  "verifySupportedAlgorithm ss kd v reg = Ok d \<longleftrightarrow>
     ss_GetAlgorithmDetails ss kd = Ok d
     \<and> ss_IsAlgorithmPermitted ss reg (verifier_PublicKey v) (GetHashType d) = Ok True"
  by (auto simp: verifySupportedAlgorithm_def go_bind_eq_Ok CheckEntryAlgorithms_True Let_def
      split: if_splits)

lemma hashedrekord_verifySignature_Ok [go_result]:
  "HashedRekordRequest_Signature hr = Some sig \<Longrightarrow>
   hashedrekord_verifySignature ss (Some hr) v h = Ok u \<longleftrightarrow>
     (\<exists>dv. ss_LoadVerifierED25519ph ss (verifier_PublicKey v) = Ok dv
        \<and> dv (Signature_Content sig) (HashedRekordRequest_Digest hr) h = Ok ())"
  by (auto simp: hashedrekord_verifySignature_def go_bind_eq_Ok)

lemma hashedrekord_ToLogEntry_nil: "hashedrekord_ToLogEntry x ss reg None = Panic"
  by (simp add: hashedrekord_ToLogEntry_def hashedrekord_validate_def)

section \<open>Refinement: the code implements the specification\<close>

text \<open>
  C9. \<open>ToLogEntry\<close> accepts a hashedrekord request with an entry exactly when the
  specification admits that entry: no incomplete, unparseable, disallowed or wrongly signed
  request gets an entry, every admissible request does, and the entry is the specified one.
\<close>

theorem hashedrekord_ToLogEntry_refines:
  "hashedrekord_ToLogEntry x ss reg (Some hr) = Ok e \<longleftrightarrow> hr_admissible x ss reg hr e"
proof
  assume ok: "hashedrekord_ToLogEntry x ss reg (Some hr) = Ok e"
  then have "hashedrekord_validate (Some hr) = Ok ()"
    by (auto simp: hashedrekord_ToLogEntry_def go_bind_eq_Ok)
  then obtain sig pv where s: "HashedRekordRequest_Signature hr = Some sig"
      "Signature_Content sig \<noteq> []" "Signature_Verifier sig = Some pv"
      "HashedRekordRequest_Digest hr \<noteq> []" "verifier_raw (Some pv) \<noteq> []"
    by (auto simp: hashedrekord_validate_Ok)
  with ok show "hr_admissible x ss reg hr e"
    by (auto simp: hashedrekord_ToLogEntry_def hr_admissible_def hashedrekord_entry_def go_bind_eq_Ok
        hashedrekord_extractVerifier_Ok verifySupportedAlgorithm_Ok
        hashedrekord_verifySignature_Ok)
next
  assume "hr_admissible x ss reg hr e"
  then obtain sig pv v d dv where a: "HashedRekordRequest_Signature hr = Some sig"
      "Signature_Content sig \<noteq> []" "Signature_Verifier sig = Some pv"
      "HashedRekordRequest_Digest hr \<noteq> []" "verifier_raw (Some pv) \<noteq> []"
      "request_key x (Some pv) v" "ss_GetAlgorithmDetails ss (Verifier_KeyDetails pv) = Ok d"
      "ss_IsAlgorithmPermitted ss reg (verifier_PublicKey v) (GetHashType d) = Ok True"
      "ss_LoadVerifierED25519ph ss (verifier_PublicKey v) = Ok dv"
      "dv (Signature_Content sig) (HashedRekordRequest_Digest hr) (GetHashType d) = Ok ()"
      "e = hashedrekord_entry hr d"
    unfolding hr_admissible_def by (elim exE conjE) (simp add: hashedrekord_entry_def)
  then have "hashedrekord_validate (Some hr) = Ok ()"
    by (auto simp: hashedrekord_validate_Ok)
  moreover have "hashedrekord_extractVerifier x (Some hr) = Ok v"
    using a by (simp add: hashedrekord_extractVerifier_Ok)
  moreover have "verifySupportedAlgorithm ss (Verifier_KeyDetails pv) v reg = Ok d"
    using a by (simp add: verifySupportedAlgorithm_Ok)
  moreover have "hashedrekord_verifySignature ss (Some hr) v (GetHashType d) = Ok ()"
    using a by (simp add: hashedrekord_verifySignature_Ok)
  ultimately show "hashedrekord_ToLogEntry x ss reg (Some hr) = Ok e"
    using a(1,3,11) by (simp add: hashedrekord_ToLogEntry_def)
qed

interpretation hr: log_entry_type "hashedrekord_ToLogEntry x ss reg" "''hashedrekord''"
  "\<lambda>s. \<exists>h. Spec_Spec s = Some (Spec_HashedRekordV002 (Some h))" for x ss reg
  by unfold_locales
     (auto simp: hashedrekord_ToLogEntry_def go_bind_eq_Ok hashedrekord_entry_def
       hashedrekord_validate_def)

end
