(* ===== verification/Go_Base64.thy ===== *)
theory Go_Base64
  imports Go_Errors
begin

text \<open>
  \<open>encoding/base64\<close>'s \<open>StdEncoding\<close>: the standard alphabet with padding.  The decoder
  skips carriage returns and line feeds, wants the padding, refuses anything after it, and (not
  being in strict mode) ignores the unused low bits of the last character.  The position that
  Go's \<open>CorruptInputError\<close> carries is not modelled.
\<close>

definition b64_char :: "nat \<Rightarrow> char" where
  "b64_char i =
     (if i < 26 then char_of (65 + i)
      else if i < 52 then char_of (97 + (i - 26))
      else if i < 62 then char_of (48 + (i - 52))
      else if i = 62 then CHR ''+'' else CHR ''/'')"

definition b64_val :: "char \<Rightarrow> nat option" where
  "b64_val c =
     (let n = of_char c :: nat
      in if 65 \<le> n \<and> n \<le> 90 then Some (n - 65)
         else if 97 \<le> n \<and> n \<le> 122 then Some (n - 97 + 26)
         else if 48 \<le> n \<and> n \<le> 57 then Some (n - 48 + 52)
         else if c = CHR ''+'' then Some 62
         else if c = CHR ''/'' then Some 63 else None)"

definition b64_group :: "nat \<Rightarrow> string" where
  "b64_group n =
     [b64_char (n div 262144), b64_char (n div 4096 mod 64),
      b64_char (n div 64 mod 64), b64_char (n mod 64)]"

fun EncodeToString :: "bytes \<Rightarrow> string" where
  "EncodeToString [] = []"
| "EncodeToString [a] = take 2 (b64_group (of_char a * 65536)) @ ''==''"
| "EncodeToString [a, b] = take 3 (b64_group (of_char a * 65536 + of_char b * 256)) @ ''=''"
| "EncodeToString (a # b # c # r) =
     b64_group (of_char a * 65536 + of_char b * 256 + of_char c) @ EncodeToString r"

fun decode_quads :: "string \<Rightarrow> bytes option" where
  "decode_quads [] = Some []"
| "decode_quads (a # b # c # d # r) =
     (case (b64_val a, b64_val b) of
        (Some x, Some y) \<Rightarrow>
          (if c = CHR ''='' then
             (if d = CHR ''='' \<and> r = []
              then Some [char_of ((x * 262144 + y * 4096) div 65536)] else None)
           else (case b64_val c of
               None \<Rightarrow> None
             | Some z \<Rightarrow>
                 (if d = CHR ''='' then
                    (if r = []
                     then (let n = x * 262144 + y * 4096 + z * 64
                           in Some [char_of (n div 65536), char_of (n div 256 mod 256)])
                     else None)
                  else (case b64_val d of
                      None \<Rightarrow> None
                    | Some w \<Rightarrow>
                        (let n = x * 262144 + y * 4096 + z * 64 + w
                         in map_option
                              (\<lambda>bs. char_of (n div 65536) # char_of (n div 256 mod 256)
                                     # char_of (n mod 256) # bs)
                              (decode_quads r))))))
      | _ \<Rightarrow> None)"
| "decode_quads _ = None"

definition not_newline :: "char \<Rightarrow> bool" where
  "not_newline c \<longleftrightarrow> c \<noteq> CHR 0x0A \<and> c \<noteq> CHR 0x0D"

definition DecodeString :: "string \<Rightarrow> bytes result" where
  "DecodeString s =
     (case decode_quads (filter not_newline s) of
        None \<Rightarrow> Err (ErrText ''illegal base64 data'')
      | Some b \<Rightarrow> Ok b)"

section \<open>Round trip\<close>

lemma b64_val_char [simp]: "i < 64 \<Longrightarrow> b64_val (b64_char i) = Some i"
  by (auto simp: b64_char_def b64_val_def Let_def)

lemma b64_val_pad [simp]: "b64_val (CHR ''='') = None"
  by (simp add: b64_val_def Let_def)

lemma b64_char_not_pad [simp]: "i < 64 \<Longrightarrow> b64_char i \<noteq> CHR ''=''"
  by (metis b64_val_char b64_val_pad option.distinct(1))

lemma b64_val_newline: "b64_val c = Some i \<Longrightarrow> not_newline c"
  by (auto simp: b64_val_def not_newline_def Let_def split: if_splits)

lemma not_newline_b64_char [simp]: "i < 64 \<Longrightarrow> not_newline (b64_char i)"
  by (rule b64_val_newline) simp

lemma not_newline_pad [simp]: "not_newline (CHR ''='')"
  by (simp add: not_newline_def)

lemma of_char_lt: "(of_char c :: nat) < 256"
  using of_char_of [of "of_char c :: nat"] by (metis mod_less_divisor of_char_of char_of_char
      zero_less_numeral)

text \<open>A group of 24 bits splits into four digits and into three bytes, both without loss.\<close>

lemma b64_digits:
  assumes "n < (16777216 :: nat)"
  shows "n div 262144 < 64" "n div 4096 mod 64 < 64" "n div 64 mod 64 < 64" "n mod 64 < 64"
    and "n div 262144 * 262144 + n div 4096 mod 64 * 4096 + n div 64 mod 64 * 64 + n mod 64 = n"
proof -
  show "n div 262144 < 64" using assms by (simp add: div_less_iff_less_mult)
  show "n div 4096 mod 64 < 64" "n div 64 mod 64 < 64" "n mod 64 < 64" by simp_all
  define q where "q = n div 64"
  define r where "r = q div 64"
  have e: "n div 4096 = r" "n div 262144 = r div 64"
    by (simp_all add: q_def r_def div_mult2_eq [symmetric])
  have "64 * q + n mod 64 = n" "64 * r + q mod 64 = q" "64 * (r div 64) + r mod 64 = r"
    unfolding q_def r_def by (rule mult_div_mod_eq)+
  then show
    "n div 262144 * 262144 + n div 4096 mod 64 * 4096 + n div 64 mod 64 * 64 + n mod 64 = n"
    unfolding e q_def [symmetric] by linarith
qed

lemma b64_group_clean: "n < 16777216 \<Longrightarrow> list_all not_newline (b64_group n)"
  using b64_digits [of n] by (simp add: b64_group_def)

lemma decode_group:
  assumes "n < 16777216"
  shows "decode_quads (b64_group n @ r) =
    map_option (\<lambda>bs. char_of (n div 65536) # char_of (n div 256 mod 256) # char_of (n mod 256) # bs)
      (decode_quads r)"
  using b64_digits [OF assms] by (simp add: b64_group_def Let_def)

lemma decode_group3:
  assumes "n < 16777216" "n mod 64 = 0"
  shows "decode_quads (take 3 (b64_group n) @ ''='') =
    Some [char_of (n div 65536), char_of (n div 256 mod 256)]"
  using b64_digits [OF assms(1)] assms(2) by (simp add: b64_group_def Let_def)

lemma decode_group2:
  assumes "n < 16777216" "n div 64 mod 64 = 0" "n mod 64 = 0"
  shows "decode_quads (take 2 (b64_group n) @ ''=='') = Some [char_of (n div 65536)]"
  using b64_digits [OF assms(1)] assms(2,3) by (simp add: b64_group_def)

lemma group_bytes:
  fixes x y z :: nat
  assumes "x < 256" "y < 256" "z < 256"
  shows "(x * 65536 + y * 256 + z) div 65536 = x"
    and "(x * 65536 + y * 256 + z) div 256 mod 256 = y"
    and "(x * 65536 + y * 256 + z) mod 256 = z"
    and "x * 65536 + y * 256 + z < 16777216"
proof -
  show "(x * 65536 + y * 256 + z) div 65536 = x"
    by (rule div_nat_eqI) (use assms in simp_all)
  have "(x * 65536 + y * 256 + z) div 256 = x * 256 + y"
    by (rule div_nat_eqI) (use assms in simp_all)
  then show "(x * 65536 + y * 256 + z) div 256 mod 256 = y"
    using assms by simp
  have "x * 65536 + y * 256 + z = z + 256 * (x * 256 + y)" by simp
  then show "(x * 65536 + y * 256 + z) mod 256 = z"
    using assms by (metis mod_less mod_mult_self2)
  show "x * 65536 + y * 256 + z < 16777216" using assms by linarith
qed

lemmas char_group_bytes = group_bytes [OF of_char_lt of_char_lt of_char_lt]

lemma char_group_bound: "(of_char a * 65536 + of_char b * 256 :: nat) < 16777216"
    "(of_char a * 65536 :: nat) < 16777216"
  using of_char_lt [of a] of_char_lt [of b] by linarith+

lemma EncodeToString_no_newline: "list_all not_newline (EncodeToString bs)"
proof (induction bs rule: EncodeToString.induct)
  case (2 a)
  show ?case
    using b64_group_clean [OF char_group_bound(2) [of a]]
    by (simp add: list_all_iff del: take_Suc_Cons) (meson in_set_takeD)
next
  case (3 a b)
  show ?case
    using b64_group_clean [OF char_group_bound(1) [of a b]]
    by (simp add: list_all_iff) (meson in_set_takeD)
next
  case (4 a b c r)
  then show ?case
    using b64_group_clean [OF char_group_bytes(4), of a b c] by simp
qed simp

lemma decode_quads_encode: "decode_quads (EncodeToString bs) = Some bs"
proof (induction bs rule: EncodeToString.induct)
  case (2 a)
  have d: "(of_char a * 65536 :: nat) div 64 mod 64 = 0" "(of_char a * 65536 :: nat) mod 64 = 0"
    by (simp_all add: mult.commute [of "of_char a"] mod_mult_left_eq)
  show ?case
    using decode_group2 [OF _ d] group_bytes [OF of_char_lt [of a], of 0 0]
    by simp
next
  case (3 a b)
  have "of_char a * 65536 + of_char b * 256 = 64 * (of_char a * 1024 + of_char b * 4 :: nat)"
    by simp
  then have d: "(of_char a * 65536 + of_char b * 256 :: nat) mod 64 = 0"
    by (metis mod_mult_self1_is_0)
  show ?case
    using decode_group3 [OF _ d] group_bytes [OF of_char_lt [of a] of_char_lt [of b], of 0]
    by simp
next
  case (4 a b c r)
  then show ?case
    by (simp add: decode_group char_group_bytes)
qed simp

lemma DecodeString_EncodeToString [simp]: "DecodeString (EncodeToString bs) = Ok bs"
proof -
  have "filter not_newline (EncodeToString bs) = EncodeToString bs"
    using EncodeToString_no_newline [of bs] by (simp add: list_all_iff)
  then show ?thesis by (simp add: DecodeString_def decode_quads_encode)
qed

lemma EncodeToString_inj: "EncodeToString a = EncodeToString b \<longleftrightarrow> a = b"
  by (metis DecodeString_EncodeToString result.inject(1))

lemma DecodeString_not_Panic [simp]: "DecodeString s \<noteq> Panic"
  by (simp add: DecodeString_def split: option.splits)

end
