(* ===== verification/Dsse.thy ===== *)
theory Dsse
  imports Log_Entry_Type Go_Base64 "HOL-Library.AList"
begin

text \<open>
  \<open>pkg/types/dsse\<close>: validation of a DSSE request, the conversion between the protobuf
  envelope and the library's, the verification of every envelope signature by some verifier of
  the request, and the canonical order of the signatures in the log entry.

  Go's \<open>range\<close> over a map visits the entries in an unspecified order, and the code ranges
  over three maps; \<open>map_orders\<close> holds the three orders, each a permutation of the entries.
  The map from verifier pointers to keys is the list of its entries in the order of the request
  (two distinct pointers are two entries); the map from raw signatures to verifier pointers is
  an association list with distinct keys.  The DSSE library's \<open>NewEnvelopeVerifier\<close> is the
  parameter \<open>nev\<close>: from a signature verifier to the \<open>Verify\<close> method, which returns the
  accepted signatures of an envelope.
\<close>

section \<open>The library's envelope\<close>

record dsse_Signature =
  dsse_KeyID :: string
  dsse_Sig :: string

record dsse_Envelope =
  dsse_PayloadType :: string
  dsse_Payload :: string
  dsse_Signatures :: "dsse_Signature list"

type_synonym envelope_verifier = "dsse_Envelope \<Rightarrow> dsse_Signature list result"

definition FromProto :: "pb_dsse_Envelope option \<Rightarrow> dsse_Envelope result" where
  "FromProto p =
     go_bind (deref p) id (\<lambda>env.
     go_bind
       (map_each (\<lambda>q. go_bind (deref q) id (\<lambda>s.
          Ok \<lparr>dsse_KeyID = pbdsse_Keyid s, dsse_Sig = EncodeToString (pbdsse_Sig s)\<rparr>))
          (pbdsse_Signatures env)) id (\<lambda>sigs.
     Ok \<lparr>dsse_PayloadType = pbdsse_PayloadType env,
         dsse_Payload = EncodeToString (pbdsse_Payload env), dsse_Signatures = sigs\<rparr>))"

definition ToProto :: "dsse_Envelope option \<Rightarrow> pb_dsse_Envelope option result" where
  "ToProto p =
     go_bind (deref p) id (\<lambda>env.
     go_bind (DecodeString (dsse_Payload env)) (Wrap ''failed to decode dsse payload'')
       (\<lambda>payloadBytes.
     go_bind
       (map_each (\<lambda>s.
          go_bind (DecodeString (dsse_Sig s)) (Wrap ''failed to decode dsse signature'')
            (\<lambda>sigBytes. Ok (Some \<lparr>pbdsse_Sig = sigBytes, pbdsse_Keyid = dsse_KeyID s\<rparr>)))
          (dsse_Signatures env)) id (\<lambda>sigs.
     Ok (Some \<lparr>pbdsse_Payload = payloadBytes, pbdsse_PayloadType = dsse_PayloadType env,
               pbdsse_Signatures = sigs\<rparr>))))"

section \<open>Validation\<close>

definition maxVerifiers :: nat where "maxVerifiers = 10"
definition maxSignatures :: nat where "maxSignatures = 10"

fun validate_verifiers :: "bytes set \<Rightarrow> pb_Verifier option list \<Rightarrow> unit result" where
  "validate_verifiers seen [] = Ok ()"
| "validate_verifiers seen (v # vs) =
     go_bind (verifier_Validate v) (errv ''invalid verifier'') (\<lambda>_.
     let key = verifier_raw v in
     if key \<in> seen then Err (ErrText ''duplicate verifier'')
     else validate_verifiers (insert key seen) vs)"

definition validate_signature :: "pb_dsse_Signature option \<Rightarrow> unit result" where
  "validate_signature s =
     (case s of
        None \<Rightarrow> Err (ErrText ''envelope signature empty'')
      | Some s' \<Rightarrow> (if length (pbdsse_Sig s') = 0 then Err (ErrText ''envelope signature empty'')
                   else Ok ()))"

definition dsse_validate :: "DSSERequestV002 option \<Rightarrow> unit result" where
  "dsse_validate p =
     go_bind (deref p) id (\<lambda>ds.
     case DSSERequest_Envelope ds of
       None \<Rightarrow> Err (ErrText ''missing envelope'')
     | Some env \<Rightarrow>
         let n = length (DSSERequest_Verifiers ds); m = length (pbdsse_Signatures env) in
         if n = 0 then Err (ErrText ''missing verifiers'')
         else if n > maxVerifiers
         then Err (ErrText (''too many verifiers: '' @ FormatUint n @ '', max allowed: ''
                            @ FormatUint maxVerifiers))
         else
           go_bind (validate_verifiers {} (DSSERequest_Verifiers ds)) id (\<lambda>_.
           if m = 0 then Err (ErrText ''envelope missing signatures'')
           else if m > maxSignatures
           then Err (ErrText (''too many signatures: '' @ FormatUint m @ '', max allowed: ''
                              @ FormatUint maxSignatures))
           else for_each validate_signature (pbdsse_Signatures env)))"

section \<open>Verification\<close>

type_synonym verifier_entry = "pb_Verifier option \<times> verifier"

definition dsse_extractVerifier :: "pki \<Rightarrow> pb_Verifier option \<Rightarrow> verifier_entry result" where
  "dsse_extractVerifier x v =
     (let pubKey = Verifier_GetPublicKey v; cert = Verifier_GetX509Certificate v in
      case pubKey of
        Some k \<Rightarrow>
          go_bind (publickey_NewVerifier x (bytes_NewReader (PublicKey_RawBytes k)))
            (errv ''parsing public key'') (\<lambda>vf. Ok (v, PublicKeyVerifier vf))
      | None \<Rightarrow>
          (case cert of
             Some c \<Rightarrow>
               go_bind (certificate_NewVerifier x (bytes_NewReader (X509Certificate_RawBytes c)))
                 (errv ''parsing certificate'') (\<lambda>vf. Ok (v, CertificateVerifier vf))
           | None \<Rightarrow>
               Err (ErrText ''must contain either a public key or X.509 certificate'')))"

definition extractVerifiers ::
    "pki \<Rightarrow> DSSERequestV002 option \<Rightarrow> verifier_entry list result" where
  "extractVerifiers x p =
     go_bind (deref p) id (\<lambda>ds. map_each (dsse_extractVerifier x) (DSSERequest_Verifiers ds))"

record map_orders =
  ord_check :: "verifier_entry list \<Rightarrow> verifier_entry list"
  ord_verify :: "verifier_entry list \<Rightarrow> verifier_entry list"
  ord_sigs :: "bytes list \<Rightarrow> bytes list"

text \<open>The body of the first loop: the algorithm policy for one verifier.\<close>

definition check_algorithm ::
    "'reg sigstore \<Rightarrow> 'reg \<Rightarrow> verifier_entry \<Rightarrow> unit result" where
  "check_algorithm ss algorithmRegistry p =
     (let verifierKey = snd p in
      go_bind (deref (fst p)) id (\<lambda>v.
      go_bind (ss_GetAlgorithmDetails ss (Verifier_KeyDetails v))
        (Wrap ''getting key algorithm details'') (\<lambda>algDetails.
      let alg = GetHashType algDetails in
      go_bind (CheckEntryAlgorithms ss (verifier_PublicKey verifierKey) alg algorithmRegistry)
        (Wrap ''checking entry algorithm'') (\<lambda>valid.
      if \<not> valid then Err (UnsupportedAlgorithm (verifier_PublicKey verifierKey) alg)
      else Ok ()))))"

text \<open>The first half of the second loop's body: the signatures one verifier accepts.\<close>

definition accepted_by ::
    "'reg sigstore \<Rightarrow> (message_verifier \<Rightarrow> envelope_verifier result) \<Rightarrow> dsse_Envelope \<Rightarrow>
     verifier_entry \<Rightarrow> dsse_Signature list result" where
  "accepted_by ss nev env p =
     (let verifierKey = snd p in
      go_bind (deref (fst p)) id (\<lambda>v.
      go_bind (ss_GetAlgorithmDetails ss (Verifier_KeyDetails v))
        (Wrap ''getting key algorithm details'') (\<lambda>algDetails.
      let alg = GetHashType algDetails in
      go_bind (ss_LoadVerifier ss (verifier_PublicKey verifierKey) alg)
        (Wrap ''could not load verifier'') (\<lambda>vfr.
      go_bind (nev vfr) (Wrap ''could not use public key as a dsse verifier'') (\<lambda>dsseVfr.
      go_bind (dsseVfr env) (Wrap ''could not verify envelope'') Ok)))))"

text \<open>
  The state of the second loop: the signatures no verifier accepted yet (\<open>allSigs\<close>) and the
  verifier recorded for each raw signature (\<open>savs\<close>).
\<close>

type_synonym sig_state = "string set \<times> (bytes \<times> pb_Verifier option) list"

fun accept_sigs ::
    "pb_Verifier option \<Rightarrow> dsse_Signature list \<Rightarrow> sig_state \<Rightarrow> sig_state result" where
  "accept_sigs v [] st = Ok st"
| "accept_sigs v (a # as) (allSigs, savs) =
     go_bind (DecodeString (dsse_Sig a)) (Wrap ''could not decode base64 signature'')
       (\<lambda>sigBytes. accept_sigs v as (allSigs - {dsse_Sig a}, AList.update sigBytes v savs))"

fun verify_loop ::
    "(verifier_entry \<Rightarrow> dsse_Signature list result) \<Rightarrow> verifier_entry list \<Rightarrow> sig_state \<Rightarrow>
     sig_state result" where
  "verify_loop accepted [] st = Ok st"
| "verify_loop accepted (p # ps) (allSigs, savs) =
     (if allSigs = {} then Ok (allSigs, savs)
      else go_bind (accepted p) id (\<lambda>accs.
           go_bind (accept_sigs (fst p) accs (allSigs, savs)) id (\<lambda>st.
           verify_loop accepted ps st)))"

definition verifyEnvelopeAndSupportedAlgs ::
    "'reg sigstore \<Rightarrow> (message_verifier \<Rightarrow> envelope_verifier result) \<Rightarrow> map_orders \<Rightarrow>
     verifier_entry list \<Rightarrow> pb_dsse_Envelope option \<Rightarrow> 'reg \<Rightarrow>
     (bytes \<times> pb_Verifier option) list result" where
  "verifyEnvelopeAndSupportedAlgs ss nev ords verifiers pbenv algorithmRegistry =
     go_bind (for_each (check_algorithm ss algorithmRegistry) (ord_check ords verifiers)) id (\<lambda>_.
     go_bind (FromProto pbenv) id (\<lambda>env.
     go_bind
       (verify_loop (accepted_by ss nev env) (ord_verify ords verifiers)
          (set (map dsse_Sig (dsse_Signatures env)), [])) id (\<lambda>(allSigs, savs).
     if allSigs \<noteq> {}
     then Err (ErrText ''all signatures must have a key that verifies it'')
     else Ok savs)))"

section \<open>ToLogEntry\<close>

definition dsse_entry :: "bytes \<Rightarrow> pb_Signature option list \<Rightarrow> pb_Entry" where
  "dsse_entry payload canonicalizedSigs =
     \<lparr>Entry_Kind = ''dsse'', Entry_ApiVersion = ''0.0.2'',
      Entry_Spec = Some \<lparr>Spec_Spec = Some (Spec_DsseV002 (Some
        \<lparr>DSSELogEntry_PayloadHash = Some
           \<lparr>HashOutput_Algorithm = SHA2_256, HashOutput_Digest = Sum256 payload\<rparr>,
         DSSELogEntry_Signatures = canonicalizedSigs\<rparr>))\<rparr>\<rparr>"

definition canonical_sigs ::
    "(bytes list \<Rightarrow> bytes list) \<Rightarrow> (bytes \<times> pb_Verifier option) list \<Rightarrow>
     pb_Signature option list" where
  "canonical_sigs ord signerVerifiers =
     (let sortedSigs = sort (ord (map fst signerVerifiers)) in
      map (\<lambda>s. Some \<lparr>Signature_Content = s,
                    Signature_Verifier =
                      (case map_of signerVerifiers s of Some v \<Rightarrow> v | None \<Rightarrow> None)\<rparr>)
        sortedSigs)"

definition dsse_ToLogEntry ::
    "pki \<Rightarrow> 'reg sigstore \<Rightarrow> (message_verifier \<Rightarrow> envelope_verifier result) \<Rightarrow> map_orders \<Rightarrow>
     'reg \<Rightarrow> DSSERequestV002 option \<Rightarrow> pb_Entry result" where
  "dsse_ToLogEntry x ss nev ords algorithmRegistry p =
     go_bind (dsse_validate p) id (\<lambda>_.
     go_bind (extractVerifiers x p) id (\<lambda>verifiers.
     go_bind (deref p) id (\<lambda>ds.
     go_bind
       (verifyEnvelopeAndSupportedAlgs ss nev ords verifiers (DSSERequest_Envelope ds)
          algorithmRegistry) id (\<lambda>signerVerifiers.
     go_bind (deref (DSSERequest_Envelope ds)) id (\<lambda>env.
     Ok (dsse_entry (pbdsse_Payload env)
           (canonical_sigs (ord_sigs ords) signerVerifiers)))))))"

section \<open>Validation and extraction, characterised\<close>

lemma validate_verifiers_Ok [go_result]:
  "validate_verifiers seen vs = Ok u \<longleftrightarrow>
     (\<forall>v\<in>set vs. verifier_raw v \<noteq> []) \<and> distinct (map verifier_raw vs)
     \<and> verifier_raw ` set vs \<inter> seen = {}"
  by (induction vs arbitrary: seen)
     (auto simp: go_bind_eq_Ok verifier_Validate_Ok Let_def)

lemma validate_signature_Ok [go_result]:
  "validate_signature s = Ok u \<longleftrightarrow> (\<exists>s'. s = Some s' \<and> pbdsse_Sig s' \<noteq> [])"
  by (auto simp: validate_signature_def split: option.splits)

lemma dsse_validate_Ok [go_result]:
  "dsse_validate (Some ds) = Ok u \<longleftrightarrow>
     (\<exists>env. DSSERequest_Envelope ds = Some env
       \<and> DSSERequest_Verifiers ds \<noteq> [] \<and> length (DSSERequest_Verifiers ds) \<le> 10
       \<and> (\<forall>v\<in>set (DSSERequest_Verifiers ds). verifier_raw v \<noteq> [])
       \<and> distinct (map verifier_raw (DSSERequest_Verifiers ds))
       \<and> pbdsse_Signatures env \<noteq> [] \<and> length (pbdsse_Signatures env) \<le> 10
       \<and> (\<forall>s\<in>set (pbdsse_Signatures env). \<exists>s'. s = Some s' \<and> pbdsse_Sig s' \<noteq> []))"
proof (cases "DSSERequest_Envelope ds")
  case None
  then show ?thesis by (simp add: dsse_validate_def)
next
  case (Some env)
  then show ?thesis
    by (auto simp: dsse_validate_def Let_def go_bind_eq_Ok validate_verifiers_Ok for_each_Ok
        validate_signature_Ok maxVerifiers_def maxSignatures_def)
qed

lemma dsse_extractVerifier_Ok [go_result]:
  "dsse_extractVerifier x v = Ok p \<longleftrightarrow> fst p = v \<and> request_key x v (snd p)"
  by (cases p)
     (auto simp: dsse_extractVerifier_def request_key_iff go_bind_eq_Ok NewVerifier_bytes
       split: option.splits)

lemma extractVerifiers_Ok [go_result]:
  "extractVerifiers x (Some ds) = Ok vs \<longleftrightarrow>
     map fst vs = DSSERequest_Verifiers ds \<and> (\<forall>p\<in>set vs. request_key x (fst p) (snd p))"
proof -
  have "list_all2 (\<lambda>v p. dsse_extractVerifier x v = Ok p) as vs \<longleftrightarrow>
      map fst vs = as \<and> (\<forall>p\<in>set vs. request_key x (fst p) (snd p))" for as
  proof (induction vs arbitrary: as)
    case Nil
    then show ?case by auto
  next
    case (Cons p vs)
    then show ?case by (cases as) (auto simp: dsse_extractVerifier_Ok)
  qed
  then show ?thesis by (simp add: extractVerifiers_def map_each_Ok_list)
qed

lemma extractVerifiers_mem:
  assumes "extractVerifiers x (Some ds) = Ok vs" "q \<in> set vs"
  shows "fst q \<in> set (DSSERequest_Verifiers ds)" "request_key x (fst q) (snd q)"
proof -
  have e: "DSSERequest_Verifiers ds = map fst vs"
    and r: "\<forall>p\<in>set vs. request_key x (fst p) (snd p)"
    using assms(1) by (simp_all add: extractVerifiers_Ok)
  show "fst q \<in> set (DSSERequest_Verifiers ds)" unfolding e using assms(2) by simp
  show "request_key x (fst q) (snd q)" using r assms(2) by blast
qed

lemma validated_verifier_Some:
  assumes "dsse_validate (Some ds) = Ok u" "v \<in> set (DSSERequest_Verifiers ds)"
  shows "\<exists>pv. v = Some pv"
  using assms verifier_raw_nonempty_Some [of v] by (auto simp: dsse_validate_Ok)

lemma validated_distinct:
  assumes "dsse_validate (Some ds) = Ok u" "extractVerifiers x (Some ds) = Ok vs"
  shows "distinct vs"
proof -
  have "distinct (map verifier_raw (map fst vs))"
    using assms by (auto simp: dsse_validate_Ok extractVerifiers_Ok)
  then show ?thesis by (simp add: distinct_map)
qed

lemma check_algorithm_Ok [go_result]:
  "check_algorithm ss reg p = Ok u \<longleftrightarrow>
     (\<exists>v d. fst p = Some v \<and> ss_GetAlgorithmDetails ss (Verifier_KeyDetails v) = Ok d
        \<and> ss_IsAlgorithmPermitted ss reg (verifier_PublicKey (snd p)) (GetHashType d) = Ok True)"
  by (auto simp: check_algorithm_def go_bind_eq_Ok deref_eq_Ok CheckEntryAlgorithms_True Let_def
      split: if_splits)

section \<open>The envelope conversions\<close>

text \<open>The raw signatures of a validated envelope, in order.\<close>

definition raw_sigs :: "pb_dsse_Envelope \<Rightarrow> bytes list" where
  "raw_sigs env = map (\<lambda>s. pbdsse_Sig (the s)) (pbdsse_Signatures env)"

definition lib_env :: "pb_dsse_Envelope \<Rightarrow> dsse_Envelope" where
  "lib_env env =
     \<lparr>dsse_PayloadType = pbdsse_PayloadType env,
      dsse_Payload = EncodeToString (pbdsse_Payload env),
      dsse_Signatures =
        map (\<lambda>s. \<lparr>dsse_KeyID = pbdsse_Keyid (the s),
                  dsse_Sig = EncodeToString (pbdsse_Sig (the s))\<rparr>) (pbdsse_Signatures env)\<rparr>"

lemma map_each_total: "(\<And>x. x \<in> set xs \<Longrightarrow> f x = Ok (g x)) \<Longrightarrow> map_each f xs = Ok (map g xs)"
  by (induction xs) auto

lemma FromProto_valid:
  assumes "\<forall>s\<in>set (pbdsse_Signatures env). s \<noteq> None"
  shows "FromProto (Some env) = Ok (lib_env env)"
proof -
  have "map_each (\<lambda>q. go_bind (deref q) id (\<lambda>s.
          Ok \<lparr>dsse_KeyID = pbdsse_Keyid s, dsse_Sig = EncodeToString (pbdsse_Sig s)\<rparr>))
          (pbdsse_Signatures env) = Ok (dsse_Signatures (lib_env env))"
    unfolding lib_env_def dsse_Envelope.simps
    by (rule map_each_total) (use assms in auto)
  then show ?thesis by (simp add: FromProto_def lib_env_def)
qed

lemma lib_env_sigs: "map dsse_Sig (dsse_Signatures (lib_env env)) = map EncodeToString (raw_sigs env)"
  by (simp add: lib_env_def raw_sigs_def)

text \<open>
  C34. The conversions are inverse on every envelope without nil signatures: encoding an envelope
  for the DSSE library and decoding it again gives the same payload, payload type, key
  identifiers and signatures.
\<close>

theorem ToProto_FromProto:
  assumes "\<forall>s\<in>set (pbdsse_Signatures env). s \<noteq> None"
  shows "go_bind (FromProto (Some env)) id (\<lambda>e. ToProto (Some e)) = Ok (Some env)"
proof -
  have "map_each (\<lambda>s.
          go_bind (DecodeString (dsse_Sig s)) (Wrap ''failed to decode dsse signature'')
            (\<lambda>sigBytes. Ok (Some \<lparr>pbdsse_Sig = sigBytes, pbdsse_Keyid = dsse_KeyID s\<rparr>)))
          (dsse_Signatures (lib_env env)) = Ok (pbdsse_Signatures env)"
    using assms
    by (auto simp: map_each_Ok_list lib_env_def list_all2_map1 list_all2_same)
  then show ?thesis
    using assms by (simp add: FromProto_valid ToProto_def lib_env_def)
qed

theorem ToProto_FromProto_witness:
  "go_bind (FromProto (Some
      \<lparr>pbdsse_Payload = ''{}'', pbdsse_PayloadType = ''application/vnd.in-toto+json'',
       pbdsse_Signatures = [Some \<lparr>pbdsse_Sig = ''ab'', pbdsse_Keyid = ''k''\<rparr>]\<rparr>)) id
     (\<lambda>e. ToProto (Some e)) =
   Ok (Some
      \<lparr>pbdsse_Payload = ''{}'', pbdsse_PayloadType = ''application/vnd.in-toto+json'',
       pbdsse_Signatures = [Some \<lparr>pbdsse_Sig = ''ab'', pbdsse_Keyid = ''k''\<rparr>]\<rparr>)"
  by (rule ToProto_FromProto) simp

section \<open>The verification loop\<close>

lemma accept_sigs_spec:
  assumes "accept_sigs v as (A, S) = Ok (A', S')"
  shows "A' = A - dsse_Sig ` set as"
    and "map_of S' = (\<lambda>sb. if \<exists>a\<in>set as. DecodeString (dsse_Sig a) = Ok sb then Some v
                           else map_of S sb)"
    and "\<forall>a\<in>set as. \<exists>sb. DecodeString (dsse_Sig a) = Ok sb"
    and "distinct (map fst S) \<Longrightarrow> distinct (map fst S')"
proof -
  have "A' = A - dsse_Sig ` set as
     \<and> map_of S' = (\<lambda>sb. if \<exists>a\<in>set as. DecodeString (dsse_Sig a) = Ok sb then Some v
                           else map_of S sb)
     \<and> (\<forall>a\<in>set as. \<exists>sb. DecodeString (dsse_Sig a) = Ok sb)
     \<and> (distinct (map fst S) \<longrightarrow> distinct (map fst S'))"
    using assms
  proof (induction as arbitrary: A S)
    case Nil
    then show ?case by simp
  next
    case (Cons a as)
    then obtain sb where sb: "DecodeString (dsse_Sig a) = Ok sb"
        "accept_sigs v as (A - {dsse_Sig a}, AList.update sb v S) = Ok (A', S')"
      by (auto simp: go_bind_eq_Ok)
    note IH = Cons.IH [OF sb(2)]
    show ?case
      using IH sb(1) distinct_update [of S sb v] by (auto simp: update_conv' fun_eq_iff)
  qed
  then show "A' = A - dsse_Sig ` set as"
    "map_of S' = (\<lambda>sb. if \<exists>a\<in>set as. DecodeString (dsse_Sig a) = Ok sb then Some v
                           else map_of S sb)"
    "\<forall>a\<in>set as. \<exists>sb. DecodeString (dsse_Sig a) = Ok sb"
    "distinct (map fst S) \<Longrightarrow> distinct (map fst S')"
    by blast+
qed

lemma accept_sigs_total:
  "(\<forall>a\<in>set as. \<exists>sb. DecodeString (dsse_Sig a) = Ok sb) \<Longrightarrow> \<exists>st'. accept_sigs v as st = Ok st'"
proof (induction as arbitrary: st)
  case Nil
  then show ?case by simp
next
  case (Cons a as)
  then obtain sb where "DecodeString (dsse_Sig a) = Ok sb" by auto
  with Cons show ?case by (cases st) simp
qed

text \<open>Who may be recorded for a raw signature: a verifier that accepted it.\<close>

definition vouches ::
    "(verifier_entry \<Rightarrow> dsse_Signature list result) \<Rightarrow> verifier_entry \<Rightarrow> bytes \<Rightarrow> bool" where
  "vouches acc p sb \<longleftrightarrow>
     (\<exists>accs a. acc p = Ok accs \<and> a \<in> set accs \<and> DecodeString (dsse_Sig a) = Ok sb)"

lemma verify_loop_sound:
  assumes "verify_loop acc ps (A, S) = Ok (A', S')"
  shows "A' \<subseteq> A"
    and "\<And>sb v. map_of S' sb = Some v \<Longrightarrow>
           map_of S sb = Some v \<or> (\<exists>p\<in>set ps. v = fst p \<and> vouches acc p sb)"
    and "\<And>s. s \<in> A - A' \<Longrightarrow> \<exists>sb. DecodeString s = Ok sb \<and> sb \<in> dom (map_of S')"
    and "distinct (map fst S) \<Longrightarrow> distinct (map fst S')"
    and "dom (map_of S) \<subseteq> dom (map_of S')"
proof -
  have "A' \<subseteq> A
    \<and> (\<forall>sb v. map_of S' sb = Some v \<longrightarrow>
           map_of S sb = Some v \<or> (\<exists>p\<in>set ps. v = fst p \<and> vouches acc p sb))
    \<and> (\<forall>s\<in>A - A'. \<exists>sb. DecodeString s = Ok sb \<and> sb \<in> dom (map_of S'))
    \<and> (distinct (map fst S) \<longrightarrow> distinct (map fst S'))
    \<and> dom (map_of S) \<subseteq> dom (map_of S')"
    using assms
  proof (induction ps arbitrary: A S)
    case Nil
    then show ?case by simp
  next
    case (Cons p ps)
    show ?case
    proof (cases "A = {}")
      case True
      with Cons.prems show ?thesis by simp
    next
      case False
      with Cons.prems obtain accs A1 S1 where a: "acc p = Ok accs"
          "accept_sigs (fst p) accs (A, S) = Ok (A1, S1)"
          "verify_loop acc ps (A1, S1) = Ok (A', S')"
        by (auto simp: go_bind_eq_Ok)
      note IH = Cons.IH [OF a(3)]
      note st = accept_sigs_spec [OF a(2)]
      have dom1: "dom (map_of S) \<subseteq> dom (map_of S1)"
        by (auto simp: st(2))
      have new: "\<exists>sb. DecodeString s = Ok sb \<and> sb \<in> dom (map_of S1)" if "s \<in> A - A1" for s
        using that st(1,3) by (fastforce simp: st(2))
      have rec: "map_of S1 sb = Some v \<Longrightarrow>
          map_of S sb = Some v \<or> v = fst p \<and> vouches acc p sb" for sb v
        using a(1) by (auto simp: st(2) vouches_def split: if_splits)
      have "A' \<subseteq> A" using IH st(1) by blast
      moreover have "\<forall>sb v. map_of S' sb = Some v \<longrightarrow>
          map_of S sb = Some v \<or> (\<exists>q\<in>set (p # ps). v = fst q \<and> vouches acc q sb)"
        using IH rec by (metis list.set_intros)
      moreover have "\<forall>s\<in>A - A'. \<exists>sb. DecodeString s = Ok sb \<and> sb \<in> dom (map_of S')"
        using IH new by (metis Diff_iff subsetD)
      moreover have "dom (map_of S) \<subseteq> dom (map_of S')" using IH dom1 by blast
      ultimately show ?thesis using IH st(4) by blast
    qed
  qed
  then show "A' \<subseteq> A"
    "\<And>sb v. map_of S' sb = Some v \<Longrightarrow>
           map_of S sb = Some v \<or> (\<exists>p\<in>set ps. v = fst p \<and> vouches acc p sb)"
    "\<And>s. s \<in> A - A' \<Longrightarrow> \<exists>sb. DecodeString s = Ok sb \<and> sb \<in> dom (map_of S')"
    "distinct (map fst S) \<Longrightarrow> distinct (map fst S')"
    "dom (map_of S) \<subseteq> dom (map_of S')"
    by blast+
qed

lemma canonical_sigs_sorted:
  assumes "range_order ord" "distinct (map fst S)"
  shows "canonical_sigs ord S =
    map (\<lambda>s. Some \<lparr>Signature_Content = s,
                   Signature_Verifier = (case map_of S s of Some v \<Rightarrow> v | None \<Rightarrow> None)\<rparr>)
      (sorted_list_of_set (dom (map_of S)))"
proof -
  have "sort (ord (map fst S)) = sorted_list_of_set (set (map fst S))"
    unfolding sort_range_order [OF assms(1)] sorted_list_of_set_sort_remdups
    using assms(2) by (simp add: distinct_remdups_id)
  then show ?thesis
    by (simp add: canonical_sigs_def dom_map_of_conv_image_fst)
qed

section \<open>Soundness of an accepted request\<close>

text \<open>
  What the DSSE library documents of \<open>Verify\<close>: the signatures it accepts are signatures of the
  envelope.
\<close>

definition accepts_envelope_sigs ::
    "(message_verifier \<Rightarrow> envelope_verifier result) \<Rightarrow> bool" where
  "accepts_envelope_sigs nev \<longleftrightarrow>
     (\<forall>mv ev env accs. nev mv = Ok ev \<longrightarrow> ev env = Ok accs \<longrightarrow>
        set accs \<subseteq> set (dsse_Signatures env))"

definition valid_orders :: "map_orders \<Rightarrow> bool" where
  "valid_orders ords \<longleftrightarrow>
     range_order (ord_check ords) \<and> range_order (ord_verify ords) \<and> range_order (ord_sigs ords)"

lemma accepted_by_sigs:
  assumes "accepts_envelope_sigs nev" "accepted_by ss nev (lib_env env) p = Ok accs" "a \<in> set accs"
  shows "\<exists>r\<in>set (raw_sigs env). dsse_Sig a = EncodeToString r"
proof -
  have "a \<in> set (dsse_Signatures (lib_env env))"
    using assms unfolding accepts_envelope_sigs_def
    by (fastforce simp: accepted_by_def go_bind_eq_Ok Let_def)
  then have "dsse_Sig a \<in> set (map dsse_Sig (dsse_Signatures (lib_env env)))" by simp
  then show ?thesis unfolding lib_env_sigs by auto
qed

lemma vouches_raw:
  assumes "accepts_envelope_sigs nev" "vouches (accepted_by ss nev (lib_env env)) p sb"
  shows "sb \<in> set (raw_sigs env)"
proof -
  obtain accs a where "accepted_by ss nev (lib_env env) p = Ok accs" "a \<in> set accs"
      "DecodeString (dsse_Sig a) = Ok sb"
    using assms(2) by (auto simp: vouches_def)
  then show ?thesis
    using accepted_by_sigs [OF assms(1)] by (metis DecodeString_EncodeToString result.inject(1))
qed

lemma dsse_ToLogEntry_parts:
  assumes "dsse_ToLogEntry x ss nev ords reg (Some ds) = Ok e"
  obtains env vs S where "DSSERequest_Envelope ds = Some env"
    and "dsse_validate (Some ds) = Ok ()" and "extractVerifiers x (Some ds) = Ok vs"
    and "for_each (check_algorithm ss reg) (ord_check ords vs) = Ok ()"
    and "verify_loop (accepted_by ss nev (lib_env env)) (ord_verify ords vs)
           (set (map EncodeToString (raw_sigs env)), []) = Ok ({}, S)"
    and "e = dsse_entry (pbdsse_Payload env) (canonical_sigs (ord_sigs ords) S)"
proof -
  from assms have v: "dsse_validate (Some ds) = Ok ()"
    by (auto simp: dsse_ToLogEntry_def go_bind_eq_Ok)
  then obtain env where env: "DSSERequest_Envelope ds = Some env"
      "\<forall>s\<in>set (pbdsse_Signatures env). s \<noteq> None"
    unfolding dsse_validate_Ok by (metis option.distinct(1))
  from assms v env obtain vs S where r: "extractVerifiers x (Some ds) = Ok vs"
      "verifyEnvelopeAndSupportedAlgs ss nev ords vs (Some env) reg = Ok S"
      "e = dsse_entry (pbdsse_Payload env) (canonical_sigs (ord_sigs ords) S)"
    by (auto simp: dsse_ToLogEntry_def go_bind_eq_Ok)
  from r(2) env(2) have
    "for_each (check_algorithm ss reg) (ord_check ords vs) = Ok ()"
    "verify_loop (accepted_by ss nev (lib_env env)) (ord_verify ords vs)
           (set (map EncodeToString (raw_sigs env)), []) = Ok ({}, S)"
    by (auto simp: verifyEnvelopeAndSupportedAlgs_def go_bind_eq_Ok FromProto_valid lib_env_sigs
        simp del: set_map split: if_splits)
  with that v env(1) r show ?thesis by blast
qed

lemma loop_result_dom:
  assumes "accepts_envelope_sigs nev"
    and "verify_loop (accepted_by ss nev (lib_env env)) ps
           (set (map EncodeToString (raw_sigs env)), []) = Ok ({}, S)"
  shows "dom (map_of S) = set (raw_sigs env)" and "distinct (map fst S)"
    and "\<And>sb v. map_of S sb = Some v \<Longrightarrow>
           \<exists>p\<in>set ps. v = fst p \<and> vouches (accepted_by ss nev (lib_env env)) p sb"
proof -
  note snd = verify_loop_sound [OF assms(2)]
  show rec: "\<exists>p\<in>set ps. v = fst p \<and> vouches (accepted_by ss nev (lib_env env)) p sb"
    if "map_of S sb = Some v" for sb v
    using snd(2) [OF that] by simp
  show "distinct (map fst S)" using snd(4) by simp
  show "dom (map_of S) = set (raw_sigs env)"
  proof
    show "dom (map_of S) \<subseteq> set (raw_sigs env)"
      using rec vouches_raw [OF assms(1)] by blast
    show "set (raw_sigs env) \<subseteq> dom (map_of S)"
    proof
      fix r assume "r \<in> set (raw_sigs env)"
      then obtain sb where "DecodeString (EncodeToString r) = Ok sb" "sb \<in> dom (map_of S)"
        using snd(3) [of "EncodeToString r"] by auto
      then show "r \<in> dom (map_of S)" by simp
    qed
  qed
qed


text \<open>
  C11. The algorithm policy covers every verifier of an accepted request, also those that no
  signature needed: each key parses, its declared algorithm is known, and the registry permits
  the key with that algorithm's digest.
\<close>

theorem dsse_ToLogEntry_policy:
  assumes "valid_orders ords" and "dsse_ToLogEntry x ss nev ords reg (Some ds) = Ok e"
    and "pv \<in> set (DSSERequest_Verifiers ds)"
  shows "\<exists>w v d. pv = Some w \<and> request_key x pv v
    \<and> ss_GetAlgorithmDetails ss (Verifier_KeyDetails w) = Ok d
    \<and> ss_IsAlgorithmPermitted ss reg (verifier_PublicKey v) (GetHashType d) = Ok True"
proof -
  obtain vs where v: "extractVerifiers x (Some ds) = Ok vs"
      "for_each (check_algorithm ss reg) (ord_check ords vs) = Ok ()"
    using dsse_ToLogEntry_parts [OF assms(2)] by metis
  then obtain q where q: "q \<in> set vs" "fst q = pv" "request_key x pv (snd q)"
    using assms(3) unfolding extractVerifiers_Ok
    by (metis (no_types, lifting) image_iff list.set_map)
  moreover have "check_algorithm ss reg q = Ok ()"
    using v(2) q(1) assms(1) by (simp add: for_each_Ok valid_orders_def)
  ultimately show ?thesis by (auto simp: check_algorithm_Ok)
qed

section \<open>Dependence on the order of map iteration\<close>

text \<open>
  The signatures, in the library's encoding, that a verifier accepts.  A request is unambiguous
  when every verifier accepts some signature of the envelope and no two verifiers accept the same
  one.
\<close>

definition sigs_of ::
    "(verifier_entry \<Rightarrow> dsse_Signature list result) \<Rightarrow> verifier_entry \<Rightarrow> string set" where
  "sigs_of acc p = (case acc p of Ok accs \<Rightarrow> dsse_Sig ` set accs | _ \<Rightarrow> {})"

definition unambiguous ::
    "(verifier_entry \<Rightarrow> dsse_Signature list result) \<Rightarrow> verifier_entry list \<Rightarrow> bool" where
  "unambiguous acc vs \<longleftrightarrow>
     (\<forall>p\<in>set vs. \<exists>accs. acc p = Ok accs \<and> accs \<noteq> [])
     \<and> (\<forall>p\<in>set vs. \<forall>q\<in>set vs. p \<noteq> q \<longrightarrow> sigs_of acc p \<inter> sigs_of acc q = {})"

lemma verify_loop_unambiguous:
  assumes "\<And>p. p \<in> set ps \<Longrightarrow> \<exists>accs. acc p = Ok accs \<and> accs \<noteq> []
             \<and> (\<forall>a\<in>set accs. \<exists>sb. DecodeString (dsse_Sig a) = Ok sb)"
    and "\<And>p. p \<in> set ps \<Longrightarrow> sigs_of acc p \<subseteq> A"
    and "\<And>p q. p \<in> set ps \<Longrightarrow> q \<in> set ps \<Longrightarrow> p \<noteq> q \<Longrightarrow> sigs_of acc p \<inter> sigs_of acc q = {}"
    and "distinct ps"
  shows "\<exists>S'. verify_loop acc ps (A, S) = Ok (A - (\<Union>p\<in>set ps. sigs_of acc p), S')"
  using assms
proof (induction ps arbitrary: A S)
  case Nil
  then show ?case by simp
next
  case (Cons p ps)
  obtain accs where a: "acc p = Ok accs" "accs \<noteq> []"
      "\<forall>a\<in>set accs. \<exists>sb. DecodeString (dsse_Sig a) = Ok sb"
    using Cons.prems(1) [of p] by auto
  then have sp: "sigs_of acc p = dsse_Sig ` set accs" "sigs_of acc p \<noteq> {}"
    by (auto simp: sigs_of_def)
  with Cons.prems(2) [of p] have ne: "A \<noteq> {}" by auto
  obtain A1 S1 where st: "accept_sigs (fst p) accs (A, S) = Ok (A1, S1)"
    using accept_sigs_total [OF a(3), of "fst p" "(A, S)"] by auto
  then have A1: "A1 = A - sigs_of acc p"
    using accept_sigs_spec(1) sp(1) by simp
  have "\<exists>S'. verify_loop acc ps (A1, S1) = Ok (A1 - (\<Union>p\<in>set ps. sigs_of acc p), S')"
  proof (rule Cons.IH)
    show "sigs_of acc q \<subseteq> A1" if "q \<in> set ps" for q
      using Cons.prems(2) [of q] Cons.prems(3) [of p q] Cons.prems(4) that
      unfolding A1 by fastforce
  qed (use Cons.prems in auto)
  then show ?case
    using ne a(1) st A1 by (auto simp: Diff_eq Int_assoc)
qed

lemma vouches_sigs_of:
  assumes "accepts_envelope_sigs nev" "vouches (accepted_by ss nev (lib_env env)) p sb"
  shows "EncodeToString sb \<in> sigs_of (accepted_by ss nev (lib_env env)) p"
proof -
  obtain accs a where a: "accepted_by ss nev (lib_env env) p = Ok accs" "a \<in> set accs"
      "DecodeString (dsse_Sig a) = Ok sb"
    using assms(2) by (auto simp: vouches_def)
  then have "dsse_Sig a = EncodeToString sb"
    using accepted_by_sigs [OF assms(1) a(1,2)] by auto
  then show ?thesis using a(1,2) by (simp add: sigs_of_def) (metis image_eqI)
qed

lemma same_recorded:
  assumes lib: "accepts_envelope_sigs nev"
    and un: "unambiguous (accepted_by ss nev (lib_env env)) vs"
    and S: "verify_loop (accepted_by ss nev (lib_env env)) ps
              (set (map EncodeToString (raw_sigs env)), []) = Ok ({}, S)"
    and S': "verify_loop (accepted_by ss nev (lib_env env)) ps'
              (set (map EncodeToString (raw_sigs env)), []) = Ok ({}, S')"
    and ps: "set ps = set vs" "set ps' = set vs"
  shows "map_of S = map_of S'"
proof (rule ext)
  fix sb
  note r1 = loop_result_dom [OF lib S] and r2 = loop_result_dom [OF lib S']
  show "map_of S sb = map_of S' sb"
  proof (cases "sb \<in> set (raw_sigs env)")
    case False
    then show ?thesis using r1(1) r2(1) by (metis domIff)
  next
    case True
    then obtain v w where vw: "map_of S sb = Some v" "map_of S' sb = Some w"
      using r1(1) r2(1) by blast
    obtain q where q: "q \<in> set vs" "v = fst q"
        "vouches (accepted_by ss nev (lib_env env)) q sb"
      using r1(3) [OF vw(1)] ps(1) by blast
    obtain q' where q': "q' \<in> set vs" "w = fst q'"
        "vouches (accepted_by ss nev (lib_env env)) q' sb"
      using r2(3) [OF vw(2)] ps(2) by blast
    have "q = q'"
      using un q(1) q'(1) vouches_sigs_of [OF lib q(3)] vouches_sigs_of [OF lib q'(3)]
      by (auto simp: unambiguous_def)
    then show ?thesis using vw q(2) q'(2) by simp
  qed
qed

text \<open>
  C32. For an unambiguous request the result does not depend on Go's map iteration order: if some
  order gives a log entry, every order gives the same entry.
\<close>

theorem dsse_order_independent:
  assumes lib: "accepts_envelope_sigs nev" and o1: "valid_orders ords" and o2: "valid_orders ords'"
    and env: "DSSERequest_Envelope ds = Some env"
    and vs: "extractVerifiers x (Some ds) = Ok vs"
    and un: "unambiguous (accepted_by ss nev (lib_env env)) vs"
    and ok: "dsse_ToLogEntry x ss nev ords reg (Some ds) = Ok e"
  shows "dsse_ToLogEntry x ss nev ords' reg (Some ds) = Ok e"
proof -
  let ?acc = "accepted_by ss nev (lib_env env)"
  let ?A = "set (map EncodeToString (raw_sigs env))"
  obtain S where p: "dsse_validate (Some ds) = Ok ()"
      "for_each (check_algorithm ss reg) (ord_check ords vs) = Ok ()"
      "verify_loop ?acc (ord_verify ords vs) (?A, []) = Ok ({}, S)"
      "e = dsse_entry (pbdsse_Payload env) (canonical_sigs (ord_sigs ords) S)"
    using dsse_ToLogEntry_parts [OF ok] env vs by (metis option.inject result.inject(1))
  have dvs: "distinct vs"
    using p(1) vs by (rule validated_distinct)
  have acc: "\<exists>accs. ?acc q = Ok accs \<and> accs \<noteq> [] \<and>
      (\<forall>a\<in>set accs. \<exists>sb. DecodeString (dsse_Sig a) = Ok sb)" if "q \<in> set vs" for q
    using un that accepted_by_sigs [OF lib] unfolding unambiguous_def
    by (metis DecodeString_EncodeToString)
  have sub: "sigs_of ?acc q \<subseteq> ?A" for q
    using accepted_by_sigs [OF lib] by (fastforce simp: sigs_of_def split: result.splits)
  have run: "\<exists>S'. verify_loop ?acc (ord_verify os vs) (?A, []) =
      Ok (?A - (\<Union>q\<in>set vs. sigs_of ?acc q), S')" if "valid_orders os" for os
    using verify_loop_unambiguous [of "ord_verify os vs" ?acc ?A "[]"] acc sub un dvs that
    by (auto simp: valid_orders_def unambiguous_def range_order_distinct)
  obtain S' where S': "verify_loop ?acc (ord_verify ords' vs) (?A, []) = Ok ({}, S')"
    using run [OF o1] run [OF o2] p(3) by auto
  note r1 = loop_result_dom [OF lib p(3)] and r2 = loop_result_dom [OF lib S']
  have "map_of S = map_of S'"
    by (rule same_recorded [OF lib un p(3) S']) (use o1 o2 in \<open>simp_all add: valid_orders_def\<close>)
  then have "canonical_sigs (ord_sigs ords) S = canonical_sigs (ord_sigs ords') S'"
    using canonical_sigs_sorted r1(2) r2(2) o1 o2 by (simp add: valid_orders_def)
  moreover have "for_each (check_algorithm ss reg) (ord_check ords' vs) = Ok ()"
    using p(2) o1 o2 by (simp add: for_each_Ok valid_orders_def)
  moreover have "FromProto (Some env) = Ok (lib_env env)"
    using p(1) env by (intro FromProto_valid) (auto simp: dsse_validate_Ok)
  ultimately show ?thesis
    using p(1,4) env vs S'
    by (simp add: dsse_ToLogEntry_def verifyEnvelopeAndSupportedAlgs_def lib_env_sigs
        del: set_map)
qed

section \<open>A concrete request\<close>

text \<open>
  An instance of the packages the code calls, for evaluation: a key is its own PKIX encoding, and
  a key's signature on any message is the key's bytes.  The envelope verifier keeps the signatures
  that decode and verify, and fails when there is none, as the DSSE library does for a threshold
  of one.
\<close>

definition demo_pki :: pki where
  "demo_pki =
     \<lparr>pki_ParsePKIXPublicKey = (\<lambda>b. Ok (Ed25519PublicKey b)),
      pki_ParseCertificate = (\<lambda>b. Err (ErrText ''x509: malformed certificate'')),
      pki_MarshalPublicKeyToDER = (\<lambda>k. Ok []),
      pki_MarshalPublicKeyToPEM = (\<lambda>k. Ok []),
      pki_MarshalCertificateToPEM = (\<lambda>c. Ok []),
      pki_MarshalPKIXPublicKey = (\<lambda>k. Ok [])\<rparr>"

definition demo_dsse_sigstore :: "PublicKeyDetails list sigstore" where
  "demo_dsse_sigstore = demo_sigstore \<lparr>ss_LoadVerifier :=
     (\<lambda>k h. Ok (\<lambda>sig msg. if k = Ed25519PublicKey sig then Ok ()
                          else Err (ErrText ''invalid signature'')))\<rparr>"

definition demo_verifies :: "message_verifier \<Rightarrow> dsse_Envelope \<Rightarrow> dsse_Signature \<Rightarrow> bool" where
  "demo_verifies mv env s =
     (case DecodeString (dsse_Sig s) of
        Ok b \<Rightarrow> mv b (dsse_Payload env) = Ok () | _ \<Rightarrow> False)"

definition demo_nev :: "message_verifier \<Rightarrow> envelope_verifier result" where
  "demo_nev mv = Ok (\<lambda>env.
     let accs = filter (demo_verifies mv env) (dsse_Signatures env) in
     if accs = [] then Err (ErrText ''accepted signatures do not match threshold'') else Ok accs)"

definition demo_orders :: "(verifier_entry list \<Rightarrow> verifier_entry list) \<Rightarrow> map_orders" where
  "demo_orders p = \<lparr>ord_check = id, ord_verify = p, ord_sigs = rev\<rparr>"

definition demo_key :: "bytes \<Rightarrow> pb_Verifier option" where
  "demo_key b = Some \<lparr>Verifier_Verifier = Some (Verifier_PublicKey (Some \<lparr>PublicKey_RawBytes = b\<rparr>)),
                      Verifier_KeyDetails = PKIX_ED25519\<rparr>"

definition demo_request :: "bytes list \<Rightarrow> bytes list \<Rightarrow> DSSERequestV002" where
  "demo_request ks ss =
     \<lparr>DSSERequest_Envelope = Some \<lparr>pbdsse_Payload = ''p'', pbdsse_PayloadType = ''t'',
        pbdsse_Signatures = map (\<lambda>s. Some \<lparr>pbdsse_Sig = s, pbdsse_Keyid = []\<rparr>) ss\<rparr>,
      DSSERequest_Verifiers = map demo_key ks\<rparr>"

definition demo_entry_sig :: "bytes \<Rightarrow> pb_Signature option" where
  "demo_entry_sig k = Some \<lparr>Signature_Content = k, Signature_Verifier = demo_key k\<rparr>"

lemma demo_nev_lib: "accepts_envelope_sigs demo_nev"
  by (auto simp: accepts_envelope_sigs_def demo_nev_def Let_def split: if_splits)

lemma demo_orders_valid: "range_order p \<Longrightarrow> valid_orders (demo_orders p)"
  by (simp add: valid_orders_def demo_orders_def)

lemma demo_extract:
  "extractVerifiers demo_pki (Some (demo_request ks ss)) =
     Ok (map (\<lambda>k. (demo_key k, PublicKeyVerifier (Ed25519PublicKey k))) ks)"
  by (auto simp: extractVerifiers_Ok demo_request_def comp_def demo_key_def demo_pki_def
      request_key_iff)

lemma demo_verifies_iff [simp]:
  "demo_verifies (\<lambda>sig msg. if Ed25519PublicKey k = Ed25519PublicKey sig then Ok () else Err e) env
      \<lparr>dsse_KeyID = i, dsse_Sig = EncodeToString s\<rparr> \<longleftrightarrow> s = k"
  "demo_verifies (\<lambda>sig msg. if k = sig then Ok () else Err e) env
      \<lparr>dsse_KeyID = i, dsse_Sig = EncodeToString s\<rparr> \<longleftrightarrow> s = k"
  by (auto simp: demo_verifies_def)

lemmas demo_defs = demo_request_def demo_key_def demo_dsse_sigstore_def demo_sigstore_def
  demo_nev_def demo_orders_def demo_entry_sig_def

lemmas demo_eval = dsse_ToLogEntry_def dsse_validate_def maxVerifiers_def maxSignatures_def
  verifier_Validate_def verifier_raw_def validate_signature_def extractVerifiers_def
  verifyEnvelopeAndSupportedAlgs_def check_algorithm_def CheckEntryAlgorithms_def FromProto_def
  accepted_by_def demo_defs EncodeToString_inj canonical_sigs_def Let_def publickey_PublicKey_def
  dsse_extractVerifier_def publickey_NewVerifier_def bytes_NewReader_def demo_pki_def


text \<open>One signature per key, the verifiers listed against the order of the signatures.\<close>

lemma demo_two_signatures:
  assumes "p = id \<or> p = rev"
  shows "dsse_ToLogEntry demo_pki demo_dsse_sigstore demo_nev (demo_orders p) [PKIX_ED25519]
     (Some (demo_request [''b'', ''a''] [''a'', ''b''])) =
   Ok (dsse_entry ''p'' [demo_entry_sig ''a'', demo_entry_sig ''b''])"
  using assms by (auto simp: demo_eval simp del: EncodeToString.simps)


theorem dsse_ToLogEntry_policy_witness:
  "\<exists>w v d. demo_key ''a'' = Some w \<and> request_key demo_pki (demo_key ''a'') v
    \<and> ss_GetAlgorithmDetails demo_dsse_sigstore (Verifier_KeyDetails w) = Ok d
    \<and> ss_IsAlgorithmPermitted demo_dsse_sigstore [PKIX_ED25519] (verifier_PublicKey v)
        (GetHashType d) = Ok True"
proof (rule dsse_ToLogEntry_policy [OF demo_orders_valid demo_two_signatures, of id])
  show "demo_key ''a'' \<in> set (DSSERequest_Verifiers (demo_request [''b'', ''a''] [''a'', ''b'']))"
    by (simp add: demo_request_def)
qed simp_all

theorem dsse_order_independent_witness:
  "dsse_ToLogEntry demo_pki demo_dsse_sigstore demo_nev (demo_orders rev) [PKIX_ED25519]
     (Some (demo_request [''b'', ''a''] [''a'', ''b''])) =
   Ok (dsse_entry ''p'' [demo_entry_sig ''a'', demo_entry_sig ''b''])"
proof -
  obtain env where env: "DSSERequest_Envelope (demo_request [''b'', ''a''] [''a'', ''b'']) = Some env"
    by (simp add: demo_request_def)
  have un: "unambiguous (accepted_by demo_dsse_sigstore demo_nev (lib_env env))
      [(demo_key ''b'', PublicKeyVerifier (Ed25519PublicKey ''b'')),
       (demo_key ''a'', PublicKeyVerifier (Ed25519PublicKey ''a''))]"
    using env by (auto simp: unambiguous_def sigs_of_def lib_env_def demo_eval
        simp del: EncodeToString.simps)
  show ?thesis
    using demo_extract [of "[''b'', ''a'']" "[''a'', ''b'']"]
    by (intro dsse_order_independent [OF demo_nev_lib demo_orders_valid demo_orders_valid env _ un
          demo_two_signatures, of id]) auto
qed

text \<open>
  C33. Without the hypothesis that every verifier accepts some signature the order matters: for one
  and the same request, with a verifier that signed nothing, one order of map iteration gives a
  log entry and another gives the error of the DSSE library.
\<close>

theorem dsse_order_matters:
  "\<exists>x ss nev ords ords' reg ds e. accepts_envelope_sigs nev \<and> valid_orders ords \<and> valid_orders ords'
    \<and> dsse_ToLogEntry x (ss :: PublicKeyDetails list sigstore) nev ords reg (Some ds) = Ok e
    \<and> dsse_ToLogEntry x ss nev ords' reg (Some ds) =
        Err (Wrap ''could not verify envelope''
          (ErrText ''accepted signatures do not match threshold''))"
proof (intro exI conjI)
  show "accepts_envelope_sigs demo_nev" by (rule demo_nev_lib)
  show "valid_orders (demo_orders id)" "valid_orders (demo_orders rev)"
    by (simp_all add: demo_orders_valid)
  show "dsse_ToLogEntry demo_pki demo_dsse_sigstore demo_nev (demo_orders id) [PKIX_ED25519]
      (Some (demo_request [''a'', ''b''] [''a''])) = Ok (dsse_entry ''p'' [demo_entry_sig ''a''])"
    "dsse_ToLogEntry demo_pki demo_dsse_sigstore demo_nev (demo_orders rev) [PKIX_ED25519]
      (Some (demo_request [''a'', ''b''] [''a''])) =
        Err (Wrap ''could not verify envelope''
          (ErrText ''accepted signatures do not match threshold''))"
    by (simp_all add: demo_eval del: EncodeToString.simps)
qed

section \<open>The interface of an entry type\<close>

interpretation ds: log_entry_type "dsse_ToLogEntry x ss nev ords reg" "''dsse''"
  "\<lambda>s. \<exists>d. Spec_Spec s = Some (Spec_DsseV002 (Some d))" for x ss nev ords reg
  by unfold_locales
     (auto simp: dsse_ToLogEntry_def dsse_validate_def dsse_entry_def go_bind_eq_Ok Let_def
       split: if_splits)

end
