(* ===== verification/SafeInt.thy ===== *)
theory SafeInt
  imports Go_Errors
begin

text \<open>
  \<open>internal/safeint\<close>: a number held as \<open>uint64\<close> and as \<open>int64\<close>.  Both fields are
  64-bit words; the signed one is read with \<open>sint\<close>.  The Go conversions \<open>int64(n)\<close> and
  \<open>uint64(n)\<close> keep the bits, so they are the identity on words.
\<close>

record SafeInt64 =
  safe_u :: uint64
  safe_i :: int64

text \<open>The dynamic types of the argument of \<open>NewSafeInt64(number any)\<close>.\<close>

datatype any_number =
    AnyUint64 uint64
  | AnyInt64 int64
  | AnyOther

fun NewSafeInt64 :: "any_number \<Rightarrow> SafeInt64 result" where
  "NewSafeInt64 (AnyUint64 n) =
     (if n > 0x7fffffffffffffff
      then Err (ErrText (''exceeded max int64: '' @ FormatUint (unat n)))
      else Ok \<lparr>safe_u = n, safe_i = n\<rparr>)"
| "NewSafeInt64 (AnyInt64 n) =
     (if sint n < 0
      then Err (ErrText (''negative integer: '' @ Itoa (sint n)))
      else Ok \<lparr>safe_u = n, safe_i = n\<rparr>)"
| "NewSafeInt64 AnyOther = Err (ErrText ''only uint64 and int64 are supported'')"

definition SafeInt64_U :: "SafeInt64 \<Rightarrow> uint64" where
  "SafeInt64_U s = safe_u s"

definition SafeInt64_I :: "SafeInt64 \<Rightarrow> int64" where
  "SafeInt64_I s = safe_i s"

text \<open>The invariant of the type: both readings are the same number.\<close>

definition safe_int_inv :: "SafeInt64 \<Rightarrow> bool" where
  "safe_int_inv s \<longleftrightarrow> sint (SafeInt64_I s) = uint (SafeInt64_U s)"

fun any_value :: "any_number \<Rightarrow> int option" where
  "any_value (AnyUint64 n) = Some (uint n)"
| "any_value (AnyInt64 n) = Some (sint n)"
| "any_value AnyOther = None"

lemma uint64_le_max_iff: "\<not> n > (0x7fffffffffffffff :: uint64) \<longleftrightarrow> uint n < 2 ^ 63"
  by (simp add: word_le_def not_less) linarith

lemma sint_nonneg_uint:
  fixes n :: int64
  assumes "0 \<le> sint n"
  shows "uint n < 2 ^ 63" and "sint n = uint n"
proof -
  have s: "sint n = signed_take_bit 63 (uint n)" by (simp add: sint_uint)
  have u: "0 \<le> uint n" "uint n < 2 ^ 64" using uint_lt2p [of n] by simp_all
  show "uint n < 2 ^ 63"
  proof (rule ccontr)
    assume "\<not> uint n < 2 ^ 63"
    with u have "uint n div 2 ^ 63 = 1"
      by (intro int_div_pos_eq [where r = "uint n - 2 ^ 63"]) auto
    then have "bit (uint n) 63"
      by (simp add: bit_iff_odd)
    then have "signed_take_bit 63 (uint n) < 0"
      by (simp add: signed_take_bit_negative_iff)
    with s assms show False by simp
  qed
  then show "sint n = uint n" by (rule msb_clear_sint_eq_uint)
qed

lemma NewSafeInt64_uint_Ok [go_result]:
  "NewSafeInt64 (AnyUint64 n) = Ok s \<longleftrightarrow> uint n < 2 ^ 63 \<and> s = \<lparr>safe_u = n, safe_i = n\<rparr>"
  unfolding uint64_le_max_iff [symmetric] by auto

lemma NewSafeInt64_int_Ok [go_result]:
  "NewSafeInt64 (AnyInt64 n) = Ok s \<longleftrightarrow> 0 \<le> sint n \<and> s = \<lparr>safe_u = n, safe_i = n\<rparr>"
  by auto

lemma NewSafeInt64_not_Panic [simp]: "NewSafeInt64 a \<noteq> Panic"
  by (cases a) auto

declare NewSafeInt64.simps(1,2) [simp del]

text \<open>
  C31. \<open>NewSafeInt64\<close> succeeds exactly on the numbers that both types can hold, from 0 to
  \<open>MaxInt64\<close>, and then both fields, each read in its own type, are that number.
\<close>

theorem NewSafeInt64_exact:
  "(case NewSafeInt64 a of
      Ok s \<Rightarrow> any_value a = Some (uint (SafeInt64_U s)) \<and> safe_int_inv s
              \<and> uint (SafeInt64_U s) < 2 ^ 63
    | Err e \<Rightarrow> (case any_value a of None \<Rightarrow> True | Some v \<Rightarrow> v < 0 \<or> 2 ^ 63 \<le> v)
    | Panic \<Rightarrow> False)"
proof (cases a)
  case (AnyUint64 n)
  then show ?thesis
    using msb_clear_sint_eq_uint [of n] uint64_le_max_iff [of n]
    by (auto simp: NewSafeInt64.simps safe_int_inv_def SafeInt64_U_def SafeInt64_I_def not_less)
next
  case (AnyInt64 n)
  then show ?thesis
    using sint_nonneg_uint [of n]
    by (simp add: NewSafeInt64.simps safe_int_inv_def SafeInt64_U_def SafeInt64_I_def)
qed simp

end
