(* ===== verification/Go_Utf8.thy ===== *)
theory Go_Utf8
  imports Go_Strings
begin

text \<open>
  What the sources use of Go's \<open>unicode/utf8\<close> and \<open>unicode\<close> packages: decoding of one
  rune with the accept ranges of the second byte, \<open>utf8.ValidString\<close>, the runes that
  \<open>range\<close> over a string visits, and \<open>unicode.IsSpace\<close>.  The decoder is shown to be the
  inverse of the encoding of Unicode scalar values.
\<close>

section \<open>Decoding\<close>

definition RuneError :: nat where "RuneError = 65533"

definition cont :: "nat \<Rightarrow> bool" where
  "cont b \<longleftrightarrow> 128 \<le> b \<and> b \<le> 191"

text \<open>The accept range of the byte after a leading byte.\<close>

definition accept_lo :: "nat \<Rightarrow> nat" where
  "accept_lo b0 = (if b0 = 224 then 160 else if b0 = 240 then 144 else 128)"

definition accept_hi :: "nat \<Rightarrow> nat" where
  "accept_hi b0 = (if b0 = 237 then 159 else if b0 = 244 then 143 else 191)"

definition accept :: "nat \<Rightarrow> nat \<Rightarrow> bool" where
  "accept b0 b1 \<longleftrightarrow> accept_lo b0 \<le> b1 \<and> b1 \<le> accept_hi b0"

text \<open>The rune at the head of a non-empty byte sequence, and its width in bytes.\<close>

fun decode_rune :: "nat list \<Rightarrow> nat \<times> nat" where
  "decode_rune [] = (RuneError, 0)"
| "decode_rune (b0 # bs) =
     (if b0 < 128 then (b0, 1)
      else if b0 < 194 \<or> 244 < b0 then (RuneError, 1)
      else if b0 < 224 then
        (case bs of
           b1 # _ \<Rightarrow> (if accept b0 b1 then ((b0 mod 32) * 64 + b1 mod 64, 2) else (RuneError, 1))
         | _ \<Rightarrow> (RuneError, 1))
      else if b0 < 240 then
        (case bs of
           b1 # b2 # _ \<Rightarrow>
             (if accept b0 b1 \<and> cont b2
              then ((b0 mod 16) * 4096 + (b1 mod 64) * 64 + b2 mod 64, 3) else (RuneError, 1))
         | _ \<Rightarrow> (RuneError, 1))
      else
        (case bs of
           b1 # b2 # b3 # _ \<Rightarrow>
             (if accept b0 b1 \<and> cont b2 \<and> cont b3
              then ((b0 mod 8) * 262144 + (b1 mod 64) * 4096 + (b2 mod 64) * 64 + b3 mod 64, 4)
              else (RuneError, 1))
         | _ \<Rightarrow> (RuneError, 1)))"

lemma decode_rune_width: "bs \<noteq> [] \<Longrightarrow> 0 < snd (decode_rune bs)"
  by (cases bs) (auto split: list.splits)

text \<open>The runes a \<open>range\<close> loop visits, each with its width.\<close>

function runes :: "nat list \<Rightarrow> (nat \<times> nat) list" where
  "runes bs = (if bs = [] then [] else decode_rune bs # runes (drop (snd (decode_rune bs)) bs))"
  by auto
termination
  by (relation "measure length") (auto simp: decode_rune_width)

declare runes.simps [simp del]

definition string_bytes :: "string \<Rightarrow> nat list" where
  "string_bytes s = map of_char s"

text \<open>
  \<open>utf8.ValidString\<close>: an invalid byte shows as the error rune with width 1 (the encoded
  U+FFFD has width 3).
\<close>

definition ValidString :: "string \<Rightarrow> bool" where
  "ValidString s \<longleftrightarrow> list_all (\<lambda>(r, n). \<not> (r = RuneError \<and> n = 1)) (runes (string_bytes s))"

definition IsSpace :: "nat \<Rightarrow> bool" where
  "IsSpace r \<longleftrightarrow>
     (if r \<le> 255 then r \<in> {9, 10, 11, 12, 13, 32, 133, 160}
      else r = 5760 \<or> 8192 \<le> r \<and> r \<le> 8202 \<or> r = 8232 \<or> r = 8233 \<or> r = 8239 \<or> r = 8287
           \<or> r = 12288)"

text \<open>\<open>strings.IndexFunc(s, unicode.IsSpace) >= 0\<close>.\<close>

definition has_space :: "string \<Rightarrow> bool" where
  "has_space s \<longleftrightarrow> list_ex (\<lambda>(r, n). IsSpace r) (runes (string_bytes s))"

section \<open>Encoding\<close>

definition scalar_value :: "nat \<Rightarrow> bool" where
  "scalar_value r \<longleftrightarrow> r < 55296 \<or> 57344 \<le> r \<and> r < 1114112"

definition encode_rune :: "nat \<Rightarrow> nat list" where
  "encode_rune r =
     (if r < 128 then [r]
      else if r < 2048 then [192 + r div 64, 128 + r mod 64]
      else if r < 65536 then [224 + r div 4096, 128 + r div 64 mod 64, 128 + r mod 64]
      else [240 + r div 262144, 128 + r div 4096 mod 64, 128 + r div 64 mod 64,
            128 + r mod 64])"

lemma mod_offset: "(m::nat) dvd k \<Longrightarrow> x < m \<Longrightarrow> (k + x) mod m = x"
  by (auto elim!: dvdE)

lemma decode_rune_cases:
  "194 \<le> b0 \<Longrightarrow> b0 < 224 \<Longrightarrow> accept b0 b1 \<Longrightarrow>
     decode_rune (b0 # b1 # bs) = (b0 mod 32 * 64 + b1 mod 64, 2)"
  "224 \<le> b0 \<Longrightarrow> b0 < 240 \<Longrightarrow> accept b0 b1 \<Longrightarrow> cont b2 \<Longrightarrow>
     decode_rune (b0 # b1 # b2 # bs) = (b0 mod 16 * 4096 + b1 mod 64 * 64 + b2 mod 64, 3)"
  "240 \<le> b0 \<Longrightarrow> b0 < 245 \<Longrightarrow> accept b0 b1 \<Longrightarrow> cont b2 \<Longrightarrow> cont b3 \<Longrightarrow>
     decode_rune (b0 # b1 # b2 # b3 # bs) =
       (b0 mod 8 * 262144 + b1 mod 64 * 4096 + b2 mod 64 * 64 + b3 mod 64, 4)"
  by simp_all

lemma cont_offset: "c < 64 \<Longrightarrow> cont (128 + c)"
  by (simp add: cont_def)

lemma accept_offset:
  "b < 64 \<Longrightarrow> a < 32 \<Longrightarrow> accept (192 + a) (128 + b)"
  "b < 64 \<Longrightarrow> a < 16 \<Longrightarrow> (a = 0 \<Longrightarrow> 32 \<le> b) \<Longrightarrow> (a = 13 \<Longrightarrow> b < 32) \<Longrightarrow>
     accept (224 + a) (128 + b)"
  "b < 64 \<Longrightarrow> a < 5 \<Longrightarrow> (a = 0 \<Longrightarrow> 16 \<le> b) \<Longrightarrow> (a = 4 \<Longrightarrow> b < 16) \<Longrightarrow>
     accept (240 + a) (128 + b)"
  by (auto simp: accept_def accept_lo_def accept_hi_def)

lemma two_bytes:
  assumes "2 \<le> a" "a < 32" "b < 64"
  shows "decode_rune ((192 + a) # (128 + b) # bs) = (a * 64 + b, 2)"
  using decode_rune_cases(1) [OF _ _ accept_offset(1) [OF assms(3,2)], of bs] assms(1,2)
    mod_offset [of 32 192 a, OF _ assms(2)] mod_offset [of 64 128 b, OF _ assms(3)]
  by (simp del: decode_rune.simps)

lemma three_bytes:
  assumes "a < 16" "b < 64" "c < 64" "a = 0 \<Longrightarrow> 32 \<le> b" "a = 13 \<Longrightarrow> b < 32"
  shows "decode_rune ((224 + a) # (128 + b) # (128 + c) # bs) = (a * 4096 + b * 64 + c, 3)"
  using decode_rune_cases(2) [OF _ _ accept_offset(2) [OF assms(2,1)] cont_offset [OF assms(3)],
      of bs] assms(1,4,5) mod_offset [of 16 224 a, OF _ assms(1)]
    mod_offset [of 64 128 b, OF _ assms(2)] mod_offset [of 64 128 c, OF _ assms(3)]
  by (simp del: decode_rune.simps)

lemma four_bytes:
  assumes "a < 5" "b < 64" "c < 64" "d < 64" "a = 0 \<Longrightarrow> 16 \<le> b" "a = 4 \<Longrightarrow> b < 16"
  shows "decode_rune ((240 + a) # (128 + b) # (128 + c) # (128 + d) # bs) =
    (a * 262144 + b * 4096 + c * 64 + d, 4)"
  using decode_rune_cases(3) [OF _ _ accept_offset(3) [OF assms(2,1)] cont_offset [OF assms(3)]
      cont_offset [OF assms(4)], of bs] assms(1,5,6) mod_offset [of 8 240 a]
    mod_offset [of 64 128 b, OF _ assms(2)] mod_offset [of 64 128 c, OF _ assms(3)]
    mod_offset [of 64 128 d, OF _ assms(4)]
  by (simp del: decode_rune.simps)

lemma split_rune:
  fixes r :: nat
  shows "r = r div 64 * 64 + r mod 64"
    and "r div 64 = r div 4096 * 64 + r div 64 mod 64"
    and "r div 4096 = r div 262144 * 64 + r div 4096 mod 64"
proof -
  show "r = r div 64 * 64 + r mod 64" by simp
  have "r div 4096 = r div 64 div 64" "r div 262144 = r div 4096 div 64"
    by (simp_all flip: div_mult2_eq)
  then show "r div 64 = r div 4096 * 64 + r div 64 mod 64"
    "r div 4096 = r div 262144 * 64 + r div 4096 mod 64" by simp_all
qed

lemma decode_encode:
  assumes "scalar_value r"
  shows "decode_rune (encode_rune r @ bs) = (r, length (encode_rune r))"
proof -
  note s = split_rune [of r]
  have m: "r mod 64 < 64" "r div 64 mod 64 < 64" "r div 4096 mod 64 < 64" by simp_all
  consider "r < 128" | "128 \<le> r" "r < 2048" | "2048 \<le> r" "r < 65536" | "65536 \<le> r" by linarith
  then show ?thesis
  proof cases
    case 1
    then show ?thesis by (simp add: encode_rune_def)
  next
    case 2
    have "decode_rune ((192 + r div 64) # (128 + r mod 64) # bs) = (r div 64 * 64 + r mod 64, 2)"
      using 2 s m by (intro two_bytes) linarith+
    then show ?thesis using 2 s by (simp add: encode_rune_def del: decode_rune.simps)
  next
    case 3
    have "decode_rune ((224 + r div 4096) # (128 + r div 64 mod 64) # (128 + r mod 64) # bs) =
        (r div 4096 * 4096 + r div 64 mod 64 * 64 + r mod 64, 3)"
      using 3 s m assms unfolding scalar_value_def by (intro three_bytes) linarith+
    moreover have "r div 4096 * 4096 + r div 64 mod 64 * 64 + r mod 64 = r"
      using s by linarith
    ultimately show ?thesis using 3 by (simp add: encode_rune_def del: decode_rune.simps)
  next
    case 4
    have "decode_rune ((240 + r div 262144) # (128 + r div 4096 mod 64)
          # (128 + r div 64 mod 64) # (128 + r mod 64) # bs) =
        (r div 262144 * 262144 + r div 4096 mod 64 * 4096 + r div 64 mod 64 * 64 + r mod 64, 4)"
      using 4 s m assms unfolding scalar_value_def by (intro four_bytes) linarith+
    moreover have "r div 262144 * 262144 + r div 4096 mod 64 * 4096 + r div 64 mod 64 * 64 + r mod 64 = r"
      using s by linarith
    ultimately show ?thesis using 4 by (simp add: encode_rune_def del: decode_rune.simps)
  qed
qed

lemma div_mod_parts:
  fixes a b m :: nat
  assumes "b < m"
  shows "(a * m + b) div m = a" and "(a * m + b) mod m = b"
  using assms by simp_all

lemma encode_two: "2 \<le> a \<Longrightarrow> a < 32 \<Longrightarrow> b < 64 \<Longrightarrow> encode_rune (a * 64 + b) = [192 + a, 128 + b]"
  by (simp add: encode_rune_def)

lemma encode_three:
  assumes "a < 16" "b < 64" "c < 64" "a = 0 \<Longrightarrow> 32 \<le> b"
  shows "encode_rune (a * 4096 + b * 64 + c) = [224 + a, 128 + b, 128 + c]"
proof -
  let ?r = "a * 4096 + b * 64 + c"
  have r: "?r = (a * 64 + b) * 64 + c" by simp
  have q: "?r div 64 = a * 64 + b" "?r mod 64 = c"
    unfolding r by (rule div_mod_parts [OF assms(3)])+
  have "?r div 4096 = ?r div 64 div 64" by (simp flip: div_mult2_eq)
  then have "?r div 4096 = a" "?r div 64 mod 64 = b"
    unfolding q using div_mod_parts [OF assms(2)] by simp_all
  moreover have "2048 \<le> ?r" "?r < 65536" using assms by (cases "a = 0"; linarith)+
  ultimately show ?thesis using q(2) by (simp add: encode_rune_def)
qed

lemma encode_four:
  assumes "a < 5" "b < 64" "c < 64" "d < 64" "a = 0 \<Longrightarrow> 16 \<le> b"
  shows "encode_rune (a * 262144 + b * 4096 + c * 64 + d) = [240 + a, 128 + b, 128 + c, 128 + d]"
proof -
  let ?r = "a * 262144 + b * 4096 + c * 64 + d"
  have r: "?r = ((a * 64 + b) * 64 + c) * 64 + d" by simp
  have q: "?r div 64 = (a * 64 + b) * 64 + c" "?r mod 64 = d"
    unfolding r by (rule div_mod_parts [OF assms(4)])+
  have "?r div 4096 = ?r div 64 div 64" "?r div 262144 = ?r div 64 div 64 div 64"
    by (simp_all flip: div_mult2_eq)
  then have "?r div 262144 = a" "?r div 4096 mod 64 = b" "?r div 64 mod 64 = c"
    unfolding q by (simp_all only: div_mod_parts [OF assms(2)] div_mod_parts [OF assms(3)])
  moreover have "65536 \<le> ?r" using assms by (cases "a = 0"; linarith)
  ultimately show ?thesis using q(2) by (simp add: encode_rune_def)
qed

lemma scalar_three:
  assumes "a < 16" "b < 64" "c < 64" "a = 13 \<Longrightarrow> b < 32"
  shows "scalar_value (a * 4096 + b * 64 + c)"
proof -
  consider "a < 13" | "a = 13" | "13 < a" by linarith
  then show ?thesis unfolding scalar_value_def using assms by cases linarith+
qed

lemma scalar_four:
  assumes "a < 5" "b < 64" "c < 64" "d < 64" "a = 0 \<Longrightarrow> 16 \<le> b" "a = 4 \<Longrightarrow> b < 16"
  shows "scalar_value (a * 262144 + b * 4096 + c * 64 + d)"
proof -
  have "65536 \<le> a * 262144 + b * 4096" using assms(1,5) by (cases "a = 0") linarith+
  moreover have "a * 262144 + b * 4096 + 4096 \<le> 1114112"
  proof (cases "a = 4")
    case True
    then show ?thesis using assms(6) by linarith
  next
    case False
    then have "a \<le> 3" using assms(1) by linarith
    then show ?thesis using assms(2) by linarith
  qed
  ultimately show ?thesis unfolding scalar_value_def using assms(3,4) by linarith
qed

lemma byte_offset:
  fixes b k m :: nat
  assumes "k \<le> b" "b < k + m" "m dvd k"
  shows "b = k + b mod m" and "b mod m = b - k" and "b mod m < m"
proof -
  have "(k + (b - k)) mod m = b - k"
    using assms by (intro mod_offset) auto
  then show m: "b mod m = b - k" using assms by simp
  show "b = k + b mod m" unfolding m using assms by simp
  show "b mod m < m" unfolding m using assms by simp
qed

lemma accept_bounds:
  assumes "accept b0 b1"
  shows "128 \<le> b1" "b1 < 192" "b0 = 224 \<Longrightarrow> 160 \<le> b1" "b0 = 237 \<Longrightarrow> b1 < 160"
    "b0 = 240 \<Longrightarrow> 144 \<le> b1" "b0 = 244 \<Longrightarrow> b1 < 144"
  using assms by (auto simp: accept_def accept_lo_def accept_hi_def split: if_splits)

lemma tail_byte:
  fixes b :: nat
  assumes "128 \<le> b" "b < 192"
  shows "b = 128 + b mod 64" "b mod 64 < 64" "b mod 64 = b - 128"
  by ((rule byte_offset [where k = 128]; use assms in simp)+)

lemma cont_bounds: "cont b \<Longrightarrow> 128 \<le> b" "cont b \<Longrightarrow> b < 192"
  by (simp_all add: cont_def)

lemmas cont_tail = tail_byte [OF cont_bounds]

lemma encode_decode:
  assumes "decode_rune bs = (r, n)" "bs \<noteq> []" "\<not> (r = RuneError \<and> n = 1)"
  shows "scalar_value r \<and> bs = encode_rune r @ drop n bs"
proof -
  obtain b0 t where bs: "bs = b0 # t" using assms(2) by (cases bs) auto
  consider "b0 < 128"
    | b1 u where "t = b1 # u" "194 \<le> b0" "b0 < 224" "accept b0 b1"
    | b1 b2 u where "t = b1 # b2 # u" "224 \<le> b0" "b0 < 240" "accept b0 b1" "cont b2"
    | b1 b2 b3 u where "t = b1 # b2 # b3 # u" "240 \<le> b0" "b0 < 245" "accept b0 b1" "cont b2" "cont b3"
    using assms unfolding bs
    by (auto split: if_splits list.splits simp: not_less)
  then show ?thesis
  proof cases
    case 1
    then show ?thesis using assms bs by (auto simp: encode_rune_def scalar_value_def)
  next
    case 2
    note a = accept_bounds [OF 2(4)]
    have h: "b0 = 192 + b0 mod 32" "b0 mod 32 = b0 - 192"
      by (rule byte_offset; use 2(2,3) in simp)+
    note o = h tail_byte [OF a(1,2)]
    have r: "r = b0 mod 32 * 64 + b1 mod 64" "n = 2"
      using assms(1) decode_rune_cases(1) [OF 2(2,3,4), of u] unfolding bs 2(1) by simp_all
    have "encode_rune r = [b0, b1]"
      unfolding r using encode_two [of "b0 mod 32" "b1 mod 64"] o(2,4) 2(2,3)
      by (simp flip: o(1,3))
    moreover have "scalar_value r" unfolding r scalar_value_def using o(2,4) 2(3) by linarith
    ultimately show ?thesis using bs 2(1) r(2) by simp
  next
    case 3
    note a = accept_bounds [OF 3(4)]
    have h: "b0 = 224 + b0 mod 16" "b0 mod 16 = b0 - 224"
      by (rule byte_offset; use 3(2,3) in simp)+
    note o = h tail_byte [OF a(1,2)] cont_tail [OF 3(5,5)]
    have r: "r = b0 mod 16 * 4096 + b1 mod 64 * 64 + b2 mod 64" "n = 3"
      using assms(1) decode_rune_cases(2) [OF 3(2,3,4,5), of u] unfolding bs 3(1) by simp_all
    have "encode_rune r = [224 + b0 mod 16, 128 + b1 mod 64, 128 + b2 mod 64]"
      unfolding r using o 3(2,3) a(3) by (intro encode_three) linarith+
    then have "encode_rune r = [b0, b1, b2]" by (simp only: o(1,3,6) [symmetric])
    moreover have "scalar_value r"
      unfolding r using o(2,4,5,7) 3(2,3) a(2,4) by (intro scalar_three) linarith+
    ultimately show ?thesis using bs 3(1) r(2) by simp
  next
    case 4
    note a = accept_bounds [OF 4(4)]
    have h: "b0 = 240 + b0 mod 8" "b0 mod 8 = b0 - 240"
      by (rule byte_offset; use 4(2,3) in simp)+
    note o = h tail_byte [OF a(1,2)] cont_tail [OF 4(5,5)] cont_tail [OF 4(6,6)]
    have r: "r = b0 mod 8 * 262144 + b1 mod 64 * 4096 + b2 mod 64 * 64 + b3 mod 64" "n = 4"
      using assms(1) decode_rune_cases(3) [OF 4(2-6), of u] unfolding bs 4(1) by simp_all
    have "encode_rune r = [240 + b0 mod 8, 128 + b1 mod 64, 128 + b2 mod 64, 128 + b3 mod 64]"
      unfolding r using o 4(2,3) a(5) by (intro encode_four) linarith+
    then have "encode_rune r = [b0, b1, b2, b3]" by (simp only: o(1,3,6,9) [symmetric])
    moreover have "scalar_value r"
      unfolding r using o(2,4,5,7,10) 4(2,3) a(5,6) by (intro scalar_four) linarith+
    ultimately show ?thesis using bs 4(1) r(2) by simp
  qed
qed

section \<open>Valid strings are the encodings of scalar values\<close>

lemma encode_rune_nonempty [simp]: "encode_rune r \<noteq> []"
  by (simp add: encode_rune_def)

lemma runes_encode:
  "list_all scalar_value rs \<Longrightarrow>
   runes (concat (map encode_rune rs)) = map (\<lambda>r. (r, length (encode_rune r))) rs"
proof (induction rs)
  case Nil
  then show ?case by (simp add: runes.simps)
next
  case (Cons r rs)
  then have "decode_rune (encode_rune r @ concat (map encode_rune rs)) = (r, length (encode_rune r))"
    by (intro decode_encode) simp
  then show ?case
    using Cons by (subst runes.simps) (simp del: decode_rune.simps)
qed

lemma valid_runes_encode:
  "list_all (\<lambda>(r, n). \<not> (r = RuneError \<and> n = 1)) (runes bs) \<Longrightarrow>
   \<exists>rs. list_all scalar_value rs \<and> bs = concat (map encode_rune rs)"
proof (induction bs rule: runes.induct)
  case (1 bs)
  show ?case
  proof (cases "bs = []")
    case True
    then show ?thesis by (intro exI [of _ "[]"]) simp
  next
    case False
    obtain r n where d: "decode_rune bs = (r, n)" by fastforce
    from 1(2) False d have v: "\<not> (r = RuneError \<and> n = 1)"
      "list_all (\<lambda>(r, n). \<not> (r = RuneError \<and> n = 1)) (runes (drop n bs))"
      by (subst (asm) runes.simps, simp)+
    obtain rs where "list_all scalar_value rs" "drop n bs = concat (map encode_rune rs)"
      using 1(1) [OF False] v(2) d by auto
    with encode_decode [OF d False v(1)] show ?thesis
      by (intro exI [of _ "r # rs"]) auto
  qed
qed

lemma error_rune_width: "length (encode_rune RuneError) = 3"
  by (simp add: encode_rune_def RuneError_def)

theorem ValidString_iff:
  "ValidString s \<longleftrightarrow>
     (\<exists>rs. list_all scalar_value rs \<and> string_bytes s = concat (map encode_rune rs))"
proof
  show "ValidString s \<Longrightarrow>
      \<exists>rs. list_all scalar_value rs \<and> string_bytes s = concat (map encode_rune rs)"
    unfolding ValidString_def by (rule valid_runes_encode)
  assume "\<exists>rs. list_all scalar_value rs \<and> string_bytes s = concat (map encode_rune rs)"
  then obtain rs where "list_all scalar_value rs" "string_bytes s = concat (map encode_rune rs)"
    by blast
  then show "ValidString s"
    by (auto simp: ValidString_def runes_encode list_all_iff error_rune_width)
qed

lemma has_space_encode:
  "list_all scalar_value rs \<Longrightarrow> string_bytes s = concat (map encode_rune rs) \<Longrightarrow>
   has_space s \<longleftrightarrow> list_ex IsSpace rs"
  by (simp add: has_space_def runes_encode list_ex_iff)

end
