(* ===== verification/Note.thy ===== *)
theory Note
  imports Verifiers Go_Utf8
begin

text \<open>
  \<open>pkg/note\<close>: the adapter that turns a sigstore signer or verifier into a signer or verifier
  of signed notes.  The signer and verifier interfaces are records of their methods, the
  \<open>x509\<close> marshalling is a field of the record \<open>pki\<close>, and the digest is the SHA-256 of
  theory \<open>Go_SHA256\<close>.
\<close>

section \<open>The two adapters\<close>

record signer =
  signer_PublicKey :: "public_key result"
  signer_SignMessage :: "bytes \<Rightarrow> bytes result"

record sig_verifier =
  sigv_PublicKey :: "public_key result"
  sigv_VerifySignature :: "bytes \<Rightarrow> bytes \<Rightarrow> unit result"

record noteSigner =
  noteSigner_name :: string
  noteSigner_hash :: uint32
  noteSigner_sign :: "bytes \<Rightarrow> bytes result"

record noteVerifier =
  noteVerifier_name :: string
  noteVerifier_hash :: uint32
  noteVerifier_verify :: "bytes \<Rightarrow> bytes \<Rightarrow> bool result"

definition algEd25519 :: char where "algEd25519 = char_of (1 :: nat)"
definition algUndef :: char where "algUndef = char_of (255 :: nat)"
definition rsaID :: string where "rsaID = ''PKIX-RSA-PKCS#1v1.5''"

definition newline :: string where "newline = [char_of (10 :: nat)]"

definition isValidName :: "string \<Rightarrow> bool" where
  "isValidName name \<longleftrightarrow>
     name \<noteq> '''' \<and> ValidString name \<and> \<not> has_space name \<and> \<not> Contains name ''+''"

section \<open>Key hashes\<close>

text \<open>\<open>binary.BigEndian.Uint32\<close> of the first four bytes.\<close>

definition BigEndian_Uint32 :: "bytes \<Rightarrow> uint32" where
  "BigEndian_Uint32 b = word_of_nat (foldl (\<lambda>n c. 256 * n + of_char c) 0 (take 4 b))"

definition genConformantKeyHash :: "string \<Rightarrow> bytes \<Rightarrow> bytes \<Rightarrow> uint32 \<times> bytes" where
  "genConformantKeyHash name sigType key =
     (let sum = Sum256 (name @ newline @ sigType @ key) in (BigEndian_Uint32 sum, sum))"

definition ed25519KeyHash :: "string \<Rightarrow> bytes \<Rightarrow> uint32 \<times> bytes" where
  "ed25519KeyHash name key = genConformantKeyHash name [algEd25519] key"

definition ecdsaKeyHash :: "pki \<Rightarrow> public_key \<Rightarrow> (uint32 \<times> bytes) result" where
  "ecdsaKeyHash x key =
     go_bind (pki_MarshalPKIXPublicKey x key) (Wrap ''marshaling public key'') (\<lambda>marshaled.
     let hash = Sum256 marshaled in Ok (BigEndian_Uint32 hash, hash))"

definition rsaKeyHash :: "pki \<Rightarrow> string \<Rightarrow> public_key \<Rightarrow> (uint32 \<times> bytes) result" where
  "rsaKeyHash x name key =
     go_bind (pki_MarshalPKIXPublicKey x key) (Wrap ''marshaling public key'') (\<lambda>marshaled.
     let rsaAlg = algUndef # rsaID in Ok (genConformantKeyHash name rsaAlg marshaled))"

fun KeyHash :: "pki \<Rightarrow> string \<Rightarrow> public_key \<Rightarrow> (uint32 \<times> bytes) result" where
  "KeyHash x origin (EcdsaPublicKey c px py) =
     go_bind (ecdsaKeyHash x (EcdsaPublicKey c px py)) (Wrap ''getting ECDSA key hash'') Ok"
| "KeyHash x origin (Ed25519PublicKey pk) = Ok (ed25519KeyHash origin pk)"
| "KeyHash x origin (RsaPublicKey n e) =
     go_bind (rsaKeyHash x origin (RsaPublicKey n e)) (Wrap ''getting RSA key hash'') Ok"
| "KeyHash x origin (OtherPublicKey ty) = Err (ErrText (''unsupported key type: '' @ ty))"

section \<open>The constructors\<close>

definition NewNoteSigner :: "pki \<Rightarrow> string \<Rightarrow> signer \<Rightarrow> noteSigner result" where
  "NewNoteSigner x origin sg =
     (if \<not> isValidName origin then Err (ErrText (''invalid name '' @ origin))
      else
        go_bind (signer_PublicKey sg) (Wrap ''getting public key'') (\<lambda>pubKey.
        go_bind (KeyHash x origin pubKey) id (\<lambda>(keyID, _).
        Ok \<lparr>noteSigner_name = origin, noteSigner_hash = keyID,
            noteSigner_sign = (\<lambda>msg. signer_SignMessage sg msg)\<rparr>)))"

definition NewNoteVerifier :: "pki \<Rightarrow> string \<Rightarrow> sig_verifier \<Rightarrow> noteVerifier result" where
  "NewNoteVerifier x origin vf =
     (if \<not> isValidName origin then Err (ErrText (''invalid name '' @ origin))
      else
        go_bind (sigv_PublicKey vf) (Wrap ''getting public key'') (\<lambda>pubKey.
        go_bind (KeyHash x origin pubKey) id (\<lambda>(keyID, _).
        Ok \<lparr>noteVerifier_name = origin, noteVerifier_hash = keyID,
            noteVerifier_verify = (\<lambda>msg sig.
              case sigv_VerifySignature vf sig msg of
                Ok _ \<Rightarrow> Ok True | Err _ \<Rightarrow> Ok False | Panic \<Rightarrow> Panic)\<rparr>)))"

definition noteSigner_Name :: "noteSigner \<Rightarrow> string" where
  "noteSigner_Name n = noteSigner_name n"
definition noteSigner_KeyHash :: "noteSigner \<Rightarrow> uint32" where
  "noteSigner_KeyHash n = noteSigner_hash n"
definition noteSigner_Sign :: "noteSigner \<Rightarrow> bytes \<Rightarrow> bytes result" where
  "noteSigner_Sign n msg = noteSigner_sign n msg"
definition noteVerifier_Name :: "noteVerifier \<Rightarrow> string" where
  "noteVerifier_Name n = noteVerifier_name n"
definition noteVerifier_KeyHash :: "noteVerifier \<Rightarrow> uint32" where
  "noteVerifier_KeyHash n = noteVerifier_hash n"
definition noteVerifier_Verify :: "noteVerifier \<Rightarrow> bytes \<Rightarrow> bytes \<Rightarrow> bool result" where
  "noteVerifier_Verify n msg sig = noteVerifier_verify n msg sig"

lemmas note_method_defs = noteSigner_Name_def noteSigner_KeyHash_def noteSigner_Sign_def
  noteVerifier_Name_def noteVerifier_KeyHash_def noteVerifier_Verify_def

section \<open>Valid names\<close>

lemma of_char_nat_inj: "(of_char c :: nat) = of_char d \<longleftrightarrow> c = d"
  by (metis char_of_char)

lemma ascii_byte_of_rune:
  assumes "b \<in> set (encode_rune r)" "b < 128"
  shows "b = r"
  using assms by (auto simp: encode_rune_def split: if_splits)

lemma ascii_rune_mem:
  assumes "string_bytes s = concat (map encode_rune rs)" "(of_char c :: nat) < 128"
  shows "c \<in> set s \<longleftrightarrow> of_char c \<in> set rs"
proof -
  have "c \<in> set s \<longleftrightarrow> of_char c \<in> set (string_bytes s)"
    by (auto simp: string_bytes_def of_char_nat_inj image_iff)
  also have "\<dots> \<longleftrightarrow> (\<exists>r\<in>set rs. of_char c \<in> set (encode_rune r))"
    unfolding assms(1) by simp
  also have "\<dots> \<longleftrightarrow> of_char c \<in> set rs"
  proof
    show "\<exists>r\<in>set rs. of_char c \<in> set (encode_rune r) \<Longrightarrow> of_char c \<in> set rs"
      using ascii_byte_of_rune assms(2) by blast
    show "of_char c \<in> set rs \<Longrightarrow> \<exists>r\<in>set rs. of_char c \<in> set (encode_rune r)"
      using assms(2) by (intro bexI [of _ "of_char c"]) (simp_all add: encode_rune_def)
  qed
  finally show ?thesis .
qed

text \<open>
  C30. \<open>isValidName\<close> accepts exactly the origins the checkpoint format allows: non-empty
  sequences of Unicode scalar values in UTF-8, none of them white space and none of them a plus
  sign.
\<close>

theorem isValidName_iff:
  "isValidName name \<longleftrightarrow>
     (\<exists>rs. rs \<noteq> [] \<and> string_bytes name = concat (map encode_rune rs)
        \<and> list_all (\<lambda>r. scalar_value r \<and> \<not> IsSpace r \<and> r \<noteq> 43) rs)"
proof -
  have plus: "Contains name ''+'' \<longleftrightarrow> 43 \<in> set rs"
    if "string_bytes name = concat (map encode_rune rs)" for rs
    using ascii_rune_mem [OF that, of "CHR ''+''"] by (simp add: Contains_singleton)
  have ne: "name = [] \<longleftrightarrow> rs = []" if "string_bytes name = concat (map encode_rune rs)" for rs
  proof -
    have "name = [] \<longleftrightarrow> string_bytes name = []" by (simp add: string_bytes_def)
    also have "\<dots> \<longleftrightarrow> rs = []" unfolding that by (cases rs) simp_all
    finally show ?thesis .
  qed
  show ?thesis
    using plus ne has_space_encode
    by (fastforce simp: isValidName_def ValidString_iff list_all_iff list_ex_iff)
qed

lemma isValidName_no_newline:
  assumes "isValidName name"
  shows "char_of (10 :: nat) \<notin> set name"
proof -
  obtain rs where rs: "string_bytes name = concat (map encode_rune rs)"
      "list_all scalar_value rs" "\<not> list_ex IsSpace rs"
    using assms has_space_encode unfolding isValidName_def ValidString_iff by blast
  then have "10 \<notin> set rs" by (auto simp: list_ex_iff IsSpace_def)
  then show ?thesis using ascii_rune_mem [OF rs(1), of "char_of (10 :: nat)"] by simp
qed

section \<open>Domain separation of key hashes\<close>

text \<open>The bytes a key hash is the digest of.\<close>

fun key_preimage :: "pki \<Rightarrow> string \<Rightarrow> public_key \<Rightarrow> bytes result" where
  "key_preimage x origin (EcdsaPublicKey c px py) = pki_MarshalPKIXPublicKey x (EcdsaPublicKey c px py)"
| "key_preimage x origin (Ed25519PublicKey pk) = Ok (origin @ newline @ [algEd25519] @ pk)"
| "key_preimage x origin (RsaPublicKey n e) =
     go_bind (pki_MarshalPKIXPublicKey x (RsaPublicKey n e)) id
       (\<lambda>der. Ok (origin @ newline @ (algUndef # rsaID) @ der))"
| "key_preimage x origin (OtherPublicKey ty) = Err (ErrText ty)"

lemma KeyHash_preimage:
  "KeyHash x origin k = Ok r \<longleftrightarrow>
     (\<exists>p. key_preimage x origin k = Ok p \<and> r = (BigEndian_Uint32 (Sum256 p), Sum256 p))"
  by (cases k) (auto simp: go_bind_eq_Ok ecdsaKeyHash_def rsaKeyHash_def ed25519KeyHash_def
      genConformantKeyHash_def Let_def)

text \<open>What identifies a key whose hash binds the origin: its kind and its encoding.\<close>

fun bound_key :: "pki \<Rightarrow> public_key \<Rightarrow> (bool \<times> bytes) option" where
  "bound_key x (Ed25519PublicKey pk) = Some (True, pk)"
| "bound_key x (RsaPublicKey n e) =
     (case pki_MarshalPKIXPublicKey x (RsaPublicKey n e) of Ok der \<Rightarrow> Some (False, der) | _ \<Rightarrow> None)"
| "bound_key x _ = None"

lemma split_at_newline:
  "a @ newline @ u = b @ newline @ v \<Longrightarrow> char_of (10 :: nat) \<notin> set a \<Longrightarrow>
   char_of (10 :: nat) \<notin> set b \<Longrightarrow> a = b \<and> u = v"
  unfolding newline_def by (rule split_at_first) simp_all

lemma alg_bytes_differ: "algEd25519 \<noteq> algUndef"
proof
  assume "algEd25519 = algUndef"
  then have "(of_char algEd25519 :: nat) = of_char algUndef" by simp
  then show False by (simp add: algEd25519_def algUndef_def)
qed

lemma bound_preimage:
  assumes "bound_key x k = Some (e, m)"
  shows "key_preimage x origin k =
    Ok (origin @ newline @ (if e then algEd25519 # m else algUndef # rsaID @ m))"
  using assms by (cases k) (auto split: result.splits)

text \<open>
  C29. The hash of an Ed25519 or RSA key binds the origin, the kind of the key and the key: for
  valid origins the digested bytes are equal only if the origin, the kind and the encoded key are.
  \<open>KeyHash\<close> returns the SHA-256 digest of these bytes and its first four bytes.
\<close>

theorem KeyHash_domain_separation:
  assumes "isValidName o1" "isValidName o2"
    and "bound_key x k1 = Some m1" "bound_key x k2 = Some m2"
  shows "\<exists>p1 p2. KeyHash x o1 k1 = Ok (BigEndian_Uint32 (Sum256 p1), Sum256 p1)
    \<and> KeyHash x o2 k2 = Ok (BigEndian_Uint32 (Sum256 p2), Sum256 p2)
    \<and> key_preimage x o1 k1 = Ok p1 \<and> key_preimage x o2 k2 = Ok p2
    \<and> (p1 = p2 \<longleftrightarrow> o1 = o2 \<and> m1 = m2)"
proof -
  obtain e1 b1 e2 b2 where m: "m1 = (e1, b1)" "m2 = (e2, b2)" by (cases m1, cases m2)
  define t where "t e b = (if e then algEd25519 # b else algUndef # rsaID @ b)" for e and b :: bytes
  have p: "key_preimage x o1 k1 = Ok (o1 @ newline @ t e1 b1)"
    "key_preimage x o2 k2 = Ok (o2 @ newline @ t e2 b2)"
    using assms(3,4) m bound_preimage unfolding t_def by auto
  have "t e1 b1 = t e2 b2 \<longleftrightarrow> m1 = m2"
    using alg_bytes_differ alg_bytes_differ [symmetric] by (auto simp: t_def m split: if_splits)
  then have "o1 @ newline @ t e1 b1 = o2 @ newline @ t e2 b2 \<longleftrightarrow> o1 = o2 \<and> m1 = m2"
    using split_at_newline [of o1 "t e1 b1" o2 "t e2 b2"] isValidName_no_newline assms(1,2)
    by blast
  then show ?thesis using p by (auto simp: KeyHash_preimage)
qed

definition demo_pkix :: pki where
  "demo_pkix =
     \<lparr>pki_ParsePKIXPublicKey = (\<lambda>b. Ok (Ed25519PublicKey b)),
      pki_ParseCertificate = (\<lambda>b. Err (ErrText ''x509: malformed certificate'')),
      pki_MarshalPublicKeyToDER = (\<lambda>k. Ok []), pki_MarshalPublicKeyToPEM = (\<lambda>k. Ok []),
      pki_MarshalCertificateToPEM = (\<lambda>c. Ok []),
      pki_MarshalPKIXPublicKey = (\<lambda>k. Ok (case k of RsaPublicKey n e \<Rightarrow> FormatUint n | _ \<Rightarrow> []))\<rparr>"

lemma demo_names_valid: "isValidName ''a.b''" "isValidName ''c''"
  by (simp_all add: isValidName_def ValidString_def has_space_def string_bytes_def runes.simps
      RuneError_def IsSpace_def Contains_def)

theorem KeyHash_domain_separation_witness:
  "\<exists>p1 p2. KeyHash demo_pkix ''a.b'' (Ed25519PublicKey ''k'') =
      Ok (BigEndian_Uint32 (Sum256 p1), Sum256 p1)
    \<and> KeyHash demo_pkix ''c'' (RsaPublicKey 7 3) = Ok (BigEndian_Uint32 (Sum256 p2), Sum256 p2)
    \<and> key_preimage demo_pkix ''a.b'' (Ed25519PublicKey ''k'') = Ok p1
    \<and> key_preimage demo_pkix ''c'' (RsaPublicKey 7 3) = Ok p2
    \<and> (p1 = p2 \<longleftrightarrow> ''a.b'' = ''c'' \<and> (True, ''k'') = (False, FormatUint 7))"
  by (rule KeyHash_domain_separation [OF demo_names_valid]) (simp_all add: demo_pkix_def)

section \<open>Signers and verifiers of one key\<close>

text \<open>
  C28. Whenever a note signer can be built for an origin, a note verifier can be built from a
  verifier with the same public key; the two have the same name and key hash, and the note
  verifier accepts every signature the note signer makes, provided the underlying verifier accepts
  the underlying signer's signatures.
\<close>

theorem note_sign_verify:
  assumes "NewNoteSigner x origin sg = Ok ns" and "sigv_PublicKey vf = signer_PublicKey sg"
    and "\<forall>m s. signer_SignMessage sg m = Ok s \<longrightarrow> sigv_VerifySignature vf s m = Ok ()"
  shows "\<exists>nv. NewNoteVerifier x origin vf = Ok nv
    \<and> noteVerifier_Name nv = noteSigner_Name ns \<and> noteSigner_Name ns = origin
    \<and> noteVerifier_KeyHash nv = noteSigner_KeyHash ns
    \<and> (\<forall>m s. noteSigner_Sign ns m = Ok s \<longrightarrow> noteVerifier_Verify nv m s = Ok True)"
  using assms
  by (auto simp: NewNoteSigner_def NewNoteVerifier_def go_bind_eq_Ok note_method_defs
      split: if_splits)

theorem note_sign_verify_witness:
  "\<exists>ns nv. NewNoteSigner demo_pkix ''a.b''
        \<lparr>signer_PublicKey = Ok (Ed25519PublicKey ''k''), signer_SignMessage = Ok\<rparr> = Ok ns
    \<and> NewNoteVerifier demo_pkix ''a.b''
        \<lparr>sigv_PublicKey = Ok (Ed25519PublicKey ''k''),
         sigv_VerifySignature = (\<lambda>s m. if s = m then Ok () else Err (ErrText ''invalid''))\<rparr> = Ok nv
    \<and> noteVerifier_KeyHash nv = noteSigner_KeyHash ns
    \<and> noteVerifier_Verify nv ''m'' ''m'' = Ok True"
proof -
  let ?s = "\<lparr>signer_PublicKey = Ok (Ed25519PublicKey ''k''), signer_SignMessage = Ok\<rparr>"
  have "\<exists>ns. NewNoteSigner demo_pkix ''a.b'' ?s = Ok ns \<and> noteSigner_Sign ns ''m'' = Ok ''m''"
    using demo_names_valid
    by (auto simp: NewNoteSigner_def note_method_defs ed25519KeyHash_def genConformantKeyHash_def Let_def)
  then show ?thesis
    using note_sign_verify [of demo_pkix "''a.b''" ?s _
        "\<lparr>sigv_PublicKey = Ok (Ed25519PublicKey ''k''),
         sigv_VerifySignature = (\<lambda>s m. if s = m then Ok () else Err (ErrText ''invalid''))\<rparr>"]
    by fastforce
qed

end
