(* ===== verification/Transparency_Log.thy ===== *)
theory Transparency_Log
  imports SafeInt Note
begin

text \<open>
  The transparency-log libraries the program calls (\<open>transparency-dev/merkle\<close>,
  \<open>transparency-dev/formats/log\<close>, \<open>transparency-dev/tessera\<close>), as one record of
  functions.  None of them is source of this repository: the development never gives them a
  body, and what a theorem needs of them is a named hypothesis on the record.
\<close>

record Checkpoint =
  cp_Origin :: string
  cp_Size :: uint64
  cp_Hash :: bytes

record tessera_Entry =
  te_Data :: bytes
  te_LeafHash :: bytes

text \<open>A tile fetcher: level, index and partial width to the bytes of a tile.\<close>

type_synonym tile_fetcher = "uint64 \<Rightarrow> uint64 \<Rightarrow> uint8 \<Rightarrow> bytes result"

record 'note tlog =
  tl_HashLeaf :: "bytes \<Rightarrow> bytes"
  tl_VerifyInclusion :: "uint64 \<Rightarrow> uint64 \<Rightarrow> bytes \<Rightarrow> bytes list \<Rightarrow> bytes \<Rightarrow> unit result"
  tl_VerifyConsistency :: "uint64 \<Rightarrow> uint64 \<Rightarrow> bytes list \<Rightarrow> bytes \<Rightarrow> bytes \<Rightarrow> unit result"
  tl_Unmarshal :: "bytes \<Rightarrow> Checkpoint result"
  tl_ParseCheckpoint ::
    "bytes \<Rightarrow> string \<Rightarrow> noteVerifier \<Rightarrow> noteVerifier list \<Rightarrow> (Checkpoint \<times> bytes \<times> 'note) result"
  tl_NewEntry :: "bytes \<Rightarrow> tessera_Entry"
  tl_NewProofBuilder :: "uint64 \<Rightarrow> tile_fetcher \<Rightarrow> (uint64 \<Rightarrow> bytes list result) result"

section \<open>What the libraries document\<close>

text \<open>\<open>tessera.NewEntry\<close> keeps the data and hashes it as an RFC 6962 leaf.\<close>

definition new_entry_documented :: "'note tlog \<Rightarrow> bool" where
  "new_entry_documented lg \<longleftrightarrow>
     (\<forall>d. te_Data (tl_NewEntry lg d) = d \<and> te_LeafHash (tl_NewEntry lg d) = tl_HashLeaf lg d)"

text \<open>
  \<open>ParseCheckpoint\<close> of a note it accepts returns the checkpoint that \<open>Unmarshal\<close> reads
  from the same bytes.
\<close>

definition parse_agrees :: "'note tlog \<Rightarrow> bool" where
  "parse_agrees lg \<longleftrightarrow>
     (\<forall>b n v vs cp rest nt. tl_ParseCheckpoint lg b n v vs = Ok (cp, rest, nt) \<longrightarrow>
        tl_Unmarshal lg b = Ok cp)"

section \<open>An instance for evaluation\<close>

text \<open>
  A log of at most one leaf: the root is the leaf hash and the proof is empty.  A checkpoint is
  its root hash, and a note is accepted when the verifier accepts the note as its own signature.
\<close>

definition demo_tlog :: "unit tlog" where
  "demo_tlog =
     \<lparr>tl_HashLeaf = (\<lambda>d. CHR ''L'' # d),
      tl_VerifyInclusion = (\<lambda>i n leaf prf root.
        if i < n \<and> n = 1 \<and> prf = [] \<and> leaf = root then Ok () else Err (ErrText ''inclusion'')),
      tl_VerifyConsistency = (\<lambda>m n prf old new.
        if m = n \<and> prf = [] \<and> old = new then Ok () else Err (ErrText ''consistency'')),
      tl_Unmarshal = (\<lambda>b. Ok \<lparr>cp_Origin = ''a.b'', cp_Size = 1, cp_Hash = b\<rparr>),
      tl_ParseCheckpoint = (\<lambda>b n v vs. case noteVerifier_Verify v b b of
        Ok True \<Rightarrow> Ok (\<lparr>cp_Origin = ''a.b'', cp_Size = 1, cp_Hash = b\<rparr>, [], ())
      | Ok False \<Rightarrow> Err (ErrText ''no verifiable signatures'')
      | Err e \<Rightarrow> Err e | Panic \<Rightarrow> Panic),
      tl_NewEntry = (\<lambda>d. \<lparr>te_Data = d, te_LeafHash = CHR ''L'' # d\<rparr>),
      tl_NewProofBuilder = (\<lambda>n f. Ok (\<lambda>i. Ok []))\<rparr>"

lemma demo_tlog_documented: "new_entry_documented demo_tlog" "parse_agrees demo_tlog"
  by (auto simp: new_entry_documented_def parse_agrees_def demo_tlog_def
      split: result.splits bool.splits)

end
