(* ===== verification/Verify.thy ===== *)
theory Verify
  imports Transparency_Log
begin

text \<open>
  \<open>pkg/verify\<close>: what a client checks of a transparency log entry.  A nil entry, and an entry
  whose inclusion proof is nil, panic where the source dereferences them.
\<close>

definition VerifyInclusionProof ::
    "'note tlog \<Rightarrow> pb_TransparencyLogEntry option \<Rightarrow> Checkpoint option \<Rightarrow> unit result" where
  "VerifyInclusionProof lg entry cp =
     go_bind (deref entry) id (\<lambda>e.
     let leafHash = tl_HashLeaf lg (TLE_CanonicalizedBody e) in
     go_bind (NewSafeInt64 (AnyInt64 (TLE_LogIndex e))) (Wrap ''invalid index'') (\<lambda>index.
     go_bind (deref cp) id (\<lambda>c.
     go_bind (deref (TLE_InclusionProof e)) id (\<lambda>p.
     go_bind
       (tl_VerifyInclusion lg (SafeInt64_U index) (cp_Size c) leafHash (InclusionProof_Hashes p)
          (cp_Hash c)) (Wrap ''verifying inclusion'') Ok))))"

definition VerifyCheckpoint ::
    "'note tlog \<Rightarrow> string \<Rightarrow> noteVerifier \<Rightarrow> Checkpoint result" where
  "VerifyCheckpoint lg unverifiedCp verifier =
     go_bind (tl_ParseCheckpoint lg unverifiedCp (noteVerifier_Name verifier) verifier [])
       (errv ''unverified checkpoint signature'') (\<lambda>(cp, _, _). Ok cp)"

definition VerifyWitnessedCheckpoint ::
    "'note tlog \<Rightarrow> string \<Rightarrow> noteVerifier \<Rightarrow> noteVerifier list \<Rightarrow> (Checkpoint \<times> 'note) result" where
  "VerifyWitnessedCheckpoint lg unverifiedCp verifier otherVerifiers =
     go_bind (tl_ParseCheckpoint lg unverifiedCp (noteVerifier_Name verifier) verifier otherVerifiers)
       (errv ''unverified checkpoint signature'') (\<lambda>(cp, _, n). Ok (cp, n))"

definition VerifyLogEntry ::
    "'note tlog \<Rightarrow> pb_TransparencyLogEntry option \<Rightarrow> noteVerifier \<Rightarrow> unit result" where
  "VerifyLogEntry lg entry verifier =
     go_bind
       (VerifyCheckpoint lg (case entry of None \<Rightarrow> [] | Some e \<Rightarrow> TLE_checkpoint_envelope e) verifier)
       id (\<lambda>cp. VerifyInclusionProof lg entry (Some cp))"

definition VerifyConsistencyProof ::
    "'note tlog \<Rightarrow> bytes list \<Rightarrow> uint64 \<Rightarrow> bytes \<Rightarrow> string \<Rightarrow> noteVerifier \<Rightarrow> unit result" where
  "VerifyConsistencyProof lg consistencyProof oldSize oldRootHash newUnverifiedCp verifier =
     go_bind (VerifyCheckpoint lg newUnverifiedCp verifier) id (\<lambda>newCp.
     tl_VerifyConsistency lg oldSize (cp_Size newCp) consistencyProof oldRootHash (cp_Hash newCp))"

definition VerifyConsistencyProofWithCheckpoints ::
    "'note tlog \<Rightarrow> bytes list \<Rightarrow> string \<Rightarrow> string \<Rightarrow> noteVerifier \<Rightarrow> unit result" where
  "VerifyConsistencyProofWithCheckpoints lg consistencyProof oldUnverifiedCp newUnverifiedCp verifier =
     go_bind (VerifyCheckpoint lg oldUnverifiedCp verifier) id (\<lambda>oldCp.
     VerifyConsistencyProof lg consistencyProof (cp_Size oldCp) (cp_Hash oldCp) newUnverifiedCp
       verifier)"

section \<open>What acceptance means\<close>

lemma VerifyCheckpoint_Ok [go_result]:
  "VerifyCheckpoint lg s v = Ok cp \<longleftrightarrow>
     (\<exists>rest n. tl_ParseCheckpoint lg s (noteVerifier_Name v) v [] = Ok (cp, rest, n))"
  by (auto simp: VerifyCheckpoint_def go_bind_eq_Ok)

lemma VerifyInclusionProof_Ok [go_result]:
  "VerifyInclusionProof lg (Some e) (Some c) = Ok () \<longleftrightarrow>
     (\<exists>p. TLE_InclusionProof e = Some p \<and> 0 \<le> sint (TLE_LogIndex e)
       \<and> tl_VerifyInclusion lg (TLE_LogIndex e) (cp_Size c)
            (tl_HashLeaf lg (TLE_CanonicalizedBody e)) (InclusionProof_Hashes p) (cp_Hash c) = Ok ())"
  by (auto simp: VerifyInclusionProof_def go_bind_eq_Ok deref_eq_Ok Let_def SafeInt64_U_def NewSafeInt64_int_Ok
      split: if_splits)

text \<open>
  C10. \<open>VerifyLogEntry\<close> accepts an entry exactly when the entry has an inclusion proof, the
  checkpoint inside that proof is a note the verifier's key signed under the verifier's name, the
  log index is not negative, and the Merkle library accepts the proof for the leaf hash of the
  canonicalized body at that index in the tree the signed checkpoint commits to.  The proof's own
  tree size and root hash fields play no part.
\<close>

theorem VerifyLogEntry_iff:
  "VerifyLogEntry lg (Some e) v = Ok () \<longleftrightarrow>
     (\<exists>p cp rest n. TLE_InclusionProof e = Some p
       \<and> tl_ParseCheckpoint lg (case InclusionProof_Checkpoint p of None \<Rightarrow> [] | Some c \<Rightarrow> c)
            (noteVerifier_Name v) v [] = Ok (cp, rest, n)
       \<and> 0 \<le> sint (TLE_LogIndex e)
       \<and> tl_VerifyInclusion lg (TLE_LogIndex e) (cp_Size cp)
            (tl_HashLeaf lg (TLE_CanonicalizedBody e)) (InclusionProof_Hashes p) (cp_Hash cp) = Ok ())"
  by (cases "TLE_InclusionProof e")
     (auto simp: VerifyLogEntry_def go_bind_eq_Ok VerifyCheckpoint_Ok VerifyInclusionProof_Ok
       TLE_checkpoint_envelope_def)

text \<open>
  An entry with a valid checkpoint cannot crash the verification by its index, but an entry
  without an inclusion proof does: \<open>VerifyInclusionProof\<close> dereferences the nil proof.
\<close>

theorem VerifyInclusionProof_nil_proof:
  "TLE_InclusionProof e = None \<Longrightarrow> 0 \<le> sint (TLE_LogIndex e) \<Longrightarrow>
   VerifyInclusionProof lg (Some e) (Some c) = Panic"
  by (simp add: VerifyInclusionProof_def Let_def NewSafeInt64.simps)

theorem VerifyInclusionProof_nil_proof_witness:
  "VerifyInclusionProof demo_tlog
     (Some \<lparr>TLE_LogIndex = 0, TLE_LogId = None, TLE_KindVersion = None, TLE_InclusionProof = None,
            TLE_CanonicalizedBody = ''{}''\<rparr>)
     (Some \<lparr>cp_Origin = ''a.b'', cp_Size = 1, cp_Hash = []\<rparr>) = Panic"
  by (rule VerifyInclusionProof_nil_proof) simp_all

text \<open>The consistency checks: both checkpoints are verified by the same key.\<close>

lemma VerifyConsistencyProofWithCheckpoints_Ok [go_result]:
  "VerifyConsistencyProofWithCheckpoints lg prf old new v = Ok () \<longleftrightarrow>
     (\<exists>oc nc. VerifyCheckpoint lg old v = Ok oc \<and> VerifyCheckpoint lg new v = Ok nc
        \<and> tl_VerifyConsistency lg (cp_Size oc) (cp_Size nc) prf (cp_Hash oc) (cp_Hash nc) = Ok ())"
  by (auto simp: VerifyConsistencyProofWithCheckpoints_def VerifyConsistencyProof_def go_bind_eq_Ok)

lemma VerifyWitnessedCheckpoint_alone:
  "VerifyWitnessedCheckpoint lg s v [] = Ok (cp, n) \<Longrightarrow> VerifyCheckpoint lg s v = Ok cp"
  by (auto simp: VerifyWitnessedCheckpoint_def VerifyCheckpoint_def go_bind_eq_Ok)

end
