(* ===== verification/Tessera_Storage.thy ===== *)
theory Tessera_Storage
  imports Verify
begin

text \<open>
  \<open>internal/tessera\<close>: the storage the server adds entries to.  The state of the log behind
  tessera is a type parameter \<open>'w\<close>: \<open>addFn\<close> submits an entry and returns a future,
  \<open>Await\<close> waits for the future's index and for a checkpoint that covers it, and both may
  change the state (other entries are integrated meanwhile); reading a tile does not.  The locale
  \<open>entry_storage\<close> is the contract of the \<open>Storage\<close> interface towards the server.
\<close>

record Index =
  Index_Index :: uint64
  Index_IsDup :: bool

record ('w, 'f) storage =
  storage_origin :: string
  storage_Await :: "'f \<Rightarrow> 'w \<Rightarrow> (Index \<times> bytes) result \<times> 'w"
  storage_addFn :: "tessera_Entry \<Rightarrow> 'w \<Rightarrow> 'f \<times> 'w"
  storage_readTileFn :: "'w \<Rightarrow> tile_fetcher"

section \<open>Error values\<close>

definition DuplicateError_Index :: "uint64 \<Rightarrow> uint64" where
  "DuplicateError_Index i = i"

fun InclusionProofVerificationError_Unwrap :: "err \<Rightarrow> err option" where
  "InclusionProofVerificationError_Unwrap (InclusionProofVerificationError i e) = Some e"
| "InclusionProofVerificationError_Unwrap _ = None"

section \<open>Append options\<close>

text \<open>
  The builder methods of \<open>tessera.AppendOptions\<close>, each of which updates its receiver and
  returns it, and the constructor of a witness group.  Durations are in nanoseconds.
\<close>

record ('o, 'as, 'wg) append_api =
  ao_New :: 'o
  ao_WithCheckpointSigner :: "noteSigner \<Rightarrow> 'o \<Rightarrow> 'o"
  ao_WithBatching :: "nat \<Rightarrow> int \<Rightarrow> 'o \<Rightarrow> 'o"
  ao_WithCheckpointInterval :: "int \<Rightarrow> 'o \<Rightarrow> 'o"
  ao_WithPushback :: "nat \<Rightarrow> 'o \<Rightarrow> 'o"
  ao_WithAntispam :: "nat \<Rightarrow> 'as \<Rightarrow> 'o \<Rightarrow> 'o"
  ao_WithWitnesses :: "'wg \<Rightarrow> bool \<Rightarrow> 'o \<Rightarrow> 'o"
  ao_NewWitnessGroupFromPolicy :: "bytes \<Rightarrow> 'wg result"

definition NewAppendOptions ::
    "('o, 'as, 'wg) append_api \<Rightarrow> pki \<Rightarrow> string \<Rightarrow> signer \<Rightarrow> 'o result" where
  "NewAppendOptions api x origin sg =
     (let opts = ao_New api in
      go_bind (NewNoteSigner x origin sg) (Wrap ''getting note signer'') (\<lambda>ns.
      Ok (ao_WithCheckpointSigner api ns opts)))"

definition WithLifecycleOptions ::
    "('o, 'as, 'wg) append_api \<Rightarrow> 'o \<Rightarrow> nat \<Rightarrow> int \<Rightarrow> int \<Rightarrow> nat \<Rightarrow> 'o" where
  "WithLifecycleOptions api opts batchMaxSize batchMaxAge checkpointInterval pushback =
     (let opts = ao_WithBatching api batchMaxSize batchMaxAge opts;
          opts = ao_WithCheckpointInterval api checkpointInterval opts;
          opts = ao_WithPushback api pushback opts
      in opts)"

definition WithAntispamOptions :: "('o, 'as, 'wg) append_api \<Rightarrow> 'o \<Rightarrow> 'as \<Rightarrow> 'o" where
  "WithAntispamOptions api opts as =
     (let inMemoryLRUSize = 256 in ao_WithAntispam api inMemoryLRUSize as opts)"

definition WithWitnessing :: "('o, 'as, 'wg) append_api \<Rightarrow> 'o \<Rightarrow> bytes \<Rightarrow> 'o result" where
  "WithWitnessing api opts witnessPolicy =
     go_bind (ao_NewWitnessGroupFromPolicy api witnessPolicy)
       (Wrap ''creating witness group from policy'') (\<lambda>wg.
     let failOpen = True in Ok (ao_WithWitnesses api wg failOpen opts))"

text \<open>
  \<open>tessera.NewAppender\<close> gives the appender's \<open>Add\<close>, a shutdown function and a reader; the
  publication awaiter is built from the reader's \<open>ReadCheckpoint\<close>.
\<close>

record 'w log_reader =
  reader_ReadCheckpoint :: "'w \<Rightarrow> bytes result"
  reader_ReadTile :: "'w \<Rightarrow> tile_fetcher"

definition NewStorage ::
    "('d \<Rightarrow> 'o \<Rightarrow> ((tessera_Entry \<Rightarrow> 'w \<Rightarrow> 'f \<times> 'w) \<times> 'sh \<times> 'w log_reader) result) \<Rightarrow>
     (('w \<Rightarrow> bytes result) \<Rightarrow> int \<Rightarrow> 'f \<Rightarrow> 'w \<Rightarrow> (Index \<times> bytes) result \<times> 'w) \<Rightarrow>
     string \<Rightarrow> 'd \<Rightarrow> 'o \<Rightarrow> (('w, 'f) storage \<times> 'sh) result" where
  "NewStorage NewAppender NewPublicationAwaiter origin driver appendOptions =
     go_bind (NewAppender driver appendOptions) (Wrap ''getting tessera appender'')
       (\<lambda>(appenderAdd, shutdown, reader).
     let awaiter = NewPublicationAwaiter (reader_ReadCheckpoint reader) 1000000000 in
     Ok (\<lparr>storage_origin = origin, storage_Await = awaiter, storage_addFn = appenderAdd,
          storage_readTileFn = reader_ReadTile reader\<rparr>, shutdown))"

section \<open>Adding an entry\<close>

definition storage_ReadTile ::
    "('w, 'f) storage \<Rightarrow> 'w \<Rightarrow> uint64 \<Rightarrow> uint64 \<Rightarrow> uint8 \<Rightarrow> bytes result" where
  "storage_ReadTile s w level index p =
     go_bind (storage_readTileFn s w level index p)
       (Wrap (''reading tile level '' @ FormatUint (unat level) @ '' index ''
              @ FormatUint (unat index) @ '' p '' @ FormatUint (unat p))) Ok"

definition addEntry ::
    "('w, 'f) storage \<Rightarrow> tessera_Entry \<Rightarrow> 'w \<Rightarrow> (SafeInt64 \<times> bool \<times> bytes) result \<times> 'w" where
  "addEntry s entry w =
     (let (future, w1) = storage_addFn s entry w;
          (r, w2) = storage_Await s future w1
      in (go_bind r (Wrap ''await'') (\<lambda>(idx, checkpointBody).
          go_bind (NewSafeInt64 (AnyUint64 (Index_Index idx))) (Wrap ''invalid index'') (\<lambda>safeIdx.
          Ok (safeIdx, Index_IsDup idx, checkpointBody))), w2))"

definition unmarshalCheckpoint :: "'note tlog \<Rightarrow> bytes \<Rightarrow> Checkpoint result" where
  "unmarshalCheckpoint lg checkpointBody = tl_Unmarshal lg checkpointBody"

definition buildProof ::
    "'note tlog \<Rightarrow> ('w, 'f) storage \<Rightarrow> 'w \<Rightarrow> SafeInt64 \<Rightarrow> bytes \<Rightarrow> bytes \<Rightarrow>
     pb_InclusionProof result" where
  "buildProof lg s w idx signedCheckpoint leafHash =
     go_bind (unmarshalCheckpoint lg signedCheckpoint) (Wrap ''unmarshalling checkpoint'')
       (\<lambda>checkpoint.
     go_bind (tl_NewProofBuilder lg (cp_Size checkpoint) (storage_ReadTile s w))
       (Wrap ''new proof builder'') (\<lambda>proofBuilder.
     go_bind (proofBuilder (SafeInt64_U idx)) (Wrap ''generating inclusion proof'')
       (\<lambda>inclusionProof.
     go_bind (NewSafeInt64 (AnyUint64 (cp_Size checkpoint)))
       (\<lambda>_. ErrText (''invalid tree size: '' @ FormatUint (unat (cp_Size checkpoint))))
       (\<lambda>safeCheckpointSize.
     go_bind
       (tl_VerifyInclusion lg (SafeInt64_U idx) (SafeInt64_U safeCheckpointSize) leafHash
          inclusionProof (cp_Hash checkpoint))
       (InclusionProofVerificationError (SafeInt64_U idx)) (\<lambda>_.
     Ok \<lparr>InclusionProof_LogIndex = SafeInt64_I idx,
         InclusionProof_RootHash = cp_Hash checkpoint,
         InclusionProof_TreeSize = SafeInt64_I safeCheckpointSize,
         InclusionProof_Hashes = inclusionProof,
         InclusionProof_Checkpoint = Some signedCheckpoint\<rparr>)))))"

definition storage_Add ::
    "'note tlog \<Rightarrow> ('w, 'f) storage \<Rightarrow> tessera_Entry \<Rightarrow> 'w \<Rightarrow>
     pb_TransparencyLogEntry result \<times> 'w" where
  "storage_Add lg s entry w =
     (let (r, w') = addEntry s entry w in
      (go_bind r (Wrap ''add entry'') (\<lambda>(idx, dup, checkpointBody).
       if dup then Err (DuplicateError (SafeInt64_U idx))
       else
         go_bind (buildProof lg s w' idx checkpointBody (te_LeafHash entry))
           (Wrap ''building inclusion proof'') (\<lambda>inclusionProof.
         Ok \<lparr>TLE_LogIndex = SafeInt64_I idx, TLE_LogId = None, TLE_KindVersion = None,
             TLE_InclusionProof = Some inclusionProof,
             TLE_CanonicalizedBody = te_Data entry\<rparr>)), w'))"

text \<open>The \<open>Storage\<close> interface, as the record of its methods.\<close>

record 'w Storage =
  Storage_Add :: "tessera_Entry \<Rightarrow> 'w \<Rightarrow> pb_TransparencyLogEntry result \<times> 'w"
  Storage_ReadTile :: "'w \<Rightarrow> uint64 \<Rightarrow> uint64 \<Rightarrow> uint8 \<Rightarrow> bytes result"

definition as_Storage :: "'note tlog \<Rightarrow> ('w, 'f) storage \<Rightarrow> 'w Storage" where
  "as_Storage lg s = \<lparr>Storage_Add = storage_Add lg s, Storage_ReadTile = storage_ReadTile s\<rparr>"

lemma as_Storage_Add [simp]: "Storage_Add (as_Storage lg s) = storage_Add lg s"
  by (simp add: as_Storage_def)

section \<open>What Add returns\<close>

text \<open>The answer of the log: what \<open>Await\<close> returns for the submitted entry.\<close>

definition awaited ::
    "('w, 'f) storage \<Rightarrow> tessera_Entry \<Rightarrow> 'w \<Rightarrow> (Index \<times> bytes) result \<times> 'w" where
  "awaited s entry w = (let (future, w1) = storage_addFn s entry w in storage_Await s future w1)"

lemma addEntry_awaited:
  "addEntry s entry w =
     (go_bind (fst (awaited s entry w)) (Wrap ''await'') (\<lambda>(idx, body).
        go_bind (NewSafeInt64 (AnyUint64 (Index_Index idx))) (Wrap ''invalid index'')
          (\<lambda>i. Ok (i, Index_IsDup idx, body))), snd (awaited s entry w))"
  by (simp add: addEntry_def awaited_def Let_def split: prod.splits)

lemma buildProof_Ok [go_result]:
  "buildProof lg s w idx body leaf = Ok p \<longleftrightarrow>
     (\<exists>cp pb hs. tl_Unmarshal lg body = Ok cp
        \<and> tl_NewProofBuilder lg (cp_Size cp) (storage_ReadTile s w) = Ok pb
        \<and> pb (safe_u idx) = Ok hs \<and> uint (cp_Size cp) < 2 ^ 63
        \<and> tl_VerifyInclusion lg (safe_u idx) (cp_Size cp) leaf hs (cp_Hash cp) = Ok ()
        \<and> p = \<lparr>InclusionProof_LogIndex = safe_i idx, InclusionProof_RootHash = cp_Hash cp,
               InclusionProof_TreeSize = cp_Size cp, InclusionProof_Hashes = hs,
               InclusionProof_Checkpoint = Some body\<rparr>)"
  by (auto simp: buildProof_def unmarshalCheckpoint_def go_bind_eq_Ok NewSafeInt64_uint_Ok
      SafeInt64_U_def SafeInt64_I_def)

lemma storage_Add_Ok [go_result]:
  "storage_Add lg s entry w = (Ok tle, w') \<longleftrightarrow>
     (\<exists>i body p. awaited s entry w = (Ok (\<lparr>Index_Index = i, Index_IsDup = False\<rparr>, body), w')
        \<and> uint i < 2 ^ 63
        \<and> buildProof lg s w' \<lparr>safe_u = i, safe_i = i\<rparr> body (te_LeafHash entry) = Ok p
        \<and> tle = \<lparr>TLE_LogIndex = i, TLE_LogId = None, TLE_KindVersion = None,
                 TLE_InclusionProof = Some p, TLE_CanonicalizedBody = te_Data entry\<rparr>)"
  (is "?l \<longleftrightarrow> ?r")
proof
  assume ?l
  then obtain idx body si p where a: "awaited s entry w = (Ok (idx, body), w')"
      "NewSafeInt64 (AnyUint64 (Index_Index idx)) = Ok si" "\<not> Index_IsDup idx"
      "buildProof lg s w' si body (te_LeafHash entry) = Ok p"
      "tle = \<lparr>TLE_LogIndex = SafeInt64_I si, TLE_LogId = None, TLE_KindVersion = None,
              TLE_InclusionProof = Some p, TLE_CanonicalizedBody = te_Data entry\<rparr>"
    by (cases "awaited s entry w")
       (auto simp: storage_Add_def addEntry_awaited go_bind_eq_Ok Let_def split: if_splits)
  then show ?r
    by (cases idx) (auto simp: NewSafeInt64_uint_Ok SafeInt64_I_def)
next
  assume ?r
  then obtain i body p where a: "awaited s entry w = (Ok (\<lparr>Index_Index = i, Index_IsDup = False\<rparr>, body), w')"
      "NewSafeInt64 (AnyUint64 i) = Ok \<lparr>safe_u = i, safe_i = i\<rparr>"
      "buildProof lg s w' \<lparr>safe_u = i, safe_i = i\<rparr> body (te_LeafHash entry) = Ok p"
      "tle = \<lparr>TLE_LogIndex = i, TLE_LogId = None, TLE_KindVersion = None,
              TLE_InclusionProof = Some p, TLE_CanonicalizedBody = te_Data entry\<rparr>"
    by (auto simp: NewSafeInt64_uint_Ok)
  then show ?l
    by (simp add: storage_Add_def addEntry_awaited Let_def SafeInt64_I_def)
qed

text \<open>
  C7. An entry that \<open>Add\<close> returns is not a duplicate; its index is the one the log assigned,
  non-negative as an \<open>int64\<close>; its body is the submitted data; its proof carries the signed
  checkpoint the log published, with that checkpoint's root hash and size, and the Merkle library
  accepted the proof for the submitted leaf at that index of that tree.
\<close>

theorem storage_Add_sound:
  assumes "storage_Add lg s entry w = (Ok tle, w')"
  shows "\<exists>i body cp p. awaited s entry w = (Ok (\<lparr>Index_Index = i, Index_IsDup = False\<rparr>, body), w')
    \<and> tl_Unmarshal lg body = Ok cp
    \<and> sint (TLE_LogIndex tle) = uint i
    \<and> TLE_CanonicalizedBody tle = te_Data entry
    \<and> TLE_InclusionProof tle = Some p
    \<and> sint (InclusionProof_LogIndex p) = uint i
    \<and> InclusionProof_RootHash p = cp_Hash cp
    \<and> sint (InclusionProof_TreeSize p) = uint (cp_Size cp)
    \<and> InclusionProof_Checkpoint p = Some body
    \<and> tl_VerifyInclusion lg i (cp_Size cp) (te_LeafHash entry) (InclusionProof_Hashes p)
        (cp_Hash cp) = Ok ()"
proof -
  obtain i body p where a: "awaited s entry w = (Ok (\<lparr>Index_Index = i, Index_IsDup = False\<rparr>, body), w')"
      "uint i < 2 ^ 63" "buildProof lg s w' \<lparr>safe_u = i, safe_i = i\<rparr> body (te_LeafHash entry) = Ok p"
      "tle = \<lparr>TLE_LogIndex = i, TLE_LogId = None, TLE_KindVersion = None,
              TLE_InclusionProof = Some p, TLE_CanonicalizedBody = te_Data entry\<rparr>"
    using assms by (auto simp: storage_Add_Ok)
  moreover obtain cp hs where c: "tl_Unmarshal lg body = Ok cp" "uint (cp_Size cp) < 2 ^ 63"
      "tl_VerifyInclusion lg i (cp_Size cp) (te_LeafHash entry) hs (cp_Hash cp) = Ok ()"
      "p = \<lparr>InclusionProof_LogIndex = i, InclusionProof_RootHash = cp_Hash cp,
            InclusionProof_TreeSize = cp_Size cp, InclusionProof_Hashes = hs,
            InclusionProof_Checkpoint = Some body\<rparr>"
    using a(3) by (auto simp: buildProof_Ok)
  ultimately show ?thesis
    using msb_clear_sint_eq_uint [OF a(2)] msb_clear_sint_eq_uint [OF c(2)]
    by (intro exI [of _ i] exI [of _ body] exI [of _ cp] exI [of _ p]) simp
qed

text \<open>
  C18. Every failure of \<open>Add\<close> keeps what the server needs to classify it: an error of the
  log itself (pushback, a cancelled context) stays in the chain; an index above \<open>MaxInt64\<close>
  is an error even for a duplicate; a duplicate is reported as \<open>DuplicateError\<close> with the
  index of the entry already in the log; anything else is a failure to build the proof.
\<close>

theorem storage_Add_errors:
  assumes "storage_Add lg s entry w = (Err e, w')"
  shows "case fst (awaited s entry w) of
      Err e0 \<Rightarrow> e = Wrap ''add entry'' (Wrap ''await'' e0)
    | Ok (idx, body) \<Rightarrow>
        (if 2 ^ 63 \<le> uint (Index_Index idx)
         then \<exists>t. e = Wrap ''add entry'' (Wrap ''invalid index'' (ErrText t))
         else if Index_IsDup idx then e = DuplicateError (Index_Index idx)
         else \<exists>e0. buildProof lg s w' \<lparr>safe_u = Index_Index idx, safe_i = Index_Index idx\<rparr> body
                      (te_LeafHash entry) = Err e0
                \<and> e = Wrap ''building inclusion proof'' e0)
    | Panic \<Rightarrow> False"
proof (cases "fst (awaited s entry w)")
  case (Ok p)
  obtain idx body where p: "p = (idx, body)" by (cases p)
  show ?thesis
  proof (cases "2 ^ 63 \<le> uint (Index_Index idx)")
    case True
    then have "\<exists>t. NewSafeInt64 (AnyUint64 (Index_Index idx)) = Err (ErrText t)"
      using uint64_le_max_iff [of "Index_Index idx"] by (simp add: NewSafeInt64.simps)
    then show ?thesis
      using assms Ok p True by (auto simp: storage_Add_def addEntry_awaited Let_def)
  next
    case False
    then have "NewSafeInt64 (AnyUint64 (Index_Index idx)) =
        Ok \<lparr>safe_u = Index_Index idx, safe_i = Index_Index idx\<rparr>"
      by (simp add: NewSafeInt64_uint_Ok)
    then show ?thesis
      using assms Ok p False
      by (auto simp: storage_Add_def addEntry_awaited Let_def go_bind_eq_Err SafeInt64_U_def
          split: if_splits)
  qed
next
  case (Err e0)
  then show ?thesis using assms by (auto simp: storage_Add_def addEntry_awaited Let_def)
next
  case Panic
  then show ?thesis using assms by (auto simp: storage_Add_def addEntry_awaited Let_def)
qed

section \<open>The contract of the Storage interface\<close>

locale entry_storage =
  fixes lg :: "'note tlog"
    and Add :: "tessera_Entry \<Rightarrow> 'w \<Rightarrow> pb_TransparencyLogEntry result \<times> 'w"
  assumes added_body: "Add en w = (Ok tle, w') \<Longrightarrow> TLE_CanonicalizedBody tle = te_Data en"
    and added_index: "Add en w = (Ok tle, w') \<Longrightarrow> 0 \<le> sint (TLE_LogIndex tle)"
    and added_proof: "Add en w = (Ok tle, w') \<Longrightarrow>
      \<exists>p c cp. TLE_InclusionProof tle = Some p \<and> InclusionProof_Checkpoint p = Some c
        \<and> tl_Unmarshal lg c = Ok cp
        \<and> tl_VerifyInclusion lg (TLE_LogIndex tle) (cp_Size cp) (te_LeafHash en)
            (InclusionProof_Hashes p) (cp_Hash cp) = Ok ()"
begin

text \<open>
  A client that accepts the checkpoint of an added entry accepts the entry, whatever the server
  writes into the fields the proof does not cover.
\<close>

lemma added_verifies:
  assumes "new_entry_documented lg" "parse_agrees lg"
    and "Add (tl_NewEntry lg d) w = (Ok tle, w')"
    and "VerifyCheckpoint lg (TLE_checkpoint_envelope tle) v = Ok cp"
    and "TLE_InclusionProof e = TLE_InclusionProof tle" "TLE_LogIndex e = TLE_LogIndex tle"
      "TLE_CanonicalizedBody e = TLE_CanonicalizedBody tle"
  shows "VerifyLogEntry lg (Some e) v = Ok ()"
proof -
  obtain p c cp' where p: "TLE_InclusionProof tle = Some p" "InclusionProof_Checkpoint p = Some c"
      "tl_Unmarshal lg c = Ok cp'"
      "tl_VerifyInclusion lg (TLE_LogIndex tle) (cp_Size cp') (te_LeafHash (tl_NewEntry lg d))
         (InclusionProof_Hashes p) (cp_Hash cp') = Ok ()"
    using added_proof [OF assms(3)] by blast
  have env: "TLE_checkpoint_envelope tle = c" "TLE_checkpoint_envelope e = c"
    using p(1,2) assms(5) by (simp_all add: TLE_checkpoint_envelope_def)
  have "cp = cp'"
    using assms(2,4) p(3) env(1) unfolding parse_agrees_def VerifyCheckpoint_Ok by fastforce
  moreover have "te_LeafHash (tl_NewEntry lg d) = tl_HashLeaf lg (TLE_CanonicalizedBody e)"
    using assms(1,7) added_body [OF assms(3)] by (simp add: new_entry_documented_def)
  ultimately have "VerifyInclusionProof lg (Some e) (Some cp) = Ok ()"
    using p added_index [OF assms(3)] assms(5,6) by (simp add: VerifyInclusionProof_Ok)
  then show ?thesis
    using assms(4) env by (simp add: VerifyLogEntry_def)
qed

end

interpretation ts: entry_storage lg "storage_Add lg s" for lg s
proof unfold_locales
  fix en w tle w'
  assume a: "storage_Add lg s en w = (Ok tle, w')"
  then show "TLE_CanonicalizedBody tle = te_Data en"
    by (auto simp: storage_Add_Ok)
  show "0 \<le> sint (TLE_LogIndex tle)"
    using a msb_clear_sint_eq_uint by (fastforce simp: storage_Add_Ok)
  show "\<exists>p c cp. TLE_InclusionProof tle = Some p \<and> InclusionProof_Checkpoint p = Some c
        \<and> tl_Unmarshal lg c = Ok cp
        \<and> tl_VerifyInclusion lg (TLE_LogIndex tle) (cp_Size cp) (te_LeafHash en)
            (InclusionProof_Hashes p) (cp_Hash cp) = Ok ()"
    using a by (auto simp: storage_Add_Ok buildProof_Ok)
qed

section \<open>A concrete storage\<close>

text \<open>
  A log with room for one leaf: the state is the list of leaf hashes, the future is the leaf
  hash, a second submission of the leaf is a duplicate and of another leaf is pushed back.
\<close>

definition demo_storage :: "(bytes list, bytes) storage" where
  "demo_storage =
     \<lparr>storage_origin = ''a.b'',
      storage_Await = (\<lambda>f w. case w of
          [] \<Rightarrow> (Ok (\<lparr>Index_Index = 0, Index_IsDup = False\<rparr>, f), [f])
        | l # _ \<Rightarrow> (if l = f then Ok (\<lparr>Index_Index = 0, Index_IsDup = True\<rparr>, f)
                   else Err ErrPushback, w)),
      storage_addFn = (\<lambda>en w. (te_LeafHash en, w)),
      storage_readTileFn = (\<lambda>w level index p. Ok (concat w))\<rparr>"

lemma demo_Add:
  "storage_Add demo_tlog demo_storage (tl_NewEntry demo_tlog d) [] =
     (Ok \<lparr>TLE_LogIndex = 0, TLE_LogId = None, TLE_KindVersion = None,
          TLE_InclusionProof = Some \<lparr>InclusionProof_LogIndex = 0,
            InclusionProof_RootHash = CHR ''L'' # d, InclusionProof_TreeSize = 1,
            InclusionProof_Hashes = [], InclusionProof_Checkpoint = Some (CHR ''L'' # d)\<rparr>,
          TLE_CanonicalizedBody = d\<rparr>, [CHR ''L'' # d])"
  "storage_Add demo_tlog demo_storage (tl_NewEntry demo_tlog d) [CHR ''L'' # d] =
     (Err (DuplicateError 0), [CHR ''L'' # d])"
  by (simp_all add: storage_Add_def addEntry_def demo_storage_def buildProof_def
      unmarshalCheckpoint_def demo_tlog_def NewSafeInt64.simps SafeInt64_U_def SafeInt64_I_def)

theorem storage_Add_sound_witness:
  "\<exists>tle i body cp p.
    storage_Add demo_tlog demo_storage (tl_NewEntry demo_tlog ''d'') [] = (Ok tle, [''Ld''])
    \<and> awaited demo_storage (tl_NewEntry demo_tlog ''d'') [] =
      (Ok (\<lparr>Index_Index = i, Index_IsDup = False\<rparr>, body), [''Ld''])
    \<and> tl_Unmarshal demo_tlog body = Ok cp
    \<and> TLE_InclusionProof tle = Some p \<and> InclusionProof_RootHash p = cp_Hash cp"
proof -
  obtain tle where t: "storage_Add demo_tlog demo_storage (tl_NewEntry demo_tlog ''d'') [] =
      (Ok tle, [''Ld''])"
    using demo_Add(1) [of "''d''"] by blast
  show ?thesis using t storage_Add_sound [OF t] by blast
qed

theorem storage_Add_errors_witness:
  "fst (awaited demo_storage (tl_NewEntry demo_tlog ''d'') [''Ld'']) =
     Ok (\<lparr>Index_Index = 0, Index_IsDup = True\<rparr>, ''Ld'')
   \<and> fst (storage_Add demo_tlog demo_storage (tl_NewEntry demo_tlog ''d'') [''Ld'']) =
       Err (DuplicateError 0)"
proof -
  have "fst (awaited demo_storage (tl_NewEntry demo_tlog ''d'') [''Ld'']) =
     Ok (\<lparr>Index_Index = 0, Index_IsDup = True\<rparr>, ''Ld'')"
    by (simp add: awaited_def demo_storage_def demo_tlog_def)
  moreover obtain e w' where e: "storage_Add demo_tlog demo_storage (tl_NewEntry demo_tlog ''d'')
      [''Ld''] = (Err e, w')"
    using demo_Add(2) [of "''d''"] by simp
  ultimately show ?thesis using storage_Add_errors [OF e] by simp
qed

end
