(* ===== verification/Service.thy ===== *)
theory Service
  imports Hashedrekord Dsse Tessera_Storage
begin

text \<open>
  \<open>internal/server/service.go\<close> and the panic recovery of \<open>grpc.go\<close>: the handlers of the
  Rekor service.  A handler runs in a \<open>call_state\<close>: the state of the log behind the storage,
  the response header metadata of the call (\<open>grpc.SetHeader\<close> appends), and the counters of
  the metrics singleton.  Log lines are not part of the state.  The packages a handler calls are
  fields of the record \<open>deps\<close>; a registry pointer is an \<open>option\<close>, nil in read-only mode.
\<close>

section \<open>gRPC results\<close>

datatype 'a rpc = RpcOk 'a | RpcErr code string | RpcPanic

record metric_counts =
  newHashedRekordEntries :: nat
  newDsseEntries :: nat
  panicsTotal :: nat
  inclusionProofFailureCount :: nat

record 'w call_state =
  cs_log :: 'w
  cs_headers :: "(string \<times> string) list"
  cs_metrics :: metric_counts

definition SetHeader :: "string \<Rightarrow> string \<Rightarrow> 'w call_state \<Rightarrow> 'w call_state" where
  "SetHeader k v st = st \<lparr>cs_headers := cs_headers st @ [(k, v)]\<rparr>"

datatype counter = HashedRekordCounter | DsseCounter | PanicCounter | InclusionFailureCounter

fun Inc :: "counter \<Rightarrow> 'w call_state \<Rightarrow> 'w call_state" where
  "Inc HashedRekordCounter st =
     st \<lparr>cs_metrics := (cs_metrics st) \<lparr>newHashedRekordEntries :=
       newHashedRekordEntries (cs_metrics st) + 1\<rparr>\<rparr>"
| "Inc DsseCounter st =
     st \<lparr>cs_metrics := (cs_metrics st) \<lparr>newDsseEntries := newDsseEntries (cs_metrics st) + 1\<rparr>\<rparr>"
| "Inc PanicCounter st =
     st \<lparr>cs_metrics := (cs_metrics st) \<lparr>panicsTotal := panicsTotal (cs_metrics st) + 1\<rparr>\<rparr>"
| "Inc InclusionFailureCounter st =
     st \<lparr>cs_metrics := (cs_metrics st) \<lparr>inclusionProofFailureCount :=
       inclusionProofFailureCount (cs_metrics st) + 1\<rparr>\<rparr>"

definition httpStatusCodeHeader :: string where "httpStatusCodeHeader = ''x-http-code''"
definition httpErrorMessageHeader :: string where
  "httpErrorMessageHeader = ''x-http-error-message''"
definition duplicateEntryHeader :: string where "duplicateEntryHeader = ''x-log-index''"

section \<open>The server\<close>

record ('reg, 'note) deps =
  d_pki :: pki
  d_sigstore :: "'reg option sigstore"
  d_nev :: "message_verifier \<Rightarrow> envelope_verifier result"
  d_orders :: map_orders
  d_protojson_Marshal :: "pb_Entry \<Rightarrow> bytes result"
  d_jsoncanonicalizer_Transform :: "bytes \<Rightarrow> bytes result"
  d_tlog :: "'note tlog"

record ('reg, 'w) Server =
  server_storage :: "'w Storage option"
  server_readOnly :: bool
  server_algorithmRegistry :: "'reg option"
  server_logID :: bytes

definition NewServer ::
    "'w Storage option \<Rightarrow> bool \<Rightarrow> 'reg option \<Rightarrow> bytes \<Rightarrow> ('reg, 'w) Server" where
  "NewServer stg readOnly algorithmRegistry logID =
     (if readOnly
      then \<lparr>server_storage = None, server_readOnly = readOnly, server_algorithmRegistry = None,
            server_logID = logID\<rparr>
      else \<lparr>server_storage = stg, server_readOnly = False,
            server_algorithmRegistry = algorithmRegistry, server_logID = logID\<rparr>)"

text \<open>
  One case of the switch on the request type: the entry, its kind and version, and its JSON
  serialization.  The two cases of the source differ in the name of the type in the message.
\<close>

definition prepare_entry ::
    "('reg, 'note) deps \<Rightarrow> string \<Rightarrow> pb_Entry result \<Rightarrow> (pb_KindVersion \<times> bytes) rpc" where
  "prepare_entry d ty r =
     (case r of
        Panic \<Rightarrow> RpcPanic
      | Err e \<Rightarrow> RpcErr InvalidArgument (''invalid '' @ ty @ '' request'')
      | Ok entry \<Rightarrow>
          (let kv = \<lparr>KindVersion_Kind = Entry_Kind entry, KindVersion_Version = Entry_ApiVersion entry\<rparr>
           in case d_protojson_Marshal d entry of
                Panic \<Rightarrow> RpcPanic
              | Err e \<Rightarrow> RpcErr InvalidArgument (''invalid '' @ ty @ '' request'')
              | Ok serialized \<Rightarrow> RpcOk (kv, serialized)))"

definition select_entry ::
    "('reg, 'note) deps \<Rightarrow> ('reg, 'w) Server \<Rightarrow> pb_CreateEntryRequest option \<Rightarrow>
     (pb_KindVersion \<times> bytes \<times> counter) rpc" where
  "select_entry d s req =
     (case CreateEntryRequest_GetSpec req of
        Some (CreateEntryRequest_HashedRekordRequestV002 _) \<Rightarrow>
          (let hr = CreateEntryRequest_GetHashedRekordRequestV002 req in
           case prepare_entry d ''hashedrekord''
                  (hashedrekord_ToLogEntry (d_pki d) (d_sigstore d) (server_algorithmRegistry s) hr) of
             RpcOk (kv, serialized) \<Rightarrow> RpcOk (kv, serialized, HashedRekordCounter)
           | RpcErr c m \<Rightarrow> RpcErr c m | RpcPanic \<Rightarrow> RpcPanic)
      | Some (CreateEntryRequest_DsseRequestV002 _) \<Rightarrow>
          (let ds = CreateEntryRequest_GetDsseRequestV002 req in
           case prepare_entry d ''dsse''
                  (dsse_ToLogEntry (d_pki d) (d_sigstore d) (d_nev d) (d_orders d)
                     (server_algorithmRegistry s) ds) of
             RpcOk (kv, serialized) \<Rightarrow> RpcOk (kv, serialized, DsseCounter)
           | RpcErr c m \<Rightarrow> RpcErr c m | RpcPanic \<Rightarrow> RpcPanic)
      | None \<Rightarrow> RpcErr InvalidArgument ''invalid type, must be either hashedrekord or dsse'')"

text \<open>What the handler makes of an error of \<open>storage.Add\<close>, in the order of its tests.\<close>

definition add_failed ::
    "err \<Rightarrow> 'w call_state \<Rightarrow> pb_TransparencyLogEntry rpc \<times> 'w call_state" where
  "add_failed e st =
     (if errors_Is e ErrPushback then (RpcErr Unavailable ''reached max pushback; retry'', st)
      else if errors_Is e ContextCanceled then (RpcErr Canceled (err_Error e), st)
      else
        case errors_As_Duplicate e of
          Some dup \<Rightarrow>
            (RpcErr AlreadyExists (err_Error e),
             SetHeader duplicateEntryHeader (FormatUint (unat (DuplicateError_Index dup))) st)
        | None \<Rightarrow>
            (let st = (if errors_As_Inclusion e then Inc InclusionFailureCounter st else st)
             in (RpcErr Unknown ''failed to integrate entry'', st)))"

definition CreateEntry ::
    "('reg, 'note) deps \<Rightarrow> ('reg, 'w) Server \<Rightarrow> pb_CreateEntryRequest option \<Rightarrow> 'w call_state \<Rightarrow>
     pb_TransparencyLogEntry rpc \<times> 'w call_state" where
  "CreateEntry d s req st =
     (if server_readOnly s then
        (let st = SetHeader httpStatusCodeHeader ''405'' st;
             st = SetHeader httpErrorMessageHeader
               ''This log has been frozen, please switch to the latest log.'' st
         in (RpcErr Unimplemented ''log frozen'', st))
      else
        case select_entry d s req of
          RpcPanic \<Rightarrow> (RpcPanic, st)
        | RpcErr c m \<Rightarrow> (RpcErr c m, st)
        | RpcOk (kv, serialized, metricsCounter) \<Rightarrow>
            (case d_jsoncanonicalizer_Transform d serialized of
               Panic \<Rightarrow> (RpcPanic, st)
             | Err e \<Rightarrow> (RpcErr InvalidArgument ''invalid entry'', st)
             | Ok canonicalized \<Rightarrow>
                 (let entry = tl_NewEntry (d_tlog d) canonicalized in
                  case server_storage s of
                    None \<Rightarrow> (RpcPanic, st)
                  | Some stg \<Rightarrow>
                      (let (r, w) = Storage_Add stg entry (cs_log st);
                           st = st \<lparr>cs_log := w\<rparr>
                       in case r of
                            Panic \<Rightarrow> (RpcPanic, st)
                          | Err e \<Rightarrow> add_failed e st
                          | Ok tle \<Rightarrow>
                              (let tle = tle \<lparr>TLE_KindVersion := Some kv\<rparr>;
                                   tle = tle \<lparr>TLE_LogId := Some (server_logID s)\<rparr>;
                                   st = SetHeader httpStatusCodeHeader ''201'' st;
                                   st = Inc metricsCounter st
                               in (RpcOk tle, st))))))"

definition GetTile ::
    "pb_TileRequest option \<Rightarrow> 'w call_state \<Rightarrow> pb_HttpBody rpc \<times> 'w call_state" where
  "GetTile req st = (RpcErr Unimplemented ''method GetTile not implemented'', st)"

definition GetEntryBundle ::
    "pb_EntryBundleRequest option \<Rightarrow> 'w call_state \<Rightarrow> pb_HttpBody rpc \<times> 'w call_state" where
  "GetEntryBundle req st = (RpcErr Unimplemented ''method GetEntryBundle not implemented'', st)"

definition GetCheckpoint ::
    "unit \<Rightarrow> 'w call_state \<Rightarrow> pb_HttpBody rpc \<times> 'w call_state" where
  "GetCheckpoint req st = (RpcErr Unimplemented ''method GetCheckpoint not implemented'', st)"

datatype serving_status = SERVING

definition Check :: "('reg, 'w) Server \<Rightarrow> 'w call_state \<Rightarrow> serving_status rpc \<times> 'w call_state" where
  "Check s st = (RpcOk SERVING, st)"

text \<open>
  The recovery interceptor of the gRPC server: a handler that panics is answered with an internal
  error, after \<open>grpcPanicRecoveryHandler\<close> has counted the panic.
\<close>

definition grpcPanicRecoveryHandler :: "'w call_state \<Rightarrow> 'a rpc \<times> 'w call_state" where
  "grpcPanicRecoveryHandler st = (RpcErr Internal ''internal server error'', Inc PanicCounter st)"

definition recovered :: "'a rpc \<times> 'w call_state \<Rightarrow> 'a rpc \<times> 'w call_state" where
  "recovered r = (case r of (RpcPanic, st) \<Rightarrow> grpcPanicRecoveryHandler st | _ \<Rightarrow> r)"

section \<open>What the handler accepts\<close>

text \<open>
  The log entry a request stands for, and the counter of its type: the specification of the switch
  in \<open>CreateEntry\<close>.
\<close>

inductive request_entry ::
    "('reg, 'note) deps \<Rightarrow> ('reg, 'w) Server \<Rightarrow> pb_CreateEntryRequest option \<Rightarrow> pb_Entry \<Rightarrow>
     counter \<Rightarrow> bool" for d s req where
  hashedrekord:
    "CreateEntryRequest_GetSpec req = Some (CreateEntryRequest_HashedRekordRequestV002 hr) \<Longrightarrow>
     hashedrekord_ToLogEntry (d_pki d) (d_sigstore d) (server_algorithmRegistry s) hr = Ok e \<Longrightarrow>
     request_entry d s req e HashedRekordCounter"
| dsse:
    "CreateEntryRequest_GetSpec req = Some (CreateEntryRequest_DsseRequestV002 ds) \<Longrightarrow>
     dsse_ToLogEntry (d_pki d) (d_sigstore d) (d_nev d) (d_orders d) (server_algorithmRegistry s) ds
       = Ok e \<Longrightarrow>
     request_entry d s req e DsseCounter"

inductive_simps request_entry_iff: "request_entry d s req e c"

lemma GetSpec_getters:
  "CreateEntryRequest_GetSpec req = Some (CreateEntryRequest_HashedRekordRequestV002 hr) \<Longrightarrow>
     CreateEntryRequest_GetHashedRekordRequestV002 req = hr"
  "CreateEntryRequest_GetSpec req = Some (CreateEntryRequest_DsseRequestV002 ds) \<Longrightarrow>
     CreateEntryRequest_GetDsseRequestV002 req = ds"
  by (cases req; simp add: CreateEntryRequest_GetHashedRekordRequestV002_def
      CreateEntryRequest_GetDsseRequestV002_def)+

lemma prepare_entry_Err: "prepare_entry d ty r = RpcErr c m \<Longrightarrow> c = InvalidArgument"
  by (auto simp: prepare_entry_def Let_def split: result.splits)

lemma select_entry_Ok:
  "select_entry d s req = RpcOk (kv, b, c) \<longleftrightarrow>
     (\<exists>e. request_entry d s req e c \<and> d_protojson_Marshal d e = Ok b
        \<and> kv = \<lparr>KindVersion_Kind = Entry_Kind e, KindVersion_Version = Entry_ApiVersion e\<rparr>)"
  by (auto simp: select_entry_def request_entry_iff Let_def prepare_entry_def GetSpec_getters
      split: option.splits CreateEntryRequest_oneof.splits rpc.splits result.splits)

lemma select_entry_Err: "select_entry d s req = RpcErr c m \<Longrightarrow> c = InvalidArgument"
  by (auto simp: select_entry_def Let_def dest: prepare_entry_Err
      split: option.splits CreateEntryRequest_oneof.splits rpc.splits)

lemma add_failed_code:
  "add_failed e st = (r, st') \<Longrightarrow>
     \<exists>c m. r = RpcErr c m \<and> c \<in> {Unavailable, Canceled, AlreadyExists, Unknown}"
  by (auto simp: add_failed_def Let_def split: if_splits option.splits)

fun counter_kind :: "counter \<Rightarrow> string" where
  "counter_kind HashedRekordCounter = ''hashedrekord''"
| "counter_kind DsseCounter = ''dsse''"
| "counter_kind _ = []"

lemma request_entry_kind:
  assumes "request_entry d s req e c"
  shows "Entry_Kind e = counter_kind c" "Entry_ApiVersion e = ''0.0.2''"
  using assms hr.entry_kind hr.entry_version ds.entry_kind ds.entry_version
  by (auto simp: request_entry_iff)

text \<open>A successful call, step by step.\<close>

lemma CreateEntry_parts:
  assumes "CreateEntry d s req st = (RpcOk tle, st')"
  obtains e b body c stg t w where "\<not> server_readOnly s" "request_entry d s req e c"
    and "d_protojson_Marshal d e = Ok b" "d_jsoncanonicalizer_Transform d b = Ok body"
    and "server_storage s = Some stg"
    and "Storage_Add stg (tl_NewEntry (d_tlog d) body) (cs_log st) = (Ok t, w)"
    and "tle = t \<lparr>TLE_KindVersion := Some \<lparr>KindVersion_Kind = Entry_Kind e,
           KindVersion_Version = Entry_ApiVersion e\<rparr>, TLE_LogId := Some (server_logID s)\<rparr>"
    and "st' = Inc c (SetHeader httpStatusCodeHeader ''201'' (st \<lparr>cs_log := w\<rparr>))"
  using assms
  by (auto simp: CreateEntry_def Let_def select_entry_Ok dest!: add_failed_code
      split: if_splits rpc.splits result.splits option.splits prod.splits)

section \<open>Properties of CreateEntry\<close>

text \<open>
  C15. A frozen log: a server built in read-only mode answers every request, valid or not, with
  \<open>Unimplemented\<close> and the two headers that make the gateway answer 405, and touches neither
  the log nor a counter.
\<close>

theorem CreateEntry_frozen:
  "CreateEntry d (NewServer stg True reg logID) req st =
     (RpcErr Unimplemented ''log frozen'',
      st \<lparr>cs_headers := cs_headers st @ [(''x-http-code'', ''405''), (''x-http-error-message'',
        ''This log has been frozen, please switch to the latest log.'')]\<rparr>)"
  by (simp add: CreateEntry_def NewServer_def SetHeader_def httpStatusCodeHeader_def
      httpErrorMessageHeader_def Let_def)

text \<open>
  C6. A created entry: the server is not read-only, the request is valid for its type, the body
  is the canonical JSON of the log entry, the log accepted it, the response names the entry's kind
  and version and this log, the gateway is told to answer 201, and exactly the counter of the
  request's type goes up by one.
\<close>

theorem CreateEntry_created:
  assumes "CreateEntry d s req st = (RpcOk tle, st')"
  shows "\<not> server_readOnly s \<and> (\<exists>e c b body stg t.
      request_entry d s req e c \<and> d_protojson_Marshal d e = Ok b
    \<and> d_jsoncanonicalizer_Transform d b = Ok body
    \<and> server_storage s = Some stg
    \<and> Storage_Add stg (tl_NewEntry (d_tlog d) body) (cs_log st) = (Ok t, cs_log st')
    \<and> TLE_InclusionProof tle = TLE_InclusionProof t
    \<and> TLE_LogIndex tle = TLE_LogIndex t \<and> TLE_CanonicalizedBody tle = TLE_CanonicalizedBody t
    \<and> TLE_KindVersion tle = Some \<lparr>KindVersion_Kind = counter_kind c, KindVersion_Version = ''0.0.2''\<rparr>
    \<and> TLE_LogId tle = Some (server_logID s)
    \<and> cs_headers st' = cs_headers st @ [(''x-http-code'', ''201'')]
    \<and> cs_metrics st' = cs_metrics (Inc c st))"
proof -
  obtain e b body c stg t w where p: "\<not> server_readOnly s" "request_entry d s req e c"
      "d_protojson_Marshal d e = Ok b" "d_jsoncanonicalizer_Transform d b = Ok body"
      "server_storage s = Some stg"
      "Storage_Add stg (tl_NewEntry (d_tlog d) body) (cs_log st) = (Ok t, w)"
      "tle = t \<lparr>TLE_KindVersion := Some \<lparr>KindVersion_Kind = Entry_Kind e,
           KindVersion_Version = Entry_ApiVersion e\<rparr>, TLE_LogId := Some (server_logID s)\<rparr>"
      "st' = Inc c (SetHeader httpStatusCodeHeader ''201'' (st \<lparr>cs_log := w\<rparr>))"
    using assms by (rule CreateEntry_parts)
  have st: "cs_log st' = w" "cs_metrics st' = cs_metrics (Inc c st)"
      "cs_headers st' = cs_headers st @ [(''x-http-code'', ''201'')]"
    using p(8) by (cases c; simp add: SetHeader_def httpStatusCodeHeader_def)+
  show ?thesis
    using p(1-6) st request_entry_kind [OF p(2)] unfolding p(7)
    by (intro conjI exI [of _ e] exI [of _ c] exI [of _ b] exI [of _ body] exI [of _ stg]
        exI [of _ t]) simp_all
qed

text \<open>
  A request answered with \<open>InvalidArgument\<close> has no effect: the log is not asked, no
  header is set and no counter moves.
\<close>

theorem CreateEntry_invalid_no_effect:
  assumes "CreateEntry d s req st = (RpcErr InvalidArgument m, st')"
  shows "st' = st"
  using assms
  by (auto simp: CreateEntry_def Let_def dest!: add_failed_code
      split: if_splits rpc.splits result.splits option.splits prod.splits)

text \<open>
  The request reaches the log: it stands for an entry, and the entry has a canonical JSON body.
\<close>

definition submits ::
    "('reg, 'note) deps \<Rightarrow> ('reg, 'w) Server \<Rightarrow> pb_CreateEntryRequest option \<Rightarrow> tessera_Entry \<Rightarrow> bool"
where
  "submits d s req en \<longleftrightarrow>
     \<not> server_readOnly s
     \<and> (\<exists>kv b c body. select_entry d s req = RpcOk (kv, b, c)
          \<and> d_jsoncanonicalizer_Transform d b = Ok body \<and> en = tl_NewEntry (d_tlog d) body)"

lemma CreateEntry_add_failed:
  assumes "submits d s req en" "server_storage s = Some stg"
    and "Storage_Add stg en (cs_log st) = (Err e, w)"
  shows "CreateEntry d s req st = add_failed e (st \<lparr>cs_log := w\<rparr>)"
  using assms by (auto simp: submits_def CreateEntry_def Let_def)

lemma storage_Add_duplicate:
  assumes "awaited s en w = (Ok (\<lparr>Index_Index = i, Index_IsDup = True\<rparr>, body), w')" "uint i < 2 ^ 63"
  shows "storage_Add lg s en w = (Err (DuplicateError i), w')"
proof -
  have "NewSafeInt64 (AnyUint64 i) = Ok \<lparr>safe_u = i, safe_i = i\<rparr>"
    using assms(2) by (simp add: NewSafeInt64_uint_Ok)
  then show ?thesis
    using assms(1) by (simp add: storage_Add_def addEntry_awaited Let_def SafeInt64_U_def)
qed

lemma storage_Add_await_failed:
  "awaited s en w = (Err e0, w') \<Longrightarrow>
   storage_Add lg s en w = (Err (Wrap ''add entry'' (Wrap ''await'' e0)), w')"
  by (simp add: storage_Add_def addEntry_awaited Let_def)

text \<open>
  C16. An entry that is already in the log is answered with \<open>AlreadyExists\<close>, and the header
  \<open>x-log-index\<close> holds the index of the existing entry in a form that parses back to it; no
  counter moves.
\<close>

theorem CreateEntry_duplicate:
  assumes "submits d s req en" "server_storage s = Some (as_Storage lg stg)"
    and "awaited stg en (cs_log st) = (Ok (\<lparr>Index_Index = i, Index_IsDup = True\<rparr>, body), w)"
    and "uint i < 2 ^ 63"
  shows "\<exists>v. CreateEntry d s req st =
      (RpcErr AlreadyExists (DuplicateError_Error i),
       st \<lparr>cs_log := w, cs_headers := cs_headers st @ [(''x-log-index'', v)]\<rparr>)
    \<and> Atoi v = Some (uint i)"
proof -
  have "unat i < 2 ^ 63" using assms(4) by (rule uint_less_unat)
  then have "Atoi (FormatUint (unat i)) = Some (uint i)"
    by (simp add: Atoi_FormatUint)
  moreover have "CreateEntry d s req st = add_failed (DuplicateError i) (st \<lparr>cs_log := w\<rparr>)"
    using CreateEntry_add_failed [OF assms(1,2)] storage_Add_duplicate [OF assms(3,4), of lg]
    by simp
  ultimately show ?thesis
    by (intro exI [of _ "FormatUint (unat i)"])
       (simp add: add_failed_def SetHeader_def duplicateEntryHeader_def DuplicateError_Index_def)
qed

text \<open>
  C17. When the log cannot take the entry, the answer depends on the log's error, however deeply it
  is wrapped: pushback is answered with \<open>Unavailable\<close> (the client may retry), a cancelled
  context with \<open>Canceled\<close>.  No header is set, no counter moves.
\<close>

theorem CreateEntry_await_failed:
  assumes "submits d s req en" "server_storage s = Some (as_Storage lg stg)"
    and "awaited stg en (cs_log st) = (Err e0, w)"
    and "errors_Is e0 ErrPushback \<or> errors_Is e0 ContextCanceled"
  shows "\<exists>c m. CreateEntry d s req st = (RpcErr c m, st \<lparr>cs_log := w\<rparr>)
    \<and> (if errors_Is e0 ErrPushback then c = Unavailable \<and> m = ''reached max pushback; retry''
       else c = Canceled \<and> m = ''add entry: await: '' @ err_Error e0)"
proof -
  have "CreateEntry d s req st =
      add_failed (Wrap ''add entry'' (Wrap ''await'' e0)) (st \<lparr>cs_log := w\<rparr>)"
    using CreateEntry_add_failed [OF assms(1,2)] storage_Add_await_failed [OF assms(3), of lg]
    by simp
  then show ?thesis using assms(4) by (auto simp: add_failed_def)
qed

section \<open>Sequences of requests\<close>

text \<open>
  The server handles each request with fresh response headers; log and counters persist.  Calls
  are taken one after the other: the log orders the additions, and the counters are atomic.
\<close>

fun serve_all ::
    "('reg, 'note) deps \<Rightarrow> ('reg, 'w) Server \<Rightarrow> pb_CreateEntryRequest option list \<Rightarrow> 'w call_state \<Rightarrow>
     pb_TransparencyLogEntry rpc list \<times> 'w call_state" where
  "serve_all d s [] st = ([], st)"
| "serve_all d s (r # rs) st =
     (let (x, st1) = recovered (CreateEntry d s r (st \<lparr>cs_headers := []\<rparr>));
          (xs, st2) = serve_all d s rs st1
      in (x # xs, st2))"

fun rpc_created :: "'a rpc \<Rightarrow> bool" where
  "rpc_created (RpcOk x) = True"
| "rpc_created _ = False"

definition entries_counted :: "'w call_state \<Rightarrow> nat" where
  "entries_counted st = newHashedRekordEntries (cs_metrics st) + newDsseEntries (cs_metrics st)"

lemma entries_counted_simps [simp]:
  "entries_counted (SetHeader k v st) = entries_counted st"
  "entries_counted (st \<lparr>cs_log := w\<rparr>) = entries_counted st"
  "entries_counted (st \<lparr>cs_headers := h\<rparr>) = entries_counted st"
  "entries_counted (Inc HashedRekordCounter st) = Suc (entries_counted st)"
  "entries_counted (Inc DsseCounter st) = Suc (entries_counted st)"
  "entries_counted (Inc PanicCounter st) = entries_counted st"
  "entries_counted (Inc InclusionFailureCounter st) = entries_counted st"
  by (simp_all add: entries_counted_def SetHeader_def)

lemma add_failed_counted: "add_failed e st = (r, st') \<Longrightarrow> entries_counted st' = entries_counted st"
  by (auto simp: add_failed_def Let_def simp del: Inc.simps split: if_splits option.splits)

lemma CreateEntry_counted:
  assumes "CreateEntry d s req st = (r, st')"
  shows "entries_counted st' = entries_counted st + (if rpc_created r then 1 else 0)"
proof (cases r)
  case (RpcOk tle)
  obtain e b body c stg t w where "request_entry d s req e c"
      "st' = Inc c (SetHeader httpStatusCodeHeader ''201'' (st \<lparr>cs_log := w\<rparr>))"
    using assms unfolding RpcOk by (rule CreateEntry_parts)
  then show ?thesis using RpcOk by (auto simp: request_entry_iff simp del: Inc.simps)
next
  case (RpcErr c m)
  then show ?thesis
    using assms
    by (auto simp: CreateEntry_def Let_def dest: add_failed_counted
        split: if_splits rpc.splits result.splits option.splits prod.splits)
next
  case RpcPanic
  then show ?thesis
    using assms
    by (auto simp: CreateEntry_def Let_def dest: add_failed_counted add_failed_code
        split: if_splits rpc.splits result.splits option.splits prod.splits)
qed

lemma recovered_counted:
  assumes "recovered (r, st) = (r', st')"
  shows "entries_counted st' = entries_counted st" "rpc_created r' = rpc_created r"
    "r' \<noteq> RpcPanic"
  using assms
  by (auto simp: recovered_def grpcPanicRecoveryHandler_def simp del: Inc.simps split: rpc.splits)

text \<open>
  Over any sequence of requests the two entry counters together grow by exactly the number of
  requests answered with a log entry, and every request is answered: a panicking handler does
  not end the sequence.
\<close>

theorem serve_all_counts:
  "serve_all d s reqs st = (xs, st') \<Longrightarrow>
     entries_counted st' = entries_counted st + length (filter rpc_created xs)
     \<and> length xs = length reqs \<and> RpcPanic \<notin> set xs"
proof (induction reqs arbitrary: st xs)
  case Nil
  then show ?case by simp
next
  case (Cons r rs)
  obtain y sty where c: "CreateEntry d s r (st \<lparr>cs_headers := []\<rparr>) = (y, sty)" by fastforce
  obtain x st1 where x: "recovered (y, sty) = (x, st1)" by fastforce
  obtain ys where ys: "serve_all d s rs st1 = (ys, st')" "xs = x # ys"
    using Cons.prems c x by (auto simp: Let_def split: prod.splits)
  show ?case
    using Cons.IH [OF ys(1)] CreateEntry_counted [OF c] recovered_counted [OF x] ys(2) by auto
qed

lemma serve_all_frozen:
  "serve_all d (NewServer stg True reg logID) reqs st = (xs, st') \<Longrightarrow>
     cs_log st' = cs_log st \<and> cs_metrics st' = cs_metrics st"
  by (induction reqs arbitrary: st xs)
     (auto simp: CreateEntry_def NewServer_def SetHeader_def recovered_def Let_def
       split: prod.splits)

section \<open>A concrete server\<close>

text \<open>
  The DSSE instance of theory \<open>Dsse\<close> with the one-leaf log of theory \<open>Tessera_Storage\<close>;
  the serializer writes the kind of the entry.
\<close>

definition demo_deps :: "(PublicKeyDetails list, unit) deps" where
  "demo_deps =
     \<lparr>d_pki = demo_pki,
      d_sigstore =
        \<lparr>ss_ParseSignatureAlgorithmFlag = demo_parse, ss_FormatSignatureAlgorithmFlag = demo_flag,
         ss_NewAlgorithmRegistryConfig = (\<lambda>l. Ok (Some l)),
         ss_IsAlgorithmPermitted = (\<lambda>reg k h. Ok (reg \<noteq> None)),
         ss_GetAlgorithmDetails = ss_GetAlgorithmDetails demo_dsse_sigstore,
         ss_LoadVerifierED25519ph = ss_LoadVerifierED25519ph demo_dsse_sigstore,
         ss_LoadVerifier = ss_LoadVerifier demo_dsse_sigstore\<rparr>,
      d_nev = demo_nev, d_orders = demo_orders id,
      d_protojson_Marshal = (\<lambda>e. Ok (Entry_Kind e)),
      d_jsoncanonicalizer_Transform = Ok, d_tlog = demo_tlog\<rparr>"

definition demo_server :: "(PublicKeyDetails list, bytes list) Server" where
  "demo_server = NewServer (Some (as_Storage demo_tlog demo_storage)) False (Some [PKIX_ED25519]) ''id''"

definition demo_call :: "bytes list \<Rightarrow> bytes list call_state" where
  "demo_call w =
     \<lparr>cs_log = w, cs_headers = [],
      cs_metrics = \<lparr>newHashedRekordEntries = 0, newDsseEntries = 0, panicsTotal = 0,
                    inclusionProofFailureCount = 0\<rparr>\<rparr>"

definition demo_create :: "pb_CreateEntryRequest option" where
  "demo_create = Some \<lparr>CreateEntryRequest_Spec =
     Some (CreateEntryRequest_DsseRequestV002 (Some (demo_request [''a''] [''a''])))\<rparr>"

definition demo_bad_create :: "pb_CreateEntryRequest option" where
  "demo_bad_create = Some \<lparr>CreateEntryRequest_Spec =
     Some (CreateEntryRequest_DsseRequestV002 (Some (demo_request [] [''a''])))\<rparr>"

lemma demo_select:
  "select_entry demo_deps demo_server demo_create =
     RpcOk (\<lparr>KindVersion_Kind = ''dsse'', KindVersion_Version = ''0.0.2''\<rparr>, ''dsse'', DsseCounter)"
  by (simp add: select_entry_def demo_create_def demo_deps_def demo_server_def NewServer_def
      CreateEntryRequest_GetDsseRequestV002_def prepare_entry_def demo_eval dsse_entry_def
      del: EncodeToString.simps)

lemma demo_submits: "submits demo_deps demo_server demo_create (tl_NewEntry demo_tlog ''dsse'')"
  using demo_select by (auto simp: submits_def demo_server_def NewServer_def demo_deps_def)

lemma demo_server_storage:
  "server_storage demo_server = Some (as_Storage demo_tlog demo_storage)"
  "\<not> server_readOnly demo_server"
  by (simp_all add: demo_server_def NewServer_def)

lemma demo_created:
  "\<exists>tle. CreateEntry demo_deps demo_server demo_create (demo_call []) = (RpcOk tle,
     Inc DsseCounter (SetHeader httpStatusCodeHeader ''201'' (demo_call [''Ldsse''])))"
  using demo_select demo_server_storage demo_Add(1) [of "''dsse''"]
  by (simp add: CreateEntry_def demo_call_def Let_def demo_deps_def)

theorem CreateEntry_created_witness:
  "\<exists>tle st'. CreateEntry demo_deps demo_server demo_create (demo_call []) = (RpcOk tle, st')
    \<and> TLE_KindVersion tle = Some \<lparr>KindVersion_Kind = ''dsse'', KindVersion_Version = ''0.0.2''\<rparr>
    \<and> TLE_LogId tle = Some (server_logID demo_server)
    \<and> cs_headers st' = [(''x-http-code'', ''201'')]"
proof -
  obtain tle where t: "CreateEntry demo_deps demo_server demo_create (demo_call []) = (RpcOk tle,
     Inc DsseCounter (SetHeader httpStatusCodeHeader ''201'' (demo_call [''Ldsse''])))"
    using demo_created by blast
  show ?thesis
    using t CreateEntry_created [OF t]
    by (auto simp: request_entry_iff demo_create_def demo_call_def)
qed

theorem CreateEntry_invalid_no_effect_witness:
  "\<exists>m. CreateEntry demo_deps demo_server demo_bad_create (demo_call []) =
     (RpcErr InvalidArgument m, demo_call [])"
proof -
  obtain m st' where r: "CreateEntry demo_deps demo_server demo_bad_create (demo_call []) =
      (RpcErr InvalidArgument m, st')"
    by (simp add: CreateEntry_def demo_server_storage select_entry_def demo_bad_create_def
        demo_deps_def CreateEntryRequest_GetDsseRequestV002_def prepare_entry_def dsse_ToLogEntry_def
        dsse_validate_def demo_request_def Let_def)
  show ?thesis using r CreateEntry_invalid_no_effect [OF r] by blast
qed

theorem CreateEntry_duplicate_witness:
  "\<exists>v. CreateEntry demo_deps demo_server demo_create (demo_call [''Ldsse'']) =
      (RpcErr AlreadyExists (DuplicateError_Error 0),
       (demo_call [''Ldsse'']) \<lparr>cs_log := [''Ldsse''], cs_headers := [(''x-log-index'', v)]\<rparr>)
    \<and> Atoi v = Some 0"
proof -
  have "awaited demo_storage (tl_NewEntry demo_tlog ''dsse'') (cs_log (demo_call [''Ldsse''])) =
     (Ok (\<lparr>Index_Index = 0, Index_IsDup = True\<rparr>, ''Ldsse''), [''Ldsse''])"
    by (simp add: awaited_def demo_storage_def demo_tlog_def demo_call_def)
  then show ?thesis
    using CreateEntry_duplicate [OF demo_submits demo_server_storage(1),
        of "demo_call [''Ldsse'']" 0 "''Ldsse''" "[''Ldsse'']"]
    by (simp add: demo_call_def)
qed

theorem CreateEntry_await_failed_witness:
  "\<exists>c m. CreateEntry demo_deps demo_server demo_create (demo_call [''Lother'']) =
       (RpcErr c m, (demo_call [''Lother'']) \<lparr>cs_log := [''Lother'']\<rparr>) \<and> c = Unavailable"
proof -
  have "awaited demo_storage (tl_NewEntry demo_tlog ''dsse'') (cs_log (demo_call [''Lother''])) =
     (Err ErrPushback, [''Lother''])"
    by (simp add: awaited_def demo_storage_def demo_tlog_def demo_call_def)
  then show ?thesis
    using CreateEntry_await_failed [OF demo_submits demo_server_storage(1),
        of "demo_call [''Lother'']" ErrPushback "[''Lother'']"]
    by auto
qed

theorem serve_all_counts_witness:
  "\<exists>xs st'. serve_all demo_deps demo_server [demo_create, demo_bad_create] (demo_call []) = (xs, st')
     \<and> entries_counted st' = entries_counted (demo_call []) + length (filter rpc_created xs)
     \<and> length xs = 2 \<and> RpcPanic \<notin> set xs"
proof -
  obtain xs st' where r: "serve_all demo_deps demo_server [demo_create, demo_bad_create]
      (demo_call []) = (xs, st')" by fastforce
  show ?thesis using r serve_all_counts [OF r] by auto
qed

end
