(* ===== verification/Http_Gateway.thy ===== *)
theory Http_Gateway
  imports Service
begin

text \<open>
  \<open>internal/server/http.go\<close>: the hooks of the HTTP gateway, which turn header metadata of a
  gRPC response into a status code and a body.  The response writer is \<open>net/http\<close>'s: a status
  code can be written once, an informational one does not count, a code outside 100 to 999
  panics, and writing a body first writes status 200.  Header metadata maps a key to its values;
  an absent key has none.  The gateway's default error handler is a parameter.  The text of the
  error that \<open>strconv.Atoi\<close> returns is abbreviated to its prefix and argument.
\<close>

section \<open>The response writer\<close>

type_synonym http_headers = "(string \<times> string list) list"

record response =
  rw_Header :: http_headers
  rw_status :: "int option"
  rw_body :: bytes
  rw_broken :: bool

definition bodyAllowedForStatus :: "int \<Rightarrow> bool" where
  "bodyAllowedForStatus status \<longleftrightarrow> \<not> (100 \<le> status \<and> status \<le> 199 \<or> status = 204 \<or> status = 304)"

definition WriteHeader :: "int \<Rightarrow> response \<Rightarrow> response result" where
  "WriteHeader code w =
     (if rw_status w \<noteq> None then Ok w
      else if code < 100 \<or> code > 999 then Panic
      else if code \<le> 199 \<and> code \<noteq> 101 then Ok w
      else Ok (w \<lparr>rw_status := Some code\<rparr>))"

definition Write :: "bytes \<Rightarrow> response \<Rightarrow> response \<times> err option" where
  "Write b w =
     (let w = (if rw_status w = None then w \<lparr>rw_status := Some 200\<rparr> else w) in
      if \<not> bodyAllowedForStatus (the (rw_status w))
      then (w, Some (ErrText ''http: request method or response status code does not allow body''))
      else if rw_broken w then (w, Some (ErrText ''connection closed''))
      else (w \<lparr>rw_body := rw_body w @ b\<rparr>, None))"

section \<open>The hooks\<close>

type_synonym MD = "string \<Rightarrow> string list"

definition MD_delete :: "MD \<Rightarrow> string \<Rightarrow> MD" where
  "MD_delete md k = md(k := [])"

definition isGrpcHeader :: "string \<Rightarrow> bool" where
  "isGrpcHeader header = HasPrefix header ''Grpc-''"

text \<open>
  The result is the response, the metadata left over, and the error the hook returns;
  \<open>Panic\<close> is the panic of \<open>WriteHeader\<close>.
\<close>

type_synonym hook_result = "(response \<times> MD \<times> err option) result"

definition write_message :: "MD \<Rightarrow> response \<Rightarrow> hook_result" where
  "write_message md w =
     (case md httpErrorMessageHeader of
        [] \<Rightarrow> Ok (w, md, None)
      | msg # _ \<Rightarrow>
          (let md = MD_delete md httpErrorMessageHeader;
               (w, e) = Write (msg @ newline) w
           in Ok (w, md, e)))"

definition httpResponseModifier :: "MD option \<Rightarrow> response \<Rightarrow> hook_result" where
  "httpResponseModifier mdo w =
     (case mdo of
        None \<Rightarrow> Ok (w, (\<lambda>_. []), None)
      | Some md \<Rightarrow>
          (let w = w \<lparr>rw_Header := filter (\<lambda>(h, _). \<not> isGrpcHeader h) (rw_Header w)\<rparr> in
           case md httpStatusCodeHeader of
             [] \<Rightarrow> write_message md w
           | v # _ \<Rightarrow>
               (case Atoi v of
                  None \<Rightarrow> Ok (w, md, Some (ErrText (''strconv.Atoi: parsing '' @ v)))
                | Some c \<Rightarrow>
                    (let md = MD_delete md httpStatusCodeHeader in
                     go_bind (WriteHeader c w) id (write_message md)))))"

definition customHTTPErrorHandler ::
    "(err \<Rightarrow> response \<Rightarrow> response) \<Rightarrow> MD option \<Rightarrow> response \<Rightarrow> err \<Rightarrow> response result" where
  "customHTTPErrorHandler DefaultHTTPErrorHandler mdo w e =
     (case mdo of
        None \<Rightarrow> Ok (DefaultHTTPErrorHandler e w)
      | Some md \<Rightarrow>
          (if md httpStatusCodeHeader = [] then Ok (DefaultHTTPErrorHandler e w)
           else
             go_bind (httpResponseModifier mdo w) id (\<lambda>(w', _, e').
               case e' of
                 None \<Rightarrow> Ok w'
               | Some e2 \<Rightarrow> Ok (DefaultHTTPErrorHandler e2 w'))))"

definition forwardHeaderHandler :: "string \<Rightarrow> string \<times> bool" where
  "forwardHeaderHandler key = (if key = duplicateEntryHeader then (key, True) else ([], False))"

section \<open>What reaches the client\<close>

text \<open>The metadata of a call: \<open>SetHeader\<close> appends values under their key.\<close>

definition md_of :: "(string \<times> string) list \<Rightarrow> MD" where
  "md_of hs k = map snd (filter (\<lambda>(k', v). k' = k) hs)"

definition no_grpc_headers :: "response \<Rightarrow> bool" where
  "no_grpc_headers w \<longleftrightarrow> list_all (\<lambda>(h, _). \<not> isGrpcHeader h) (rw_Header w)"

lemma Write_Header: "rw_Header (fst (Write b w)) = rw_Header w"
  by (simp add: Write_def Let_def)

lemma WriteHeader_Header: "WriteHeader c w = Ok w' \<Longrightarrow> rw_Header w' = rw_Header w"
  by (auto simp: WriteHeader_def split: if_splits)

lemma write_message_result:
  assumes "write_message md w = Ok (w', md', e)"
  shows "rw_Header w' = rw_Header w" "md' = md(httpErrorMessageHeader := [])"
proof -
  obtain w2 e2 where W: "Write (hd (md httpErrorMessageHeader) @ newline) w = (w2, e2)" by fastforce
  then have "rw_Header w2 = rw_Header w"
    using Write_Header [of "hd (md httpErrorMessageHeader) @ newline" w] by simp
  with W assms show "rw_Header w' = rw_Header w" "md' = md(httpErrorMessageHeader := [])"
    by (cases "md httpErrorMessageHeader"; auto simp: write_message_def MD_delete_def Let_def)+
qed

text \<open>
  C37. Nothing of the internal protocol leaks: whenever the gateway knows the metadata of the call,
  no \<open>Grpc-\<close> header is left in the response, and when the hook reports no error the two
  internal keys are gone from the metadata too.
\<close>

theorem httpResponseModifier_no_leak:
  assumes "httpResponseModifier (Some md) w = Ok (w', md', e)"
  shows "no_grpc_headers w' \<and>
    (e = None \<longrightarrow> md' ''x-http-code'' = [] \<and> md' ''x-http-error-message'' = [])"
proof -
  let ?w = "w \<lparr>rw_Header := filter (\<lambda>(h, _). \<not> isGrpcHeader h) (rw_Header w)\<rparr>"
  have "rw_Header w' = rw_Header ?w"
    using assms
    by (auto simp: httpResponseModifier_def Let_def go_bind_eq_Ok
        dest!: write_message_result(1) WriteHeader_Header split: list.splits option.splits)
  then have "no_grpc_headers w'"
    by (simp add: no_grpc_headers_def list_all_iff)
  moreover have "md' ''x-http-code'' = [] \<and> md' ''x-http-error-message'' = []" if "e = None"
    using assms that
    by (auto simp: httpResponseModifier_def Let_def go_bind_eq_Ok MD_delete_def
        httpStatusCodeHeader_def httpErrorMessageHeader_def
        dest!: write_message_result(2) split: list.splits option.splits)
  ultimately show ?thesis by blast
qed

theorem httpResponseModifier_no_leak_witness:
  "\<exists>w' md' e. httpResponseModifier (Some (md_of [(''x-http-code'', ''201'')]))
      \<lparr>rw_Header = [(''Grpc-Metadata-X-Http-Code'', [''201'']), (''Content-Type'', [''json''])],
       rw_status = None, rw_body = [], rw_broken = False\<rparr> = Ok (w', md', e)
    \<and> no_grpc_headers w' \<and> rw_Header w' = [(''Content-Type'', [''json''])]"
proof -
  let ?w = "\<lparr>rw_Header = [(''Grpc-Metadata-X-Http-Code'', [''201'']), (''Content-Type'', [''json''])],
       rw_status = None, rw_body = [], rw_broken = False\<rparr>"
  have "\<exists>w' md' e. httpResponseModifier (Some (md_of [(''x-http-code'', ''201'')])) ?w =
      Ok (w', md', e) \<and> rw_Header w' = [(''Content-Type'', [''json''])]"
    by (simp add: httpResponseModifier_def md_of_def httpStatusCodeHeader_def Atoi_def
        parse_digits_def is_digit_def digit_val_def WriteHeader_def write_message_def MD_delete_def
        httpErrorMessageHeader_def isGrpcHeader_def HasPrefix_def Let_def)
  then obtain w' md' e where r: "httpResponseModifier (Some (md_of [(''x-http-code'', ''201'')])) ?w =
      Ok (w', md', e)" "rw_Header w' = [(''Content-Type'', [''json''])]" by blast
  show ?thesis using r httpResponseModifier_no_leak [OF r(1)] by blast
qed

lemma Atoi_codes [simp]: "Atoi ''405'' = Some 405" "Atoi ''201'' = Some 201"
  by (simp_all add: Atoi_def parse_digits_def is_digit_def digit_val_def)

definition fresh_response :: "http_headers \<Rightarrow> response" where
  "fresh_response hs = \<lparr>rw_Header = hs, rw_status = None, rw_body = [], rw_broken = False\<rparr>"

lemmas gateway_defs = httpResponseModifier_def write_message_def md_of_def WriteHeader_def Write_def
  bodyAllowedForStatus_def MD_delete_def httpStatusCodeHeader_def httpErrorMessageHeader_def
  fresh_response_def Let_def

text \<open>
  A frozen log over HTTP: whatever the request and whatever the default error handler, the
  gateway answers 405 with the message that the log is frozen and a line break, and with no
  header of the internal protocol.
\<close>

theorem frozen_log_405:
  assumes "CreateEntry d (NewServer stg True reg logID) req (st \<lparr>cs_headers := []\<rparr>) = (r, st')"
  shows "\<exists>c m. r = RpcErr c m \<and>
    customHTTPErrorHandler deh (Some (md_of (cs_headers st'))) (fresh_response hs) e =
      Ok \<lparr>rw_Header = filter (\<lambda>(h, _). \<not> isGrpcHeader h) hs, rw_status = Some 405,
          rw_body = ''This log has been frozen, please switch to the latest log.'' @ newline,
          rw_broken = False\<rparr>"
proof -
  have r: "r = RpcErr Unimplemented ''log frozen''"
    "cs_headers st' = [(httpStatusCodeHeader, ''405''), (httpErrorMessageHeader,
        ''This log has been frozen, please switch to the latest log.'')]"
    using assms by (auto simp: CreateEntry_def NewServer_def SetHeader_def Let_def)
  show ?thesis
    unfolding r by (simp add: customHTTPErrorHandler_def gateway_defs)
qed

theorem frozen_log_405_witness:
  "\<exists>st' c m. CreateEntry demo_deps (NewServer None True None ''id'') demo_create (demo_call []) =
      (RpcErr c m, st')
    \<and> customHTTPErrorHandler (\<lambda>e w. w) (Some (md_of (cs_headers st'))) (fresh_response []) ErrPushback =
      Ok \<lparr>rw_Header = [], rw_status = Some 405,
          rw_body = ''This log has been frozen, please switch to the latest log.'' @ newline,
          rw_broken = False\<rparr>"
proof -
  have "(demo_call []) \<lparr>cs_headers := []\<rparr> = demo_call []" by (simp add: demo_call_def)
  moreover obtain r st' where "CreateEntry demo_deps (NewServer None True None ''id'') demo_create
      ((demo_call []) \<lparr>cs_headers := []\<rparr>) = (r, st')" by fastforce
  ultimately show ?thesis
    using frozen_log_405 [of demo_deps None None "''id''" demo_create "demo_call []" r st'
        "\<lambda>e w. w" "[]" ErrPushback] by auto
qed

text \<open>
  A created entry over HTTP: the hook sets status 201, adds no body of its own and reports no
  error; a duplicate keeps only the header the gateway forwards, \<open>x-log-index\<close>.
\<close>

theorem created_entry_201:
  assumes "CreateEntry d s req (st \<lparr>cs_headers := []\<rparr>) = (RpcOk tle, st')"
  shows "\<exists>md'. httpResponseModifier (Some (md_of (cs_headers st'))) (fresh_response hs) =
      Ok (\<lparr>rw_Header = filter (\<lambda>(h, _). \<not> isGrpcHeader h) hs, rw_status = Some 201,
           rw_body = [], rw_broken = False\<rparr>, md', None)
    \<and> (\<forall>k. snd (forwardHeaderHandler k) \<longrightarrow> md_of (cs_headers st') k = [])"
proof -
  obtain c w where "st' = Inc c (SetHeader httpStatusCodeHeader ''201''
      (st \<lparr>cs_headers := [], cs_log := w\<rparr>))"
    using assms by (rule CreateEntry_parts) auto
  then have "cs_headers st' = [(httpStatusCodeHeader, ''201'')]"
    by (cases c) (simp_all add: SetHeader_def)
  then show ?thesis
    by (simp add: gateway_defs forwardHeaderHandler_def duplicateEntryHeader_def)
qed

theorem created_entry_201_witness:
  "\<exists>tle st' md'. CreateEntry demo_deps demo_server demo_create (demo_call []) = (RpcOk tle, st')
    \<and> httpResponseModifier (Some (md_of (cs_headers st'))) (fresh_response []) =
      Ok (\<lparr>rw_Header = [], rw_status = Some 201, rw_body = [], rw_broken = False\<rparr>, md', None)"
proof -
  obtain tle st' where t: "CreateEntry demo_deps demo_server demo_create
      ((demo_call []) \<lparr>cs_headers := []\<rparr>) = (RpcOk tle, st')"
    using demo_created by (auto simp: demo_call_def)
  have "(demo_call []) \<lparr>cs_headers := []\<rparr> = demo_call []" by (simp add: demo_call_def)
  then show ?thesis using t created_entry_201 [OF t, of "[]"] by auto
qed

end
