(* ===== verification/Drivers.thy ===== *)
theory Drivers
  imports Signing_Stack Go_Path Http_Gateway
begin

text \<open>
  The four storage backends: \<open>internal/tessera/aws\<close>, \<open>gcp\<close>, \<open>gcpcloudsql\<close> and
  \<open>posix\<close>.  Each \<open>NewDriver\<close> checks its flags, opens the storage and, when asked to, the
  persistent antispam database; the cloud SDKs and tessera's drivers are parameters.  The locale
  \<open>tessera_driver\<close> is the contract the server commands rely on.
\<close>

section \<open>The contract\<close>

locale tessera_driver =
  fixes NewDriver :: "'cfg \<Rightarrow> ('d \<times> 'as option) result"
    and persistent :: "'cfg \<Rightarrow> bool"
    and complete :: "'cfg \<Rightarrow> bool"
  assumes antispam_iff: "NewDriver c = Ok (d, a) \<Longrightarrow> a \<noteq> None \<longleftrightarrow> persistent c"
    and incomplete: "\<not> complete c \<Longrightarrow> \<exists>m. NewDriver c = Err (ErrText m)"
begin

lemma driver_complete: "NewDriver c = Ok r \<Longrightarrow> complete c"
  using incomplete by fastforce

lemma no_antispam: "NewDriver c = Ok (d, a) \<Longrightarrow> \<not> persistent c \<Longrightarrow> a = None"
  using antispam_iff by blast

end

text \<open>The part all four share: the optional antispam database.\<close>

definition with_antispam ::
    "'d \<Rightarrow> bool \<Rightarrow> 'as result \<Rightarrow> string \<Rightarrow> ('d \<times> 'as option) result" where
  "with_antispam driver persistentAntispam newAntispam what =
     (if persistentAntispam
      then go_bind newAntispam (errv what) (\<lambda>as. Ok (driver, Some as))
      else Ok (driver, None))"

lemma with_antispam_Ok:
  "with_antispam d p n w = Ok (d', a) \<Longrightarrow> a \<noteq> None \<longleftrightarrow> p"
  by (auto simp: with_antispam_def go_bind_eq_Ok split: if_splits)

record AntispamOpts =
  aso_MaxBatchSize :: nat
  aso_PushbackThreshold :: nat

section \<open>AWS\<close>

record aws_DriverConfiguration =
  AWSBucket :: string
  AWSMySQLDSN :: string
  aws_MaxOpenConns :: int
  aws_MaxIdleConns :: int
  aws_PersistentAntispam :: bool
  aws_ASMaxBatchSize :: nat
  aws_ASPushbackThreshold :: nat

text \<open>\<open>aws.Config\<close> of tessera, less the HTTP client; 0 is an unset limit.\<close>

record 'sdk mysql_config =
  mc_SDKConfig :: 'sdk
  mc_S3Options :: "s3_options \<Rightarrow> s3_options"
  mc_Bucket :: string
  mc_DSN :: string
  mc_MaxOpenConns :: int
  mc_MaxIdleConns :: int

record ('sdk, 'd, 'as) mysql_deps =
  md_LoadDefaultConfig :: "'sdk result"
  md_New :: "'sdk mysql_config \<Rightarrow> 'd result"
  md_NewAntispam :: "string \<Rightarrow> AntispamOpts \<Rightarrow> 'as result"

definition newAWSDriver ::
    "('sdk, 'd, 'as) mysql_deps \<Rightarrow> string \<Rightarrow> string \<Rightarrow> int \<Rightarrow> int \<Rightarrow> 'd result" where
  "newAWSDriver md bucket mysqlDSN maxOpenConns maxIdleConns =
     go_bind (md_LoadDefaultConfig md) (Wrap ''loading AWS SDK config'') (\<lambda>sdkCfg.
     let s3Opts = (\<lambda>opts. opts \<lparr>so_UsePathStyle := True\<rparr>);
         cfg = \<lparr>mc_SDKConfig = sdkCfg, mc_S3Options = s3Opts, mc_Bucket = bucket, mc_DSN = mysqlDSN,
                mc_MaxOpenConns = 0, mc_MaxIdleConns = 0\<rparr>;
         cfg = (if maxOpenConns > 0 then cfg \<lparr>mc_MaxOpenConns := maxOpenConns\<rparr> else cfg);
         cfg = (if maxIdleConns > 0 then cfg \<lparr>mc_MaxIdleConns := maxIdleConns\<rparr> else cfg)
     in go_bind (md_New md cfg) (Wrap ''getting tessera AWS driver'') Ok)"

definition newAWSAntispam ::
    "('sdk, 'd, 'as) mysql_deps \<Rightarrow> string \<Rightarrow> nat \<Rightarrow> nat \<Rightarrow> 'as result" where
  "newAWSAntispam md mysqlDSN maxBatchSize pushbackThreshold =
     md_NewAntispam md mysqlDSN
       \<lparr>aso_MaxBatchSize = maxBatchSize, aso_PushbackThreshold = pushbackThreshold\<rparr>"

definition aws_NewDriver ::
    "('sdk, 'd, 'as) mysql_deps \<Rightarrow> aws_DriverConfiguration \<Rightarrow> ('d \<times> 'as option) result" where
  "aws_NewDriver md config =
     (if AWSBucket config = [] \<or> AWSMySQLDSN config = []
      then Err (ErrText ''AWS backend requires --aws-bucket and --aws-mysql-dsn flags'')
      else
        go_bind (newAWSDriver md (AWSBucket config) (AWSMySQLDSN config) (aws_MaxOpenConns config)
                   (aws_MaxIdleConns config)) (errv ''failed to initialize AWS driver'') (\<lambda>driver.
        with_antispam driver (aws_PersistentAntispam config)
          (newAWSAntispam md (AWSMySQLDSN config) (aws_ASMaxBatchSize config)
             (aws_ASPushbackThreshold config)) ''failed to initialize AWS antispam''))"

section \<open>GCP\<close>

record gcp_DriverConfiguration =
  gcp_Hostname :: string
  GCPBucket :: string
  GCPSpannerDB :: string
  gcp_PersistentAntispam :: bool
  gcp_ASMaxBatchSize :: nat
  gcp_ASPushbackThreshold :: nat

record ('gcs, 'sp) gcp_config =
  gcfg_Bucket :: string
  gcfg_Spanner :: string
  gcfg_GCSClient :: 'gcs
  gcfg_SpannerClient :: 'sp

record ('gcs, 'sp, 'd, 'as) gcp_deps =
  gd_GitVersion :: string
  gd_GOOS :: string
  gd_GOARCH :: string
  gd_NewStorageClient :: "string \<Rightarrow> 'gcs result"
  gd_NewSpannerClient :: "string \<Rightarrow> string \<Rightarrow> 'sp result"
  gd_New :: "('gcs, 'sp) gcp_config \<Rightarrow> 'd result"
  gd_NewAntispam :: "string \<Rightarrow> AntispamOpts \<Rightarrow> 'as result"

definition gcp_userAgent :: "('gcs, 'sp, 'd, 'as) gcp_deps \<Rightarrow> string \<Rightarrow> string" where
  "gcp_userAgent gd hostname =
     ''rekor-tiles/'' @ gd_GitVersion gd @ '' ('' @ gd_GOOS gd @ ''; '' @ gd_GOARCH gd @ '') '' @ hostname"

definition newGCPDriver ::
    "('gcs, 'sp, 'd, 'as) gcp_deps \<Rightarrow> string \<Rightarrow> string \<Rightarrow> string \<Rightarrow> 'd result" where
  "newGCPDriver gd bucket spannerDB hostname =
     (let userAgent = gcp_userAgent gd hostname in
      go_bind (gd_NewStorageClient gd userAgent) (Wrap ''creating storage client'') (\<lambda>gcsClient.
      go_bind (gd_NewSpannerClient gd spannerDB userAgent) (Wrap ''creating spanner client'')
        (\<lambda>spannerClient.
      let cfg = \<lparr>gcfg_Bucket = bucket, gcfg_Spanner = spannerDB, gcfg_GCSClient = gcsClient,
                 gcfg_SpannerClient = spannerClient\<rparr>
      in go_bind (gd_New gd cfg) (Wrap ''getting tessera GCP driver'') Ok)))"

definition newGCPAntispam ::
    "('gcs, 'sp, 'd, 'as) gcp_deps \<Rightarrow> string \<Rightarrow> nat \<Rightarrow> nat \<Rightarrow> 'as result" where
  "newGCPAntispam gd spannerDb maxBatchSize pushbackThreshold =
     (let dbName = spannerDb @ ''-antispam''
      in gd_NewAntispam gd dbName
           \<lparr>aso_MaxBatchSize = maxBatchSize, aso_PushbackThreshold = pushbackThreshold\<rparr>)"

definition gcp_NewDriver ::
    "('gcs, 'sp, 'd, 'as) gcp_deps \<Rightarrow> gcp_DriverConfiguration \<Rightarrow> ('d \<times> 'as option) result" where
  "gcp_NewDriver gd config =
     (if GCPBucket config = [] \<or> GCPSpannerDB config = []
      then Err (ErrText ''required flags missing to initialize Tessera driver'')
      else
        go_bind (newGCPDriver gd (GCPBucket config) (GCPSpannerDB config) (gcp_Hostname config))
          (errv ''failed to initialize GCP driver'') (\<lambda>driver.
        with_antispam driver (gcp_PersistentAntispam config)
          (newGCPAntispam gd (GCPSpannerDB config) (gcp_ASMaxBatchSize config)
             (gcp_ASPushbackThreshold config)) ''failed to initialize GCP antispam''))"

section \<open>POSIX\<close>

record posix_DriverConfiguration =
  StorageDir :: string
  posix_PersistentAntispam :: bool
  posix_ASMaxBatchSize :: nat
  posix_ASPushbackThreshold :: nat

record ('d, 'as) posix_deps =
  pd_New :: "string \<Rightarrow> 'd result"
  pd_NewAntispam :: "string \<Rightarrow> AntispamOpts \<Rightarrow> 'as result"

definition newPOSIXDriver :: "('d, 'as) posix_deps \<Rightarrow> string \<Rightarrow> 'd result" where
  "newPOSIXDriver pd storageDir =
     go_bind (pd_New pd storageDir) (Wrap ''creating Tessera POSIX driver'') Ok"

text \<open>\<open>filepath.Join(storageDir, ".state", "antispam")\<close>; empty elements are ignored.\<close>

definition antispam_path :: "string \<Rightarrow> string" where
  "antispam_path storageDir = path_Join storageDir ''.state/antispam''"

definition newPOSIXAntispam :: "('d, 'as) posix_deps \<Rightarrow> string \<Rightarrow> nat \<Rightarrow> nat \<Rightarrow> 'as result" where
  "newPOSIXAntispam pd storageDir maxBatchSize pushbackThreshold =
     pd_NewAntispam pd (antispam_path storageDir)
       \<lparr>aso_MaxBatchSize = maxBatchSize, aso_PushbackThreshold = pushbackThreshold\<rparr>"

definition posix_NewDriver ::
    "('d, 'as) posix_deps \<Rightarrow> posix_DriverConfiguration \<Rightarrow> ('d \<times> 'as option) result" where
  "posix_NewDriver pd config =
     go_bind (newPOSIXDriver pd (StorageDir config)) (errv ''failed to initialize POSIX driver'')
       (\<lambda>driver.
     with_antispam driver (posix_PersistentAntispam config)
       (newPOSIXAntispam pd (StorageDir config) (posix_ASMaxBatchSize config)
          (posix_ASPushbackThreshold config)) ''failed to initialize GCP antispam'')"

section \<open>GCP Cloud SQL\<close>

record cloudsql_DriverConfiguration =
  GCPCloudSQLDSN :: string
  cloudsql_GCPBucket :: string
  cloudsql_MaxOpenConns :: int
  cloudsql_MaxIdleConns :: int
  cloudsql_PersistentAntispam :: bool
  cloudsql_ASMaxBatchSize :: nat
  cloudsql_ASPushbackThreshold :: nat

record gcs_config =
  gcs_Region :: string
  gcs_AccessKey :: string
  gcs_Secret :: string
  gcs_BaseEndpoint :: string

record ('sdk, 'd, 'as) cloudsql_deps = "('sdk, 'd, 'as) mysql_deps" +
  cq_Getenv :: "string \<Rightarrow> string"
  cq_LoadGCSConfig :: "gcs_config \<Rightarrow> 'sdk result"
  cq_steps :: step_ops

definition newCloudSQLDriver ::
    "('sdk, 'd, 'as) cloudsql_deps \<Rightarrow> string \<Rightarrow> string \<Rightarrow> int \<Rightarrow> int \<Rightarrow> 'd result" where
  "newCloudSQLDriver cq cloudSQLDSN bucket maxOpenConns maxIdleConns =
     go_bind (md_LoadDefaultConfig cq) (Wrap ''loading AWS SDK config'') (\<lambda>_.
     let accessKey = cq_Getenv cq ''GCS_HMAC_ACCESS_KEY_ID'';
         secret = cq_Getenv cq ''GCS_HMAC_SECRET'';
         region = cq_Getenv cq ''GCS_REGION'';
         region = (if region = [] then ''auto'' else region);
         endpoint = cq_Getenv cq ''GCS_ENDPOINT_URL''
     in go_bind
          (cq_LoadGCSConfig cq \<lparr>gcs_Region = region, gcs_AccessKey = accessKey, gcs_Secret = secret,
                               gcs_BaseEndpoint = endpoint\<rparr>)
          (Wrap ''loading AWS SDK config for GCS'') (\<lambda>sdkCfg.
     let cfg = \<lparr>mc_SDKConfig = sdkCfg, mc_S3Options = cloudsql_s3Opts (cq_steps cq), mc_Bucket = bucket,
                mc_DSN = cloudSQLDSN, mc_MaxOpenConns = 0, mc_MaxIdleConns = 0\<rparr>;
         cfg = (if maxOpenConns > 0 then cfg \<lparr>mc_MaxOpenConns := maxOpenConns\<rparr> else cfg);
         cfg = (if maxIdleConns > 0 then cfg \<lparr>mc_MaxIdleConns := maxIdleConns\<rparr> else cfg)
     in go_bind (md_New cq cfg) (Wrap ''getting Tessera GCP Cloud SQL driver'') Ok))"

definition newCloudSQLAntispam ::
    "('sdk, 'd, 'as) cloudsql_deps \<Rightarrow> string \<Rightarrow> nat \<Rightarrow> nat \<Rightarrow> 'as result" where
  "newCloudSQLAntispam cq cloudsqlDSN maxBatchSize pushbackThreshold =
     md_NewAntispam cq cloudsqlDSN
       \<lparr>aso_MaxBatchSize = maxBatchSize, aso_PushbackThreshold = pushbackThreshold\<rparr>"

definition cloudsql_NewDriver ::
    "('sdk, 'd, 'as) cloudsql_deps \<Rightarrow> cloudsql_DriverConfiguration \<Rightarrow> ('d \<times> 'as option) result" where
  "cloudsql_NewDriver cq config =
     (if GCPCloudSQLDSN config = [] \<or> cloudsql_GCPBucket config = []
      then Err (ErrText ''GCP CloudSQL backend requires --gcp-bucket and --gcp-cloudsql-dsn flags'')
      else
        go_bind (newCloudSQLDriver cq (GCPCloudSQLDSN config) (cloudsql_GCPBucket config)
                   (cloudsql_MaxOpenConns config) (cloudsql_MaxIdleConns config))
          (errv ''failed to initialize GCP CloudSQL driver'') (\<lambda>driver.
        with_antispam driver (cloudsql_PersistentAntispam config)
          (newCloudSQLAntispam cq (GCPCloudSQLDSN config) (cloudsql_ASMaxBatchSize config)
             (cloudsql_ASPushbackThreshold config))
          ''failed to initialize GCP CloudSQL antispam''))"

section \<open>All four drivers keep the contract\<close>

interpretation aws: tessera_driver "aws_NewDriver md" aws_PersistentAntispam
    "\<lambda>c. AWSBucket c \<noteq> [] \<and> AWSMySQLDSN c \<noteq> []" for md
  by unfold_locales
     (auto simp: aws_NewDriver_def go_bind_eq_Ok dest: with_antispam_Ok split: if_splits)

interpretation gcp: tessera_driver "gcp_NewDriver gd" gcp_PersistentAntispam
    "\<lambda>c. GCPBucket c \<noteq> [] \<and> GCPSpannerDB c \<noteq> []" for gd
  by unfold_locales
     (auto simp: gcp_NewDriver_def go_bind_eq_Ok dest: with_antispam_Ok split: if_splits)

interpretation posix: tessera_driver "posix_NewDriver pd" posix_PersistentAntispam "\<lambda>c. True" for pd
  by unfold_locales
     (auto simp: posix_NewDriver_def go_bind_eq_Ok dest: with_antispam_Ok split: if_splits)

interpretation cloudsql: tessera_driver "cloudsql_NewDriver cq" cloudsql_PersistentAntispam
    "\<lambda>c. GCPCloudSQLDSN c \<noteq> [] \<and> cloudsql_GCPBucket c \<noteq> []" for cq
  by unfold_locales
     (auto simp: cloudsql_NewDriver_def go_bind_eq_Ok dest: with_antispam_Ok split: if_splits)

end
