(* ===== verification/Server_Config.thy ===== *)
theory Server_Config
  imports Go_Errors
begin

text \<open>
  \<open>internal/server/httpconfig.go\<close> and \<open>grpcconfig.go\<close>: the configurations of the two
  servers, built from defaults by functional options.  An option is the function it applies to
  the configuration.  A duration is in nanoseconds, a Go \<open>int\<close> an \<open>int\<close>.  The locale
  \<open>config_field\<close> states what an option promises about the field it sets; every option
  interprets it.
\<close>

section \<open>Options in general\<close>

definition apply_options :: "('c \<Rightarrow> 'c) list \<Rightarrow> 'c \<Rightarrow> 'c" where
  "apply_options opts c = fold (\<lambda>opt c. opt c) opts c"

locale config_field =
  fixes get :: "'c \<Rightarrow> 'v" and opt :: "'v \<Rightarrow> 'c \<Rightarrow> 'c"
  assumes get_opt: "get (opt v c) = v"
    and opt_opt: "opt v (opt u c) = opt v c"
    and opt_get: "opt (get c) c = c"
begin

text \<open>The last option for a field decides it, if no later option touches the field.\<close>

lemma last_option_wins:
  assumes "\<forall>g\<in>set later. \<forall>c. get (g c) = get c"
  shows "get (apply_options (earlier @ [opt v] @ later) c) = v"
proof -
  have keep: "get (apply_options gs c) = get c" if "\<forall>g\<in>set gs. \<forall>c. get (g c) = get c" for gs c
    using that by (induction gs arbitrary: c) (auto simp: apply_options_def)
  have "apply_options (earlier @ [opt v] @ later) c =
      apply_options later (opt v (apply_options earlier c))"
    by (simp add: apply_options_def)
  then show ?thesis using keep [OF assms] get_opt by simp
qed

lemma default_kept:
  "\<forall>g\<in>set opts. \<forall>c. get (g c) = get c \<Longrightarrow> get (apply_options opts c) = get c"
  by (induction opts arbitrary: c) (auto simp: apply_options_def)

end

section \<open>The HTTP configuration\<close>

record HTTPConfig =
  hc_host :: string
  hc_timeout :: int
  hc_port :: int
  hc_metricsPort :: int
  hc_maxRequestBodySize :: int
  hc_certFile :: string
  hc_keyFile :: string
  hc_grpcCertFile :: string
  hc_supportGCP :: bool

type_synonym HTTPOption = "HTTPConfig \<Rightarrow> HTTPConfig"

definition defaultMaxSize :: int where "defaultMaxSize = 4 * 1024 * 1024"
definition defaultTimeout :: int where "defaultTimeout = 60 * 1000000000"

definition http_defaults :: HTTPConfig where
  "http_defaults =
     \<lparr>hc_host = ''localhost'', hc_timeout = defaultTimeout, hc_port = 8080, hc_metricsPort = 2112,
      hc_maxRequestBodySize = defaultMaxSize, hc_certFile = [], hc_keyFile = [],
      hc_grpcCertFile = [], hc_supportGCP = False\<rparr>"

definition NewHTTPConfig :: "HTTPOption list \<Rightarrow> HTTPConfig" where
  "NewHTTPConfig options = apply_options options http_defaults"

definition WithHTTPPort :: "int \<Rightarrow> HTTPOption" where
  "WithHTTPPort port config = config \<lparr>hc_port := port\<rparr>"

definition WithHTTPHost :: "string \<Rightarrow> HTTPOption" where
  "WithHTTPHost host config = config \<lparr>hc_host := host\<rparr>"

definition WithHTTPTimeout :: "int \<Rightarrow> HTTPOption" where
  "WithHTTPTimeout timeout config = config \<lparr>hc_timeout := timeout\<rparr>"

definition WithHTTPMaxRequestBodySize :: "int \<Rightarrow> HTTPOption" where
  "WithHTTPMaxRequestBodySize sz config = config \<lparr>hc_maxRequestBodySize := sz\<rparr>"

definition WithHTTPMetricsPort :: "int \<Rightarrow> HTTPOption" where
  "WithHTTPMetricsPort port config = config \<lparr>hc_metricsPort := port\<rparr>"

definition HTTPTarget :: "HTTPConfig \<Rightarrow> string" where
  "HTTPTarget hc = hc_host hc @ '':'' @ Itoa (hc_port hc)"

definition HTTPMetricsTarget :: "HTTPConfig \<Rightarrow> string" where
  "HTTPMetricsTarget hc = hc_host hc @ '':'' @ Itoa (hc_metricsPort hc)"

definition http_HasTLS :: "HTTPConfig \<Rightarrow> bool" where
  "http_HasTLS hc \<longleftrightarrow> hc_certFile hc \<noteq> [] \<and> hc_keyFile hc \<noteq> []"

definition WithHTTPTLSCredentials :: "string \<Rightarrow> string \<Rightarrow> HTTPOption" where
  "WithHTTPTLSCredentials certFile keyFile config =
     config \<lparr>hc_certFile := certFile, hc_keyFile := keyFile\<rparr>"

definition HasGRPCTLS :: "HTTPConfig \<Rightarrow> bool" where
  "HasGRPCTLS hc \<longleftrightarrow> hc_grpcCertFile hc \<noteq> []"

definition WithGRPCTLSCredentials :: "string \<Rightarrow> HTTPOption" where
  "WithGRPCTLSCredentials certFile config = config \<lparr>hc_grpcCertFile := certFile\<rparr>"

definition WithGCPSupport :: "bool \<Rightarrow> HTTPOption" where
  "WithGCPSupport supportGCP config = config \<lparr>hc_supportGCP := supportGCP\<rparr>"

section \<open>The gRPC configuration\<close>

record GRPCConfig =
  gc_port :: int
  gc_host :: string
  gc_timeout :: int
  gc_maxMessageSize :: int
  gc_certFile :: string
  gc_keyFile :: string
  gc_logLevel :: int
  gc_requestResponseLogging :: bool

type_synonym GRPCOption = "GRPCConfig \<Rightarrow> GRPCConfig"

text \<open>The levels of \<open>log/slog\<close>.\<close>

definition LevelDebug :: int where "LevelDebug = - 4"
definition LevelInfo :: int where "LevelInfo = 0"

definition grpc_defaults :: GRPCConfig where
  "grpc_defaults =
     \<lparr>gc_port = 8081, gc_host = ''localhost'', gc_timeout = defaultTimeout,
      gc_maxMessageSize = defaultMaxSize, gc_certFile = [], gc_keyFile = [],
      gc_logLevel = LevelInfo, gc_requestResponseLogging = False\<rparr>"

definition NewGRPCConfig :: "GRPCOption list \<Rightarrow> GRPCConfig" where
  "NewGRPCConfig options = apply_options options grpc_defaults"

definition WithGRPCPort :: "int \<Rightarrow> GRPCOption" where
  "WithGRPCPort port config = config \<lparr>gc_port := port\<rparr>"

definition WithGRPCHost :: "string \<Rightarrow> GRPCOption" where
  "WithGRPCHost host config = config \<lparr>gc_host := host\<rparr>"

definition WithGRPCTimeout :: "int \<Rightarrow> GRPCOption" where
  "WithGRPCTimeout timeout config = config \<lparr>gc_timeout := timeout\<rparr>"

definition WithGRPCMaxMessageSize :: "int \<Rightarrow> GRPCOption" where
  "WithGRPCMaxMessageSize maxMessageSize config = config \<lparr>gc_maxMessageSize := maxMessageSize\<rparr>"

definition GRPCTarget :: "GRPCConfig \<Rightarrow> string" where
  "GRPCTarget gc = gc_host gc @ '':'' @ Itoa (gc_port gc)"

definition grpc_HasTLS :: "GRPCConfig \<Rightarrow> bool" where
  "grpc_HasTLS gc \<longleftrightarrow> gc_certFile gc \<noteq> [] \<and> gc_keyFile gc \<noteq> []"

definition WithTLSCredentials :: "string \<Rightarrow> string \<Rightarrow> GRPCOption" where
  "WithTLSCredentials certFile keyFile config =
     config \<lparr>gc_certFile := certFile, gc_keyFile := keyFile\<rparr>"

definition WithGRPCLogLevel :: "int \<Rightarrow> bool \<Rightarrow> GRPCOption" where
  "WithGRPCLogLevel logLevel requestResponseLogging config =
     config \<lparr>gc_logLevel := logLevel, gc_requestResponseLogging := requestResponseLogging\<rparr>"

lemmas http_option_defs = WithHTTPPort_def WithHTTPHost_def WithHTTPTimeout_def
  WithHTTPMaxRequestBodySize_def WithHTTPMetricsPort_def WithHTTPTLSCredentials_def
  WithGRPCTLSCredentials_def WithGCPSupport_def

lemmas grpc_option_defs = WithGRPCPort_def WithGRPCHost_def WithGRPCTimeout_def
  WithGRPCMaxMessageSize_def WithTLSCredentials_def WithGRPCLogLevel_def

section \<open>Every option sets its field\<close>

interpretation http_port: config_field hc_port WithHTTPPort
  by unfold_locales (simp_all add: WithHTTPPort_def)

interpretation http_host: config_field hc_host WithHTTPHost
  by unfold_locales (simp_all add: WithHTTPHost_def)

interpretation http_timeout: config_field hc_timeout WithHTTPTimeout
  by unfold_locales (simp_all add: WithHTTPTimeout_def)

interpretation http_size: config_field hc_maxRequestBodySize WithHTTPMaxRequestBodySize
  by unfold_locales (simp_all add: WithHTTPMaxRequestBodySize_def)

interpretation http_metrics_port: config_field hc_metricsPort WithHTTPMetricsPort
  by unfold_locales (simp_all add: WithHTTPMetricsPort_def)

interpretation http_tls: config_field "\<lambda>c. (hc_certFile c, hc_keyFile c)"
    "\<lambda>v. WithHTTPTLSCredentials (fst v) (snd v)"
  by unfold_locales (simp_all add: WithHTTPTLSCredentials_def)

interpretation http_grpc_tls: config_field hc_grpcCertFile WithGRPCTLSCredentials
  by unfold_locales (simp_all add: WithGRPCTLSCredentials_def)

interpretation http_gcp: config_field hc_supportGCP WithGCPSupport
  by unfold_locales (simp_all add: WithGCPSupport_def)

interpretation grpc_port: config_field gc_port WithGRPCPort
  by unfold_locales (simp_all add: WithGRPCPort_def)

interpretation grpc_host: config_field gc_host WithGRPCHost
  by unfold_locales (simp_all add: WithGRPCHost_def)

interpretation grpc_timeout: config_field gc_timeout WithGRPCTimeout
  by unfold_locales (simp_all add: WithGRPCTimeout_def)

interpretation grpc_size: config_field gc_maxMessageSize WithGRPCMaxMessageSize
  by unfold_locales (simp_all add: WithGRPCMaxMessageSize_def)

interpretation grpc_tls: config_field "\<lambda>c. (gc_certFile c, gc_keyFile c)"
    "\<lambda>v. WithTLSCredentials (fst v) (snd v)"
  by unfold_locales (simp_all add: WithTLSCredentials_def)

interpretation grpc_log: config_field "\<lambda>c. (gc_logLevel c, gc_requestResponseLogging c)"
    "\<lambda>v. WithGRPCLogLevel (fst v) (snd v)"
  by unfold_locales (simp_all add: WithGRPCLogLevel_def)

section \<open>Addresses\<close>

lemma Itoa_no_colon: "CHR '':'' \<notin> set (Itoa i)"
proof -
  have "CHR '':'' \<notin> set (FormatUint n)" for n
    using FormatUint_digits [of n] by (auto simp: list_all_iff is_digit_def)
  then show ?thesis by (simp add: Itoa_def)
qed

lemma Itoa_inj: "Itoa i = Itoa j \<longleftrightarrow> i = j"
proof
  assume e: "Itoa i = Itoa j"
  have m: "hd (FormatUint n) \<noteq> CHR ''-''" for n
    using hd_FormatUint [of n] by auto
  show "i = j"
  proof (cases "i < 0"; cases "j < 0")
    assume "i < 0" "j < 0"
    with e have "nat (- i) = nat (- j)"
      by (simp add: Itoa_def) (metis FormatUint_inj)
    with \<open>i < 0\<close> \<open>j < 0\<close> show ?thesis by simp
  next
    assume "i < 0" "\<not> j < 0"
    with e have "FormatUint (nat j) = CHR ''-'' # FormatUint (nat (- i))" by (simp add: Itoa_def)
    with m [of "nat j"] show ?thesis by simp
  next
    assume "\<not> i < 0" "j < 0"
    with e have "FormatUint (nat i) = CHR ''-'' # FormatUint (nat (- j))" by (simp add: Itoa_def)
    with m [of "nat i"] show ?thesis by simp
  next
    assume "\<not> i < 0" "\<not> j < 0"
    with e have "nat i = nat j"
      by (simp add: Itoa_def) (metis FormatUint_inj)
    with \<open>\<not> i < 0\<close> \<open>\<not> j < 0\<close> show ?thesis by simp
  qed
qed simp

lemma split_last_colon:
  assumes "a @ CHR '':'' # u = b @ CHR '':'' # v" "CHR '':'' \<notin> set u" "CHR '':'' \<notin> set v"
  shows "a = b \<and> u = v"
proof -
  have "rev u @ CHR '':'' # rev a = rev v @ CHR '':'' # rev b"
    using arg_cong [OF assms(1), of rev] by simp
  then have "rev u = rev v \<and> rev a = rev b"
    using assms(2,3) by (intro split_at_first) simp_all
  then show ?thesis by simp
qed

text \<open>
  The endpoint strings are equal exactly when host and port are, so the test of \<open>Serve\<close> on
  host and port is the test on the addresses it listens on.
\<close>

lemma targets_distinct:
  "HTTPTarget hc = GRPCTarget gc \<longleftrightarrow> hc_host hc = gc_host gc \<and> hc_port hc = gc_port gc"
  "HTTPTarget hc = HTTPMetricsTarget hc \<longleftrightarrow> hc_port hc = hc_metricsPort hc"
  "GRPCTarget gc = HTTPMetricsTarget hc \<longleftrightarrow> gc_host gc = hc_host hc \<and> gc_port gc = hc_metricsPort hc"
  using split_last_colon [of "hc_host hc" "Itoa (hc_port hc)" "gc_host gc" "Itoa (gc_port gc)"]
    split_last_colon [of "gc_host gc" "Itoa (gc_port gc)" "hc_host hc" "Itoa (hc_metricsPort hc)"]
  by (auto simp: HTTPTarget_def GRPCTarget_def HTTPMetricsTarget_def Itoa_no_colon Itoa_inj)

end
