(* ===== verification/Signer.thy ===== *)
theory Signer
  imports Note Server_Config Go_Path
begin

text \<open>
  \<open>internal/signerverifier\<close> and the two \<open>signerverifier\<close> packages of
  \<open>internal/tessera\<close>: the choice of the checkpoint signer from the configuration.  The key
  formats, the KMS providers and Tink are parameters, gathered in \<open>signer_deps\<close>; the registry
  of Tink's KMS clients is state.
\<close>

record ('sv, 'key, 'aead, 'handle, 'client, 'rpc) signer_deps =
  sd_SupportedProviders :: "string list"
  sd_kms_Get :: "string \<Rightarrow> crypto_hash \<Rightarrow> 'rpc list \<Rightarrow> 'sv result"
  sd_pem_Read :: "string \<Rightarrow> bytes \<Rightarrow> 'key result"
  sd_LoadDefaultSignerVerifier :: "'key \<Rightarrow> 'sv result"
  sd_Open :: "string \<Rightarrow> bytes result"
  sd_keyset_Read :: "bytes \<Rightarrow> 'aead \<Rightarrow> 'handle result"
  sd_KeyHandleToSigner :: "'handle \<Rightarrow> 'key result"
  sd_NewKMSClient :: "string \<Rightarrow> 'client result"
  sd_GetAEAD :: "'client \<Rightarrow> string \<Rightarrow> 'aead result"

section \<open>internal/signerverifier\<close>

definition NewFileSignerVerifier ::
    "('sv, 'key, 'aead, 'handle, 'client, 'rpc) signer_deps \<Rightarrow> string \<Rightarrow> string \<Rightarrow> 'sv result" where
  "NewFileSignerVerifier sd keyPath keyPass =
     go_bind (sd_pem_Read sd keyPath keyPass)
       (Wrap (''file: provide a valid signer, '' @ keyPath @ '' is not valid'')) (\<lambda>opaqueKey.
     go_bind (sd_LoadDefaultSignerVerifier sd opaqueKey)
       (Wrap (''file: loaded private key from '' @ keyPath @ '' can'' @ [char_of (39 :: nat)]
              @ ''t be used to sign'')) Ok)"

definition NewTinkSignerVerifierWithHandle ::
    "('sv, 'key, 'aead, 'handle, 'client, 'rpc) signer_deps \<Rightarrow> 'aead \<Rightarrow> string \<Rightarrow> 'sv result" where
  "NewTinkSignerVerifierWithHandle sd kek keysetPath =
     go_bind (sd_Open sd (path_Clean keysetPath)) id (\<lambda>f.
     go_bind (sd_keyset_Read sd f kek) id (\<lambda>kh.
     go_bind (sd_KeyHandleToSigner sd kh) id (\<lambda>sg.
     sd_LoadDefaultSignerVerifier sd sg)))"

section \<open>The configuration\<close>

text \<open>The AWS configuration; the GCP one has options for the KMS connection besides.\<close>

record signerVerifierConfig =
  sc_filePath :: string
  sc_password :: string
  sc_kms :: string
  sc_kmsHash :: crypto_hash
  sc_tinkKEKURI :: string
  sc_tinkKeysetPath :: string

record 'rpc gcp_signerVerifierConfig = signerVerifierConfig +
  sc_kmsRPCOpts :: "'rpc list"

definition zero_signer_config :: signerVerifierConfig where
  "zero_signer_config =
     \<lparr>sc_filePath = [], sc_password = [], sc_kms = [], sc_kmsHash = 0,
      sc_tinkKEKURI = [], sc_tinkKeysetPath = []\<rparr>"

definition zero_gcp_signer_config :: "'rpc gcp_signerVerifierConfig" where
  "zero_gcp_signer_config = signerVerifierConfig.extend zero_signer_config \<lparr>sc_kmsRPCOpts = []\<rparr>"

type_synonym aws_Option = "signerVerifierConfig \<Rightarrow> signerVerifierConfig"
type_synonym 'rpc gcp_Option = "'rpc gcp_signerVerifierConfig \<Rightarrow> 'rpc gcp_signerVerifierConfig"

definition aws_WithFile :: "string \<Rightarrow> string \<Rightarrow> aws_Option" where
  "aws_WithFile filePath password sc = sc \<lparr>sc_filePath := filePath, sc_password := password\<rparr>"

definition aws_WithKMS :: "string \<Rightarrow> crypto_hash \<Rightarrow> aws_Option" where
  "aws_WithKMS kms hash sc = sc \<lparr>sc_kms := kms, sc_kmsHash := hash\<rparr>"

definition aws_WithTink :: "string \<Rightarrow> string \<Rightarrow> aws_Option" where
  "aws_WithTink kekURI keysetPath sc = sc \<lparr>sc_tinkKEKURI := kekURI, sc_tinkKeysetPath := keysetPath\<rparr>"

definition gcp_WithFile :: "string \<Rightarrow> string \<Rightarrow> 'rpc gcp_Option" where
  "gcp_WithFile filePath password sc = sc \<lparr>sc_filePath := filePath, sc_password := password\<rparr>"

definition gcp_WithKMS :: "string \<Rightarrow> crypto_hash \<Rightarrow> 'rpc list \<Rightarrow> 'rpc gcp_Option" where
  "gcp_WithKMS kms hash rpcOpts sc = sc \<lparr>sc_kms := kms, sc_kmsHash := hash, sc_kmsRPCOpts := rpcOpts\<rparr>"

definition gcp_WithTink :: "string \<Rightarrow> string \<Rightarrow> 'rpc gcp_Option" where
  "gcp_WithTink kekURI keysetPath sc = sc \<lparr>sc_tinkKEKURI := kekURI, sc_tinkKeysetPath := keysetPath\<rparr>"

lemmas aws_option_defs = aws_WithFile_def aws_WithKMS_def aws_WithTink_def
lemmas gcp_option_defs = gcp_WithFile_def gcp_WithKMS_def gcp_WithTink_def

section \<open>Tink\<close>

definition getKeyEncryptionKey ::
    "('sv, 'key, 'aead, 'handle, 'client, 'rpc) signer_deps \<Rightarrow> string \<Rightarrow> string \<Rightarrow> 'client list \<Rightarrow>
     'aead result \<times> 'client list" where
  "getKeyEncryptionKey sd scheme kmsKey registry =
     (if HasPrefix kmsKey scheme then
        (case sd_NewKMSClient sd kmsKey of
           Ok client \<Rightarrow> (sd_GetAEAD sd client kmsKey, registry @ [client])
         | Err e \<Rightarrow> (Err e, registry)
         | Panic \<Rightarrow> (Panic, registry))
      else (Err (ErrText ''unsupported KMS key type''), registry))"

definition aws_getKeyEncryptionKey ::
    "('sv, 'key, 'aead, 'handle, 'client, 'rpc) signer_deps \<Rightarrow> string \<Rightarrow> 'client list \<Rightarrow>
     'aead result \<times> 'client list" where
  "aws_getKeyEncryptionKey sd = getKeyEncryptionKey sd ''aws-kms://''"

definition gcp_getKeyEncryptionKey ::
    "('sv, 'key, 'aead, 'handle, 'client, 'rpc) signer_deps \<Rightarrow> string \<Rightarrow> 'client list \<Rightarrow>
     'aead result \<times> 'client list" where
  "gcp_getKeyEncryptionKey sd = getKeyEncryptionKey sd ''gcp-kms://''"

definition aws_NewTinkSignerVerifier ::
    "('sv, 'key, 'aead, 'handle, 'client, 'rpc) signer_deps \<Rightarrow> string \<Rightarrow> string \<Rightarrow>
     'client list \<Rightarrow> 'sv result \<times> 'client list" where
  "aws_NewTinkSignerVerifier sd kekURI keysetPath registry =
     (if kekURI = [] \<or> keysetPath = []
      then (Err (ErrText ''key encryption key URI or keyset path unset''), registry)
      else
        (let (kek, registry) = aws_getKeyEncryptionKey sd kekURI registry
         in (go_bind kek id (\<lambda>k. NewTinkSignerVerifierWithHandle sd k keysetPath), registry)))"

definition gcp_NewTinkSignerVerifier ::
    "('sv, 'key, 'aead, 'handle, 'client, 'rpc) signer_deps \<Rightarrow> string \<Rightarrow> string \<Rightarrow>
     'client list \<Rightarrow> 'sv result \<times> 'client list" where
  "gcp_NewTinkSignerVerifier sd kekURI keysetPath registry =
     (if kekURI = [] \<or> keysetPath = []
      then (Err (ErrText ''key encryption key URI or keyset path unset''), registry)
      else
        (let (kek, registry) = gcp_getKeyEncryptionKey sd kekURI registry
         in (go_bind kek id (\<lambda>k. NewTinkSignerVerifierWithHandle sd k keysetPath), registry)))"

section \<open>New\<close>

text \<open>The switch; AWS passes no options to the KMS.\<close>

definition select_signer ::
    "('sv, 'key, 'aead, 'handle, 'client, 'rpc) signer_deps \<Rightarrow>
     (string \<Rightarrow> string \<Rightarrow> 'client list \<Rightarrow> 'sv result \<times> 'client list) \<Rightarrow> 'rpc list \<Rightarrow>
     'more signerVerifierConfig_scheme \<Rightarrow> 'client list \<Rightarrow> 'sv result \<times> 'client list" where
  "select_signer sd newTink rpcOpts sc registry =
     (if list_ex (\<lambda>s. HasPrefix (sc_kms sc) s) (sd_SupportedProviders sd)
      then (sd_kms_Get sd (sc_kms sc) (sc_kmsHash sc) rpcOpts, registry)
      else if sc_tinkKEKURI sc \<noteq> []
      then newTink (sc_tinkKEKURI sc) (sc_tinkKeysetPath sc) registry
      else if sc_filePath sc \<noteq> []
      then (NewFileSignerVerifier sd (sc_filePath sc) (sc_password sc), registry)
      else (Err (ErrText ''insufficient signing parameters provided, must configure one of file, KMS, or Tink signer-verifiers''), registry))"

definition aws_New ::
    "('sv, 'key, 'aead, 'handle, 'client, 'rpc) signer_deps \<Rightarrow> aws_Option list \<Rightarrow> 'client list \<Rightarrow>
     'sv result \<times> 'client list" where
  "aws_New sd opts registry =
     (let sc = apply_options opts zero_signer_config
      in select_signer sd (aws_NewTinkSignerVerifier sd) [] sc registry)"

definition gcp_New ::
    "('sv, 'key, 'aead, 'handle, 'client, 'rpc) signer_deps \<Rightarrow> 'rpc gcp_Option list \<Rightarrow> 'client list \<Rightarrow>
     'sv result \<times> 'client list" where
  "gcp_New sd opts registry =
     (let sc = apply_options opts zero_gcp_signer_config
      in select_signer sd (gcp_NewTinkSignerVerifier sd) (sc_kmsRPCOpts sc) sc registry)"

lemmas signer_config_defs = apply_options_def zero_signer_config_def zero_gcp_signer_config_def
  signerVerifierConfig.defs aws_option_defs gcp_option_defs

lemma no_provider_empty:
  "[] \<notin> set (sd_SupportedProviders sd) \<Longrightarrow>
   \<not> list_ex (\<lambda>s. HasPrefix [] s) (sd_SupportedProviders sd)"
  by (auto simp: list_ex_iff HasPrefix_def)

text \<open>
  Which signer is used does not depend on the order of the options, in either package: a KMS key
  of a supported provider wins over a Tink key set, which wins over a key file; with none of them,
  and also with a KMS key of an unknown provider alone, the result is an error.
\<close>

definition preferred_signer ::
    "('sv, 'key, 'aead, 'handle, 'client, 'rpc) signer_deps \<Rightarrow>
     (string \<Rightarrow> string \<Rightarrow> 'client list \<Rightarrow> 'sv result \<times> 'client list) \<Rightarrow> 'rpc list \<Rightarrow>
     string \<Rightarrow> crypto_hash \<Rightarrow> string \<Rightarrow> string \<Rightarrow> string \<Rightarrow> string \<Rightarrow> 'client list \<Rightarrow>
     'sv result \<times> 'client list" where
  "preferred_signer sd newTink rpc k h u p f pw reg =
    (if list_ex (HasPrefix k) (sd_SupportedProviders sd) then (sd_kms_Get sd k h rpc, reg)
     else if u \<noteq> [] then newTink u p reg
     else if f \<noteq> [] then (NewFileSignerVerifier sd f pw, reg)
     else (Err (ErrText ''insufficient signing parameters provided, must configure one of file, KMS, or Tink signer-verifiers''), reg))"

lemma select_preferred:
  "select_signer sd newTink rpc sc reg =
     preferred_signer sd newTink rpc (sc_kms sc) (sc_kmsHash sc) (sc_tinkKEKURI sc)
       (sc_tinkKeysetPath sc) (sc_filePath sc) (sc_password sc) reg"
  by (simp add: select_signer_def preferred_signer_def)

theorem signer_precedence:
  assumes "opts = [aws_WithKMS k h, aws_WithTink u p, aws_WithFile f pw]
         \<or> opts = [aws_WithFile f pw, aws_WithTink u p, aws_WithKMS k h]"
    and "gopts = [gcp_WithKMS k h rpc, gcp_WithTink u p, gcp_WithFile f pw]
         \<or> gopts = [gcp_WithFile f pw, gcp_WithTink u p, gcp_WithKMS k h rpc]"
  shows "aws_New sd opts reg = preferred_signer sd (aws_NewTinkSignerVerifier sd) [] k h u p f pw reg
    \<and> gcp_New sd gopts reg = preferred_signer sd (gcp_NewTinkSignerVerifier sd) rpc k h u p f pw reg"
proof
  show "aws_New sd opts reg = preferred_signer sd (aws_NewTinkSignerVerifier sd) [] k h u p f pw reg"
    using assms(1) unfolding aws_New_def Let_def select_preferred
    by (elim disjE) (simp_all add: signer_config_defs)
  show "gcp_New sd gopts reg = preferred_signer sd (gcp_NewTinkSignerVerifier sd) rpc k h u p f pw reg"
    using assms(2) unfolding gcp_New_def Let_def select_preferred
    by (elim disjE) (simp_all add: signer_config_defs)
qed

theorem signer_precedence_witness:
  "aws_New \<lparr>sd_SupportedProviders = [''awskms://''], sd_kms_Get = (\<lambda>k h (r :: unit list). Ok k),
       sd_pem_Read = (\<lambda>p pw. Ok ()), sd_LoadDefaultSignerVerifier = (\<lambda>k. Ok ''file''),
       sd_Open = (\<lambda>p. Ok []), sd_keyset_Read = (\<lambda>b a. Ok ()), sd_KeyHandleToSigner = (\<lambda>h. Ok ()),
       sd_NewKMSClient = (\<lambda>u. Ok ()), sd_GetAEAD = (\<lambda>c u. Ok ())\<rparr>
     [aws_WithFile ''key.pem'' [], aws_WithTink [] [], aws_WithKMS ''awskms://k'' SHA256] [] =
   (Ok ''awskms://k'', [])"
  by (rule trans [OF conjunct1 [OF signer_precedence [OF disjI2 [OF refl] disjI1 [OF refl]]]])
     (simp add: HasPrefix_def preferred_signer_def)

text \<open>The two packages refuse each other's key encryption keys.\<close>

lemma tink_scheme:
  "HasPrefix u ''gcp-kms://'' \<Longrightarrow> p \<noteq> [] \<Longrightarrow>
     aws_NewTinkSignerVerifier sd u p reg = (Err (ErrText ''unsupported KMS key type''), reg)"
  "HasPrefix u ''aws-kms://'' \<Longrightarrow> p \<noteq> [] \<Longrightarrow>
     gcp_NewTinkSignerVerifier sd u p reg = (Err (ErrText ''unsupported KMS key type''), reg)"
  by (auto simp: aws_NewTinkSignerVerifier_def gcp_NewTinkSignerVerifier_def
      aws_getKeyEncryptionKey_def gcp_getKeyEncryptionKey_def getKeyEncryptionKey_def HasPrefix_def
      prefix_def)

lemma no_signer: "fst (aws_New sd [] reg) = fst (gcp_New sd [] reg)"
    "[] \<notin> set (sd_SupportedProviders sd) \<Longrightarrow> \<exists>e. fst (gcp_New sd [] reg) = Err e"
  by (auto simp: aws_New_def gcp_New_def select_preferred preferred_signer_def signer_config_defs Let_def
      dest: no_provider_empty)

end
