(* ===== verification/Lifecycle.thy ===== *)
theory Lifecycle
  imports Server_Config "HOL-Library.Sublist"
begin

text \<open>
  \<open>internal/server/serve.go\<close> and the \<open>start\<close> methods of \<open>grpc.go\<close>, \<open>http.go\<close> and
  \<open>metrics.go\<close>, as a transition system.  \<open>Serve\<close> is a sequence of instructions of the main
  goroutine: it creates and starts the three servers, waits on the wait group and shuts tessera
  down.  Each \<open>start\<close> spawns two goroutines: one registers for signals, waits for one, shuts
  the server down and closes \<open>waitToClose\<close>; the other runs \<open>Serve\<close>, waits for
  \<open>waitToClose\<close> and calls \<open>wg.Done\<close>.  The steps of all goroutines interleave.  The serving goroutine
  of the metrics server shuts the OpenTelemetry provider down after \<open>wg.Done\<close>; it can do so
  only while the main goroutine has not returned.

  A signal reaches the channels registered at that moment; each channel keeps one signal.  While
  no channel is registered, Go's default action ends the process.  In-flight requests are assumed
  to finish, so that a shutdown returns.
\<close>

section \<open>States\<close>

datatype srv = GrpcSrv | HttpSrv | MetricsSrv

datatype instr =
    Create srv | Listen srv | SpawnSig srv | WgAdd srv | SpawnServe srv | WgWait | TesseraShutdown

text \<open>The goroutine that handles signals; the flag is the signal pending in its channel.\<close>

datatype sig_phase = GNone | GSpawned | GListening bool | GStopping | GStopped

text \<open>The goroutine that serves.\<close>

datatype serve_phase = SNone | SSpawned | SServing | SReturned | SDone

record sys =
  prog :: "instr list"
  wg :: nat
  sig :: "srv \<Rightarrow> sig_phase"
  srvg :: "srv \<Rightarrow> serve_phase"
  tessera_stopped :: bool
  otel_stopped :: bool
  exited :: "int option"

text \<open>The three \<open>start\<close> methods, as the main goroutine runs them.\<close>

definition grpcServer_start :: "instr list" where
  "grpcServer_start = [Listen GrpcSrv, SpawnSig GrpcSrv, WgAdd GrpcSrv, SpawnServe GrpcSrv]"

definition httpProxy_start :: "instr list" where
  "httpProxy_start = [Listen HttpSrv, SpawnSig HttpSrv, WgAdd HttpSrv, SpawnServe HttpSrv]"

definition httpMetrics_start :: "instr list" where
  "httpMetrics_start =
     [Listen MetricsSrv, SpawnSig MetricsSrv, WgAdd MetricsSrv, SpawnServe MetricsSrv]"

definition program :: "instr list" where
  "program =
     Create GrpcSrv # grpcServer_start @ Create HttpSrv # httpProxy_start
       @ Create MetricsSrv # httpMetrics_start @ [WgWait, TesseraShutdown]"

text \<open>The guards of \<open>Serve\<close>: port 0 and a shared address end the process with status 1.\<close>

definition Serve :: "HTTPConfig \<Rightarrow> GRPCConfig \<Rightarrow> sys" where
  "Serve hc gc =
     \<lparr>prog = program, wg = 0, sig = (\<lambda>_. GNone), srvg = (\<lambda>_. SNone), tessera_stopped = False,
      otel_stopped = False, exited =
        (if hc_port hc = 0 \<or> gc_port gc = 0 then Some 1
         else if hc_port hc = gc_port gc \<and> hc_host hc = gc_host gc then Some 1
         else None)\<rparr>"

section \<open>Steps\<close>

definition registered :: "sig_phase \<Rightarrow> bool" where
  "registered g \<longleftrightarrow> g \<noteq> GNone \<and> g \<noteq> GSpawned"

fun deliver :: "sig_phase \<Rightarrow> sig_phase" where
  "deliver (GListening b) = GListening True"
| "deliver g = g"

definition stopping :: "sig_phase \<Rightarrow> bool" where
  "stopping g \<longleftrightarrow> g = GStopping \<or> g = GStopped"

text \<open>
  Steps are labelled: \<open>Run\<close> for the steps of the program, \<open>Fail\<close> for an operation that fails
  and ends the process with status 1, \<open>Signal\<close> for the arrival of a signal.  The serve
  goroutine of the gRPC server exits when the server was stopped before it served, since
  \<open>grpc.Server.Serve\<close> returns an error then; the HTTP servers return
  \<open>ErrServerClosed\<close>, which is no failure.
\<close>

datatype label = Run | Fail | Signal

inductive step :: "label \<Rightarrow> sys \<Rightarrow> sys \<Rightarrow> bool" where
  create: "exited s = None \<Longrightarrow> prog s = Create i # p \<Longrightarrow> step Run s (s \<lparr>prog := p\<rparr>)"
| create_fails:
    "exited s = None \<Longrightarrow> prog s = Create i # p \<Longrightarrow> i \<noteq> MetricsSrv \<Longrightarrow>
     step Fail s (s \<lparr>exited := Some 1\<rparr>)"
| listen: "exited s = None \<Longrightarrow> prog s = Listen i # p \<Longrightarrow> step Run s (s \<lparr>prog := p\<rparr>)"
| listen_fails:
    "exited s = None \<Longrightarrow> prog s = Listen i # p \<Longrightarrow> step Fail s (s \<lparr>exited := Some 1\<rparr>)"
| spawn_sig:
    "exited s = None \<Longrightarrow> prog s = SpawnSig i # p \<Longrightarrow>
     step Run s (s \<lparr>prog := p, sig := (sig s)(i := GSpawned)\<rparr>)"
| wg_add:
    "exited s = None \<Longrightarrow> prog s = WgAdd i # p \<Longrightarrow> step Run s (s \<lparr>prog := p, wg := wg s + 1\<rparr>)"
| spawn_serve:
    "exited s = None \<Longrightarrow> prog s = SpawnServe i # p \<Longrightarrow>
     step Run s (s \<lparr>prog := p, srvg := (srvg s)(i := SSpawned)\<rparr>)"
| wg_wait:
    "exited s = None \<Longrightarrow> prog s = WgWait # p \<Longrightarrow> wg s = 0 \<Longrightarrow> step Run s (s \<lparr>prog := p\<rparr>)"
| tessera_shutdown:
    "exited s = None \<Longrightarrow> prog s = TesseraShutdown # p \<Longrightarrow>
     step Run s (s \<lparr>prog := p, tessera_stopped := True\<rparr>)"
| notify:
    "exited s = None \<Longrightarrow> sig s i = GSpawned \<Longrightarrow>
     step Run s (s \<lparr>sig := (sig s)(i := GListening False)\<rparr>)"
| receive:
    "exited s = None \<Longrightarrow> sig s i = GListening True \<Longrightarrow>
     step Run s (s \<lparr>sig := (sig s)(i := GStopping)\<rparr>)"
| shutdown:
    "exited s = None \<Longrightarrow> sig s i = GStopping \<Longrightarrow>
     step Run s (s \<lparr>sig := (sig s)(i := GStopped)\<rparr>)"
| serve_call:
    "exited s = None \<Longrightarrow> srvg s i = SSpawned \<Longrightarrow> sig s i \<noteq> GStopped \<Longrightarrow>
     step Run s (s \<lparr>srvg := (srvg s)(i := SServing)\<rparr>)"
| serve_closed:
    "exited s = None \<Longrightarrow> srvg s i = SSpawned \<Longrightarrow> stopping (sig s i) \<Longrightarrow> i \<noteq> GrpcSrv \<Longrightarrow>
     step Run s (s \<lparr>srvg := (srvg s)(i := SReturned)\<rparr>)"
| serve_stopped:
    "exited s = None \<Longrightarrow> srvg s GrpcSrv = SSpawned \<Longrightarrow> stopping (sig s GrpcSrv) \<Longrightarrow>
     step Fail s (s \<lparr>exited := Some 1\<rparr>)"
| serve_returns:
    "exited s = None \<Longrightarrow> srvg s i = SServing \<Longrightarrow> stopping (sig s i) \<Longrightarrow>
     step Run s (s \<lparr>srvg := (srvg s)(i := SReturned)\<rparr>)"
| serve_fails:
    "exited s = None \<Longrightarrow> srvg s i = SServing \<Longrightarrow> step Fail s (s \<lparr>exited := Some 1\<rparr>)"
| wg_done:
    "exited s = None \<Longrightarrow> srvg s i = SReturned \<Longrightarrow> sig s i = GStopped \<Longrightarrow>
     step Run s (s \<lparr>srvg := (srvg s)(i := SDone), wg := wg s - 1\<rparr>)"
| otel_shutdown:
    "exited s = None \<Longrightarrow> srvg s MetricsSrv = SDone \<Longrightarrow> \<not> otel_stopped s \<Longrightarrow> prog s \<noteq> [] \<Longrightarrow>
     step Run s (s \<lparr>otel_stopped := True\<rparr>)"
| signal_handled:
    "exited s = None \<Longrightarrow> registered (sig s i) \<Longrightarrow> step Signal s (s \<lparr>sig := deliver \<circ> sig s\<rparr>)"
| signal_default:
    "exited s = None \<Longrightarrow> (\<And>i. \<not> registered (sig s i)) \<Longrightarrow> step Signal s (s \<lparr>exited := Some 2\<rparr>)"

inductive reachable :: "sys \<Rightarrow> sys \<Rightarrow> bool" for s0 where
  init: "reachable s0 s0"
| more: "reachable s0 s \<Longrightarrow> step l s s' \<Longrightarrow> reachable s0 s'"

inductive_cases run_elim: "step Run s s'"
inductive_cases fail_elim: "step Fail s s'"
inductive_cases signal_elim: "step Signal s s'"

section \<open>The invariant\<close>

definition all_srv :: "srv list" where "all_srv = [GrpcSrv, HttpSrv, MetricsSrv]"

definition active :: "sys \<Rightarrow> srv \<Rightarrow> bool" where
  "active s i \<longleftrightarrow> WgAdd i \<notin> set (prog s) \<and> srvg s i \<noteq> SDone"

definition lifecycle_inv :: "sys \<Rightarrow> bool" where
  "lifecycle_inv s \<longleftrightarrow>
     suffix (prog s) program
     \<and> (\<forall>i. SpawnSig i \<in> set (prog s) \<longleftrightarrow> sig s i = GNone)
     \<and> (\<forall>i. SpawnServe i \<in> set (prog s) \<longleftrightarrow> srvg s i = SNone)
     \<and> (\<forall>i. srvg s i = SDone \<longrightarrow> sig s i = GStopped)
     \<and> wg s = length (filter (active s) all_srv)
     \<and> (tessera_stopped s \<longleftrightarrow> TesseraShutdown \<notin> set (prog s))
     \<and> (WgWait \<notin> set (prog s) \<longrightarrow> (\<forall>i. srvg s i = SDone))"

lemma all_srv_complete: "i \<in> set all_srv"
  by (cases i) (simp_all add: all_srv_def)

lemma program_simp:
  "program =
    [Create GrpcSrv, Listen GrpcSrv, SpawnSig GrpcSrv, WgAdd GrpcSrv, SpawnServe GrpcSrv,
     Create HttpSrv, Listen HttpSrv, SpawnSig HttpSrv, WgAdd HttpSrv, SpawnServe HttpSrv,
     Create MetricsSrv, Listen MetricsSrv, SpawnSig MetricsSrv, WgAdd MetricsSrv,
     SpawnServe MetricsSrv, WgWait, TesseraShutdown]"
  by (simp add: program_def grpcServer_start_def httpProxy_start_def httpMetrics_start_def)

text \<open>Where the main goroutine is determines what it has left to do.\<close>

lemma rest_of_program:
  assumes "suffix (x # p) program"
  shows "p = tl (dropWhile (\<lambda>y. y \<noteq> x) program)" and "x \<notin> set p" and "suffix p program"
proof -
  obtain pre where pre: "program = pre @ x # p" using assms by (auto simp: suffix_def)
  have "distinct program" by (simp add: program_simp)
  then have "x \<notin> set pre" "x \<notin> set p" unfolding pre by auto
  then show "x \<notin> set p" by simp
  have "dropWhile (\<lambda>y. y \<noteq> x) (pre @ x # p) = x # p"
    using \<open>x \<notin> set pre\<close> by (induction pre) auto
  then show "p = tl (dropWhile (\<lambda>y. y \<noteq> x) program)" unfolding pre by simp
  show "suffix p program" unfolding pre by (auto simp: suffix_def intro: exI [of _ "pre @ [x]"])
qed

lemma srv_all: "(\<forall>i. P i) \<longleftrightarrow> P GrpcSrv \<and> P HttpSrv \<and> P MetricsSrv"
  by (metis srv.exhaust)

lemma inv_main:
  assumes "lifecycle_inv s" "prog s = x # p"
  shows "p = tl (dropWhile (\<lambda>y. y \<noteq> x) program)" "suffix p program" "suffix (x # p) program"
  using assms rest_of_program [of x p] by (auto simp: lifecycle_inv_def)

lemma inv_create:
  assumes "lifecycle_inv s" "prog s = Create i # p \<or> prog s = Listen i # p"
  shows "lifecycle_inv (s \<lparr>prog := p\<rparr>)"
proof -
  have "suffix p program" using assms inv_main(2) by blast
  moreover have "active (s \<lparr>prog := p\<rparr>) = active s"
    using assms(2) by (auto simp: active_def fun_eq_iff)
  ultimately show ?thesis using assms by (auto simp: lifecycle_inv_def)
qed

lemma inv_spawn_sig:
  assumes "lifecycle_inv s" "prog s = SpawnSig i # p"
  shows "lifecycle_inv (s \<lparr>prog := p, sig := (sig s)(i := GSpawned)\<rparr>)"
proof -
  note m = inv_main [OF assms] and n = rest_of_program(2) [OF inv_main(3) [OF assms]]
  have "active (s \<lparr>prog := p, sig := (sig s)(i := GSpawned)\<rparr>) = active s"
    using assms(2) by (auto simp: active_def fun_eq_iff)
  moreover have "srvg s i \<noteq> SDone"
    using assms by (force simp: lifecycle_inv_def)
  ultimately show ?thesis using assms m(2) n by (auto simp: lifecycle_inv_def)
qed

lemma inv_wg_add:
  assumes "lifecycle_inv s" "prog s = WgAdd i # p"
  shows "lifecycle_inv (s \<lparr>prog := p, wg := wg s + 1\<rparr>)"
proof -
  note m = inv_main [OF assms] and n = rest_of_program(2) [OF inv_main(3) [OF assms]]
  have p: "SpawnServe i \<in> set p" unfolding m(1) by (cases i) (simp_all add: program_simp)
  then have "srvg s i \<noteq> SDone" using assms by (force simp: lifecycle_inv_def)
  then have "filter (active (s \<lparr>prog := p, wg := wg s + 1\<rparr>)) all_srv \<in>
      {xs. length xs = Suc (length (filter (active s) all_srv))}"
    using assms(2) n by (cases i) (auto simp: active_def all_srv_def)
  then show ?thesis using assms m(2) by (auto simp: lifecycle_inv_def)
qed

lemma inv_spawn_serve:
  assumes "lifecycle_inv s" "prog s = SpawnServe i # p"
  shows "lifecycle_inv (s \<lparr>prog := p, srvg := (srvg s)(i := SSpawned)\<rparr>)"
proof -
  note m = inv_main [OF assms] and n = rest_of_program(2) [OF inv_main(3) [OF assms]]
  have "srvg s i = SNone" using assms by (force simp: lifecycle_inv_def)
  then have a: "active (s \<lparr>prog := p, srvg := (srvg s)(i := SSpawned)\<rparr>) = active s"
    using assms(2) by (auto simp: active_def fun_eq_iff)
  have "WgWait \<in> set p" unfolding m(1) by (cases i) (simp_all add: program_simp)
  with a show ?thesis using assms m(2) n by (auto simp: lifecycle_inv_def)
qed

lemma inv_wg_wait:
  assumes "lifecycle_inv s" "prog s = WgWait # p" "wg s = 0"
  shows "lifecycle_inv (s \<lparr>prog := p\<rparr>)"
proof -
  note m = inv_main [OF assms(1,2)]
  have p: "p = [TesseraShutdown]" unfolding m(1) by (simp add: program_simp)
  have "srvg s i = SDone" for i
    using assms all_srv_complete [of i] by (auto simp: lifecycle_inv_def p active_def filter_empty_conv)
  moreover have "active (s \<lparr>prog := p\<rparr>) = active s"
    using assms(2) by (auto simp: active_def fun_eq_iff)
  ultimately show ?thesis using assms m(2) by (auto simp: lifecycle_inv_def)
qed

lemma inv_tessera:
  assumes "lifecycle_inv s" "prog s = TesseraShutdown # p"
  shows "lifecycle_inv (s \<lparr>prog := p, tessera_stopped := True\<rparr>)"
proof -
  note m = inv_main [OF assms]
  have p: "p = []" unfolding m(1) by (simp add: program_simp)
  have "active (s \<lparr>prog := p, tessera_stopped := True\<rparr>) = active s"
    using assms(2) by (auto simp: active_def fun_eq_iff)
  then show ?thesis using assms m(2) p by (auto simp: lifecycle_inv_def)
qed

lemma inv_sig:
  assumes "lifecycle_inv s" "sig s i \<noteq> GNone" "sig s i \<noteq> GStopped" "g \<noteq> GNone"
  shows "lifecycle_inv (s \<lparr>sig := (sig s)(i := g)\<rparr>)"
proof -
  have "active (s \<lparr>sig := (sig s)(i := g)\<rparr>) = active s" by (simp add: active_def fun_eq_iff)
  then show ?thesis using assms by (auto simp: lifecycle_inv_def)
qed

lemma inv_srvg:
  assumes "lifecycle_inv s" "srvg s i \<noteq> SNone" "srvg s i \<noteq> SDone" "g \<noteq> SNone" "g \<noteq> SDone"
  shows "lifecycle_inv (s \<lparr>srvg := (srvg s)(i := g)\<rparr>)"
proof -
  have "active (s \<lparr>srvg := (srvg s)(i := g)\<rparr>) = active s"
    using assms by (auto simp: active_def fun_eq_iff)
  then show ?thesis using assms by (auto simp: lifecycle_inv_def)
qed

lemma inv_wg_done:
  assumes "lifecycle_inv s" "srvg s i = SReturned" "sig s i = GStopped"
  shows "lifecycle_inv (s \<lparr>srvg := (srvg s)(i := SDone), wg := wg s - 1\<rparr>)"
proof -
  have "SpawnServe i \<notin> set (prog s)" using assms by (auto simp: lifecycle_inv_def)
  moreover have "suffix (prog s) program" using assms(1) by (simp add: lifecycle_inv_def)
  ultimately have "WgAdd i \<notin> set (prog s)"
    by (cases i) (auto simp: program_simp suffix_Cons)
  then have "length (filter (active s) all_srv) =
      Suc (length (filter (active (s \<lparr>srvg := (srvg s)(i := SDone), wg := wg s - 1\<rparr>)) all_srv))"
    using assms(2) by (cases i) (simp_all add: active_def all_srv_def)
  then show ?thesis using assms by (auto simp: lifecycle_inv_def)
qed

lemma inv_signal:
  assumes "lifecycle_inv s"
  shows "lifecycle_inv (s \<lparr>sig := deliver \<circ> sig s\<rparr>)"
proof -
  have "deliver g = GNone \<longleftrightarrow> g = GNone" "deliver g = GStopped \<longleftrightarrow> g = GStopped" for g
    by (cases g; simp)+
  moreover have "active (s \<lparr>sig := deliver \<circ> sig s\<rparr>) = active s"
    by (simp add: active_def fun_eq_iff)
  ultimately show ?thesis using assms by (simp add: lifecycle_inv_def)
qed

lemma inv_exit: "lifecycle_inv (s \<lparr>exited := x\<rparr>) = lifecycle_inv s"
proof -
  have "active (s \<lparr>exited := x\<rparr>) = active s" by (simp add: active_def fun_eq_iff)
  then show ?thesis by (simp add: lifecycle_inv_def)
qed

lemma inv_otel: "lifecycle_inv (s \<lparr>otel_stopped := x\<rparr>) = lifecycle_inv s"
proof -
  have "active (s \<lparr>otel_stopped := x\<rparr>) = active s" by (simp add: active_def fun_eq_iff)
  then show ?thesis by (simp add: lifecycle_inv_def)
qed

lemma step_inv: "step l s s' \<Longrightarrow> lifecycle_inv s \<Longrightarrow> lifecycle_inv s'"
proof (induction rule: step.induct)
  case (wg_add s i p)
  then show ?case using inv_wg_add by blast
next
  case (wg_wait s p)
  then show ?case using inv_wg_wait by blast
next
  case (wg_done s i)
  then show ?case using inv_wg_done by blast
qed (auto simp: inv_exit inv_otel stopping_def intro!: inv_create inv_spawn_sig inv_spawn_serve inv_tessera
      inv_sig inv_srvg inv_signal)

lemma init_inv: "lifecycle_inv (Serve hc gc)"
  unfolding lifecycle_inv_def srv_all by (simp add: Serve_def program_simp active_def all_srv_def)

lemma reachable_inv: "reachable (Serve hc gc) s \<Longrightarrow> lifecycle_inv s"
  by (induction rule: reachable.induct) (auto intro: init_inv step_inv)

section \<open>Safety\<close>

text \<open>
  C19. Tessera is shut down last: in every reachable state, under every interleaving of the
  goroutines, failures and signals, the sequencer is stopped only when each of the three servers
  has shut down, its serving goroutine has finished, and the wait group is at zero.
\<close>

theorem tessera_stops_last:
  assumes "reachable (Serve hc gc) s" "tessera_stopped s"
  shows "(\<forall>i. srvg s i = SDone \<and> sig s i = GStopped) \<and> wg s = 0 \<and> prog s = []"
proof -
  have i: "lifecycle_inv s" using assms(1) by (rule reachable_inv)
  have t: "TesseraShutdown \<notin> set (prog s)" and suf: "suffix (prog s) program"
    using i assms(2) by (auto simp: lifecycle_inv_def)
  have p: "prog s = []" using suf t by (auto simp: program_simp suffix_Cons)
  have d: "srvg s i = SDone" "sig s i = GStopped" for i
    using i p by (auto simp: lifecycle_inv_def)
  have "filter (active s) all_srv = []" using d by (simp add: active_def filter_empty_conv)
  then have "wg s = 0" using i by (simp add: lifecycle_inv_def)
  then show ?thesis using p d by simp
qed

text \<open>
  C20. The wait group never goes negative and never releases \<open>Serve\<close> early: its counter is the
  number of servers that were added and have not finished, and the decrement of a finishing server
  finds it positive.
\<close>

theorem wait_group_exact:
  assumes "reachable (Serve hc gc) s"
  shows "wg s = length (filter (active s) all_srv)
    \<and> (\<forall>i. srvg s i = SReturned \<longrightarrow> 0 < wg s)"
proof -
  have i: "lifecycle_inv s" using assms by (rule reachable_inv)
  have "0 < wg s" if r: "srvg s i = SReturned" for i
  proof -
    have "SpawnServe i \<notin> set (prog s)" "suffix (prog s) program"
      using i r by (auto simp: lifecycle_inv_def)
    then have "WgAdd i \<notin> set (prog s)"
      by (cases i) (auto simp: program_simp suffix_Cons)
    then have "i \<in> set (filter (active s) all_srv)"
      using r all_srv_complete by (simp add: active_def)
    then have "0 < length (filter (active s) all_srv)" by (rule length_pos_if_in_set)
    then show ?thesis using i by (simp add: lifecycle_inv_def)
  qed
  then show ?thesis using i by (simp add: lifecycle_inv_def)
qed

section \<open>Termination\<close>

text \<open>Every step of the program, and every failure, brings the end nearer.\<close>

fun sig_rank :: "sig_phase \<Rightarrow> nat" where
  "sig_rank GNone = 3"
| "sig_rank GSpawned = 3"
| "sig_rank (GListening b) = 2"
| "sig_rank GStopping = 1"
| "sig_rank GStopped = 0"

fun serve_rank :: "serve_phase \<Rightarrow> nat" where
  "serve_rank SNone = 3"
| "serve_rank SSpawned = 3"
| "serve_rank SServing = 2"
| "serve_rank SReturned = 1"
| "serve_rank SDone = 0"

definition work_left :: "sys \<Rightarrow> nat" where
  "work_left s =
     (case exited s of Some _ \<Rightarrow> 0
      | None \<Rightarrow> Suc (length (prog s) + (if otel_stopped s then 0 else 1) + (\<Sum>i\<leftarrow>all_srv. sig_rank (sig s i) + serve_rank (srvg s i))))"

lemma work_left_decreases:
  assumes "step l s s'" "l \<noteq> Signal" "lifecycle_inv s"
  shows "work_left s' < work_left s"
  using assms
proof (induction rule: step.induct)
  case (spawn_sig s i p)
  then have "sig s i = GNone" by (force simp: lifecycle_inv_def)
  with spawn_sig show ?case by (cases i) (simp_all add: work_left_def all_srv_def)
next
  case (spawn_serve s i p)
  then have "srvg s i = SNone" by (force simp: lifecycle_inv_def)
  with spawn_serve show ?case by (cases i) (simp_all add: work_left_def all_srv_def)
next
  case (notify s i)
  then show ?case by (cases i) (simp_all add: work_left_def all_srv_def)
next
  case (receive s i)
  then show ?case by (cases i) (simp_all add: work_left_def all_srv_def)
next
  case (shutdown s i)
  then show ?case by (cases i) (simp_all add: work_left_def all_srv_def)
next
  case (serve_call s i)
  then show ?case by (cases i) (simp_all add: work_left_def all_srv_def)
next
  case (serve_closed s i)
  then show ?case by (cases i) (simp_all add: work_left_def all_srv_def)
next
  case (serve_returns s i)
  then show ?case by (cases i) (simp_all add: work_left_def all_srv_def)
next
  case (wg_done s i)
  then show ?case by (cases i) (simp_all add: work_left_def all_srv_def)
qed (simp_all add: work_left_def)

inductive runs :: "sys \<Rightarrow> sys \<Rightarrow> bool" where
  stop: "runs s s"
| go: "step Run s s1 \<Longrightarrow> runs s1 s2 \<Longrightarrow> runs s s2"

lemma runs_reachable: "runs s s' \<Longrightarrow> reachable s0 s \<Longrightarrow> reachable s0 s'"
  by (induction rule: runs.induct) (auto intro: reachable.more)

lemma runs_trans: "runs s s1 \<Longrightarrow> runs s1 s2 \<Longrightarrow> runs s s2"
  by (induction rule: runs.induct) (auto intro: runs.go)

lemma runs_invariant:
  assumes "runs s s'" "P s" "\<And>t t'. step Run t t' \<Longrightarrow> P t \<Longrightarrow> P t'"
  shows "P s'"
  using assms by (induction rule: runs.induct) auto

lemma run_not_exited: "step Run s s' \<Longrightarrow> exited s = None \<and> exited s' = None"
  by (erule run_elim) simp_all

lemma run_comes_to_rest:
  assumes "lifecycle_inv s"
  shows "\<exists>s'. runs s s' \<and> (\<forall>s''. \<not> step Run s' s'')"
  using assms
proof (induction "work_left s" arbitrary: s rule: less_induct)
  case less
  show ?case
  proof (cases "\<exists>s1. step Run s s1")
    case True
    then obtain s1 where s1: "step Run s s1" by blast
    then obtain s' where "runs s1 s'" "\<forall>s''. \<not> step Run s' s''"
      using less.hyps [of s1] work_left_decreases [OF s1] step_inv [OF s1] less.prems by auto
    then show ?thesis using runs.go [OF s1] by blast
  qed (auto intro: runs.stop)
qed

lemma no_endless_run:
  assumes "lifecycle_inv (f 0)"
  shows "\<exists>n. \<not> step Run (f n) (f (Suc n))"
proof (rule ccontr)
  assume "\<nexists>n. \<not> step Run (f n) (f (Suc n))"
  then have st: "step Run (f n) (f (Suc n))" for n by blast
  have inv: "lifecycle_inv (f n)" for n
    using assms st step_inv by (induction n) auto
  have "work_left (f n) + n \<le> work_left (f 0)" for n
  proof (induction n)
    case (Suc n)
    then show ?case using work_left_decreases [OF st _ inv, of n] by simp
  qed simp
  from this [of "Suc (work_left (f 0))"] show False by simp
qed

section \<open>Where the process comes to rest\<close>

text \<open>
  A server that has nothing to do: it serves and waits for a signal; it is done, the metrics
  server with the provider shut down; or it is the gRPC server that was stopped before its
  goroutine called \<open>Serve\<close>, whose only step left is the failure of that call.
\<close>

definition server_rests :: "sys \<Rightarrow> srv \<Rightarrow> bool" where
  "server_rests s i \<longleftrightarrow>
     srvg s i = SServing \<and> sig s i = GListening False
   \<or> srvg s i = SDone \<and> sig s i = GStopped \<and> (i = MetricsSrv \<longrightarrow> otel_stopped s)
   \<or> srvg s i = SSpawned \<and> sig s i = GStopped \<and> i = GrpcSrv"

text \<open>
  The process has exited, or \<open>Serve\<close> has returned after all servers were done and tessera
  was stopped, or \<open>Serve\<close> waits for servers that have nothing to do.
\<close>

definition at_rest :: "sys \<Rightarrow> bool" where
  "at_rest s \<longleftrightarrow>
     exited s \<noteq> None
   \<or> prog s = [] \<and> tessera_stopped s \<and> (\<forall>i. srvg s i = SDone \<and> sig s i = GStopped)
   \<or> prog s = [WgWait, TesseraShutdown] \<and> (\<exists>i. srvg s i \<noteq> SDone) \<and> (\<forall>i. server_rests s i)"

text \<open>A server returns from \<open>Serve\<close> only when it is being stopped.\<close>

definition returned_stopping :: "sys \<Rightarrow> bool" where
  "returned_stopping s \<longleftrightarrow> (\<forall>i. srvg s i = SReturned \<longrightarrow> stopping (sig s i))"

lemma returned_stopping_step:
  assumes "step l s s'" "lifecycle_inv s" "returned_stopping s"
  shows "returned_stopping s'"
  using assms
proof (induction rule: step.induct)
  case (spawn_sig s i p)
  have "SpawnServe i \<in> set (prog s)"
    using spawn_sig.prems(1) spawn_sig.hyps(2) inv_main(1) [OF spawn_sig.prems(1) spawn_sig.hyps(2)]
    by (cases i) (simp_all add: program_simp)
  then have "srvg s i = SNone" using spawn_sig.prems(1) by (simp add: lifecycle_inv_def)
  then show ?case using spawn_sig.prems(2) by (auto simp: returned_stopping_def)
next
  case (signal_handled s i)
  have "stopping g \<Longrightarrow> stopping (deliver g)" for g by (cases g) (simp_all add: stopping_def)
  then show ?case using signal_handled.prems(2) by (auto simp: returned_stopping_def)
qed (auto simp: returned_stopping_def stopping_def)

lemma reachable_returned: "reachable (Serve hc gc) s \<Longrightarrow> returned_stopping s"
proof (induction rule: reachable.induct)
  case init
  then show ?case by (simp add: returned_stopping_def Serve_def)
next
  case (more s l s')
  then show ?case using returned_stopping_step reachable_inv by blast
qed

lemma waiting_wg:
  assumes "lifecycle_inv s" "prog s = [WgWait, TesseraShutdown]"
  shows "wg s = 0 \<longleftrightarrow> (\<forall>i. srvg s i = SDone)"
  using assms all_srv_complete
  by (auto simp: lifecycle_inv_def active_def filter_empty_conv)

lemma at_rest_stuck:
  assumes "lifecycle_inv s" "at_rest s"
  shows "\<not> step Run s s'"
proof
  assume st: "step Run s s'"
  then have e: "exited s = None" using run_not_exited by blast
  then consider (over) "prog s = []" "\<And>i. srvg s i = SDone" "\<And>i. sig s i = GStopped"
    | (waiting) "prog s = [WgWait, TesseraShutdown]" "wg s \<noteq> 0" "\<And>i. server_rests s i"
    using assms waiting_wg by (auto simp: at_rest_def)
  then show False
  proof cases
    case over
    then show False using st by (auto elim!: run_elim)
  next
    case waiting
    have "srvg s i \<noteq> SReturned" "sig s i \<notin> {GSpawned, GListening True, GStopping}"
      "srvg s i = SServing \<Longrightarrow> \<not> stopping (sig s i)"
      "srvg s i = SSpawned \<Longrightarrow> i = GrpcSrv \<and> sig s i = GStopped"
      "srvg s MetricsSrv = SDone \<Longrightarrow> otel_stopped s" for i
      using waiting(3) [of i] waiting(3) [of MetricsSrv]
      by (auto simp: server_rests_def stopping_def)
    then show False using st waiting(1,2) by (auto elim!: run_elim)
  qed
qed

lemma stuck_server:
  assumes "\<And>s'. \<not> step Run s s'" "lifecycle_inv s" "returned_stopping s" "exited s = None"
    and "prog s = [WgWait, TesseraShutdown]"
  shows "server_rests s i"
proof -
  have "sig s i \<notin> {GSpawned, GListening True, GStopping}"
    using assms(1,4) step.notify [of s i] step.receive [of s i] step.shutdown [of s i] by blast
  moreover have "sig s i \<noteq> GNone" using assms(2,5) by (auto simp: lifecycle_inv_def)
  ultimately have g: "sig s i = GListening False \<or> sig s i = GStopped"
    by (cases "sig s i") auto
  show ?thesis
  proof (cases "srvg s i")
    case SNone
    then show ?thesis using assms(2,5) by (auto simp: lifecycle_inv_def)
  next
    case SSpawned
    then show ?thesis
      using assms(1,4) g step.serve_call [of s i] step.serve_closed [of s i]
      by (auto simp: server_rests_def stopping_def)
  next
    case SServing
    then show ?thesis
      using assms(1,4) g step.serve_returns [of s i] by (auto simp: server_rests_def stopping_def)
  next
    case SReturned
    then have "sig s i = GStopped" using assms(3) g by (auto simp: returned_stopping_def stopping_def)
    then show ?thesis using SReturned assms(1,4) step.wg_done [of s i] by blast
  next
    case SDone
    then show ?thesis
      using assms(1,2,4,5) step.otel_shutdown [of s] by (auto simp: server_rests_def lifecycle_inv_def)
  qed
qed

lemma stuck_at_rest:
  assumes "\<And>s'. \<not> step Run s s'" "lifecycle_inv s" "returned_stopping s"
  shows "at_rest s"
proof (cases "exited s = None \<and> prog s \<noteq> []")
  case False
  then show ?thesis using assms(2) by (auto simp: at_rest_def lifecycle_inv_def)
next
  case True
  then obtain x p where x: "prog s = x # p" by (cases "prog s") auto
  have e: "exited s = None" using True by simp
  have w: "x = WgWait" "wg s \<noteq> 0"
    using assms(1) x step.create [OF e] step.listen [OF e] step.spawn_sig [OF e] step.wg_add [OF e]
      step.spawn_serve [OF e] step.wg_wait [OF e] step.tessera_shutdown [OF e]
    by (cases x, blast+)+
  then have p: "prog s = [WgWait, TesseraShutdown]"
    using inv_main(1) [OF assms(2) x] x by (simp add: program_simp)
  then show ?thesis
    using stuck_server [OF assms e p] w(2) waiting_wg [OF assms(2) p] by (simp add: at_rest_def)
qed

text \<open>
  C22. The process never deadlocks and never runs idle: from every reachable state every run of
  its goroutines ends, and the states in which none of them can move are exactly the ones where
  the process has exited, where \<open>Serve\<close> has returned with all servers done and tessera
  stopped, or where \<open>Serve\<close> waits and each server either waits for its signal, is done, or
  is the gRPC server that was stopped before it served and is about to exit.
\<close>

theorem process_comes_to_rest:
  assumes "reachable (Serve hc gc) s"
  shows "((\<nexists>s'. step Run s s') \<longleftrightarrow> at_rest s)
    \<and> (\<exists>s'. runs s s' \<and> at_rest s')
    \<and> (\<nexists>f. f 0 = s \<and> (\<forall>n. step Run (f n) (f (Suc n))))"
proof (intro conjI)
  have rest: "(\<nexists>s'. step Run t s') \<longleftrightarrow> at_rest t" if "reachable (Serve hc gc) t" for t
    using at_rest_stuck stuck_at_rest reachable_inv [OF that] reachable_returned [OF that] by blast
  then show "(\<nexists>s'. step Run s s') \<longleftrightarrow> at_rest s" using assms by blast
  show "\<exists>s'. runs s s' \<and> at_rest s'"
    using run_comes_to_rest [OF reachable_inv [OF assms]] rest runs_reachable assms by blast
  show "\<nexists>f. f 0 = s \<and> (\<forall>n. step Run (f n) (f (Suc n)))"
    using no_endless_run reachable_inv [OF assms] by blast
qed

text \<open>A channel that holds a signal, or whose goroutine is past that point; a server that serves or did.\<close>

fun sig_ready :: "sig_phase \<Rightarrow> bool" where
  "sig_ready GNone = False"
| "sig_ready GSpawned = False"
| "sig_ready (GListening b) = b"
| "sig_ready _ = True"

fun srv_ready :: "serve_phase \<Rightarrow> bool" where
  "srv_ready SNone = False"
| "srv_ready SSpawned = False"
| "srv_ready _ = True"

lemma sig_ready_step:
  assumes "step Run s s'" "lifecycle_inv s" "sig_ready (sig s i)"
  shows "sig_ready (sig s' i)"
proof -
  have "SpawnSig i \<notin> set (prog s)" using assms(2,3) by (auto simp: lifecycle_inv_def)
  then show ?thesis using assms(1,3) by (auto elim!: run_elim)
qed

lemma srv_ready_step:
  assumes "step Run s s'" "lifecycle_inv s" "srv_ready (srvg s i)"
  shows "srv_ready (srvg s' i)"
proof -
  have "SpawnServe i \<notin> set (prog s)" using assms(2,3) by (auto simp: lifecycle_inv_def)
  then show ?thesis using assms(1,3) by (auto elim!: run_elim)
qed

lemma signalled_rest:
  assumes "at_rest s" "exited s = None" "\<And>i. sig_ready (sig s i)"
  shows "prog s = [] \<and> tessera_stopped s
    \<or> prog s = [WgWait, TesseraShutdown] \<and> srvg s GrpcSrv = SSpawned
      \<and> step Fail s (s \<lparr>exited := Some 1\<rparr>)"
proof (cases "prog s = []")
  case True
  then show ?thesis using assms(1,2) by (simp add: at_rest_def)
next
  case False
  then have r: "prog s = [WgWait, TesseraShutdown]" "\<exists>i. srvg s i \<noteq> SDone" "\<And>i. server_rests s i"
    using assms(1,2) by (auto simp: at_rest_def)
  then obtain i where "srvg s i \<noteq> SDone" by blast
  then have "srvg s GrpcSrv = SSpawned" "sig s GrpcSrv = GStopped"
    using r(3) [of i] assms(3) [of i] by (auto simp: server_rests_def)
  then show ?thesis using r(1) step.serve_stopped [OF assms(2)] by (simp add: stopping_def)
qed

text \<open>
  C21. A signal shuts the process down: after a signal that arrives when all three servers have
  registered for signals, every run without failures can be continued until no goroutine can
  move, and then \<open>Serve\<close> has returned and tessera is stopped, or else the gRPC server had
  not called \<open>Serve\<close> yet when the signal came, and the step that is left is that call's
  failure, which exits with status 1.  So once the gRPC server serves, only the orderly end is left.
\<close>

theorem signal_shuts_down:
  assumes "reachable (Serve hc gc) s" "exited s = None" "\<forall>i. registered (sig s i)"
    and "step Signal s s1" "runs s1 s2"
  shows "(\<exists>s3. runs s2 s3 \<and> (\<nexists>s'. step Run s3 s'))
    \<and> (\<forall>s3. runs s2 s3 \<longrightarrow> (\<nexists>s'. step Run s3 s') \<longrightarrow>
         exited s3 = None
       \<and> (prog s3 = [] \<and> tessera_stopped s3
          \<or> srvg s GrpcSrv \<in> {SNone, SSpawned} \<and> srvg s3 GrpcSrv = SSpawned
            \<and> prog s3 = [WgWait, TesseraShutdown] \<and> step Fail s3 (s3 \<lparr>exited := Some 1\<rparr>)))"
proof -
  have r1: "reachable (Serve hc gc) s1" using assms(1,4) by (rule reachable.more)
  have s1: "s1 = s \<lparr>sig := deliver \<circ> sig s\<rparr>" using assms(3,4) by (auto elim: signal_elim)
  have "sig_ready (deliver g)" if "registered g" for g
    using that by (cases g) (simp_all add: registered_def)
  then have P1: "lifecycle_inv s1 \<and> exited s1 = None \<and> (\<forall>i. sig_ready (sig s1 i))
      \<and> (srv_ready (srvg s GrpcSrv) \<longrightarrow> srv_ready (srvg s1 GrpcSrv))"
    using reachable_inv [OF r1] assms(2,3) by (simp add: s1)
  have P: "lifecycle_inv t \<and> exited t = None \<and> (\<forall>i. sig_ready (sig t i))
      \<and> (srv_ready (srvg s GrpcSrv) \<longrightarrow> srv_ready (srvg t GrpcSrv))" if "runs s1 t" for t
    using that P1
    by (rule runs_invariant) (use step_inv run_not_exited sig_ready_step srv_ready_step in blast)
  have "exited s3 = None \<and> (prog s3 = [] \<and> tessera_stopped s3
          \<or> srvg s GrpcSrv \<in> {SNone, SSpawned} \<and> srvg s3 GrpcSrv = SSpawned
            \<and> prog s3 = [WgWait, TesseraShutdown] \<and> step Fail s3 (s3 \<lparr>exited := Some 1\<rparr>))"
    if s3: "runs s2 s3" "\<nexists>s'. step Run s3 s'" for s3
  proof -
    have r: "runs s1 s3" using assms(5) s3(1) by (rule runs_trans)
    have "at_rest s3"
      using stuck_at_rest s3(2) reachable_inv reachable_returned runs_reachable [OF r r1] by blast
    moreover have "srvg s GrpcSrv \<in> {SNone, SSpawned}" if "srvg s3 GrpcSrv = SSpawned"
      using P [OF r] that by (cases "srvg s GrpcSrv") auto
    moreover have "exited s3 = None" "\<And>i. sig_ready (sig s3 i)" using P [OF r] by simp_all
    ultimately show ?thesis using signalled_rest [of s3] by blast
  qed
  moreover have "\<exists>s3. runs s2 s3 \<and> (\<nexists>s'. step Run s3 s')"
    using run_comes_to_rest P [OF assms(5)] by blast
  ultimately show ?thesis by blast
qed

section \<open>Schedules\<close>

text \<open>
  An executable scheduler: a choice names the goroutine that moves next, or the arrival of a
  signal.  \<open>exec\<close> takes the step of that goroutine that is not a failure.
\<close>

datatype choice = MainGo | SigGo srv | SrvGo srv | Kill

fun exec_main :: "sys \<Rightarrow> instr list \<Rightarrow> sys option" where
  "exec_main s (SpawnSig i # p) = Some (s \<lparr>prog := p, sig := (sig s)(i := GSpawned)\<rparr>)"
| "exec_main s (WgAdd i # p) = Some (s \<lparr>prog := p, wg := wg s + 1\<rparr>)"
| "exec_main s (SpawnServe i # p) = Some (s \<lparr>prog := p, srvg := (srvg s)(i := SSpawned)\<rparr>)"
| "exec_main s (WgWait # p) = (if wg s = 0 then Some (s \<lparr>prog := p\<rparr>) else None)"
| "exec_main s (TesseraShutdown # p) = Some (s \<lparr>prog := p, tessera_stopped := True\<rparr>)"
| "exec_main s (Create i # p) = Some (s \<lparr>prog := p\<rparr>)"
| "exec_main s (Listen i # p) = Some (s \<lparr>prog := p\<rparr>)"
| "exec_main s [] = None"

definition exec :: "sys \<Rightarrow> choice \<Rightarrow> sys option" where
  "exec s c =
     (if exited s \<noteq> None then None
      else case c of
        MainGo \<Rightarrow> exec_main s (prog s)
      | SigGo i \<Rightarrow>
          (case sig s i of
             GSpawned \<Rightarrow> Some (s \<lparr>sig := (sig s)(i := GListening False)\<rparr>)
           | GListening b \<Rightarrow> (if b then Some (s \<lparr>sig := (sig s)(i := GStopping)\<rparr>) else None)
           | GStopping \<Rightarrow> Some (s \<lparr>sig := (sig s)(i := GStopped)\<rparr>)
           | _ \<Rightarrow> None)
      | SrvGo i \<Rightarrow>
          (case srvg s i of
             SSpawned \<Rightarrow>
               (if sig s i \<noteq> GStopped then Some (s \<lparr>srvg := (srvg s)(i := SServing)\<rparr>) else None)
           | SServing \<Rightarrow>
               (if stopping (sig s i) then Some (s \<lparr>srvg := (srvg s)(i := SReturned)\<rparr>) else None)
           | SReturned \<Rightarrow>
               (if sig s i = GStopped then Some (s \<lparr>srvg := (srvg s)(i := SDone), wg := wg s - 1\<rparr>)
                else None)
           | SDone \<Rightarrow>
               (if i = MetricsSrv \<and> \<not> otel_stopped s \<and> prog s \<noteq> []
                then Some (s \<lparr>otel_stopped := True\<rparr>) else None)
           | _ \<Rightarrow> None)
      | Kill \<Rightarrow>
          (if list_ex (\<lambda>i. registered (sig s i)) all_srv then Some (s \<lparr>sig := deliver \<circ> sig s\<rparr>)
           else Some (s \<lparr>exited := Some 2\<rparr>)))"

fun exec_all :: "sys \<Rightarrow> choice list \<Rightarrow> sys option" where
  "exec_all s [] = Some s"
| "exec_all s (c # cs) = (case exec s c of None \<Rightarrow> None | Some s' \<Rightarrow> exec_all s' cs)"

lemmas step_simp_intros = step.intros step.wg_add [simplified] step.wg_done [simplified]

lemma exec_main_step:
  "exec_main s p = Some s' \<Longrightarrow> exited s = None \<Longrightarrow> prog s = p \<Longrightarrow> step Run s s'"
  by (cases "(s, p)" rule: exec_main.cases) (auto intro: step_simp_intros split: if_splits)

lemma exec_step:
  assumes "exec s c = Some s'"
  shows "step (if c = Kill then Signal else Run) s s'"
proof (cases c)
  case MainGo
  then show ?thesis using assms exec_main_step by (auto simp: exec_def split: if_splits)
next
  case (SigGo i)
  then show ?thesis
    using assms by (auto simp: exec_def intro: step.intros split: if_splits sig_phase.splits)
next
  case (SrvGo i)
  then show ?thesis
    using assms by (auto simp: exec_def intro: step_simp_intros split: if_splits serve_phase.splits)
next
  case Kill
  have "registered (sig s i) \<Longrightarrow> list_ex (\<lambda>i. registered (sig s i)) all_srv" for i
    using all_srv_complete by (auto simp: list_ex_iff)
  then show ?thesis
    using assms Kill
    by (auto simp: exec_def list_ex_iff intro: step.intros split: if_splits)
qed

lemma exec_all_reachable:
  "reachable s0 s \<Longrightarrow> exec_all s cs = Some s' \<Longrightarrow> reachable s0 s'"
  by (induction cs arbitrary: s) (auto intro: reachable.more exec_step split: option.splits)

lemma exec_all_runs: "exec_all s cs = Some s' \<Longrightarrow> Kill \<notin> set cs \<Longrightarrow> runs s s'"
proof (induction cs arbitrary: s)
  case Nil
  then show ?case by (simp add: runs.stop)
next
  case (Cons c cs)
  then obtain s1 where "exec s c = Some s1" "exec_all s1 cs = Some s'"
    by (auto split: option.splits)
  then show ?case using Cons exec_step [of s c s1] runs.go by auto
qed

text \<open>The default configuration passes the guards of \<open>Serve\<close>.\<close>

definition initial :: sys where
  "initial = Serve (NewHTTPConfig []) (NewGRPCConfig [])"

lemma initial_simp:
  "initial = \<lparr>prog = program, wg = 0, sig = (\<lambda>_. GNone), srvg = (\<lambda>_. SNone),
     tessera_stopped = False, otel_stopped = False,
     exited = None\<rparr>"
  by (simp add: initial_def Serve_def NewHTTPConfig_def NewGRPCConfig_def apply_options_def
      http_defaults_def grpc_defaults_def)

text \<open>All servers up: the main goroutine waits, every other goroutine has done its first steps.\<close>

definition boot :: "choice list" where
  "boot = replicate 15 MainGo @ map SigGo all_srv @ map SrvGo all_srv"

definition halt :: "choice list" where
  "halt = concat (map (\<lambda>i. [SigGo i, SigGo i, SrvGo i, SrvGo i]) all_srv) @ [MainGo, MainGo]"

definition serving :: sys where
  "serving = \<lparr>prog = [WgWait, TesseraShutdown], wg = 3, sig = (\<lambda>_. GListening False),
     srvg = (\<lambda>_. SServing), tessera_stopped = False, otel_stopped = False,
     exited = None\<rparr>"

lemma srv_fun_eq: "f = g \<longleftrightarrow> f GrpcSrv = g GrpcSrv \<and> f HttpSrv = g HttpSrv \<and> f MetricsSrv = g MetricsSrv"
  unfolding fun_eq_iff by (rule srv_all)

lemma boot_serving: "exec_all initial boot = Some serving"
  unfolding boot_def
  by (simp add: initial_simp program_simp exec_def all_srv_def serving_def numeral_eq_Suc srv_fun_eq)

lemma reachable_serving: "reachable (Serve (NewHTTPConfig []) (NewGRPCConfig [])) serving"
  using exec_all_reachable [OF reachable.init boot_serving] by (simp add: initial_def)

definition signalled_serving :: sys where
  "signalled_serving = serving \<lparr>sig := (\<lambda>_. GListening True)\<rparr>"

lemma serving_signal: "step Signal serving signalled_serving"
proof -
  have "deliver \<circ> sig serving = (\<lambda>_. GListening True)" by (simp add: serving_def fun_eq_iff)
  then show ?thesis
    using signal_handled [of serving GrpcSrv]
    by (simp add: signalled_serving_def registered_def serving_def)
qed

definition stopped :: sys where
  "stopped = \<lparr>prog = [], wg = 0, sig = (\<lambda>_. GStopped), srvg = (\<lambda>_. SDone),
     tessera_stopped = True, otel_stopped = False, exited = None\<rparr>"

lemma halt_stopped: "exec_all signalled_serving halt = Some stopped"
  unfolding halt_def
  by (simp add: signalled_serving_def serving_def exec_def all_srv_def stopped_def stopping_def
      srv_fun_eq)

lemma reachable_stopped: "reachable (Serve (NewHTTPConfig []) (NewGRPCConfig [])) stopped"
  using exec_all_reachable [OF _ halt_stopped] reachable.more [OF reachable_serving serving_signal]
  by blast

theorem tessera_stops_last_witness:
  "(\<forall>i. srvg stopped i = SDone \<and> sig stopped i = GStopped) \<and> wg stopped = 0 \<and> prog stopped = []"
  using tessera_stops_last [OF reachable_stopped] by (simp add: stopped_def)

theorem wait_group_exact_witness:
  "wg serving = length (filter (active serving) all_srv)"
  using wait_group_exact [OF reachable_serving] by blast

theorem process_comes_to_rest_witness:
  "at_rest serving \<and> (\<nexists>s'. step Run serving s') \<and> at_rest stopped \<and> (\<nexists>s'. step Run stopped s')
   \<and> \<not> at_rest signalled_serving \<and> (\<exists>s'. runs signalled_serving s' \<and> at_rest s')"
proof -
  have "at_rest serving" "at_rest stopped" "\<not> at_rest signalled_serving"
    by (auto simp: at_rest_def server_rests_def serving_def signalled_serving_def stopped_def)
  then show ?thesis
    using process_comes_to_rest [OF reachable_serving] process_comes_to_rest [OF reachable_stopped]
      process_comes_to_rest [OF reachable.more [OF reachable_serving serving_signal]] by blast
qed

theorem signal_shuts_down_witness:
  "\<exists>s3. runs signalled_serving s3 \<and> prog s3 = [] \<and> tessera_stopped s3 \<and> exited s3 = None"
proof -
  have "exited serving = None" "\<forall>i. registered (sig serving i)" "srvg serving GrpcSrv = SServing"
    by (simp_all add: serving_def registered_def)
  then show ?thesis
    using signal_shuts_down [OF reachable_serving _ _ serving_signal runs.stop] by fastforce
qed

text \<open>
  C23. A signal that arrives while the servers are still being started is lost for the servers that
  register later: there is a reachable state in which the gRPC server has stopped, the HTTP
  proxy and the metrics server serve, \<open>Serve\<close> waits, and without a second signal no step of
  the program is possible any more, so tessera is never shut down.
\<close>

theorem signal_during_startup_hangs:
  "\<exists>s s1 s2. reachable (Serve (NewHTTPConfig []) (NewGRPCConfig [])) s \<and> step Signal s s1 \<and> runs s1 s2
     \<and> exited s2 = None \<and> prog s2 = [WgWait, TesseraShutdown] \<and> \<not> tessera_stopped s2
     \<and> srvg s2 GrpcSrv = SDone \<and> srvg s2 HttpSrv = SServing \<and> srvg s2 MetricsSrv = SServing
     \<and> (\<forall>s'. \<not> step Run s2 s')"
proof -
  let ?early = "replicate 5 MainGo @ [SigGo GrpcSrv, SrvGo GrpcSrv]"
  let ?late = "[SigGo GrpcSrv, SigGo GrpcSrv, SrvGo GrpcSrv, SrvGo GrpcSrv] @ replicate 10 MainGo
      @ [SigGo HttpSrv, SigGo MetricsSrv, SrvGo HttpSrv, SrvGo MetricsSrv]"
  define s2 where "s2 = \<lparr>prog = [WgWait, TesseraShutdown], wg = 2,
      sig = (\<lambda>i. if i = GrpcSrv then GStopped else GListening False),
      srvg = (\<lambda>i. if i = GrpcSrv then SDone else SServing), tessera_stopped = False, otel_stopped = False,
     exited = None\<rparr>"
  obtain s where s: "exec_all initial ?early = Some s" "exited s = None"
    by (simp add: initial_simp program_simp exec_def numeral_eq_Suc)
  obtain s1 where s1: "exec s Kill = Some s1"
    using s(2) by (cases "list_ex (\<lambda>i. registered (sig s i)) all_srv") (simp_all add: exec_def)
  have late: "exec_all s1 ?late = Some s2"
    using s s1 by (auto simp: initial_simp program_simp exec_def numeral_eq_Suc all_srv_def
        registered_def stopping_def s2_def srv_fun_eq)
  have "\<not> step Run s2 s'" for s'
  proof
    assume "step Run s2 s'"
    then show False
      by (rule run_elim) (auto simp: s2_def stopping_def split: if_splits)
  qed
  moreover have "reachable initial s" using exec_all_reachable [OF reachable.init s(1)] .
  moreover have "step Signal s s1" using exec_step [OF s1] by simp
  moreover have "runs s1 s2" using exec_all_runs [OF late] by simp
  ultimately show ?thesis
    by (intro exI [of _ s] exI [of _ s1] exI [of _ s2]) (simp add: initial_def s2_def)
qed

text \<open>
  C24. The metrics server reports \<open>wg.Done\<close> before it shuts the OpenTelemetry provider down,
  so nothing makes the process wait for that shutdown: after a signal there is a run without
  failures in which \<open>Serve\<close> returns and the provider was never shut down, and another in
  which it was.
\<close>

theorem otel_shutdown_not_awaited:
  "\<exists>s s1. reachable (Serve (NewHTTPConfig []) (NewGRPCConfig [])) s \<and> step Signal s s1
     \<and> (\<exists>s2. runs s1 s2 \<and> prog s2 = [] \<and> tessera_stopped s2 \<and> \<not> otel_stopped s2
          \<and> (\<forall>s'. \<not> step Run s2 s'))
     \<and> (\<exists>s2. runs s1 s2 \<and> prog s2 = [] \<and> tessera_stopped s2 \<and> otel_stopped s2)"
proof (intro exI conjI)
  show "reachable (Serve (NewHTTPConfig []) (NewGRPCConfig [])) serving" by (rule reachable_serving)
  show "step Signal serving signalled_serving" by (rule serving_signal)
  show "runs signalled_serving stopped"
    by (rule exec_all_runs [OF halt_stopped]) (simp add: halt_def all_srv_def)
  show "prog stopped = []" "tessera_stopped stopped" "\<not> otel_stopped stopped"
    by (simp_all add: stopped_def)
  show "\<forall>s'. \<not> step Run stopped s'"
    by (auto elim!: run_elim simp: stopped_def stopping_def)
  have "exec_all signalled_serving (butlast (butlast halt) @ [SrvGo MetricsSrv, MainGo, MainGo]) =
      Some (stopped \<lparr>otel_stopped := True\<rparr>)"
    unfolding halt_def
    by (simp add: signalled_serving_def serving_def exec_def all_srv_def stopped_def stopping_def
        srv_fun_eq)
  then show "runs signalled_serving (stopped \<lparr>otel_stopped := True\<rparr>)"
    by (rule exec_all_runs) (simp add: halt_def all_srv_def)
qed (simp_all add: stopped_def)

end
