(* ===== verification/Observability.thy ===== *)
theory Observability
  imports Server_Config
begin

text \<open>
  \<open>internal/server/grpcstats.go\<close>, \<open>logging.go\<close> and \<open>metrics.go\<close>: the statistics handler,
  the filter in front of the logger, and the registration of the metrics.
\<close>

section \<open>grpcstats.go\<close>

definition splitFullMethodName :: "string \<Rightarrow> string \<times> string" where
  "splitFullMethodName fullMethod =
     (let fullMethod = TrimPrefix fullMethod ''/'' in
      case Index fullMethod ''/'' of
        Some i \<Rightarrow> (take i fullMethod, drop (i + 1) fullMethod)
      | None \<Rightarrow> (''unknown'', ''unknown''))"

datatype RPCStats = InPayload int | OtherStats

text \<open>
  A context is a map of values; \<open>TagRPC\<close> stores the full method name under the handler's key.
  The histogram is the list of its observations.
\<close>

type_synonym histogram = "((string \<times> string \<times> string) \<times> int) list"

record rpc_context =
  ctx_rpcStat :: "string option"

definition TagConn :: "rpc_context \<Rightarrow> rpc_context" where
  "TagConn ctx = ctx"

text \<open>Connection events change neither the context nor a metric.\<close>

definition HandleConn :: "rpc_context \<Rightarrow> histogram \<Rightarrow> histogram" where
  "HandleConn ctx grpcRequestSize = grpcRequestSize"

definition TagRPC :: "rpc_context \<Rightarrow> string \<Rightarrow> rpc_context" where
  "TagRPC ctx info = ctx \<lparr>ctx_rpcStat := Some info\<rparr>"

definition HandleRPC :: "rpc_context \<Rightarrow> RPCStats \<Rightarrow> histogram \<Rightarrow> histogram" where
  "HandleRPC ctx stat grpcRequestSize =
     (case ctx_rpcStat ctx of
        None \<Rightarrow> grpcRequestSize
      | Some fullMethodName \<Rightarrow>
          (let (svc, method) = splitFullMethodName fullMethodName in
           case stat of
             InPayload wireLength \<Rightarrow> grpcRequestSize @ [((svc, method, ''payload''), wireLength)]
           | OtherStats \<Rightarrow> grpcRequestSize))"

lemma Index_first:
  "CHR ''/'' \<notin> set a \<Longrightarrow> Index (a @ CHR ''/'' # b) ''/'' = Some (length a)"
  by (induction a) auto

text \<open>
  A gRPC method name \<open>/service/method\<close> is split at the slash after the service, so that
  the size of a request is counted under the service and method of the call; a name without that
  slash counts as unknown.
\<close>

theorem HandleRPC_labels:
  assumes "CHR ''/'' \<notin> set svc"
  shows "HandleRPC (TagRPC ctx (CHR ''/'' # svc @ CHR ''/'' # method)) (InPayload n) h =
      h @ [((svc, method, ''payload''), n)]
    \<and> HandleRPC (TagRPC ctx (CHR ''/'' # svc)) (InPayload n) h =
      h @ [((''unknown'', ''unknown'', ''payload''), n)]"
proof -
  have "Index svc ''/'' = None"
    using assms Contains_singleton [of svc "CHR ''/''"] by (simp add: Contains_def)
  then show ?thesis
    using assms
    by (simp add: HandleRPC_def TagRPC_def splitFullMethodName_def TrimPrefix_def HasPrefix_def
        Index_first Let_def)
qed

theorem HandleRPC_labels_witness:
  "HandleRPC (TagRPC \<lparr>ctx_rpcStat = None\<rparr> ''/rekor/Add'') (InPayload 7) [] =
      [((''rekor'', ''Add'', ''payload''), 7)]"
  using HandleRPC_labels [of "''rekor''" "\<lparr>ctx_rpcStat = None\<rparr>" "''Add''" 7 "[]"] by simp

section \<open>logging.go\<close>

text \<open>The fields of a log line: strings, and values of other types.\<close>

datatype log_field = FieldString string | FieldOther

text \<open>The loop over the fields: does some adjacent pair name the health service?\<close>

fun health_pair :: "log_field list \<Rightarrow> bool" where
  "health_pair (k # v # rest) =
     (if k = FieldString ''grpc.service'' \<and> v = FieldString ''grpc.health.v1.Health'' then True
      else health_pair (v # rest))"
| "health_pair _ = False"

definition filtered_messages :: "string list" where
  "filtered_messages =
     [''request received'', ''request sent'', ''response received'', ''response sent'',
      ''finished call'']"

text \<open>The logger the interceptor calls; the result is what reaches the underlying logger.\<close>

definition interceptorLogger ::
    "int \<Rightarrow> string \<Rightarrow> log_field list \<Rightarrow> (int \<times> string \<times> log_field list) option" where
  "interceptorLogger lvl msg flds =
     (if msg \<in> set filtered_messages \<and> health_pair flds then None else Some (lvl, msg, flds))"

datatype LoggableEvent = FinishCall | PayloadReceived | PayloadSent

definition loggingOpts :: "int \<Rightarrow> bool \<Rightarrow> LoggableEvent list" where
  "loggingOpts level requestResponseLogging =
     (if level = LevelDebug
      then [FinishCall] @ (if requestResponseLogging then [PayloadReceived, PayloadSent] else [])
      else [])"

lemma health_pair_iff:
  "health_pair fs \<longleftrightarrow>
     sublist [FieldString ''grpc.service'', FieldString ''grpc.health.v1.Health''] fs"
  by (induction fs rule: health_pair.induct) (auto simp: sublist_Cons_right)

text \<open>
  The logger drops a line exactly when it is one of the five call messages and some field
  \<open>grpc.service\<close> is directly followed by the name of the health service; every other line is
  passed on unchanged.
\<close>

theorem interceptorLogger_drops_health:
  "interceptorLogger lvl msg flds =
     (if msg \<in> {''request received'', ''request sent'', ''response received'', ''response sent'',
                ''finished call''}
         \<and> (\<exists>xs ys. flds = xs @ FieldString ''grpc.service'' #
                      FieldString ''grpc.health.v1.Health'' # ys)
      then None else Some (lvl, msg, flds))"
  by (simp add: interceptorLogger_def filtered_messages_def health_pair_iff sublist_def)

section \<open>metrics.go\<close>

datatype metric_kind = CounterMetric | CounterVecMetric | HistogramVecMetric | GaugeFuncMetric

record metric =
  metric_kind :: metric_kind
  metric_name :: string
  metric_help :: string
  metric_labels :: "string list"

text \<open>
  A Prometheus registry panics when a name is registered twice.  \<open>ext\<close> are the names the gRPC
  middleware registers first.
\<close>

fun MustRegister :: "metric list \<Rightarrow> string list \<Rightarrow> string list result" where
  "MustRegister [] reg = Ok reg"
| "MustRegister (m # ms) reg =
     (if metric_name m \<in> set reg then Panic else MustRegister ms (reg @ [metric_name m]))"

definition rekor_metrics :: "metric list" where
  "rekor_metrics =
    [\<lparr>metric_kind = CounterMetric, metric_name = ''rekor_v2_new_hashedrekord_entries'',
      metric_help = ''The total number of new dsse log entries'', metric_labels = []\<rparr>,
     \<lparr>metric_kind = CounterMetric, metric_name = ''rekor_v2_new_dsse_entries'',
      metric_help = ''The total number of new dsse log entries'', metric_labels = []\<rparr>,
     \<lparr>metric_kind = HistogramVecMetric, metric_name = ''rekor_v2_grpc_api_request_size'',
      metric_help = ''API Request size on GRPC calls'',
      metric_labels = [''grpc_service'', ''grpc_method'', ''grpc_packet_part'']\<rparr>,
     \<lparr>metric_kind = HistogramVecMetric, metric_name = ''rekor_v2_http_api_latency'',
      metric_help = ''API Latency on HTTP calls'', metric_labels = [''code'', ''method'']\<rparr>,
     \<lparr>metric_kind = CounterVecMetric, metric_name = ''rekor_v2_http_requests_total'',
      metric_help = ''Count all HTTP requests'', metric_labels = [''code'', ''method'']\<rparr>,
     \<lparr>metric_kind = HistogramVecMetric, metric_name = ''rekor_v2_http_api_request_size'',
      metric_help = ''API Request size on HTTP calls'', metric_labels = [''code'', ''method'']\<rparr>,
     \<lparr>metric_kind = CounterMetric, metric_name = ''rekor_v2_grpc_req_panics_recovered_total'',
      metric_help = ''Total number of gRPC requests recovered from internal panic.'',
      metric_labels = []\<rparr>,
     \<lparr>metric_kind = CounterMetric, metric_name = ''rekor_v2_inclusion_proof_failure_total'',
      metric_help = ''Total number of inclusion proof verification failures, which should always be zero. Likely catastrophic failure if not zero.'',
      metric_labels = []\<rparr>,
     \<lparr>metric_kind = GaugeFuncMetric, metric_name = ''rekor_v2_build_info'',
      metric_help = ''A metric with a constant '' @ [char_of (39 :: nat)] @ ''1'' @ [char_of (39 :: nat)]
        @ '' value labeled by version, revision, branch, and goversion from which rekor was built.'',
      metric_labels = [''version'', ''revision'', ''build_date'', ''goversion'']\<rparr>]"

text \<open>
  The initializer of the singleton: the middleware's metrics, the program's own, then the
  OpenTelemetry exporter, whose failure ends the process (an error here).
\<close>

definition initMetrics ::
    "metric list \<Rightarrow> (string list \<Rightarrow> string list result) \<Rightarrow> string list result" where
  "initMetrics serverMetrics otelprom_New =
     go_bind (MustRegister serverMetrics []) id (\<lambda>reg.
     go_bind (MustRegister rekor_metrics reg) id (\<lambda>reg.
     go_bind (otelprom_New reg)
       (Wrap ''failed to register opentelemetry metrics for prometheus:'') Ok))"

text \<open>
  \<open>getMetrics\<close> is a \<open>sync.OnceValue\<close>: the first call runs the initializer, every later one
  returns, or panics with, what the first one did.
\<close>

datatype 'm once = NotRun | Ran "'m result"

definition getMetrics :: "'m result \<Rightarrow> 'm once \<Rightarrow> 'm result \<times> 'm once" where
  "getMetrics init st =
     (case st of
        NotRun \<Rightarrow> (init, Ran init)
      | Ran r \<Rightarrow> (r, st))"

lemma getMetrics_once:
  "fst (getMetrics init' (snd (getMetrics init st))) = fst (getMetrics init st)"
  "snd (getMetrics init' (snd (getMetrics init st))) = snd (getMetrics init st)"
  by (simp_all add: getMetrics_def split: once.splits)

text \<open>
  \<open>InitializeCustomGrpcMetrics\<close>: a series per service and method, with no observation.
\<close>

definition InitializeCustomGrpcMetrics ::
    "(string \<times> string list) list \<Rightarrow> (string \<times> string \<times> string) set \<Rightarrow> (string \<times> string \<times> string) set"
where
  "InitializeCustomGrpcMetrics serviceInfo series =
     fold (\<lambda>(serviceName, methods) acc.
             fold (\<lambda>methodName acc. insert (serviceName, methodName, ''payload'') acc) methods acc)
       serviceInfo series"

lemma MustRegister_distinct:
  "MustRegister ms reg = (if distinct (map metric_name ms) \<and> metric_name ` set ms \<inter> set reg = {}
     then Ok (reg @ map metric_name ms) else Panic)"
  by (induction ms arbitrary: reg) auto

text \<open>
  The registration of the program's metrics cannot panic, as long as the gRPC middleware
  registers distinct names that do not start with the program's prefix: the nine names differ.
\<close>

theorem initMetrics_no_panic:
  assumes "distinct (map metric_name serverMetrics)"
    and "\<forall>m\<in>set serverMetrics. \<not> HasPrefix (metric_name m) ''rekor_v2_''"
    and "otelprom_New (map metric_name serverMetrics @ map metric_name rekor_metrics) = Ok reg"
  shows "initMetrics serverMetrics otelprom_New = Ok reg"
proof -
  have p: "HasPrefix (metric_name m) ''rekor_v2_''" if "m \<in> set rekor_metrics" for m
    using that by (auto simp: rekor_metrics_def HasPrefix_def)
  have "metric_name ` set rekor_metrics \<inter> set (map metric_name serverMetrics) = {}"
    using p assms(2) by fastforce
  moreover have "distinct (map metric_name rekor_metrics)"
    by (simp add: rekor_metrics_def)
  ultimately show ?thesis
    using assms(1,3) by (simp add: initMetrics_def MustRegister_distinct)
qed

theorem initMetrics_no_panic_witness:
  "initMetrics [\<lparr>metric_kind = CounterVecMetric, metric_name = ''grpc_server_started_total'',
                metric_help = [], metric_labels = []\<rparr>] Ok =
   Ok (''grpc_server_started_total'' # map metric_name rekor_metrics)"
  by (rule initMetrics_no_panic) (simp_all add: HasPrefix_def)

lemma InitializeCustomGrpcMetrics_series:
  "InitializeCustomGrpcMetrics info series =
     series \<union> {(s, m, ''payload'') | s m. \<exists>ms. (s, ms) \<in> set info \<and> m \<in> set ms}"
proof (induction info arbitrary: series)
  case Nil
  then show ?case by (simp add: InitializeCustomGrpcMetrics_def)
next
  case (Cons i info)
  obtain s ms where i: "i = (s, ms)" by (cases i)
  have "fold (\<lambda>methodName acc. insert (s, methodName, ''payload'') acc) ms series =
      series \<union> (\<lambda>m. (s, m, ''payload'')) ` set ms"
    by (induction ms arbitrary: series) auto
  then show ?case
    using Cons [of "series \<union> (\<lambda>m. (s, m, ''payload'')) ` set ms"]
    by (auto simp: InitializeCustomGrpcMetrics_def i)
qed

end
