(* ===== verification/Serve_Cmd.thy ===== *)
theory Serve_Cmd
  imports Drivers Signer Lifecycle Observability
begin

text \<open>
  The \<open>serve\<close> commands of the four server binaries (\<open>cmd/rekor-server/*/app/serve.go\<close>) and
  the shared flags (\<open>internal/cli\<close>).  A command reads its flags, loads the signer, builds the
  storage unless the log is read-only, and calls \<open>server.Serve\<close>; the model's result is the
  arguments of that call.  \<open>os.Exit(1)\<close> with its log line is an error.  The flag library is
  the record \<open>viper\<close> of its getters.
\<close>

section \<open>Flags\<close>

record viper =
  GetString :: "string \<Rightarrow> string"
  GetBool :: "string \<Rightarrow> bool"
  GetInt :: "string \<Rightarrow> int"
  GetUint :: "string \<Rightarrow> nat"
  GetUint32 :: "string \<Rightarrow> uint32"
  GetDuration :: "string \<Rightarrow> int"
  GetStringSlice :: "string \<Rightarrow> string list option"

datatype flag_value =
    FlagBool bool | FlagInt int | FlagUint nat | FlagUint32 uint32 | FlagString string | FlagDuration int
  | FlagStringSlice "string list"

definition seconds :: int where "seconds = 1000000000"

record tessera_defaults =
  DefaultBatchMaxSize :: nat
  DefaultBatchMaxAge :: int
  DefaultCheckpointInterval :: int
  DefaultPushbackMaxOutstanding :: nat

text \<open>\<open>cli.Initialize\<close>: the flags every binary has, with their defaults.\<close>

definition cli_Initialize ::
    "'reg sigstore \<Rightarrow> tessera_defaults \<Rightarrow> string result \<Rightarrow> (string \<times> flag_value) list result" where
  "cli_Initialize ss td os_Hostname =
     (let server_flags =
        [(''read-only'', FlagBool False), (''http-port'', FlagInt 3000),
         (''http-address'', FlagString ''127.0.0.1''), (''http-metrics-port'', FlagInt 2112),
         (''grpc-port'', FlagInt 3001), (''grpc-address'', FlagString ''127.0.0.1''),
         (''server-timeout'', FlagDuration (20 * seconds)),
         (''max-request-body-size'', FlagInt (4 * 1024 * 1024)),
         (''log-level'', FlagString ''info''), (''request-response-logging'', FlagBool False),
         (''grpc-tls-cert-file'', FlagString []), (''grpc-tls-key-file'', FlagString []),
         (''http-tls-cert-file'', FlagString []), (''http-tls-key-file'', FlagString [])];
          hostname = (case os_Hostname of Ok h \<Rightarrow> h | _ \<Rightarrow> ''localhost'');
          tessera_flags =
        [(''hostname'', FlagString hostname), (''batch-max-size'', FlagUint (DefaultBatchMaxSize td)),
         (''batch-max-age'', FlagDuration (DefaultBatchMaxAge td)),
         (''checkpoint-interval'', FlagDuration (DefaultCheckpointInterval td)),
         (''pushback-max-outstanding'', FlagUint (DefaultPushbackMaxOutstanding td)),
         (''tlog-timeout'', FlagDuration (30 * seconds)), (''persistent-antispam'', FlagBool False),
         (''antispam-max-batch-size'', FlagUint 0), (''antispam-pushback-threshold'', FlagUint 0),
         (''witness-policy-path'', FlagString [])]
      in go_bind (defaultKeyAlgorithms ss) id (\<lambda>keyAlgorithmTypes.
         Ok (server_flags @ tessera_flags
             @ [(''client-signing-algorithms'', FlagStringSlice keyAlgorithmTypes)])))"

section \<open>Steps the commands share\<close>

text \<open>
  \<open>slog.Level.UnmarshalText\<close>: a name, in upper or lower case, and an optional offset.  The
  upper-casing is that of ASCII letters.
\<close>

definition to_upper :: "char \<Rightarrow> char" where
  "to_upper c =
     (if 97 \<le> (of_char c :: nat) \<and> (of_char c :: nat) \<le> 122
      then char_of ((of_char c :: nat) - 32) else c)"

definition level_UnmarshalText :: "string \<Rightarrow> int result" where
  "level_UnmarshalText s =
     (let name = takeWhile (\<lambda>c. c \<noteq> CHR ''+'' \<and> c \<noteq> CHR ''-'') s;
          rest = drop (length name) s;
          offset = (if rest = [] then Some 0 else Atoi rest);
          base = map_of [(''DEBUG'', - 4), (''INFO'', 0), (''WARN'', 4), (''ERROR'', 8)] (map to_upper name)
      in case (offset, base) of
           (Some off, Some b) \<Rightarrow> Ok (b + off)
         | _ \<Rightarrow> Err (ErrText ''slog: level string: unknown name''))"

text \<open>Three of the binaries and the freeze command have a table of hash names of their own.\<close>

definition hashAlgMap :: "(string \<times> crypto_hash) list" where
  "hashAlgMap = [(''sha256'', SHA256), (''sha384'', SHA384), (''sha512'', SHA512)]"

definition aws_hashAlgMap :: "(string \<times> crypto_hash) list" where
  "aws_hashAlgMap = [(''sha256'', SHA256), (''sha384'', SHA384), (''sha512'', SHA512)]"

definition gcpcloudsql_hashAlgMap :: "(string \<times> crypto_hash) list" where
  "gcpcloudsql_hashAlgMap = [(''sha256'', SHA256), (''sha384'', SHA384), (''sha512'', SHA512)]"

text \<open>
  From the signer to the append options and the log identifier.  \<open>as_signer\<close> is the
  \<open>Signer\<close> view of the signer-verifier.
\<close>

definition load_identity ::
    "pki \<Rightarrow> ('o, 'as, 'wg) append_api \<Rightarrow> viper \<Rightarrow> signer \<Rightarrow> ('o \<times> bytes) result" where
  "load_identity x api v sg =
     go_bind (signer_PublicKey sg) (Wrap ''failed to get public key from signing key'') (\<lambda>pubkey.
     go_bind (pki_MarshalPKIXPublicKey x pubkey) (Wrap ''failed to marshal public key to DER'') (\<lambda>der.
     go_bind (NewAppendOptions api x (GetString v ''hostname'') sg)
       (Wrap ''failed to initialize append options'') (\<lambda>appendOptions.
     go_bind (signer_PublicKey sg) (Wrap ''failed to get public key'') (\<lambda>pubKey.
     go_bind (KeyHash x (GetString v ''hostname'') pubKey) (Wrap ''failed to get log ID'')
       (\<lambda>(_, logID). Ok (appendOptions, logID))))))"

text \<open>
  The storage, unless the log is read-only: the driver, the append options, the witness policy,
  the storage itself.  The antispam argument is nil when the driver has none.
\<close>

definition start_storage ::
    "('o, 'as option, 'wg) append_api \<Rightarrow> (string \<Rightarrow> bytes result) \<Rightarrow>
     (string \<Rightarrow> 'd \<Rightarrow> 'o \<Rightarrow> ('stg \<times> 'sh) result) \<Rightarrow> viper \<Rightarrow> ('d \<times> 'as option) result \<Rightarrow> 'o \<Rightarrow>
     ('stg \<times> 'sh) result" where
  "start_storage api os_ReadFile newStorage v newDriver appendOptions =
     go_bind newDriver (Wrap ''failed to initialize driver'') (\<lambda>(tesseraDriver, persistentAntispam).
     let appendOptions = WithLifecycleOptions api appendOptions (GetUint v ''batch-max-size'')
           (GetDuration v ''batch-max-age'') (GetDuration v ''checkpoint-interval'')
           (GetUint v ''pushback-max-outstanding'');
         appendOptions = WithAntispamOptions api appendOptions persistentAntispam;
         wpf = GetString v ''witness-policy-path''
     in go_bind
          (if wpf \<noteq> [] then
             go_bind (os_ReadFile wpf) (Wrap ''failed to read witness policy file'') (\<lambda>f.
             go_bind (WithWitnessing api appendOptions f) (Wrap ''failed to initialize witnessing'') Ok)
           else Ok appendOptions) id (\<lambda>appendOptions.
        go_bind (newStorage (GetString v ''hostname'') tesseraDriver appendOptions)
          (Wrap ''failed to initialize tessera storage'') Ok))"

definition http_options :: "viper \<Rightarrow> HTTPOption list" where
  "http_options v =
     [WithHTTPPort (GetInt v ''http-port''), WithHTTPHost (GetString v ''http-address''),
      WithHTTPTimeout (GetDuration v ''server-timeout''),
      WithHTTPMaxRequestBodySize (GetInt v ''max-request-body-size''),
      WithHTTPMetricsPort (GetInt v ''http-metrics-port''),
      WithHTTPTLSCredentials (GetString v ''http-tls-cert-file'') (GetString v ''http-tls-key-file''),
      WithGRPCTLSCredentials (GetString v ''grpc-tls-cert-file'')]"

definition grpc_options :: "viper \<Rightarrow> int \<Rightarrow> GRPCOption list" where
  "grpc_options v logLevel =
     [WithGRPCPort (GetInt v ''grpc-port''), WithGRPCHost (GetString v ''grpc-address''),
      WithGRPCTimeout (GetDuration v ''server-timeout''),
      WithGRPCMaxMessageSize (GetInt v ''max-request-body-size''),
      WithGRPCLogLevel logLevel (GetBool v ''request-response-logging''),
      WithTLSCredentials (GetString v ''grpc-tls-cert-file'') (GetString v ''grpc-tls-key-file'')]"

text \<open>The arguments of \<open>server.Serve\<close>; the shutdown function is nil-like in read-only mode.\<close>

record ('reg, 'w, 'sh) serve_args =
  sa_http :: HTTPConfig
  sa_grpc :: GRPCConfig
  sa_tlogTimeout :: int
  sa_server :: "('reg, 'w) Server"
  sa_shutdown :: "'sh option"

record ('reg, 'o, 'as, 'wg, 'd, 'w, 'sh) cmd_deps =
  cm_pki :: pki
  cm_sigstore :: "'reg option sigstore"
  cm_api :: "('o, 'as option, 'wg) append_api"
  cm_ReadFile :: "string \<Rightarrow> bytes result"
  cm_NewStorage :: "string \<Rightarrow> 'd \<Rightarrow> 'o \<Rightarrow> ('w Storage \<times> 'sh) result"

text \<open>The rest of the command after the signer is loaded, the same in all four binaries.\<close>

definition run_server ::
    "('reg, 'o, 'as, 'wg, 'd, 'w, 'sh) cmd_deps \<Rightarrow> viper \<Rightarrow> int \<Rightarrow> bool \<Rightarrow>
     ('d \<times> 'as option) result \<Rightarrow> signer \<Rightarrow> ('reg, 'w, 'sh) serve_args result" where
  "run_server cm v logLevel supportGCP newDriver sg =
     go_bind (load_identity (cm_pki cm) (cm_api cm) v sg) id (\<lambda>(appendOptions, logID).
     let readOnly = GetBool v ''read-only'' in
     go_bind
       (if readOnly then Ok (None, None)
        else go_bind (start_storage (cm_api cm) (cm_ReadFile cm) (cm_NewStorage cm) v newDriver
                        appendOptions) id
               (\<lambda>(tesseraStorage, shutdownFn). Ok (Some tesseraStorage, Some shutdownFn))) id
       (\<lambda>(tesseraStorage, shutdownFn).
     go_bind (AlgorithmRegistry (cm_sigstore cm) (GetStringSlice v ''client-signing-algorithms''))
       (Wrap ''failed to get algorithm registry'') (\<lambda>algorithmRegistry.
     let rekorServer = NewServer tesseraStorage readOnly algorithmRegistry logID in
     Ok \<lparr>sa_http = NewHTTPConfig (http_options v @ (if supportGCP then [WithGCPSupport True] else [])),
         sa_grpc = NewGRPCConfig (grpc_options v logLevel),
         sa_tlogTimeout = GetDuration v ''tlog-timeout'',
         sa_server = rekorServer, sa_shutdown = shutdownFn\<rparr>)))"

section \<open>The four commands\<close>

type_synonym ('key, 'aead, 'handle, 'client, 'rpc) log_signer_deps =
  "(signer, 'key, 'aead, 'handle, 'client, 'rpc) signer_deps"

text \<open>The switch on the signer flags, with the options of the signer package the binary uses.\<close>

definition signer_options ::
    "(string \<times> crypto_hash) list \<Rightarrow> (string \<Rightarrow> string \<Rightarrow> 'opt) \<Rightarrow> (string \<Rightarrow> crypto_hash \<Rightarrow> 'opt) \<Rightarrow>
     (string \<Rightarrow> string \<Rightarrow> 'opt) \<Rightarrow> viper \<Rightarrow> 'opt list result" where
  "signer_options hashes WithFile WithKMS WithTink v =
     (if GetString v ''signer-filepath'' \<noteq> []
      then Ok [WithFile (GetString v ''signer-filepath'') (GetString v ''signer-password'')]
      else if GetString v ''signer-kmskey'' \<noteq> [] then
        (case map_of hashes (GetString v ''signer-kmshash'') of
           None \<Rightarrow> Err (ErrText ''invalid hash algorithm for --signer-kmshash'')
         | Some hashAlg \<Rightarrow> Ok [WithKMS (GetString v ''signer-kmskey'') hashAlg])
      else if GetString v ''signer-tink-kek-uri'' \<noteq> []
      then Ok [WithTink (GetString v ''signer-tink-kek-uri'') (GetString v ''signer-tink-keyset-path'')]
      else Err (ErrText ''no signer configured; must provide a signer using a file, KMS, or Tink''))"

definition invalid_level :: "err \<Rightarrow> err" where
  "invalid_level _ =
     (let q = (\<lambda>w. [char_of (39 :: nat)] @ w @ [char_of (39 :: nat)])
      in ErrText (''invalid log-level specified; must be one of '' @ q ''debug'' @ '', '' @ q ''info''
           @ '', '' @ q ''error'' @ '', or '' @ q ''warn''))"

definition gcp_serve ::
    "('reg, 'o, 'as, 'wg, 'd, 'w, 'sh) cmd_deps \<Rightarrow>
     ('key, 'aead, 'handle, 'client, 'rpc) log_signer_deps \<Rightarrow> (nat \<Rightarrow> int \<Rightarrow> 'rpc) \<Rightarrow>
     ('gcs, 'sp, 'd, 'as) gcp_deps \<Rightarrow> viper \<Rightarrow> ('reg, 'w, 'sh) serve_args result" where
  "gcp_serve cm sd retryOption gd v =
     go_bind (level_UnmarshalText (GetString v ''log-level'')) invalid_level (\<lambda>logLevel.
     let rpcOpts = [retryOption (GetUint v ''gcp-kms-retries'') (uint (GetUint32 v ''gcp-kms-timeout'') * seconds)]
     in
     go_bind (signer_options hashAlgMap gcp_WithFile (\<lambda>key hash. gcp_WithKMS key hash rpcOpts) gcp_WithTink v) id (\<lambda>signerOpts.
     go_bind (fst (gcp_New sd signerOpts [])) (Wrap ''failed to initialize signer'') (\<lambda>sg.
     let driverConfig =
           \<lparr>gcp_Hostname = GetString v ''hostname'', GCPBucket = GetString v ''gcp-bucket'',
            GCPSpannerDB = GetString v ''gcp-spanner'',
            gcp_PersistentAntispam = GetBool v ''persistent-antispam'',
            gcp_ASMaxBatchSize = GetUint v ''antispam-max-batch-size'',
            gcp_ASPushbackThreshold = GetUint v ''antispam-pushback-threshold''\<rparr>
     in run_server cm v logLevel True (gcp_NewDriver gd driverConfig) sg)))"

definition aws_serve ::
    "('reg, 'o, 'as, 'wg, 'd, 'w, 'sh) cmd_deps \<Rightarrow>
     ('key, 'aead, 'handle, 'client, 'rpc) log_signer_deps \<Rightarrow>
     ('sdk, 'd, 'as) mysql_deps \<Rightarrow> viper \<Rightarrow> ('reg, 'w, 'sh) serve_args result" where
  "aws_serve cm sd md v =
     go_bind (level_UnmarshalText (GetString v ''log-level'')) invalid_level (\<lambda>logLevel.
     go_bind (signer_options aws_hashAlgMap aws_WithFile aws_WithKMS aws_WithTink v) id (\<lambda>signerOpts.
     go_bind (fst (aws_New sd signerOpts [])) (Wrap ''failed to initialize signer'') (\<lambda>sg.
     let driverConfig =
           \<lparr>AWSBucket = GetString v ''aws-bucket'', AWSMySQLDSN = GetString v ''aws-mysql-dsn'',
            aws_MaxOpenConns = GetInt v ''aws-max-open-conns'',
            aws_MaxIdleConns = GetInt v ''aws-max-idle-conns'',
            aws_PersistentAntispam = GetBool v ''persistent-antispam'',
            aws_ASMaxBatchSize = GetUint v ''antispam-max-batch-size'',
            aws_ASPushbackThreshold = GetUint v ''antispam-pushback-threshold''\<rparr>
     in run_server cm v logLevel False (aws_NewDriver md driverConfig) sg)))"

definition gcpcloudsql_serve ::
    "('reg, 'o, 'as, 'wg, 'd, 'w, 'sh) cmd_deps \<Rightarrow>
     ('key, 'aead, 'handle, 'client, 'rpc) log_signer_deps \<Rightarrow> (nat \<Rightarrow> int \<Rightarrow> 'rpc) \<Rightarrow>
     ('sdk, 'd, 'as) cloudsql_deps \<Rightarrow> viper \<Rightarrow> ('reg, 'w, 'sh) serve_args result" where
  "gcpcloudsql_serve cm sd retryOption cq v =
     go_bind (level_UnmarshalText (GetString v ''log-level'')) invalid_level (\<lambda>logLevel.
     let rpcOpts = [retryOption (GetUint v ''gcp-kms-retries'') (uint (GetUint32 v ''gcp-kms-timeout'') * seconds)]
     in
     go_bind (signer_options gcpcloudsql_hashAlgMap gcp_WithFile (\<lambda>key hash. gcp_WithKMS key hash rpcOpts) gcp_WithTink v) id (\<lambda>signerOpts.
     go_bind (fst (gcp_New sd signerOpts [])) (Wrap ''failed to initialize signer'') (\<lambda>sg.
     let driverConfig =
           \<lparr>GCPCloudSQLDSN = GetString v ''gcp-cloudsql-dsn'',
            cloudsql_GCPBucket = GetString v ''gcp-bucket'',
            cloudsql_MaxOpenConns = 0, cloudsql_MaxIdleConns = 0,
            cloudsql_PersistentAntispam = GetBool v ''persistent-antispam'',
            cloudsql_ASMaxBatchSize = GetUint v ''antispam-max-batch-size'',
            cloudsql_ASPushbackThreshold = GetUint v ''antispam-pushback-threshold''\<rparr>
     in run_server cm v logLevel True (cloudsql_NewDriver cq driverConfig) sg)))"

definition posix_serve ::
    "('reg, 'o, 'as, 'wg, 'd, 'w, 'sh) cmd_deps \<Rightarrow>
     ('key, 'aead, 'handle, 'client, 'rpc) log_signer_deps \<Rightarrow>
     ('d, 'as) posix_deps \<Rightarrow> viper \<Rightarrow> ('reg, 'w, 'sh) serve_args result" where
  "posix_serve cm sd pd v =
     go_bind (level_UnmarshalText (GetString v ''log-level'')) invalid_level (\<lambda>logLevel.
     if GetString v ''signer-filepath'' = [] then Err (ErrText ''--signer-filepath must be set'')
     else
       go_bind (NewFileSignerVerifier sd (GetString v ''signer-filepath'') (GetString v ''signer-password''))
         (Wrap ''failed to initialize signer'') (\<lambda>sg.
       let driverConfig =
             \<lparr>StorageDir = GetString v ''storage-dir'',
              posix_PersistentAntispam = GetBool v ''persistent-antispam'',
              posix_ASMaxBatchSize = GetUint v ''antispam-max-batch-size'',
              posix_ASPushbackThreshold = GetUint v ''antispam-pushback-threshold''\<rparr>
       in run_server cm v logLevel False (posix_NewDriver pd driverConfig) sg))"

section \<open>Properties of the commands\<close>

lemma load_identity_Ok:
  "load_identity x api v sg = Ok (opts, logID) \<Longrightarrow>
     \<exists>ns k i. NewNoteSigner x (GetString v ''hostname'') sg = Ok ns
       \<and> opts = ao_WithCheckpointSigner api ns (ao_New api)
       \<and> signer_PublicKey sg = Ok k \<and> KeyHash x (GetString v ''hostname'') k = Ok (i, logID)"
  by (auto simp: load_identity_def NewAppendOptions_def go_bind_eq_Ok)

lemma run_server_parts:
  assumes "run_server cm v l g drv sg = Ok a"
  obtains opts logID reg where "load_identity (cm_pki cm) (cm_api cm) v sg = Ok (opts, logID)"
    and "AlgorithmRegistry (cm_sigstore cm) (GetStringSlice v ''client-signing-algorithms'') = Ok reg"
    and "sa_http a = NewHTTPConfig (http_options v @ (if g then [WithGCPSupport True] else []))"
    and "sa_grpc a = NewGRPCConfig (grpc_options v l)"
    and "server_logID (sa_server a) = logID"
    and "server_readOnly (sa_server a) = GetBool v ''read-only''"
    and "GetBool v ''read-only'' \<Longrightarrow> sa_server a = NewServer None True reg logID \<and> sa_shutdown a = None"
    and "\<not> GetBool v ''read-only'' \<Longrightarrow> \<exists>stg sh.
       start_storage (cm_api cm) (cm_ReadFile cm) (cm_NewStorage cm) v drv opts = Ok (stg, sh)
       \<and> sa_server a = NewServer (Some stg) False reg logID \<and> sa_shutdown a = Some sh"
  using assms
  by (cases "GetBool v ''read-only''")
     (auto simp: run_server_def go_bind_eq_Ok Let_def NewServer_def)

text \<open>
  C14. Read-only mode starts no appender: the outcome of a command does not depend on the storage
  driver, the storage or the witness policy at all, there is nothing to shut down, and the server
  it starts is frozen.
\<close>

theorem read_only_starts_no_appender:
  assumes "GetBool v ''read-only''"
  shows "run_server cm v l g drv sg =
      run_server (cm \<lparr>cm_NewStorage := ns, cm_ReadFile := rf\<rparr>) v l g drv' sg
    \<and> (\<forall>a. run_server cm v l g drv sg = Ok a \<longrightarrow>
         sa_shutdown a = None \<and> (\<exists>reg logID. sa_server a = NewServer None True reg logID))"
proof
  show "run_server cm v l g drv sg =
      run_server (cm \<lparr>cm_NewStorage := ns, cm_ReadFile := rf\<rparr>) v l g drv' sg"
    using assms by (simp add: run_server_def)
  show "\<forall>a. run_server cm v l g drv sg = Ok a \<longrightarrow>
         sa_shutdown a = None \<and> (\<exists>reg logID. sa_server a = NewServer None True reg logID)"
    using assms by (auto elim!: run_server_parts)
qed

text \<open>
  What tessera documents of its append options: \<open>WithCheckpointSigner\<close> sets the signer of
  the checkpoints, and the other options leave it alone.  \<open>signer_of\<close> reads it.
\<close>

definition append_options_documented ::
    "('o, 'as, 'wg) append_api \<Rightarrow> ('o \<Rightarrow> noteSigner option) \<Rightarrow> bool" where
  "append_options_documented api signer_of \<longleftrightarrow>
     (\<forall>ns p. signer_of (ao_WithCheckpointSigner api ns p) = Some ns)
   \<and> (\<forall>n age p. signer_of (ao_WithBatching api n age p) = signer_of p)
   \<and> (\<forall>i p. signer_of (ao_WithCheckpointInterval api i p) = signer_of p)
   \<and> (\<forall>n p. signer_of (ao_WithPushback api n p) = signer_of p)
   \<and> (\<forall>n as p. signer_of (ao_WithAntispam api n as p) = signer_of p)
   \<and> (\<forall>wg open p. signer_of (ao_WithWitnesses api wg open p) = signer_of p)"

lemma start_storage_signer:
  assumes "append_options_documented api signer_of"
    and "start_storage api rf newStorage v drv opts = Ok (stg, sh)"
  shows "\<exists>d as opts'. drv = Ok (d, as) \<and> signer_of opts' = signer_of opts
    \<and> newStorage (GetString v ''hostname'') d opts' = Ok (stg, sh)"
proof -
  have keep: "signer_of (WithLifecycleOptions api p n age i b) = signer_of p"
      "signer_of (WithAntispamOptions api p as) = signer_of p"
      "WithWitnessing api p f = Ok p' \<Longrightarrow> signer_of p' = signer_of p" for p n age i b as f p'
    using assms(1) by (auto simp: append_options_documented_def WithLifecycleOptions_def
        WithAntispamOptions_def WithWitnessing_def go_bind_eq_Ok Let_def)
  show ?thesis
  proof (cases drv)
    case (Ok das)
    then obtain d as where d: "drv = Ok (d, as)" by (cases das) simp
    define base where "base = WithAntispamOptions api (WithLifecycleOptions api opts
        (GetUint v ''batch-max-size'') (GetDuration v ''batch-max-age'')
        (GetDuration v ''checkpoint-interval'') (GetUint v ''pushback-max-outstanding'')) as"
    then have b: "signer_of base = signer_of opts" by (simp add: keep(1,2))
    have "\<exists>opts'. newStorage (GetString v ''hostname'') d opts' = Ok (stg, sh)
        \<and> (opts' = base \<or> (\<exists>f. WithWitnessing api base f = Ok opts'))"
      using assms(2) d
      by (auto simp: start_storage_def base_def go_bind_eq_Ok Let_def split: if_splits)
    then obtain opts' where "newStorage (GetString v ''hostname'') d opts' = Ok (stg, sh)"
        "signer_of opts' = signer_of opts"
      using keep(3) b by auto
    then show ?thesis using d by blast
  qed (use assms(2) in \<open>simp_all add: start_storage_def\<close>)
qed


text \<open>The configurations the flags give.\<close>

lemma options_values:
  "hc_port (NewHTTPConfig (http_options v @ gcp)) = GetInt v ''http-port''"
  "gc_port (NewGRPCConfig (grpc_options v l)) = GetInt v ''grpc-port''"
  "hc_maxRequestBodySize (NewHTTPConfig (http_options v @ gcp)) = GetInt v ''max-request-body-size''"
  "gc_maxMessageSize (NewGRPCConfig (grpc_options v l)) = GetInt v ''max-request-body-size''"
  "hc_grpcCertFile (NewHTTPConfig (http_options v @ gcp)) = GetString v ''grpc-tls-cert-file''"
  "gc_certFile (NewGRPCConfig (grpc_options v l)) = GetString v ''grpc-tls-cert-file''"
  "gc_keyFile (NewGRPCConfig (grpc_options v l)) = GetString v ''grpc-tls-key-file''"
  if "gcp = [] \<or> gcp = [WithGCPSupport True]"
  using that
  by (auto simp: NewHTTPConfig_def NewGRPCConfig_def http_options_def grpc_options_def
      apply_options_def http_option_defs grpc_option_defs)

text \<open>
  The proxy and the gRPC server disagree about TLS exactly when a certificate file is given
  without a key file: then the proxy dials the gRPC server with TLS while it serves plaintext.
\<close>

theorem grpc_tls_mismatch:
  assumes "run_server cm v l g drv sg = Ok a"
  shows "HasGRPCTLS (sa_http a) \<noteq> grpc_HasTLS (sa_grpc a) \<longleftrightarrow>
    GetString v ''grpc-tls-cert-file'' \<noteq> [] \<and> GetString v ''grpc-tls-key-file'' = []"
proof -
  let ?c = "if g then [WithGCPSupport True] else []"
  have c: "?c = [] \<or> ?c = [WithGCPSupport True]" by simp
  have "sa_http a = NewHTTPConfig (http_options v @ ?c)" "sa_grpc a = NewGRPCConfig (grpc_options v l)"
    using assms by (rule run_server_parts, simp)+
  then show ?thesis
    unfolding HasGRPCTLS_def grpc_HasTLS_def by (simp only: options_values(5,6,7) [OF c]) blast
qed

section \<open>A concrete command line\<close>

definition demo_viper :: "bool \<Rightarrow> string \<Rightarrow> viper" where
  "demo_viper ro cert =
     \<lparr>GetString = (\<lambda>f. if f = ''hostname'' then ''a.b'' else if f = ''grpc-tls-cert-file'' then cert else []),
      GetBool = (\<lambda>f. f = ''read-only'' \<and> ro), GetInt = (\<lambda>f. if f = ''grpc-port'' then 3001 else 3000),
      GetUint = (\<lambda>f. 0), GetUint32 = (\<lambda>f. 0), GetDuration = (\<lambda>f. 0), GetStringSlice = (\<lambda>f. None)\<rparr>"

definition demo_cmd :: "(PublicKeyDetails list, noteSigner option, unit, unit, unit, bytes list, unit) cmd_deps" where
  "demo_cmd =
     \<lparr>cm_pki = demo_pkix,
      cm_sigstore = (d_sigstore demo_deps) \<lparr>ss_NewAlgorithmRegistryConfig := (\<lambda>l. Ok (Some l))\<rparr>,
      cm_api = \<lparr>ao_New = None, ao_WithCheckpointSigner = (\<lambda>ns _. Some ns),
        ao_WithBatching = (\<lambda>_ _ p. p), ao_WithCheckpointInterval = (\<lambda>_ p. p),
        ao_WithPushback = (\<lambda>_ p. p), ao_WithAntispam = (\<lambda>_ _ p. p), ao_WithWitnesses = (\<lambda>_ _ p. p),
        ao_NewWitnessGroupFromPolicy = (\<lambda>_. Ok ())\<rparr>,
      cm_ReadFile = (\<lambda>f. Err (ErrText ''no such file'')),
      cm_NewStorage = (\<lambda>o' d p. Ok (as_Storage demo_tlog demo_storage, ()))\<rparr>"

definition demo_signer :: signer where
  "demo_signer = \<lparr>signer_PublicKey = Ok (Ed25519PublicKey ''k''), signer_SignMessage = Ok\<rparr>"

lemma demo_run: "\<exists>a. run_server demo_cmd (demo_viper ro cert) 0 False (Ok ((), None)) demo_signer = Ok a"
proof -
  have i: "\<exists>p. load_identity demo_pkix (cm_api demo_cmd) (demo_viper ro cert) demo_signer = Ok p"
    using demo_names_valid
    by (simp add: load_identity_def demo_signer_def demo_pkix_def demo_viper_def NewAppendOptions_def
        NewNoteSigner_def ed25519KeyHash_def genConformantKeyHash_def Let_def)
  have s: "\<exists>r. start_storage (cm_api demo_cmd) (cm_ReadFile demo_cmd) (cm_NewStorage demo_cmd)
      (demo_viper ro cert) (Ok ((), None)) opts = Ok r" for opts
    by (simp add: start_storage_def demo_cmd_def demo_viper_def Let_def)
  have "\<exists>reg. AlgorithmRegistry (cm_sigstore demo_cmd) None = Ok reg"
    by (simp add: AlgorithmRegistry_def demo_cmd_def demo_deps_def demo_flag_def
        AllowedClientSigningAlgorithms_def)
  moreover have "cm_pki demo_cmd = demo_pkix" "GetStringSlice (demo_viper ro cert) f = None" for f
    by (simp_all add: demo_cmd_def demo_viper_def)
  ultimately show ?thesis
    using i s by (fastforce simp: run_server_def go_bind_eq_Ok Let_def)
qed

theorem read_only_starts_no_appender_witness:
  "\<exists>a reg logID. run_server demo_cmd (demo_viper True []) 0 False (Err ErrPushback) demo_signer = Ok a
     \<and> sa_shutdown a = None \<and> sa_server a = NewServer None True reg logID"
proof -
  have ro: "GetBool (demo_viper True []) ''read-only''" by (simp add: demo_viper_def)
  obtain a where a: "run_server demo_cmd (demo_viper True []) 0 False (Ok ((), None)) demo_signer = Ok a"
    using demo_run by blast
  moreover have "demo_cmd \<lparr>cm_NewStorage := cm_NewStorage demo_cmd, cm_ReadFile := cm_ReadFile demo_cmd\<rparr>
      = demo_cmd" by simp
  ultimately show ?thesis
    using read_only_starts_no_appender [OF ro, where cm = demo_cmd and l = 0 and g = False
        and drv = "Ok ((), None)" and sg = demo_signer and ns = "cm_NewStorage demo_cmd"
        and rf = "cm_ReadFile demo_cmd" and drv' = "Err ErrPushback"]
    by metis
qed

lemma demo_options_documented: "append_options_documented (cm_api demo_cmd) id"
  by (simp add: append_options_documented_def demo_cmd_def)


theorem grpc_tls_mismatch_witness:
  "\<exists>a. run_server demo_cmd (demo_viper False ''cert.pem'') 0 False (Ok ((), None)) demo_signer = Ok a
     \<and> HasGRPCTLS (sa_http a) \<noteq> grpc_HasTLS (sa_grpc a)"
proof -
  obtain a where a: "run_server demo_cmd (demo_viper False ''cert.pem'') 0 False (Ok ((), None))
      demo_signer = Ok a"
    using demo_run by blast
  then show ?thesis using grpc_tls_mismatch [OF a] by (simp add: demo_viper_def)
qed

end
