(* ===== verification/Rekor_Rpc.thy ===== *)
theory Rekor_Rpc
  imports Http_Gateway
begin

text \<open>
  \<open>pkg/generated/protobuf/rekor_service_grpc.pb.go\<close> and \<open>rekor_service.pb.gw.go\<close>: the
  stubs between an HTTP request and the service.  A gRPC connection (\<open>cc.Invoke\<close>) is a
  function from the method name and the request to the answer, the response header metadata and
  the new state \<open>'s\<close> of the server side; call options and trailers are left out.  The pieces
  of the gateway's runtime (context annotation, body decoding, parameter conversion, forwarding)
  are fields of the record \<open>gateway_runtime\<close>.
\<close>

section \<open>rekor\_service\_grpc.pb.go: the client stubs\<close>

definition Rekor_CreateEntry_FullMethodName :: string where
  "Rekor_CreateEntry_FullMethodName = ''/dev.sigstore.rekor.v2.Rekor/CreateEntry''"
definition Rekor_GetTile_FullMethodName :: string where
  "Rekor_GetTile_FullMethodName = ''/dev.sigstore.rekor.v2.Rekor/GetTile''"
definition Rekor_GetEntryBundle_FullMethodName :: string where
  "Rekor_GetEntryBundle_FullMethodName = ''/dev.sigstore.rekor.v2.Rekor/GetEntryBundle''"
definition Rekor_GetCheckpoint_FullMethodName :: string where
  "Rekor_GetCheckpoint_FullMethodName = ''/dev.sigstore.rekor.v2.Rekor/GetCheckpoint''"

text \<open>The messages that travel over the connection.\<close>

datatype rpc_request =
    ReqCreateEntry pb_CreateEntryRequest
  | ReqTile pb_TileRequest
  | ReqEntryBundle pb_EntryBundleRequest
  | ReqEmpty

text \<open>\<open>Invoke\<close> fills in a reply of the caller's type; the stubs use it at two reply types.\<close>

record 's conn =
  Invoke_entry :: "string \<Rightarrow> rpc_request \<Rightarrow> 's \<Rightarrow> pb_TransparencyLogEntry rpc \<times> MD \<times> 's"
  Invoke_body :: "string \<Rightarrow> rpc_request \<Rightarrow> 's \<Rightarrow> pb_HttpBody rpc \<times> MD \<times> 's"

definition rekorClient_CreateEntry ::
    "'s conn \<Rightarrow> pb_CreateEntryRequest \<Rightarrow> 's \<Rightarrow> pb_TransparencyLogEntry rpc \<times> MD \<times> 's" where
  "rekorClient_CreateEntry cc req =
     Invoke_entry cc Rekor_CreateEntry_FullMethodName (ReqCreateEntry req)"

definition rekorClient_GetTile ::
    "'s conn \<Rightarrow> pb_TileRequest \<Rightarrow> 's \<Rightarrow> pb_HttpBody rpc \<times> MD \<times> 's" where
  "rekorClient_GetTile cc req = Invoke_body cc Rekor_GetTile_FullMethodName (ReqTile req)"

definition rekorClient_GetEntryBundle ::
    "'s conn \<Rightarrow> pb_EntryBundleRequest \<Rightarrow> 's \<Rightarrow> pb_HttpBody rpc \<times> MD \<times> 's" where
  "rekorClient_GetEntryBundle cc req =
     Invoke_body cc Rekor_GetEntryBundle_FullMethodName (ReqEntryBundle req)"

definition rekorClient_GetCheckpoint :: "'s conn \<Rightarrow> 's \<Rightarrow> pb_HttpBody rpc \<times> MD \<times> 's" where
  "rekorClient_GetCheckpoint cc = Invoke_body cc Rekor_GetCheckpoint_FullMethodName ReqEmpty"

text \<open>A \<open>rekorClient\<close> holds nothing but the connection.\<close>

definition NewRekorClient :: "'s conn \<Rightarrow> 's conn" where
  "NewRekorClient cc = cc"

section \<open>The server side\<close>

record 's RekorServer =
  rs_CreateEntry :: "pb_CreateEntryRequest option \<Rightarrow> 's \<Rightarrow> pb_TransparencyLogEntry rpc \<times> 's"
  rs_GetTile :: "pb_TileRequest option \<Rightarrow> 's \<Rightarrow> pb_HttpBody rpc \<times> 's"
  rs_GetEntryBundle :: "pb_EntryBundleRequest option \<Rightarrow> 's \<Rightarrow> pb_HttpBody rpc \<times> 's"
  rs_GetCheckpoint :: "unit \<Rightarrow> 's \<Rightarrow> pb_HttpBody rpc \<times> 's"

definition UnimplementedRekorServer :: "'s RekorServer" where
  "UnimplementedRekorServer =
     \<lparr>rs_CreateEntry = (\<lambda>_ s. (RpcErr Unimplemented ''method CreateEntry not implemented'', s)),
      rs_GetTile = (\<lambda>_ s. (RpcErr Unimplemented ''method GetTile not implemented'', s)),
      rs_GetEntryBundle = (\<lambda>_ s. (RpcErr Unimplemented ''method GetEntryBundle not implemented'', s)),
      rs_GetCheckpoint = (\<lambda>_ s. (RpcErr Unimplemented ''method GetCheckpoint not implemented'', s))\<rparr>"

text \<open>The service of \<open>internal/server\<close> embeds the unimplemented one and overrides every method.\<close>

definition rekor_server ::
    "('reg, 'note) deps \<Rightarrow> ('reg, 'w) Server \<Rightarrow> 'w call_state RekorServer" where
  "rekor_server d s =
     UnimplementedRekorServer
       \<lparr>rs_CreateEntry := CreateEntry d s, rs_GetTile := GetTile,
        rs_GetEntryBundle := GetEntryBundle, rs_GetCheckpoint := GetCheckpoint\<rparr>"

text \<open>
  The method handlers.  \<open>dec\<close> is the outcome of decoding the request into the type the
  handler asks for; a nil interceptor is \<open>None\<close>, an interceptor gets the method name, the
  handler and the request.
\<close>

type_synonym ('s, 'q, 'r) handler = "'q \<Rightarrow> 's \<Rightarrow> 'r rpc \<times> 's"
type_synonym ('s, 'q, 'r) interceptor =
  "string \<Rightarrow> ('s, 'q, 'r) handler \<Rightarrow> ('s, 'q, 'r) handler"

definition method_handler ::
    "string \<Rightarrow> ('s, 'q, 'r) handler \<Rightarrow> 'q rpc \<Rightarrow> ('s, 'q, 'r) interceptor option \<Rightarrow> 's \<Rightarrow>
     'r rpc \<times> 's" where
  "method_handler fullMethod method dec interceptor s =
     (case dec of
        RpcPanic \<Rightarrow> (RpcPanic, s)
      | RpcErr c m \<Rightarrow> (RpcErr c m, s)
      | RpcOk in_req \<Rightarrow>
          (case interceptor of
             None \<Rightarrow> method in_req s
           | Some i \<Rightarrow> i fullMethod method in_req s))"

definition Rekor_CreateEntry_Handler where
  "Rekor_CreateEntry_Handler srv =
     method_handler Rekor_CreateEntry_FullMethodName (\<lambda>req. rs_CreateEntry srv (Some req))"

definition Rekor_GetTile_Handler where
  "Rekor_GetTile_Handler srv =
     method_handler Rekor_GetTile_FullMethodName (\<lambda>req. rs_GetTile srv (Some req))"

definition Rekor_GetEntryBundle_Handler where
  "Rekor_GetEntryBundle_Handler srv =
     method_handler Rekor_GetEntryBundle_FullMethodName (\<lambda>req. rs_GetEntryBundle srv (Some req))"

definition Rekor_GetCheckpoint_Handler where
  "Rekor_GetCheckpoint_Handler srv =
     method_handler Rekor_GetCheckpoint_FullMethodName (\<lambda>req. rs_GetCheckpoint srv ())"

text \<open>
  The interceptors of \<open>newGRPCServer\<close>: logging and metrics pass the call on, the innermost
  one recovers from a panic.
\<close>

definition unary_interceptors :: "('w call_state, 'q, 'r) interceptor" where
  "unary_interceptors fullMethod handler req st = recovered (handler req st)"

text \<open>
  A connection to a server: what gRPC documents of a unary call whose request arrives.  The
  handler of the method runs with fresh header metadata; the caller gets its answer and the
  metadata it set.
\<close>

definition served :: "('w call_state \<Rightarrow> 'r rpc \<times> 'w call_state) \<Rightarrow> 'w call_state \<Rightarrow>
    'r rpc \<times> MD \<times> 'w call_state" where
  "served h st = (let (r, st') = h (st \<lparr>cs_headers := []\<rparr>) in (r, md_of (cs_headers st'), st'))"

text \<open>The description under which \<open>RegisterRekorServer\<close> registers the service.\<close>

datatype rekor_handler = H_CreateEntry | H_GetTile | H_GetEntryBundle | H_GetCheckpoint

record ServiceDesc =
  sd_ServiceName :: string
  sd_Methods :: "(string \<times> rekor_handler) list"
  sd_Streams :: "string list"
  sd_Metadata :: string

definition Rekor_ServiceDesc :: ServiceDesc where
  "Rekor_ServiceDesc =
     \<lparr>sd_ServiceName = ''dev.sigstore.rekor.v2.Rekor'',
      sd_Methods =
        [(''CreateEntry'', H_CreateEntry), (''GetTile'', H_GetTile),
         (''GetEntryBundle'', H_GetEntryBundle), (''GetCheckpoint'', H_GetCheckpoint)],
      sd_Streams = [], sd_Metadata = ''rekor/v2/rekor_service.proto''\<rparr>"

text \<open>
  What gRPC documents of a connection to a server with a registered service: a call of
  \<open>/service/method\<close> runs the handler the description names for the method.
\<close>

fun invokes :: "'w call_state conn \<Rightarrow> 'w call_state RekorServer \<Rightarrow> string \<Rightarrow> rekor_handler \<Rightarrow> bool" where
  "invokes cc srv m H_CreateEntry \<longleftrightarrow>
     (\<forall>req. Invoke_entry cc m (ReqCreateEntry req) =
        served (Rekor_CreateEntry_Handler srv (RpcOk req) (Some unary_interceptors)))"
| "invokes cc srv m H_GetTile \<longleftrightarrow>
     (\<forall>req. Invoke_body cc m (ReqTile req) =
        served (Rekor_GetTile_Handler srv (RpcOk req) (Some unary_interceptors)))"
| "invokes cc srv m H_GetEntryBundle \<longleftrightarrow>
     (\<forall>req. Invoke_body cc m (ReqEntryBundle req) =
        served (Rekor_GetEntryBundle_Handler srv (RpcOk req) (Some unary_interceptors)))"
| "invokes cc srv m H_GetCheckpoint \<longleftrightarrow>
     Invoke_body cc m ReqEmpty =
        served (Rekor_GetCheckpoint_Handler srv (RpcOk ()) (Some unary_interceptors))"

definition conn_documented ::
    "'w call_state conn \<Rightarrow> 'w call_state RekorServer \<Rightarrow> bool" where
  "conn_documented cc srv \<longleftrightarrow>
     list_all (\<lambda>(m, h). invokes cc srv (''/'' @ sd_ServiceName Rekor_ServiceDesc @ ''/'' @ m) h)
       (sd_Methods Rekor_ServiceDesc)"

text \<open>The names the client stubs call are the ones the server is registered under.\<close>

lemmas full_method_names = Rekor_CreateEntry_FullMethodName_def Rekor_GetTile_FullMethodName_def
  Rekor_GetEntryBundle_FullMethodName_def Rekor_GetCheckpoint_FullMethodName_def

lemma conn_documented_iff:
  "conn_documented cc srv \<longleftrightarrow>
     invokes cc srv Rekor_CreateEntry_FullMethodName H_CreateEntry
   \<and> invokes cc srv Rekor_GetTile_FullMethodName H_GetTile
   \<and> invokes cc srv Rekor_GetEntryBundle_FullMethodName H_GetEntryBundle
   \<and> invokes cc srv Rekor_GetCheckpoint_FullMethodName H_GetCheckpoint"
  by (simp add: conn_documented_def Rekor_ServiceDesc_def full_method_names del: invokes.simps)

section \<open>rekor\_service.pb.gw.go\<close>

record 'r gateway_runtime =
  gw_Decode :: "bytes \<Rightarrow> pb_CreateEntryRequest \<times> err option"
  gw_Uint32 :: "string \<Rightarrow> 32 word result"
  gw_String :: "string \<Rightarrow> string result"
  gw_AnnotateContext :: "string \<Rightarrow> 'r \<Rightarrow> err option"
  gw_DefaultHTTPErrorHandler :: "err \<Rightarrow> response \<Rightarrow> response"
  gw_ForwardEntry :: "MD \<Rightarrow> pb_TransparencyLogEntry \<Rightarrow> response \<Rightarrow> response result"
  gw_ForwardBody :: "MD \<Rightarrow> pb_HttpBody \<Rightarrow> response \<Rightarrow> response result"

type_synonym path_params = "string \<rightharpoonup> string"
type_synonym ('r, 's) answer = "'r rpc \<times> MD \<times> 's"

definition no_md :: MD where "no_md = (\<lambda>_. [])"

text \<open>
  The body of a \<open>CreateEntry\<close> request: an empty body (\<open>io.EOF\<close>) is the empty message,
  any other decoding error is the client's.
\<close>

definition request_Rekor_CreateEntry_0 ::
    "'q gateway_runtime \<Rightarrow> 's conn \<Rightarrow> bytes \<Rightarrow> 's \<Rightarrow> (pb_TransparencyLogEntry, 's) answer" where
  "request_Rekor_CreateEntry_0 g client body s =
     (let (protoReq, e) = gw_Decode g body in
      case e of
        Some er \<Rightarrow>
          (if \<not> errors_Is er EOF then (RpcErr InvalidArgument (err_Error er), no_md, s)
           else rekorClient_CreateEntry client protoReq s)
      | None \<Rightarrow> rekorClient_CreateEntry client protoReq s)"

definition missing_parameter :: "string \<Rightarrow> string" where
  "missing_parameter p = ''missing parameter '' @ p"

definition type_mismatch :: "string \<Rightarrow> err \<Rightarrow> string" where
  "type_mismatch p e = ''type mismatch, parameter: '' @ p @ '', error: '' @ err_Error e"

text \<open>One path parameter: looked up, converted, stored in the request.\<close>

definition path_param ::
    "(string \<Rightarrow> 'a result) \<Rightarrow> path_params \<Rightarrow> string \<Rightarrow> 's \<Rightarrow> ('a \<Rightarrow> ('r, 's) answer) \<Rightarrow> ('r, 's) answer" where
  "path_param convert pathParams p s k =
     (case pathParams p of
        None \<Rightarrow> (RpcErr InvalidArgument (missing_parameter p), no_md, s)
      | Some val \<Rightarrow>
          (case convert val of
             Panic \<Rightarrow> (RpcPanic, no_md, s)
           | Err e \<Rightarrow> (RpcErr InvalidArgument (type_mismatch p e), no_md, s)
           | Ok v \<Rightarrow> k v))"

definition request_Rekor_GetTile_0 ::
    "'q gateway_runtime \<Rightarrow> 's conn \<Rightarrow> path_params \<Rightarrow> 's \<Rightarrow> (pb_HttpBody, 's) answer" where
  "request_Rekor_GetTile_0 g client pathParams s =
     path_param (gw_Uint32 g) pathParams ''L'' s (\<lambda>l.
     path_param (gw_String g) pathParams ''N'' s (\<lambda>n.
     rekorClient_GetTile client \<lparr>TileRequest_L = l, TileRequest_N = n\<rparr> s))"

definition request_Rekor_GetEntryBundle_0 ::
    "'q gateway_runtime \<Rightarrow> 's conn \<Rightarrow> path_params \<Rightarrow> 's \<Rightarrow> (pb_HttpBody, 's) answer" where
  "request_Rekor_GetEntryBundle_0 g client pathParams s =
     path_param (gw_String g) pathParams ''N'' s (\<lambda>n.
     rekorClient_GetEntryBundle client \<lparr>EntryBundleRequest_N = n\<rparr> s)"

definition request_Rekor_GetCheckpoint_0 :: "'s conn \<Rightarrow> 's \<Rightarrow> (pb_HttpBody, 's) answer" where
  "request_Rekor_GetCheckpoint_0 client s = rekorClient_GetCheckpoint client s"

text \<open>
  What every registered handler does with an answer: \<open>runtime.HTTPError\<close> calls the error
  handler of the mux, which is \<open>customHTTPErrorHandler\<close>; it sees the call's metadata only
  once the context carries it.
\<close>

definition gateway_respond ::
    "'q gateway_runtime \<Rightarrow> string \<Rightarrow> 'q \<Rightarrow> (MD \<Rightarrow> 'r \<Rightarrow> response \<Rightarrow> response result) \<Rightarrow>
     ('s \<Rightarrow> ('r, 's) answer) \<Rightarrow> response \<Rightarrow> 's \<Rightarrow> response result \<times> 's" where
  "gateway_respond g fullMethod req forward call w s =
     (case gw_AnnotateContext g fullMethod req of
        Some e \<Rightarrow> (customHTTPErrorHandler (gw_DefaultHTTPErrorHandler g) None w e, s)
      | None \<Rightarrow>
          (let (r, md, s') = call s in
           case r of
             RpcPanic \<Rightarrow> (Panic, s')
           | RpcErr c m \<Rightarrow>
               (customHTTPErrorHandler (gw_DefaultHTTPErrorHandler g) (Some md) w (StatusError c m), s')
           | RpcOk resp \<Rightarrow> (forward md resp w, s')))"

text \<open>All four routes forward with \<open>runtime.ForwardResponseMessage\<close>, at their reply type.\<close>

definition forward_Rekor_CreateEntry_0 where [simp]: "forward_Rekor_CreateEntry_0 g = gw_ForwardEntry g"
definition forward_Rekor_GetTile_0 where [simp]: "forward_Rekor_GetTile_0 g = gw_ForwardBody g"
definition forward_Rekor_GetEntryBundle_0 where [simp]: "forward_Rekor_GetEntryBundle_0 g = gw_ForwardBody g"
definition forward_Rekor_GetCheckpoint_0 where [simp]: "forward_Rekor_GetCheckpoint_0 g = gw_ForwardBody g"

datatype rekor_route =
    POST_entries bytes
  | GET_tile path_params
  | GET_tile_entries path_params
  | GET_checkpoint

fun RegisterRekorHandlerClient ::
    "'q gateway_runtime \<Rightarrow> 's conn \<Rightarrow> 'q \<Rightarrow> rekor_route \<Rightarrow> response \<Rightarrow> 's \<Rightarrow> response result \<times> 's" where
  "RegisterRekorHandlerClient g client req (POST_entries body) =
     gateway_respond g Rekor_CreateEntry_FullMethodName req (forward_Rekor_CreateEntry_0 g)
       (request_Rekor_CreateEntry_0 g client body)"
| "RegisterRekorHandlerClient g client req (GET_tile pathParams) =
     gateway_respond g Rekor_GetTile_FullMethodName req (forward_Rekor_GetTile_0 g)
       (request_Rekor_GetTile_0 g client pathParams)"
| "RegisterRekorHandlerClient g client req (GET_tile_entries pathParams) =
     gateway_respond g Rekor_GetEntryBundle_FullMethodName req (forward_Rekor_GetEntryBundle_0 g)
       (request_Rekor_GetEntryBundle_0 g client pathParams)"
| "RegisterRekorHandlerClient g client req GET_checkpoint =
     gateway_respond g Rekor_GetCheckpoint_FullMethodName req (forward_Rekor_GetCheckpoint_0 g)
       (request_Rekor_GetCheckpoint_0 client)"

definition RegisterRekorHandler ::
    "'q gateway_runtime \<Rightarrow> 's conn \<Rightarrow> 'q \<Rightarrow> rekor_route \<Rightarrow> response \<Rightarrow> 's \<Rightarrow> response result \<times> 's" where
  "RegisterRekorHandler g conn = RegisterRekorHandlerClient g (NewRekorClient conn)"

text \<open>
  The registration that calls the service in process.  The answers of the \<open>local_request\<close>
  functions carry no metadata; the handler joins what the service set on the call's own stream.
\<close>

definition MD_Join :: "MD \<Rightarrow> MD \<Rightarrow> MD" where
  "MD_Join a b = (\<lambda>k. a k @ b k)"

definition local_call :: "('s \<Rightarrow> 'r rpc \<times> 's) \<Rightarrow> 's \<Rightarrow> ('r, 's) answer" where
  "local_call h s = (let (r, s') = h s in (r, no_md, s'))"

definition local_request_Rekor_CreateEntry_0 ::
    "'q gateway_runtime \<Rightarrow> 's RekorServer \<Rightarrow> bytes \<Rightarrow> 's \<Rightarrow> (pb_TransparencyLogEntry, 's) answer" where
  "local_request_Rekor_CreateEntry_0 g srv body s =
     (let (protoReq, e) = gw_Decode g body in
      case e of
        Some er \<Rightarrow>
          (if \<not> errors_Is er EOF then (RpcErr InvalidArgument (err_Error er), no_md, s)
           else local_call (rs_CreateEntry srv (Some protoReq)) s)
      | None \<Rightarrow> local_call (rs_CreateEntry srv (Some protoReq)) s)"

definition local_request_Rekor_GetTile_0 ::
    "'q gateway_runtime \<Rightarrow> 's RekorServer \<Rightarrow> path_params \<Rightarrow> 's \<Rightarrow> (pb_HttpBody, 's) answer" where
  "local_request_Rekor_GetTile_0 g srv pathParams s =
     path_param (gw_Uint32 g) pathParams ''L'' s (\<lambda>l.
     path_param (gw_String g) pathParams ''N'' s (\<lambda>n.
     local_call (rs_GetTile srv (Some \<lparr>TileRequest_L = l, TileRequest_N = n\<rparr>)) s))"

definition local_request_Rekor_GetEntryBundle_0 ::
    "'q gateway_runtime \<Rightarrow> 's RekorServer \<Rightarrow> path_params \<Rightarrow> 's \<Rightarrow> (pb_HttpBody, 's) answer" where
  "local_request_Rekor_GetEntryBundle_0 g srv pathParams s =
     path_param (gw_String g) pathParams ''N'' s (\<lambda>n.
     local_call (rs_GetEntryBundle srv (Some \<lparr>EntryBundleRequest_N = n\<rparr>)) s)"

definition local_request_Rekor_GetCheckpoint_0 ::
    "'s RekorServer \<Rightarrow> 's \<Rightarrow> (pb_HttpBody, 's) answer" where
  "local_request_Rekor_GetCheckpoint_0 srv s = local_call (rs_GetCheckpoint srv ()) s"

definition with_stream ::
    "('w call_state \<Rightarrow> ('r, 'w call_state) answer) \<Rightarrow> 'w call_state \<Rightarrow> ('r, 'w call_state) answer" where
  "with_stream call st =
     (let (r, md, st') = call (st \<lparr>cs_headers := []\<rparr>)
      in (r, MD_Join md (md_of (cs_headers st')), st'))"

fun RegisterRekorHandlerServer ::
    "'q gateway_runtime \<Rightarrow> 'w call_state RekorServer \<Rightarrow> 'q \<Rightarrow> rekor_route \<Rightarrow> response \<Rightarrow>
     'w call_state \<Rightarrow> response result \<times> 'w call_state" where
  "RegisterRekorHandlerServer g srv req (POST_entries body) =
     gateway_respond g Rekor_CreateEntry_FullMethodName req (forward_Rekor_CreateEntry_0 g)
       (with_stream (local_request_Rekor_CreateEntry_0 g srv body))"
| "RegisterRekorHandlerServer g srv req (GET_tile pathParams) =
     gateway_respond g Rekor_GetTile_FullMethodName req (forward_Rekor_GetTile_0 g)
       (with_stream (local_request_Rekor_GetTile_0 g srv pathParams))"
| "RegisterRekorHandlerServer g srv req (GET_tile_entries pathParams) =
     gateway_respond g Rekor_GetEntryBundle_FullMethodName req (forward_Rekor_GetEntryBundle_0 g)
       (with_stream (local_request_Rekor_GetEntryBundle_0 g srv pathParams))"
| "RegisterRekorHandlerServer g srv req GET_checkpoint =
     gateway_respond g Rekor_GetCheckpoint_FullMethodName req (forward_Rekor_GetCheckpoint_0 g)
       (with_stream (local_request_Rekor_GetCheckpoint_0 srv))"

section \<open>The stubs reach the service\<close>

lemmas rpc_stub_defs = rekorClient_CreateEntry_def rekorClient_GetTile_def
  rekorClient_GetEntryBundle_def rekorClient_GetCheckpoint_def Rekor_CreateEntry_Handler_def
  Rekor_GetTile_Handler_def Rekor_GetEntryBundle_Handler_def Rekor_GetCheckpoint_Handler_def

lemma served_method [simp]:
  "served (method_handler m h (RpcOk req) (Some unary_interceptors)) =
     served (\<lambda>st. recovered (h req st))"
  by (simp add: fun_eq_iff served_def method_handler_def unary_interceptors_def)

lemma rekorClient_served:
  assumes "conn_documented cc srv"
  shows "rekorClient_CreateEntry cc req = served (\<lambda>st. recovered (rs_CreateEntry srv (Some req) st))"
    and "rekorClient_GetTile cc t = served (\<lambda>st. recovered (rs_GetTile srv (Some t) st))"
    and "rekorClient_GetEntryBundle cc b = served (\<lambda>st. recovered (rs_GetEntryBundle srv (Some b) st))"
    and "rekorClient_GetCheckpoint cc = served (\<lambda>st. recovered (rs_GetCheckpoint srv () st))"
  using assms by (simp_all add: conn_documented_iff rpc_stub_defs)

lemma served_no_panic: "fst (served (\<lambda>st. recovered (h st)) st) \<noteq> RpcPanic"
  by (cases "h (st \<lparr>cs_headers := []\<rparr>)")
     (auto simp: served_def recovered_def grpcPanicRecoveryHandler_def split: rpc.splits prod.splits)

lemma rekor_server_sel [simp]:
  "rs_CreateEntry (rekor_server d s) = CreateEntry d s"
  "rs_GetTile (rekor_server d s) = GetTile"
  "rs_GetEntryBundle (rekor_server d s) = GetEntryBundle"
  "rs_GetCheckpoint (rekor_server d s) = GetCheckpoint"
  by (simp_all add: rekor_server_def UnimplementedRekorServer_def)

section \<open>What the routes answer\<close>

lemma read_methods [simp]:
  "served (\<lambda>st. recovered (GetTile t st)) st =
     (RpcErr Unimplemented ''method GetTile not implemented'', no_md, st \<lparr>cs_headers := []\<rparr>)"
  "served (\<lambda>st. recovered (GetEntryBundle b st)) st =
     (RpcErr Unimplemented ''method GetEntryBundle not implemented'', no_md, st \<lparr>cs_headers := []\<rparr>)"
  "served (\<lambda>st. recovered (GetCheckpoint u st)) st =
     (RpcErr Unimplemented ''method GetCheckpoint not implemented'', no_md, st \<lparr>cs_headers := []\<rparr>)"
  by (simp_all add: served_def recovered_def GetTile_def GetEntryBundle_def GetCheckpoint_def
      md_of_def no_md_def fun_eq_iff)

lemma customHTTPErrorHandler_no_md [simp]: "customHTTPErrorHandler deh (Some no_md) w e = Ok (deh e w)"
  by (simp add: customHTTPErrorHandler_def no_md_def)

fun is_read_route :: "rekor_route \<Rightarrow> bool" where
  "is_read_route (POST_entries b) = False"
| "is_read_route _ = True"

lemma path_param_cases:
  assumes "\<And>v. convert v \<noteq> Panic"
  obtains m where "path_param convert ps p s k = (RpcErr InvalidArgument m, no_md, s)"
  | v where "path_param convert ps p s k = k v"
proof (cases "ps p")
  case None
  then show ?thesis by (intro that(1)) (simp add: path_param_def)
next
  case (Some x)
  show ?thesis
  proof (cases "convert x")
    case (Ok v)
    then show ?thesis using Some by (intro that(2)) (simp add: path_param_def)
  next
    case (Err e)
    then show ?thesis using Some by (intro that(1)) (simp add: path_param_def)
  next
    case Panic
    then show ?thesis using assms by blast
  qed
qed

text \<open>The call behind a read route: a status error, no metadata, and an untouched log.\<close>

lemma read_calls:
  assumes "conn_documented cc (rekor_server d s)"
    and "\<And>v. gw_Uint32 g v \<noteq> Panic" "\<And>v. gw_String g v \<noteq> Panic"
  shows "\<exists>c m st'. request_Rekor_GetTile_0 g cc ps st = (RpcErr c m, no_md, st')
      \<and> c \<in> {InvalidArgument, Unimplemented} \<and> st' \<lparr>cs_headers := []\<rparr> = st \<lparr>cs_headers := []\<rparr>"
    and "\<exists>c m st'. request_Rekor_GetEntryBundle_0 g cc ps st = (RpcErr c m, no_md, st')
      \<and> c \<in> {InvalidArgument, Unimplemented} \<and> st' \<lparr>cs_headers := []\<rparr> = st \<lparr>cs_headers := []\<rparr>"
    and "\<exists>c m st'. request_Rekor_GetCheckpoint_0 cc st = (RpcErr c m, no_md, st')
      \<and> c \<in> {InvalidArgument, Unimplemented} \<and> st' \<lparr>cs_headers := []\<rparr> = st \<lparr>cs_headers := []\<rparr>"
proof -
  note srv = rekorClient_served [OF assms(1)]
  let ?k = "\<lambda>l. path_param (gw_String g) ps ''N'' st (\<lambda>n.
      rekorClient_GetTile cc \<lparr>TileRequest_L = l, TileRequest_N = n\<rparr> st)"
  have k: "\<exists>c m st'. ?k l = (RpcErr c m, no_md, st') \<and> c \<in> {InvalidArgument, Unimplemented}
      \<and> st' \<lparr>cs_headers := []\<rparr> = st \<lparr>cs_headers := []\<rparr>" for l
    by (rule path_param_cases [where convert = "gw_String g" and ps = ps and p = "''N''" and s = st and k =
          "\<lambda>n. rekorClient_GetTile cc \<lparr>TileRequest_L = l, TileRequest_N = n\<rparr> st"])
       (use assms(3) in \<open>auto simp: srv\<close>)
  show "\<exists>c m st'. request_Rekor_GetTile_0 g cc ps st = (RpcErr c m, no_md, st')
      \<and> c \<in> {InvalidArgument, Unimplemented} \<and> st' \<lparr>cs_headers := []\<rparr> = st \<lparr>cs_headers := []\<rparr>"
    unfolding request_Rekor_GetTile_0_def
    by (rule path_param_cases [where convert = "gw_Uint32 g" and ps = ps and p = "''L''" and s = st and k = ?k]) (use assms(2) k in auto)
  show "\<exists>c m st'. request_Rekor_GetEntryBundle_0 g cc ps st = (RpcErr c m, no_md, st')
      \<and> c \<in> {InvalidArgument, Unimplemented} \<and> st' \<lparr>cs_headers := []\<rparr> = st \<lparr>cs_headers := []\<rparr>"
    unfolding request_Rekor_GetEntryBundle_0_def
    by (rule path_param_cases [where convert = "gw_String g" and ps = ps and p = "''N''" and s = st and k =
          "\<lambda>n. rekorClient_GetEntryBundle cc \<lparr>EntryBundleRequest_N = n\<rparr> st"])
       (use assms(3) in \<open>auto simp: srv\<close>)
  show "\<exists>c m st'. request_Rekor_GetCheckpoint_0 cc st = (RpcErr c m, no_md, st')
      \<and> c \<in> {InvalidArgument, Unimplemented} \<and> st' \<lparr>cs_headers := []\<rparr> = st \<lparr>cs_headers := []\<rparr>"
    by (simp add: request_Rekor_GetCheckpoint_0_def srv)
qed

lemma gateway_respond_error:
  assumes "gw_AnnotateContext g m q = None" "call st = (RpcErr c msg, no_md, st')"
  shows "gateway_respond g m q fwd call w st =
    (Ok (gw_DefaultHTTPErrorHandler g (StatusError c msg) w), st')"
  using assms by (simp add: gateway_respond_def)

text \<open>
  C36. The server does not serve reads: whatever the path, the tile, entry bundle and checkpoint
  routes of the gateway answer through the default error handler, with a bad-parameter or an
  unimplemented status, and leave log and counters alone.
\<close>

theorem read_routes_unimplemented:
  assumes "conn_documented cc (rekor_server d s)" "is_read_route route"
    and "\<And>m. gw_AnnotateContext g m q = None"
    and "\<And>v. gw_Uint32 g v \<noteq> Panic" "\<And>v. gw_String g v \<noteq> Panic"
  shows "\<exists>c m st'. RegisterRekorHandlerClient g cc q route w st =
      (Ok (gw_DefaultHTTPErrorHandler g (StatusError c m) w), st')
    \<and> c \<in> {InvalidArgument, Unimplemented}
    \<and> cs_log st' = cs_log st \<and> cs_metrics st' = cs_metrics st"
proof -
  have same: "cs_log st' = cs_log st \<and> cs_metrics st' = cs_metrics st"
    if "st' \<lparr>cs_headers := []\<rparr> = st \<lparr>cs_headers := []\<rparr>" for st' :: "'a call_state"
    using that by (cases st; cases st') simp
  note calls = read_calls [OF assms(1,4,5)]
  have run: ?thesis
    if "\<exists>c m st'. call st = (RpcErr c m, no_md, st') \<and> c \<in> {InvalidArgument, Unimplemented}
        \<and> st' \<lparr>cs_headers := []\<rparr> = st \<lparr>cs_headers := []\<rparr>"
      and "RegisterRekorHandlerClient g cc q route = gateway_respond g m q (gw_ForwardBody g) call"
    for call m
    using that(1) same unfolding that(2) by (metis gateway_respond_error assms(3))
  show ?thesis
  proof (cases route)
    case (POST_entries b)
    then show ?thesis using assms(2) by simp
  next
    case (GET_tile ps)
    show ?thesis
      by (rule run [where call = "request_Rekor_GetTile_0 g cc ps" and m = Rekor_GetTile_FullMethodName,
            OF calls(1)]) (simp add: GET_tile)
  next
    case (GET_tile_entries ps)
    show ?thesis
      by (rule run [where call = "request_Rekor_GetEntryBundle_0 g cc ps" and m = Rekor_GetEntryBundle_FullMethodName,
            OF calls(2)]) (simp add: GET_tile_entries)
  next
    case GET_checkpoint
    show ?thesis
      by (rule run [where call = "request_Rekor_GetCheckpoint_0 cc" and m = Rekor_GetCheckpoint_FullMethodName,
            OF calls(3)]) (simp add: GET_checkpoint)
  qed
qed

text \<open>A connection that keeps its promise, and a runtime of the gateway.\<close>

definition direct_conn :: "'w call_state RekorServer \<Rightarrow> 'w call_state conn" where
  "direct_conn srv =
     \<lparr>Invoke_entry = (\<lambda>m q. case q of
          ReqCreateEntry req \<Rightarrow> served (Rekor_CreateEntry_Handler srv (RpcOk req) (Some unary_interceptors))
        | _ \<Rightarrow> served (\<lambda>st. (RpcErr Unimplemented m, st))),
      Invoke_body = (\<lambda>m q. case q of
          ReqTile req \<Rightarrow> served (Rekor_GetTile_Handler srv (RpcOk req) (Some unary_interceptors))
        | ReqEntryBundle req \<Rightarrow>
            served (Rekor_GetEntryBundle_Handler srv (RpcOk req) (Some unary_interceptors))
        | ReqEmpty \<Rightarrow> served (Rekor_GetCheckpoint_Handler srv (RpcOk ()) (Some unary_interceptors))
        | _ \<Rightarrow> served (\<lambda>st. (RpcErr Unimplemented m, st)))\<rparr>"

lemma direct_conn_documented: "conn_documented (direct_conn srv) srv"
  by (simp add: conn_documented_iff direct_conn_def)

definition demo_gateway :: "unit gateway_runtime" where
  "demo_gateway =
     \<lparr>gw_Decode = (\<lambda>b. if b = [] then (\<lparr>CreateEntryRequest_Spec = None\<rparr>, Some EOF)
        else (the demo_create, None)),
      gw_Uint32 = (\<lambda>s. case parse_digits s of None \<Rightarrow> Err (ErrText ''syntax'') | Some n \<Rightarrow> Ok (of_nat n)),
      gw_String = Ok, gw_AnnotateContext = (\<lambda>_ _. None),
      gw_DefaultHTTPErrorHandler = (\<lambda>e w. fst (Write (err_Error e) w)),
      gw_ForwardEntry = (\<lambda>md t w. go_bind (httpResponseModifier (Some md) w) id
        (\<lambda>(w', _, _). Ok (fst (Write (TLE_CanonicalizedBody t) w')))),
      gw_ForwardBody = (\<lambda>md b w. Ok (fst (Write (HttpBody_Data b) w)))\<rparr>"

theorem read_routes_unimplemented_witness:
  "\<exists>c m st'. RegisterRekorHandlerClient demo_gateway
      (direct_conn (rekor_server demo_deps demo_server)) () GET_checkpoint (fresh_response [])
      (demo_call []) =
      (Ok (gw_DefaultHTTPErrorHandler demo_gateway (StatusError c m) (fresh_response [])), st')
    \<and> c \<in> {InvalidArgument, Unimplemented}
    \<and> cs_log st' = [] \<and> cs_metrics st' = cs_metrics (demo_call [])"
proof -
  have "\<And>v. gw_Uint32 demo_gateway v \<noteq> Panic" "\<And>v. gw_String demo_gateway v \<noteq> Panic"
      "\<And>m. gw_AnnotateContext demo_gateway m () = None" "is_read_route GET_checkpoint"
    by (simp_all add: demo_gateway_def split: option.splits)
  moreover have "cs_log (demo_call []) = []" by (simp add: demo_call_def)
  ultimately show ?thesis
    using read_routes_unimplemented [OF direct_conn_documented, of GET_checkpoint demo_gateway "()"
        demo_deps demo_server "fresh_response []" "demo_call []"] by metis
qed

section \<open>The two registrations agree\<close>

text \<open>
  An answer over a connection and one in process, up to the headers left on the server's side.
  They differ only if the service panics: the recovery interceptor turns that into an internal
  error and counts it, and no interceptor runs in process.
\<close>

definition same_answer :: "('r, 'w call_state) answer \<Rightarrow> ('r, 'w call_state) answer \<Rightarrow> bool" where
  "same_answer a b \<longleftrightarrow> fst a = fst b \<and> fst (snd a) = fst (snd b)
     \<and> (snd (snd a)) \<lparr>cs_headers := []\<rparr> = (snd (snd b)) \<lparr>cs_headers := []\<rparr>"

definition recovers :: "('r, 'w call_state) answer \<Rightarrow> ('r, 'w call_state) answer \<Rightarrow> bool" where
  "recovers a b \<longleftrightarrow> fst b = RpcPanic \<and> fst a = RpcErr Internal ''internal server error''
     \<and> (snd (snd a)) \<lparr>cs_headers := []\<rparr> = (Inc PanicCounter (snd (snd b))) \<lparr>cs_headers := []\<rparr>"

definition answers_alike :: "('r, 'w call_state) answer \<Rightarrow> ('r, 'w call_state) answer \<Rightarrow> bool" where
  "answers_alike a b \<longleftrightarrow> same_answer a b \<or> recovers a b"

lemma with_stream_no_md:
  "call (st \<lparr>cs_headers := []\<rparr>) = (r, no_md, st \<lparr>cs_headers := []\<rparr>) \<Longrightarrow>
   answers_alike (r, no_md, st) (with_stream call st)"
  by (simp add: with_stream_def answers_alike_def same_answer_def MD_Join_def no_md_def md_of_def)

lemma served_local:
  "answers_alike (served (\<lambda>st. recovered (h st)) st) (with_stream (local_call h) st)"
proof (cases "h (st \<lparr>cs_headers := []\<rparr>)")
  case (Pair r st')
  then show ?thesis
    by (cases r) (simp_all add: answers_alike_def same_answer_def recovers_def served_def
        with_stream_def local_call_def recovered_def grpcPanicRecoveryHandler_def MD_Join_def no_md_def)
qed

lemma path_param_with_stream:
  assumes "\<And>v. answers_alike (k v) (with_stream (k' v) st)"
  shows "answers_alike (path_param convert ps p st k)
    (with_stream (\<lambda>s. path_param convert ps p s (\<lambda>v. k' v s)) st)"
proof (cases "ps p")
  case None
  then show ?thesis by (auto simp: path_param_def intro!: with_stream_no_md)
next
  case (Some x)
  then show ?thesis
    using assms by (cases "convert x") (auto simp: path_param_def intro!: with_stream_no_md)
qed

lemma requests_agree:
  assumes "conn_documented cc srv"
  shows "answers_alike (request_Rekor_CreateEntry_0 g cc body st)
      (with_stream (local_request_Rekor_CreateEntry_0 g srv body) st)"
    and "answers_alike (request_Rekor_GetTile_0 g cc ps st)
      (with_stream (local_request_Rekor_GetTile_0 g srv ps) st)"
    and "answers_alike (request_Rekor_GetEntryBundle_0 g cc ps st)
      (with_stream (local_request_Rekor_GetEntryBundle_0 g srv ps) st)"
    and "answers_alike (request_Rekor_GetCheckpoint_0 cc st)
      (with_stream (local_request_Rekor_GetCheckpoint_0 srv) st)"
proof -
  note srv = rekorClient_served [OF assms]
  show "answers_alike (request_Rekor_CreateEntry_0 g cc body st)
      (with_stream (local_request_Rekor_CreateEntry_0 g srv body) st)"
  proof (cases "gw_Decode g body")
    case (Pair protoReq e)
    show ?thesis
    proof (cases "\<exists>er. e = Some er \<and> \<not> errors_Is er EOF")
      case True
      then show ?thesis
        using Pair by (auto simp: request_Rekor_CreateEntry_0_def local_request_Rekor_CreateEntry_0_def
            intro!: with_stream_no_md)
    next
      case False
      then have "local_request_Rekor_CreateEntry_0 g srv body = local_call (rs_CreateEntry srv (Some protoReq))"
          "request_Rekor_CreateEntry_0 g cc body st = rekorClient_CreateEntry cc protoReq st"
        using Pair by (auto simp: request_Rekor_CreateEntry_0_def
            local_request_Rekor_CreateEntry_0_def fun_eq_iff split: option.splits)
      then show ?thesis by (simp add: srv served_local)
    qed
  qed
  show "answers_alike (request_Rekor_GetTile_0 g cc ps st)
      (with_stream (local_request_Rekor_GetTile_0 g srv ps) st)"
    unfolding request_Rekor_GetTile_0_def local_request_Rekor_GetTile_0_def
    by (intro path_param_with_stream) (simp add: srv served_local)
  show "answers_alike (request_Rekor_GetEntryBundle_0 g cc ps st)
      (with_stream (local_request_Rekor_GetEntryBundle_0 g srv ps) st)"
    unfolding request_Rekor_GetEntryBundle_0_def local_request_Rekor_GetEntryBundle_0_def
    by (intro path_param_with_stream) (simp add: srv served_local)
  show "answers_alike (request_Rekor_GetCheckpoint_0 cc st)
      (with_stream (local_request_Rekor_GetCheckpoint_0 srv) st)"
    unfolding request_Rekor_GetCheckpoint_0_def local_request_Rekor_GetCheckpoint_0_def
    by (simp add: srv served_local)
qed

lemma gateway_respond_alike:
  assumes "answers_alike (call st) (call' st)"
    and "gateway_respond g m q fwd call w st = (r, s1)" "gateway_respond g m q fwd call' w st = (r', s2)"
  shows "r = r' \<and> s1 \<lparr>cs_headers := []\<rparr> = s2 \<lparr>cs_headers := []\<rparr>
    \<or> r' = Panic
      \<and> (\<exists>md. r = customHTTPErrorHandler (gw_DefaultHTTPErrorHandler g) (Some md) w
              (StatusError Internal ''internal server error''))
      \<and> s1 \<lparr>cs_headers := []\<rparr> = (Inc PanicCounter s2) \<lparr>cs_headers := []\<rparr>"
proof (cases "gw_AnnotateContext g m q")
  case None
  obtain a md t where c: "call st = (a, md, t)" by (metis prod.exhaust)
  obtain a' md' t' where c': "call' st = (a', md', t')" by (metis prod.exhaust)
  from assms(1) c c' consider (same) "a = a'" "md = md'" "t \<lparr>cs_headers := []\<rparr> = t' \<lparr>cs_headers := []\<rparr>"
    | (panic) "a' = RpcPanic" "a = RpcErr Internal ''internal server error''"
        "t \<lparr>cs_headers := []\<rparr> = (Inc PanicCounter t') \<lparr>cs_headers := []\<rparr>"
    by (auto simp: answers_alike_def same_answer_def recovers_def)
  then show ?thesis
  proof cases
    case same
    then show ?thesis
      using assms(2,3) c c' None by (cases a') (auto simp: gateway_respond_def)
  next
    case panic
    then show ?thesis
      using assms(2,3) c c' None by (auto simp: gateway_respond_def)
  qed
qed (use assms(2,3) in \<open>simp add: gateway_respond_def\<close>)



end
