(* ===== verification/Server_Setup.thy ===== *)
theory Server_Setup
  imports Serve_Cmd Rekor_Rpc
begin

text \<open>
  The constructors of the three servers: \<open>newGRPCServer\<close> and \<open>loadTLSCredentials\<close>
  (\<open>internal/server/grpc.go\<close>), \<open>newHTTPProxy\<close> (\<open>http.go\<close>) and \<open>newHTTPMetrics\<close>
  (\<open>metrics.go\<close>), with \<open>RegisterRekorHandlerFromEndpoint\<close> of the gateway stubs.  A server
  is the record of what it is configured with: the options in the order they are given, the
  registered services, and the chain of HTTP middlewares, the outermost first.  Loading a key
  pair and dialling are parameters; \<open>os.Exit(1)\<close> with its log line is an error.
\<close>

section \<open>TLS\<close>

record 'cert tls_config =
  tc_Certificates :: "'cert list"
  tc_MinVersion :: nat
  tc_InsecureSkipVerify :: bool

definition VersionTLS13 :: nat where "VersionTLS13 = 772"

type_synonym 'cert key_pair_loader = "string \<Rightarrow> string \<Rightarrow> 'cert result"

definition loadTLSCredentials ::
    "'cert key_pair_loader \<Rightarrow> string \<Rightarrow> string \<Rightarrow> 'cert tls_config result" where
  "loadTLSCredentials LoadX509KeyPair certFile keyFile =
     go_bind (LoadX509KeyPair certFile keyFile) (Wrap ''failed to load key pair'') (\<lambda>cert.
     Ok \<lparr>tc_Certificates = [cert], tc_MinVersion = VersionTLS13, tc_InsecureSkipVerify = False\<rparr>)"

section \<open>The gRPC server\<close>

datatype unary_interceptor =
    LoggingInterceptor "LoggableEvent list" | MetricsInterceptor | RecoveryInterceptor

datatype 'cert server_option =
    ChainUnaryInterceptor "unary_interceptor list"
  | ConnectionTimeout int
  | MaxConnectionIdle int
  | MaxRecvMsgSize int
  | StatsHandler
  | Creds "'cert tls_config"

datatype grpc_service = RekorService | HealthService | ReflectionService

record 'cert grpcServer =
  gs_options :: "'cert server_option list"
  gs_services :: "grpc_service list"
  gs_series :: "(string \<times> string \<times> string) set"
  gs_serverEndpoint :: string

text \<open>What \<open>GetServiceInfo\<close> reports of a registered service: its name and methods.\<close>

definition service_info :: "ServiceDesc \<Rightarrow> string \<times> string list" where
  "service_info sd = (sd_ServiceName sd, map fst (sd_Methods sd))"

definition RegisterRekorServer :: "grpc_service list \<Rightarrow> grpc_service list" where
  "RegisterRekorServer services = services @ [RekorService]"

text \<open>\<open>extServices\<close> describes the health and reflection services of the gRPC library.\<close>

definition newGRPCServer ::
    "'cert key_pair_loader \<Rightarrow> (string \<times> string list) list \<Rightarrow> GRPCConfig \<Rightarrow> 'cert grpcServer result" where
  "newGRPCServer LoadX509KeyPair extServices config =
     (let opts =
        [ChainUnaryInterceptor
           [LoggingInterceptor (loggingOpts (gc_logLevel config) (gc_requestResponseLogging config)),
            MetricsInterceptor, RecoveryInterceptor],
         ConnectionTimeout (gc_timeout config), MaxConnectionIdle (gc_timeout config),
         MaxRecvMsgSize (gc_maxMessageSize config), StatsHandler]
      in go_bind
           (if grpc_HasTLS config
            then go_bind (loadTLSCredentials LoadX509KeyPair (gc_certFile config) (gc_keyFile config))
                   (Wrap ''failed to load TLS credentials'') (\<lambda>creds. Ok (opts @ [Creds creds]))
            else Ok opts) id (\<lambda>opts.
         Ok \<lparr>gs_options = opts, gs_services = RegisterRekorServer [] @ [HealthService, ReflectionService],
             gs_series = InitializeCustomGrpcMetrics (service_info Rekor_ServiceDesc # extServices) {},
             gs_serverEndpoint = GRPCTarget config\<rparr>))"

section \<open>The HTTP proxy\<close>

record marshaler_options =
  mo_EmitUnpopulated :: bool
  mo_DiscardUnknown :: bool

datatype 'cert dial_creds = TransportTLS "'cert tls_config" | TransportInsecure

datatype 'conn mux_option =
    WithMarshalerOption marshaler_options
  | WithErrorHandler_custom
  | WithForwardResponseOption_modifier
  | WithOutgoingHeaderMatcher_forward
  | WithHealthzEndpoint 'conn

datatype http_wrapper =
    MaxBytesHandler int
  | WithCloudTraceContext
  | InstrumentHandlerRequestSize
  | InstrumentHandlerCounter
  | InstrumentHandlerDuration
  | InstrumentMetricHandler

record ('cert, 'conn) http_server =
  hs_Addr :: string
  hs_wrappers :: "http_wrapper list"
  hs_mux :: "'conn mux_option list"
  hs_gateway :: "'conn option"
  hs_closers :: "'conn list"
  hs_ReadTimeout :: int
  hs_ReadHeaderTimeout :: int
  hs_WriteTimeout :: int
  hs_IdleTimeout :: int
  hs_TLSConfig :: "'cert tls_config option"

text \<open>
  \<open>RegisterRekorHandlerFromEndpoint\<close>: dials, and registers the handlers on the connection.  The
  deferred function closes the connection at once if the registration fails, and otherwise
  leaves it to a goroutine that closes it when the context ends: the second component lists the
  connections with such a goroutine.  \<open>register\<close> is the outcome of \<open>RegisterRekorHandler\<close>.
\<close>

definition RegisterRekorHandlerFromEndpoint ::
    "(string \<Rightarrow> 'cert dial_creds \<Rightarrow> 'conn result) \<Rightarrow> ('conn \<Rightarrow> unit result) \<Rightarrow> string \<Rightarrow>
     'cert dial_creds \<Rightarrow> ('conn \<times> 'conn list) result" where
  "RegisterRekorHandlerFromEndpoint NewClient register endpoint opts =
     go_bind (NewClient endpoint opts) id (\<lambda>conn.
     go_bind (register conn) id (\<lambda>_. Ok (conn, [conn])))"

text \<open>Registering on a connection cannot fail.\<close>

definition register_ok :: "'conn \<Rightarrow> unit result" where
  "register_ok conn = Ok ()"

definition dial_options :: "HTTPConfig \<Rightarrow> 'cert dial_creds" where
  "dial_options config =
     (if HasGRPCTLS config
      then TransportTLS \<lparr>tc_Certificates = [], tc_MinVersion = 0, tc_InsecureSkipVerify = True\<rparr>
      else TransportInsecure)"

text \<open>
  \<open>newHTTPProxy\<close> dials twice, for the health endpoint and, when it registers the gateway, for
  the calls: \<open>NewClient\<close> gets the number of the dial, so that the two connections differ.
\<close>

definition newHTTPProxy ::
    "(nat \<Rightarrow> string \<Rightarrow> 'cert dial_creds \<Rightarrow> 'conn result) \<Rightarrow> 'cert key_pair_loader \<Rightarrow> HTTPConfig \<Rightarrow>
     'cert grpcServer \<Rightarrow> ('cert, 'conn) http_server result" where
  "newHTTPProxy NewClient LoadX509KeyPair config grpcServer =
     (let strictMarshaler = \<lparr>mo_EmitUnpopulated = True, mo_DiscardUnknown = False\<rparr>;
          opts = dial_options config
      in go_bind (NewClient 0 (gs_serverEndpoint grpcServer) opts)
           (Wrap ''failed to connect to grpc server'') (\<lambda>cc.
         let mux = [WithMarshalerOption strictMarshaler, WithErrorHandler_custom,
                    WithForwardResponseOption_modifier, WithOutgoingHeaderMatcher_forward,
                    WithHealthzEndpoint cc]
         in go_bind (RegisterRekorHandlerFromEndpoint (NewClient 1) register_ok (gs_serverEndpoint grpcServer) opts)
           (Wrap ''failed to register gateway:'') (\<lambda>(conn, closers).
         let handler = [InstrumentMetricHandler];
             handler = InstrumentHandlerDuration # handler;
             handler = InstrumentHandlerCounter # handler;
             handler = InstrumentHandlerRequestSize # handler;
             handler = (if hc_supportGCP config then WithCloudTraceContext # handler else handler);
             handler = MaxBytesHandler (hc_maxRequestBodySize config) # handler;
             srv = \<lparr>hs_Addr = HTTPTarget config, hs_wrappers = handler, hs_mux = mux,
                    hs_gateway = Some conn, hs_closers = closers, hs_ReadTimeout = hc_timeout config,
                    hs_ReadHeaderTimeout = hc_timeout config, hs_WriteTimeout = hc_timeout config,
                    hs_IdleTimeout = hc_timeout config, hs_TLSConfig = None\<rparr>
         in if http_HasTLS config
            then go_bind (LoadX509KeyPair (hc_certFile config) (hc_keyFile config))
                   (Wrap ''failed to load TLS certificates:'') (\<lambda>cert.
                 Ok (srv \<lparr>hs_TLSConfig := Some \<lparr>tc_Certificates = [cert],
                       tc_MinVersion = VersionTLS13, tc_InsecureSkipVerify = False\<rparr>\<rparr>))
            else Ok srv)))"

section \<open>The metrics server\<close>

text \<open>
  The metrics are served under every path, with the server's timeout; \<open>otelShutdown\<close> is the
  shutdown function of the singleton metrics.
\<close>

record ('cert, 'conn, 'f) httpMetrics =
  hm_Server :: "('cert, 'conn) http_server"
  hm_handlers :: "(string \<times> int) list"
  hm_serverEndpoint :: string
  hm_otelShutdown :: 'f

definition newHTTPMetrics :: "'f \<Rightarrow> HTTPConfig \<Rightarrow> ('cert, 'conn, 'f) httpMetrics" where
  "newHTTPMetrics otelShutdown config =
     (let mux = [(''/'', hc_timeout config)];
          endpoint = HTTPMetricsTarget config
      in \<lparr>hm_Server =
            \<lparr>hs_Addr = endpoint, hs_wrappers = [], hs_mux = [], hs_gateway = None, hs_closers = [],
             hs_ReadTimeout = hc_timeout config, hs_ReadHeaderTimeout = hc_timeout config,
             hs_WriteTimeout = hc_timeout config, hs_IdleTimeout = hc_timeout config,
             hs_TLSConfig = None\<rparr>,
          hm_handlers = mux, hm_serverEndpoint = endpoint, hm_otelShutdown = otelShutdown\<rparr>)"

section \<open>The servers of a command fit together\<close>

fun option_creds :: "'cert server_option \<Rightarrow> 'cert tls_config option" where
  "option_creds (Creds c) = Some c"
| "option_creds _ = None"

definition grpc_creds :: "'cert grpcServer \<Rightarrow> 'cert tls_config list" where
  "grpc_creds gs = List.map_filter option_creds (gs_options gs)"

lemma newGRPCServer_Ok:
  assumes "newGRPCServer lk ext gc = Ok gs"
  shows "gs_serverEndpoint gs = GRPCTarget gc"
    and "MaxRecvMsgSize (gc_maxMessageSize gc) \<in> set (gs_options gs)"
    and "grpc_creds gs \<noteq> [] \<longleftrightarrow> grpc_HasTLS gc"
    and "list_all (\<lambda>c. tc_MinVersion c = VersionTLS13 \<and> \<not> tc_InsecureSkipVerify c) (grpc_creds gs)"
  using assms
  by (auto simp: newGRPCServer_def loadTLSCredentials_def go_bind_eq_Ok Let_def grpc_creds_def
      map_filter_simps split: if_splits)

lemma newGRPCServer_series:
  assumes "newGRPCServer lk ext gc = Ok gs" "m \<in> set (map fst (sd_Methods Rekor_ServiceDesc))"
  shows "(sd_ServiceName Rekor_ServiceDesc, m, ''payload'') \<in> gs_series gs"
proof -
  have "gs_series gs = InitializeCustomGrpcMetrics (service_info Rekor_ServiceDesc # ext) {}"
    using assms(1) by (auto simp: newGRPCServer_def go_bind_eq_Ok Let_def split: if_splits)
  then show ?thesis
    using assms(2)
    by (auto simp: InitializeCustomGrpcMetrics_series service_info_def
        intro!: exI [of _ "map fst (sd_Methods Rekor_ServiceDesc)"] rev_image_eqI)
qed

text \<open>
  The request size of every call of the service is counted in a series the server created at its
  start, so a scrape sees the series from the beginning.
\<close>

theorem request_sizes_in_series:
  assumes "newGRPCServer lk ext gc = Ok gs"
    and "m \<in> {Rekor_CreateEntry_FullMethodName, Rekor_GetTile_FullMethodName,
           Rekor_GetEntryBundle_FullMethodName, Rekor_GetCheckpoint_FullMethodName}"
  shows "\<exists>series \<in> gs_series gs. HandleRPC (TagRPC ctx m) (InPayload n) h = h @ [(series, n)]"
proof -
  let ?svc = "sd_ServiceName Rekor_ServiceDesc"
  obtain meth where meth: "m = CHR ''/'' # ?svc @ CHR ''/'' # meth"
      "meth \<in> set (map fst (sd_Methods Rekor_ServiceDesc))"
    using assms(2) by (auto simp: full_method_names Rekor_ServiceDesc_def)
  have "CHR ''/'' \<notin> set ?svc" by (simp add: Rekor_ServiceDesc_def)
  from HandleRPC_labels [OF this, of ctx meth n h]
  show ?thesis
    using newGRPCServer_series [OF assms(1) meth(2)] unfolding meth(1) by blast
qed

lemma newHTTPProxy_Ok:
  assumes "newHTTPProxy nc lk hc gs = Ok hp"
  shows "\<exists>ws. hs_wrappers hp = MaxBytesHandler (hc_maxRequestBodySize hc) # ws"
    and "\<exists>conn. hs_gateway hp = Some conn \<and> nc 1 (gs_serverEndpoint gs) (dial_options hc) = Ok conn
      \<and> hs_closers hp = [conn]"
    and "\<exists>hz. WithHealthzEndpoint hz \<in> set (hs_mux hp) \<and> nc 0 (gs_serverEndpoint gs) (dial_options hc) = Ok hz"
    and "hs_TLSConfig hp \<noteq> None \<longleftrightarrow> http_HasTLS hc"
    and "\<forall>c. hs_TLSConfig hp = Some c \<longrightarrow> tc_MinVersion c = VersionTLS13 \<and> \<not> tc_InsecureSkipVerify c"
  using assms
  by (auto simp: newHTTPProxy_def RegisterRekorHandlerFromEndpoint_def register_ok_def go_bind_eq_Ok Let_def
      split: if_splits)

text \<open>
  C38. The servers a command builds fit together: the proxy dials the gRPC server at the address
  it listens on, for its calls and for its health endpoint; the body limit of the proxy, its outermost middleware, and the message limit of
  the gRPC server are the same flag; every certificate either server presents is served with TLS
  1.3 or later; and the two agree on whether the connection between them uses TLS unless a
  certificate file is given without a key file, when the proxy speaks TLS to a plaintext server.
\<close>

theorem servers_fit_together:
  assumes "run_server cm v l g drv sg = Ok a"
    and "newGRPCServer lk ext (sa_grpc a) = Ok gs"
    and "newHTTPProxy nc lk (sa_http a) (gs \<lparr>gs_serverEndpoint := addr\<rparr>) = Ok hp"
  shows "(\<exists>conn. hs_gateway hp = Some conn \<and> nc 1 addr (dial_options (sa_http a)) = Ok conn)
    \<and> (\<exists>hz. WithHealthzEndpoint hz \<in> set (hs_mux hp) \<and> nc 0 addr (dial_options (sa_http a)) = Ok hz)
    \<and> hd (hs_wrappers hp) = MaxBytesHandler (GetInt v ''max-request-body-size'')
    \<and> MaxRecvMsgSize (GetInt v ''max-request-body-size'') \<in> set (gs_options gs)
    \<and> list_all (\<lambda>c. tc_MinVersion c = VersionTLS13 \<and> \<not> tc_InsecureSkipVerify c)
        (grpc_creds gs @ (case hs_TLSConfig hp of None \<Rightarrow> [] | Some c \<Rightarrow> [c]))
    \<and> ((dial_options (sa_http a) = TransportInsecure \<longleftrightarrow> grpc_creds gs = []) \<longleftrightarrow>
       (GetString v ''grpc-tls-cert-file'' = [] \<or> GetString v ''grpc-tls-key-file'' \<noteq> []))"
proof -
  let ?c = "if g then [WithGCPSupport True] else []"
  have c: "?c = [] \<or> ?c = [WithGCPSupport True]" by simp
  have cfg: "sa_http a = NewHTTPConfig (http_options v @ ?c)" "sa_grpc a = NewGRPCConfig (grpc_options v l)"
    using assms(1) by (rule run_server_parts, simp)+
  note val = options_values [OF c]
  note gs = newGRPCServer_Ok [OF assms(2)] and hp = newHTTPProxy_Ok [OF assms(3)]
  have "dial_options (sa_http a) = TransportInsecure \<longleftrightarrow> GetString v ''grpc-tls-cert-file'' = []"
    by (simp add: dial_options_def HasGRPCTLS_def cfg(1) val(5))
  moreover have "grpc_creds gs = [] \<longleftrightarrow>
      GetString v ''grpc-tls-cert-file'' = [] \<or> GetString v ''grpc-tls-key-file'' = []"
    using gs(3) by (auto simp: grpc_HasTLS_def cfg(2) val(6,7))
  moreover have "hd (hs_wrappers hp) = MaxBytesHandler (GetInt v ''max-request-body-size'')"
    using hp(1) by (auto simp: cfg(1) val(3))
  moreover have "MaxRecvMsgSize (GetInt v ''max-request-body-size'') \<in> set (gs_options gs)"
    using gs(2) by (simp add: cfg(2) val(4))
  moreover have "\<exists>conn. hs_gateway hp = Some conn \<and> nc 1 addr (dial_options (sa_http a)) = Ok conn"
      "\<exists>hz. WithHealthzEndpoint hz \<in> set (hs_mux hp) \<and> nc 0 addr (dial_options (sa_http a)) = Ok hz"
    using hp(2,3) by auto
  moreover have "list_all (\<lambda>c. tc_MinVersion c = VersionTLS13 \<and> \<not> tc_InsecureSkipVerify c)
        (grpc_creds gs @ (case hs_TLSConfig hp of None \<Rightarrow> [] | Some c \<Rightarrow> [c]))"
    using gs(4) hp(5) by (auto split: option.splits)
  ultimately show ?thesis by (simp only: simp_thms) blast
qed

theorem servers_fit_together_witness:
  "\<exists>a gs hp. run_server demo_cmd (demo_viper False ''cert.pem'') 0 False (Ok ((), None)) demo_signer = Ok a
     \<and> newGRPCServer (\<lambda>c k. Ok ()) [] (sa_grpc a) = Ok gs
     \<and> newHTTPProxy (\<lambda>n e p. Ok ()) (\<lambda>c k. Ok ()) (sa_http a) (gs \<lparr>gs_serverEndpoint := ''127.0.0.1:3001''\<rparr>) = Ok hp
     \<and> dial_options (sa_http a) \<noteq> (TransportInsecure :: unit dial_creds) \<and> grpc_creds gs = []"
proof -
  obtain a where a: "run_server demo_cmd (demo_viper False ''cert.pem'') 0 False (Ok ((), None))
      demo_signer = Ok a"
    using demo_run by blast
  have v: "GetString (demo_viper False ''cert.pem'') ''grpc-tls-cert-file'' = ''cert.pem''"
    "GetString (demo_viper False ''cert.pem'') ''grpc-tls-key-file'' = []"
    by (simp_all add: demo_viper_def)
  obtain gs :: "unit grpcServer" where gs: "newGRPCServer (\<lambda>c k. Ok ()) [] (sa_grpc a) = Ok gs"
    by (cases "grpc_HasTLS (sa_grpc a)") (simp_all add: newGRPCServer_def loadTLSCredentials_def Let_def)
  obtain hp :: "(unit, unit) http_server" where hp: "newHTTPProxy (\<lambda>n e p. Ok ()) (\<lambda>c k. Ok ()) (sa_http a)
      (gs \<lparr>gs_serverEndpoint := ''127.0.0.1:3001''\<rparr>) = Ok hp"
    by (cases "http_HasTLS (sa_http a)")
       (simp_all add: newHTTPProxy_def RegisterRekorHandlerFromEndpoint_def register_ok_def Let_def)
  have cfg: "sa_http a = NewHTTPConfig (http_options (demo_viper False ''cert.pem''))"
    using a by (rule run_server_parts) simp
  have "dial_options (sa_http a) \<noteq> (TransportInsecure :: unit dial_creds)"
    using options_values(5) [of "[]" "demo_viper False ''cert.pem''"]
    by (simp add: dial_options_def HasGRPCTLS_def cfg v)
  then show ?thesis
    using a gs hp v servers_fit_together [OF a gs hp] by auto
qed

end
