(* ===== verification/Route_Table.thy ===== *)
theory Route_Table
  imports Rekor_Rpc Go_Path
begin

text \<open>
  The URL patterns of \<open>pkg/generated/protobuf/rekor_service.pb.gw.go\<close> and the order in which
  the registrations hand them to the gateway's \<open>ServeMux\<close>.  A pattern is the program
  \<open>runtime.NewPattern\<close> gets: pairs of an operation and an operand, and the pool of strings the
  operands refer to.  The mux is a parameter; what is documented of it (the meaning of the
  operations, and that a later registration takes precedence) is the hypothesis
  \<open>mux_documented\<close>.
\<close>

section \<open>The patterns\<close>

record gw_pattern =
  pat_version :: nat
  pat_ops :: "nat list"
  pat_pool :: "string list"
  pat_verb :: string

definition pattern_Rekor_CreateEntry_0 :: gw_pattern where
  "pattern_Rekor_CreateEntry_0 =
     \<lparr>pat_version = 1, pat_ops = [2, 0, 2, 1, 2, 2, 2, 3],
      pat_pool = [''api'', ''v2'', ''log'', ''entries''], pat_verb = []\<rparr>"

definition pattern_Rekor_GetTile_0 :: gw_pattern where
  "pattern_Rekor_GetTile_0 =
     \<lparr>pat_version = 1, pat_ops = [2, 0, 2, 1, 2, 2, 1, 0, 4, 1, 5, 3, 3, 0, 4, 1, 5, 4],
      pat_pool = [''api'', ''v2'', ''tile'', ''L'', ''N''], pat_verb = []\<rparr>"

definition pattern_Rekor_GetEntryBundle_0 :: gw_pattern where
  "pattern_Rekor_GetEntryBundle_0 =
     \<lparr>pat_version = 1, pat_ops = [2, 0, 2, 1, 2, 2, 2, 3, 3, 0, 4, 1, 5, 4],
      pat_pool = [''api'', ''v2'', ''tile'', ''entries'', ''N''], pat_verb = []\<rparr>"

definition pattern_Rekor_GetCheckpoint_0 :: gw_pattern where
  "pattern_Rekor_GetCheckpoint_0 =
     \<lparr>pat_version = 1, pat_ops = [2, 0, 2, 1, 2, 2],
      pat_pool = [''api'', ''v2'', ''checkpoint''], pat_verb = []\<rparr>"

text \<open>The calls of \<open>mux.Handle\<close>, in their order; both registrations make the same ones.\<close>

definition rekor_registrations :: "(string \<times> gw_pattern \<times> rekor_handler) list" where
  "rekor_registrations =
     [(''POST'', pattern_Rekor_CreateEntry_0, H_CreateEntry),
      (''GET'', pattern_Rekor_GetTile_0, H_GetTile),
      (''GET'', pattern_Rekor_GetEntryBundle_0, H_GetEntryBundle),
      (''GET'', pattern_Rekor_GetCheckpoint_0, H_GetCheckpoint)]"

section \<open>The mux\<close>

text \<open>
  A mux with handlers of its own (the health endpoint of \<open>newHTTPProxy\<close>): \<open>mx_select\<close> is the
  number of the registration that gets a request, with the captured parameters.
\<close>

record mux_runtime =
  mx_registered :: "(string \<times> gw_pattern) list"
  mx_select :: "(string \<times> gw_pattern) list \<Rightarrow> string \<Rightarrow> string \<Rightarrow> (nat \<times> path_params) option"
  mx_other :: "nat option \<Rightarrow> string \<Rightarrow> string \<Rightarrow> response \<Rightarrow> response"

definition mux_handlers :: "mux_runtime \<Rightarrow> (string \<times> gw_pattern) list" where
  "mux_handlers mx = mx_registered mx @ map (\<lambda>(m, p, h). (m, p)) rekor_registrations"

fun handler_route :: "rekor_handler \<Rightarrow> path_params \<Rightarrow> bytes \<Rightarrow> rekor_route" where
  "handler_route H_CreateEntry ps body = POST_entries body"
| "handler_route H_GetTile ps body = GET_tile ps"
| "handler_route H_GetEntryBundle ps body = GET_tile_entries ps"
| "handler_route H_GetCheckpoint ps body = GET_checkpoint"

definition gateway_ServeHTTP ::
    "mux_runtime \<Rightarrow> 'q gateway_runtime \<Rightarrow> 's conn \<Rightarrow> 'q \<Rightarrow> string \<Rightarrow> string \<Rightarrow> bytes \<Rightarrow> response \<Rightarrow> 's \<Rightarrow>
     response result \<times> 's" where
  "gateway_ServeHTTP mx g conn q method path body w s =
     (case mx_select mx (mux_handlers mx) method path of
        None \<Rightarrow> (Ok (mx_other mx None method path w), s)
      | Some (i, ps) \<Rightarrow>
          (if i < length (mx_registered mx) then (Ok (mx_other mx (Some i) method path w), s)
           else
             (case rekor_registrations ! (i - length (mx_registered mx)) of
                (_, _, h) \<Rightarrow> RegisterRekorHandler g conn q (handler_route h ps body) w s)))"

text \<open>
  The operations of a pattern: 0 does nothing, 1 pushes a path segment, 2 pushes one that equals
  a string of the pool, 3 pushes the segments up to those that later operations take, 4 joins
  the topmost entries of the stack, 5 captures the topmost entry under a name of the pool.
\<close>

fun tail_segments :: "nat list \<Rightarrow> nat" where
  "tail_segments (op # arg # ops) = (if op = 1 \<or> op = 2 then 1 else 0) + tail_segments ops"
| "tail_segments _ = 0"

fun run_ops ::
    "string list \<Rightarrow> nat list \<Rightarrow> string list \<Rightarrow> string list \<Rightarrow> path_params \<Rightarrow> path_params option" where
  "run_ops pool (op # arg # ops) segs stack caps =
     (if op = 0 then run_ops pool ops segs stack caps
      else if op = 1 then
        (case segs of [] \<Rightarrow> None | x # xs \<Rightarrow> run_ops pool ops xs (x # stack) caps)
      else if op = 2 then
        (case segs of
           [] \<Rightarrow> None
         | x # xs \<Rightarrow> (if x = pool ! arg then run_ops pool ops xs (x # stack) caps else None))
      else if op = 3 then
        (let n = length segs - tail_segments ops in
         if length segs < tail_segments ops then None
         else run_ops pool ops (drop n segs) (join_slash (take n segs) # stack) caps)
      else if op = 4 then
        run_ops pool ops segs (join_slash (rev (take arg stack)) # drop arg stack) caps
      else if op = 5 then
        (case stack of [] \<Rightarrow> None | v # vs \<Rightarrow> run_ops pool ops segs vs (caps(pool ! arg \<mapsto> v)))
      else None)"
| "run_ops pool [] segs stack caps = (if segs = [] then Some caps else None)"
| "run_ops pool [op] segs stack caps = None"

definition pattern_match :: "gw_pattern \<Rightarrow> string list \<Rightarrow> path_params option" where
  "pattern_match p segs = run_ops (pat_pool p) (pat_ops p) segs [] Map.empty"

text \<open>The first match in a list with the latest registration first, by its number.\<close>

fun first_match ::
    "(string \<times> gw_pattern) list \<Rightarrow> string \<Rightarrow> string list \<Rightarrow> (nat \<times> path_params) option" where
  "first_match [] m segs = None"
| "first_match ((m', p) # rs) m segs =
     (case (if m = m' then pattern_match p segs else None) of
        Some ps \<Rightarrow> Some (length rs, ps)
      | None \<Rightarrow> first_match rs m segs)"

definition mux_documented :: "mux_runtime \<Rightarrow> bool" where
  "mux_documented mx \<longleftrightarrow>
     list_all (\<lambda>(m, p). pat_verb p = []) (mx_registered mx)
   \<and> (\<forall>regs m path r. list_all (\<lambda>(m, p). pat_verb p = []) regs \<longrightarrow>
        first_match (rev regs) m (split_slash path) = Some r \<longrightarrow>
        mx_select mx regs m (CHR ''/'' # path) = Some r)"

section \<open>Which handler serves a URL\<close>

text \<open>
  The API as its documentation gives it: \<open>POST /api/v2/log/entries\<close>,
  \<open>GET /api/v2/tile/entries/{N=**}\<close>, \<open>GET /api/v2/tile/{L}/{N=**}\<close> and
  \<open>GET /api/v2/checkpoint\<close>.
\<close>

definition api_route :: "string \<Rightarrow> string list \<Rightarrow> (rekor_handler \<times> path_params) option" where
  "api_route m segs =
     (case segs of
        a # v # t # rest \<Rightarrow>
          (if a \<noteq> ''api'' \<or> v \<noteq> ''v2'' then None
           else if m = ''POST'' then
             (if t = ''log'' \<and> rest = [''entries''] then Some (H_CreateEntry, Map.empty) else None)
           else if m = ''GET'' then
             (if t = ''checkpoint'' \<and> rest = [] then Some (H_GetCheckpoint, Map.empty)
              else if t = ''tile'' then
                (case rest of
                   [] \<Rightarrow> None
                 | l # n \<Rightarrow>
                     (if l = ''entries'' then Some (H_GetEntryBundle, [''N'' \<mapsto> join_slash n])
                      else Some (H_GetTile, [''L'' \<mapsto> l, ''N'' \<mapsto> join_slash n])))
              else None)
           else None)
      | _ \<Rightarrow> None)"

text \<open>The programs, run on any path.\<close>

lemmas pattern_defs = pattern_Rekor_CreateEntry_0_def pattern_Rekor_GetTile_0_def
  pattern_Rekor_GetEntryBundle_0_def pattern_Rekor_GetCheckpoint_0_def

lemma match_CreateEntry:
  "pattern_match pattern_Rekor_CreateEntry_0 segs =
     (if segs = [''api'', ''v2'', ''log'', ''entries''] then Some Map.empty else None)"
  by (auto simp: pattern_match_def pattern_defs split: list.splits)

lemma match_GetCheckpoint:
  "pattern_match pattern_Rekor_GetCheckpoint_0 segs =
     (if segs = [''api'', ''v2'', ''checkpoint''] then Some Map.empty else None)"
  by (auto simp: pattern_match_def pattern_defs split: list.splits)

lemma match_GetEntryBundle:
  "pattern_match pattern_Rekor_GetEntryBundle_0 segs =
     (if take 4 segs = [''api'', ''v2'', ''tile'', ''entries'']
      then Some [''N'' \<mapsto> join_slash (drop 4 segs)] else None)"
  by (auto simp: pattern_match_def pattern_defs Let_def numeral_eq_Suc split: list.splits)

lemma match_GetTile:
  "pattern_match pattern_Rekor_GetTile_0 segs =
     (if take 3 segs = [''api'', ''v2'', ''tile''] \<and> 3 < length segs
      then Some [''L'' \<mapsto> segs ! 3, ''N'' \<mapsto> join_slash (drop 4 segs)] else None)"
  by (auto simp: pattern_match_def pattern_defs Let_def numeral_eq_Suc split: list.splits)

lemmas match_simps = match_CreateEntry match_GetTile match_GetEntryBundle match_GetCheckpoint

text \<open>
  The tile pattern matches the URLs of entry bundles as well; the order of the registrations
  decides between the two.
\<close>

lemma tile_pattern_overlaps:
  assumes "pattern_match pattern_Rekor_GetEntryBundle_0 segs = Some ps"
  shows "pattern_match pattern_Rekor_GetTile_0 segs = Some (ps(''L'' \<mapsto> ''entries''))"
proof -
  have t: "take 4 segs = [''api'', ''v2'', ''tile'', ''entries'']" "ps = [''N'' \<mapsto> join_slash (drop 4 segs)]"
    using assms by (auto simp: match_simps split: if_splits)
  obtain n where "segs = [''api'', ''v2'', ''tile'', ''entries''] @ n"
    using append_take_drop_id [of 4 segs] t(1) by metis
  then show ?thesis by (simp add: t(2) match_simps fun_upd_twist)
qed

fun handler_index :: "rekor_handler \<Rightarrow> nat" where
  "handler_index H_CreateEntry = 0"
| "handler_index H_GetTile = 1"
| "handler_index H_GetEntryBundle = 2"
| "handler_index H_GetCheckpoint = 3"

lemma handler_index_nth [simp]:
  "rekor_registrations ! handler_index h =
     (if h = H_CreateEntry then ''POST'' else ''GET'',
      case h of H_CreateEntry \<Rightarrow> pattern_Rekor_CreateEntry_0 | H_GetTile \<Rightarrow> pattern_Rekor_GetTile_0
      | H_GetEntryBundle \<Rightarrow> pattern_Rekor_GetEntryBundle_0
      | H_GetCheckpoint \<Rightarrow> pattern_Rekor_GetCheckpoint_0, h)"
  by (cases h) (simp_all add: rekor_registrations_def)

lemma api_route_match:
  "first_match (rev (map (\<lambda>(m, p, h). (m, p)) rekor_registrations)) m segs =
     map_option (map_prod handler_index id) (api_route m segs)"
  by (auto simp: rekor_registrations_def match_simps api_route_def numeral_eq_Suc
      split: list.splits)

lemma first_match_append:
  "first_match (xs @ ys) m segs =
     (case first_match xs m segs of
        Some (i, ps) \<Rightarrow> Some (i + length ys, ps)
      | None \<Rightarrow> first_match ys m segs)"
  by (induction xs m segs rule: first_match.induct) (auto split: option.splits)

lemma mux_selects_api:
  assumes "mux_documented mx" "api_route method (split_slash path) = Some (h, ps)"
  shows "mx_select mx (mux_handlers mx) method (CHR ''/'' # path) =
    Some (handler_index h + length (mx_registered mx), ps)"
proof -
  have "first_match (rev (mux_handlers mx)) method (split_slash path) =
      Some (handler_index h + length (mx_registered mx), ps)"
    using assms(2) by (simp add: mux_handlers_def first_match_append api_route_match)
  moreover have "list_all (\<lambda>(m, p). pat_verb p = []) (mux_handlers mx)"
    using assms(1) by (simp add: mux_documented_def mux_handlers_def rekor_registrations_def pattern_defs)
  ultimately show ?thesis using assms(1) by (simp add: mux_documented_def)
qed

lemma ServeHTTP_selected:
  "mx_select mx (mux_handlers mx) method path = Some (handler_index h + length (mx_registered mx), ps) \<Longrightarrow>
   gateway_ServeHTTP mx g conn q method path body w s =
     RegisterRekorHandlerClient g conn q (handler_route h ps body) w s"
  by (simp add: gateway_ServeHTTP_def RegisterRekorHandler_def NewRekorClient_def)

text \<open>
  C27. The gateway serves the documented API: a request whose method and path are a documented URL
  reaches the handler of that URL with the parameters of the path, whatever else is registered
  on the mux.  Entry bundles are not served as tiles, although the tile pattern matches them.
\<close>

theorem gateway_serves_api:
  assumes "mux_documented mx" "api_route method (split_slash path) = Some (h, ps)"
  shows "gateway_ServeHTTP mx g conn q method (CHR ''/'' # path) body w s =
    RegisterRekorHandlerClient g conn q (handler_route h ps body) w s"
  by (rule ServeHTTP_selected [OF mux_selects_api [OF assms]])

text \<open>A mux that keeps to the documentation, with a health endpoint.\<close>

definition demo_mux :: mux_runtime where
  "demo_mux =
     \<lparr>mx_registered = [(''GET'', \<lparr>pat_version = 1, pat_ops = [2, 0], pat_pool = [''healthz''], pat_verb = []\<rparr>)],
      mx_select = (\<lambda>regs m path. case path of [] \<Rightarrow> None | c # p \<Rightarrow> first_match (rev regs) m (split_slash p)),
      mx_other = (\<lambda>i m path w. w \<lparr>rw_status := Some (if i = None then 404 else 200)\<rparr>)\<rparr>"

lemma demo_mux_documented: "mux_documented demo_mux"
  by (simp add: mux_documented_def demo_mux_def)

theorem gateway_serves_api_witness:
  "gateway_ServeHTTP demo_mux demo_gateway (direct_conn (rekor_server demo_deps demo_server)) ()
     ''GET'' ''/api/v2/tile/entries/x001/002'' [] (fresh_response []) (demo_call []) =
   RegisterRekorHandlerClient demo_gateway (direct_conn (rekor_server demo_deps demo_server)) ()
     (GET_tile_entries [''N'' \<mapsto> ''x001/002'']) (fresh_response []) (demo_call [])"
proof -
  have "api_route ''GET'' (split_slash ''api/v2/tile/entries/x001/002'') =
      Some (H_GetEntryBundle, [''N'' \<mapsto> ''x001/002''])"
    by (simp add: api_route_def)
  from gateway_serves_api [OF demo_mux_documented this] show ?thesis by simp
qed

end
