(* ===== verification/Freeze_Checkpoint.thy ===== *)
theory Freeze_Checkpoint
  imports Serve_Cmd
begin

text \<open>
  \<open>cmd/freeze-checkpoint/gcp\<close>: the command that adds the line \<open>Log frozen\<close> to the final
  checkpoint.  The state is the checkpoint object of the bucket; the object writer publishes what
  was written when it is closed, and a close that fails is taken to publish nothing.  Notes, the checkpoint format and the storage client are
  parameters, and so is the formatted time.
\<close>

text \<open>The marker: the words, an em dash in UTF-8, and a space.\<close>

definition frozenString :: string where
  "frozenString =
     ''Log frozen '' @ [char_of (226 :: nat), char_of (128 :: nat), char_of (148 :: nat)] @ '' ''"

record freeze_deps =
  fz_pki :: pki
  fz_NewClient :: "unit result"
  fz_NewReader :: "bytes \<Rightarrow> bytes result"
  fz_Open :: "bytes \<Rightarrow> noteVerifier \<Rightarrow> string result"
  fz_Sign :: "string \<Rightarrow> noteSigner \<Rightarrow> bytes result"
  fz_Unmarshal :: "bytes \<Rightarrow> (Checkpoint \<times> bytes) result"
  fz_Marshal :: "Checkpoint \<Rightarrow> bytes"
  fz_Now :: string
  fz_Write :: "bytes \<Rightarrow> unit result"
  fz_Close :: "unit result"

text \<open>A sigstore signer-verifier: both views of one key.\<close>

record signer_verifier =
  sv_signer :: signer
  sv_verifier :: sig_verifier

definition freeze_hashAlgMap :: "(string \<times> crypto_hash) list" where
  "freeze_hashAlgMap = [(''sha256'', SHA256), (''sha384'', SHA384), (''sha512'', SHA512)]"

definition freeze_signer_options ::
    "viper \<Rightarrow> 'rpc list \<Rightarrow> 'rpc gcp_Option list result" where
  "freeze_signer_options v rpcOpts =
     (if GetString v ''signer-filepath'' \<noteq> []
      then Ok [gcp_WithFile (GetString v ''signer-filepath'') (GetString v ''signer-password'')]
      else if GetString v ''signer-kmskey'' \<noteq> [] then
        (case map_of freeze_hashAlgMap (GetString v ''signer-kmshash'') of
           None \<Rightarrow> Err (ErrText (''invalid hash algorithm for --signer-kmshash: ''
                                @ GetString v ''signer-kmshash''))
         | Some hashAlg \<Rightarrow> Ok [gcp_WithKMS (GetString v ''signer-kmskey'') hashAlg rpcOpts])
      else if GetString v ''signer-tink-kek-uri'' \<noteq> []
      then Ok [gcp_WithTink (GetString v ''signer-tink-kek-uri'') (GetString v ''signer-tink-keyset-path'')]
      else Err (ErrText ''must provide a signer using a file, KMS, or Tink''))"

definition getSignerVerifier ::
    "(signer_verifier, 'key, 'aead, 'handle, 'client, 'rpc) signer_deps \<Rightarrow> (nat \<Rightarrow> int \<Rightarrow> 'rpc) \<Rightarrow>
     viper \<Rightarrow> signer_verifier result" where
  "getSignerVerifier sd retryOption v =
     (let rpcOpts = [retryOption (GetUint v ''gcp-kms-retries'') (uint (GetUint32 v ''gcp-kms-timeout'') * seconds)]
      in go_bind (freeze_signer_options v rpcOpts) id (\<lambda>opts.
         go_bind (fst (gcp_New sd opts [])) (Wrap ''initializing key signer'') Ok))"

definition getNoteSigner :: "freeze_deps \<Rightarrow> viper \<Rightarrow> signer \<Rightarrow> noteSigner result" where
  "getNoteSigner fz v sg =
     (let origin = GetString v ''hostname''
      in go_bind (NewNoteSigner (fz_pki fz) origin sg) (Wrap ''initializing note signer'') Ok)"

definition getNoteVerifier :: "freeze_deps \<Rightarrow> viper \<Rightarrow> sig_verifier \<Rightarrow> noteVerifier result" where
  "getNoteVerifier fz v vf =
     (let origin = GetString v ''hostname''
      in go_bind (NewNoteVerifier (fz_pki fz) origin vf) (Wrap ''initializing note verifier'') Ok)"

text \<open>\<open>objectAccess\<close>: a reader of the object's content (the writer has no state of its own).\<close>

definition objectAccess :: "freeze_deps \<Rightarrow> bytes \<Rightarrow> bytes result result" where
  "objectAccess fz obj =
     go_bind (fz_NewClient fz) (Wrap ''getting GCS client'') (\<lambda>_.
     case fz_NewReader fz obj of
       Panic \<Rightarrow> Panic
     | Err e \<Rightarrow> Err (Wrap ''getting object reader'' e)
     | Ok b \<Rightarrow> Ok (Ok b))"

definition getCheckpoint :: "freeze_deps \<Rightarrow> bytes result \<Rightarrow> noteVerifier \<Rightarrow> Checkpoint option result" where
  "getCheckpoint fz objReader nv =
     go_bind objReader (Wrap ''reading object'') (\<lambda>rawCheckpoint.
     go_bind (fz_Open fz rawCheckpoint nv) (Wrap ''opening checkpoint'') (\<lambda>txt.
     go_bind (fz_Unmarshal fz txt) (Wrap ''parsing checkpoint'') (\<lambda>(checkpoint, rest).
     if Contains rest frozenString then Ok None else Ok (Some checkpoint))))"

text \<open>\<open>updateCheckpoint\<close>: the bytes handed to the object writer.\<close>

definition updateCheckpoint :: "freeze_deps \<Rightarrow> noteSigner \<Rightarrow> Checkpoint \<Rightarrow> bytes result" where
  "updateCheckpoint fz ns checkpoint =
     (let buf = fz_Marshal fz checkpoint @ frozenString @ fz_Now fz @ newline in
      go_bind (fz_Sign fz buf ns) (Wrap ''re-signing checkpoint'') (\<lambda>signedNote.
      go_bind (fz_Write fz signedNote) (Wrap ''writing checkpoint'') (\<lambda>_. Ok signedNote)))"

datatype freeze_outcome = Frozen | AlreadyFrozen

text \<open>The command: the outcome, or the error it exits with, and the object afterwards.\<close>

definition freeze_object ::
    "freeze_deps \<Rightarrow> noteSigner \<Rightarrow> noteVerifier \<Rightarrow> bytes \<Rightarrow> freeze_outcome result \<times> bytes" where
  "freeze_object fz ns nv obj =
     (case go_bind (objectAccess fz obj) id (\<lambda>r. getCheckpoint fz r nv) of
        Panic \<Rightarrow> (Panic, obj)
      | Err e \<Rightarrow> (Err e, obj)
      | Ok None \<Rightarrow> (Ok AlreadyFrozen, obj)
      | Ok (Some checkpoint) \<Rightarrow>
          (case updateCheckpoint fz ns checkpoint of
             Panic \<Rightarrow> (Panic, obj)
           | Err e \<Rightarrow> (Err e, obj)
           | Ok signedNote \<Rightarrow>
               (case fz_Close fz of
                  Panic \<Rightarrow> (Panic, obj)
                | Err e \<Rightarrow> (Err (Wrap ''closing object writer'' e), obj)
                | Ok _ \<Rightarrow> (Ok Frozen, signedNote))))"

definition freeze_run ::
    "freeze_deps \<Rightarrow> (signer_verifier, 'key, 'aead, 'handle, 'client, 'rpc) signer_deps \<Rightarrow>
     (nat \<Rightarrow> int \<Rightarrow> 'rpc) \<Rightarrow> viper \<Rightarrow> bytes \<Rightarrow> freeze_outcome result \<times> bytes" where
  "freeze_run fz sd retryOption v obj =
     (if GetString v ''gcp-bucket'' = [] then (Err (ErrText ''must provide --gcs-bucket''), obj)
      else if GetString v ''hostname'' = []
      then (Err (ErrText (''must provide --hostname for the rekor server'' @ [char_of (39 :: nat)]
                          @ ''s identity'')), obj)
      else
        case go_bind (getSignerVerifier sd retryOption v) id (\<lambda>sv.
             go_bind (getNoteSigner fz v (sv_signer sv)) id (\<lambda>ns.
             go_bind (getNoteVerifier fz v (sv_verifier sv)) id (\<lambda>nv. Ok (ns, nv)))) of
          Panic \<Rightarrow> (Panic, obj)
        | Err e \<Rightarrow> (Err e, obj)
        | Ok (ns, nv) \<Rightarrow> freeze_object fz ns nv obj)"

section \<open>Freezing twice\<close>

text \<open>
  What the libraries document: a note opened with the verifier of the signer's key gives the text
  that was signed, and a checkpoint that was parsed and is marshalled again is read back, with
  whatever follows it as the rest.  The client reads what was last written.
\<close>

definition notes_open :: "freeze_deps \<Rightarrow> noteSigner \<Rightarrow> noteVerifier \<Rightarrow> bool" where
  "notes_open fz ns nv \<longleftrightarrow> (\<forall>t b. fz_Sign fz t ns = Ok b \<longrightarrow> fz_Open fz b nv = Ok t)"

definition checkpoints_parse :: "freeze_deps \<Rightarrow> bool" where
  "checkpoints_parse fz \<longleftrightarrow>
     (\<forall>b cp r ext. fz_Unmarshal fz b = Ok (cp, r) \<longrightarrow>
        fz_Unmarshal fz (fz_Marshal fz cp @ ext) = Ok (cp, ext))"

definition object_reads :: "freeze_deps \<Rightarrow> bool" where
  "object_reads fz \<longleftrightarrow> (\<forall>b. fz_NewReader fz b = Ok b)"

lemma frozen_contains: "Contains (frozenString @ xs) frozenString"
  using Contains_append [of "[]" frozenString xs] by simp

text \<open>
  C25. Freezing is idempotent and keeps the tree: after a run that froze the checkpoint, the object
  still holds the same origin, size and root hash, now with the frozen line, and a second run
  reports that the log is already frozen and leaves the object as it is.  A run that fails leaves
  the object unchanged.
\<close>

theorem freeze_idempotent:
  assumes "notes_open fz ns nv" "checkpoints_parse fz" "object_reads fz"
    and "freeze_object fz ns nv obj = (r, obj')"
  shows "(r = Ok Frozen \<longrightarrow>
      freeze_object fz ns nv obj' = (Ok AlreadyFrozen, obj')
    \<and> (\<exists>cp txt0 rest0 rest. fz_Open fz obj nv = Ok txt0 \<and> fz_Unmarshal fz txt0 = Ok (cp, rest0)
         \<and> \<not> Contains rest0 frozenString
         \<and> fz_Open fz obj' nv = Ok (fz_Marshal fz cp @ rest)
         \<and> fz_Unmarshal fz (fz_Marshal fz cp @ rest) = Ok (cp, rest)
         \<and> Contains rest frozenString))
    \<and> (r \<noteq> Ok Frozen \<longrightarrow> obj' = obj)"
proof -
  have read: "fz_NewReader fz b = Ok b" for b using assms(3) by (simp add: object_reads_def)
  show ?thesis
  proof (cases "r = Ok Frozen")
    case False
    then show ?thesis
      using assms(4) by (auto simp: freeze_object_def split: result.splits option.splits)
  next
    case True
    then obtain cp where cl: "fz_NewClient fz = Ok ()"
        and c: "getCheckpoint fz (Ok obj) nv = Ok (Some cp)" "updateCheckpoint fz ns cp = Ok obj'"
      using assms(4)
      by (auto simp: freeze_object_def objectAccess_def read go_bind_eq_Ok
          split: result.splits option.splits)
    obtain txt0 rest0 where t: "fz_Open fz obj nv = Ok txt0" "fz_Unmarshal fz txt0 = Ok (cp, rest0)"
        "\<not> Contains rest0 frozenString"
      using c(1) by (auto simp: getCheckpoint_def go_bind_eq_Ok split: if_splits)
    define rest where "rest = frozenString @ fz_Now fz @ newline"
    have "fz_Sign fz (fz_Marshal fz cp @ rest) ns = Ok obj'"
      using c(2) by (auto simp: updateCheckpoint_def go_bind_eq_Ok rest_def Let_def)
    then have o: "fz_Open fz obj' nv = Ok (fz_Marshal fz cp @ rest)"
      using assms(1) by (simp add: notes_open_def)
    have u: "fz_Unmarshal fz (fz_Marshal fz cp @ rest) = Ok (cp, rest)"
      using assms(2) t(2) by (auto simp: checkpoints_parse_def)
    have f: "Contains rest frozenString" unfolding rest_def by (rule frozen_contains)
    have "freeze_object fz ns nv obj' = (Ok AlreadyFrozen, obj')"
      using cl o u f by (simp add: freeze_object_def objectAccess_def read getCheckpoint_def)
    then show ?thesis using True t o u f by blast
  qed
qed

text \<open>The command reads and writes under the same key: its signer and verifier have one hash.\<close>

lemma freeze_one_key:
  assumes "sigv_PublicKey (sv_verifier sv) = signer_PublicKey (sv_signer sv)"
    and "getNoteSigner fz v (sv_signer sv) = Ok ns"
    and "getNoteVerifier fz v (sv_verifier sv) = Ok nv"
  shows "noteVerifier_Name nv = noteSigner_Name ns" "noteVerifier_KeyHash nv = noteSigner_KeyHash ns"
  using assms
  by (auto simp: getNoteSigner_def getNoteVerifier_def NewNoteSigner_def NewNoteVerifier_def
      go_bind_eq_Ok note_method_defs Let_def split: if_splits)

section \<open>A concrete bucket\<close>

text \<open>A prefix code for checkpoints: each byte of a string is announced, a full stop ends it.\<close>

fun put_string :: "string \<Rightarrow> bytes" where
  "put_string [] = ''.''"
| "put_string (c # s) = CHR ''x'' # c # put_string s"

fun take_string :: "bytes \<Rightarrow> (string \<times> bytes) option" where
  "take_string (d # r) =
     (if d = CHR ''.'' then Some ([], r)
      else case r of
        c # r' \<Rightarrow> (case take_string r' of Some (s, t) \<Rightarrow> Some (c # s, t) | None \<Rightarrow> None)
      | [] \<Rightarrow> None)"
| "take_string [] = None"

lemma take_put_string [simp]: "take_string (put_string s @ t) = Some (s, t)"
  by (induction s) simp_all

definition demo_marshal :: "Checkpoint \<Rightarrow> bytes" where
  "demo_marshal cp = put_string (cp_Origin cp) @ put_string (FormatUint (unat (cp_Size cp)))
     @ put_string (cp_Hash cp)"

definition demo_unmarshal :: "bytes \<Rightarrow> (Checkpoint \<times> bytes) result" where
  "demo_unmarshal b =
     (case take_string b of
        None \<Rightarrow> Err (ErrText ''origin'')
      | Some (ori, b1) \<Rightarrow>
          (case take_string b1 of
             None \<Rightarrow> Err (ErrText ''size'')
           | Some (sz, b2) \<Rightarrow>
               (case (parse_digits sz, take_string b2) of
                  (Some n, Some (h, ext)) \<Rightarrow>
                    Ok (\<lparr>cp_Origin = ori, cp_Size = word_of_nat n, cp_Hash = h\<rparr>, ext)
                | _ \<Rightarrow> Err (ErrText ''hash''))))"

definition demo_freeze :: freeze_deps where
  "demo_freeze =
     \<lparr>fz_pki = demo_pkix, fz_NewClient = Ok (), fz_NewReader = Ok,
      fz_Open = (\<lambda>b nv. Ok b), fz_Sign = (\<lambda>t ns. Ok t),
      fz_Unmarshal = demo_unmarshal, fz_Marshal = demo_marshal, fz_Now = ''Mon'',
      fz_Write = (\<lambda>b. Ok ()), fz_Close = Ok ()\<rparr>"

lemma demo_parse_back: "demo_unmarshal (demo_marshal cp @ ext) = Ok (cp, ext)"
  by (simp add: demo_unmarshal_def demo_marshal_def)

lemma demo_freeze_documented:
  "notes_open demo_freeze ns nv" "checkpoints_parse demo_freeze" "object_reads demo_freeze"
  by (simp_all add: notes_open_def checkpoints_parse_def object_reads_def demo_freeze_def
      demo_parse_back)

definition demo_checkpoint :: Checkpoint where
  "demo_checkpoint = \<lparr>cp_Origin = ''a.b'', cp_Size = 7, cp_Hash = ''root''\<rparr>"

definition demo_ns :: noteSigner where
  "demo_ns = \<lparr>noteSigner_name = ''a.b'', noteSigner_hash = 0, noteSigner_sign = Ok\<rparr>"

definition demo_nv :: noteVerifier where
  "demo_nv = \<lparr>noteVerifier_name = ''a.b'', noteVerifier_hash = 0, noteVerifier_verify = (\<lambda>m s. Ok (m = s))\<rparr>"

theorem freeze_idempotent_witness:
  "\<exists>obj'. freeze_object demo_freeze demo_ns demo_nv (demo_marshal demo_checkpoint) = (Ok Frozen, obj')
     \<and> freeze_object demo_freeze demo_ns demo_nv obj' = (Ok AlreadyFrozen, obj')"
proof -
  let ?obj = "demo_marshal demo_checkpoint"
  have "getCheckpoint demo_freeze (Ok ?obj) demo_nv = Ok (Some demo_checkpoint)"
    using demo_parse_back [of demo_checkpoint "[]"]
    by (simp add: getCheckpoint_def demo_freeze_def Contains_def frozenString_def)
  moreover have "objectAccess demo_freeze ?obj = Ok (Ok ?obj)" "fz_Close demo_freeze = Ok ()"
    "\<exists>b. updateCheckpoint demo_freeze demo_ns demo_checkpoint = Ok b"
    by (simp_all add: objectAccess_def updateCheckpoint_def demo_freeze_def)
  ultimately obtain obj' where o: "freeze_object demo_freeze demo_ns demo_nv ?obj = (Ok Frozen, obj')"
    by (auto simp: freeze_object_def)
  show ?thesis using o freeze_idempotent [OF demo_freeze_documented o] by simp
qed

end
