(* ===== verification/Command_Flags.thy ===== *)
theory Command_Flags
  imports Freeze_Checkpoint
begin

text \<open>
  The \<open>init\<close> functions of the five binaries (\<open>cmd/rekor-server/*/app/serve.go\<close> and
  \<open>cmd/freeze-checkpoint/gcp/app/root.go\<close>): the flags each declares, with types and
  defaults.  \<open>viper.BindPFlags\<close> is a parameter; an error of it ends the process.
\<close>

section \<open>The declared flags\<close>

definition signer_flags :: "(string \<times> flag_value) list" where
  "signer_flags =
     [(''signer-filepath'', FlagString []), (''signer-password'', FlagString []),
      (''signer-kmskey'', FlagString []), (''signer-kmshash'', FlagString ''sha256''),
      (''signer-tink-kek-uri'', FlagString []), (''signer-tink-keyset-path'', FlagString [])]"

definition gcp_kms_flags :: "(string \<times> flag_value) list" where
  "gcp_kms_flags = [(''gcp-kms-retries'', FlagUint 0), (''gcp-kms-timeout'', FlagUint32 0)]"

type_synonym flag_set = "(string \<times> flag_value) list"

definition bind_flags :: "(flag_set \<Rightarrow> unit result) \<Rightarrow> flag_set result \<Rightarrow> flag_set \<Rightarrow> flag_set result" where
  "bind_flags BindPFlags initialized own =
     go_bind initialized id (\<lambda>shared.
     let flags = shared @ own in
     go_bind (BindPFlags flags) id (\<lambda>_. Ok flags))"

definition gcp_init :: "(flag_set \<Rightarrow> unit result) \<Rightarrow> flag_set result \<Rightarrow> flag_set result" where
  "gcp_init BindPFlags initialized =
     bind_flags BindPFlags initialized
       ([(''gcp-bucket'', FlagString []), (''gcp-spanner'', FlagString [])]
        @ signer_flags @ gcp_kms_flags)"

definition aws_init :: "(flag_set \<Rightarrow> unit result) \<Rightarrow> flag_set result \<Rightarrow> flag_set result" where
  "aws_init BindPFlags initialized =
     bind_flags BindPFlags initialized
       ([(''aws-bucket'', FlagString []), (''aws-mysql-dsn'', FlagString []),
         (''aws-max-open-conns'', FlagInt 0), (''aws-max-idle-conns'', FlagInt 0)] @ signer_flags)"

definition gcpcloudsql_init :: "(flag_set \<Rightarrow> unit result) \<Rightarrow> flag_set result \<Rightarrow> flag_set result" where
  "gcpcloudsql_init BindPFlags initialized =
     bind_flags BindPFlags initialized
       ([(''gcp-cloudsql-dsn'', FlagString []), (''gcp-bucket'', FlagString [])]
        @ signer_flags @ gcp_kms_flags)"

definition posix_init :: "(flag_set \<Rightarrow> unit result) \<Rightarrow> flag_set result \<Rightarrow> flag_set result" where
  "posix_init BindPFlags initialized =
     bind_flags BindPFlags initialized
       [(''storage-dir'', FlagString []), (''signer-filepath'', FlagString []),
        (''signer-password'', FlagString [])]"

text \<open>The freeze command does not use the shared flags.\<close>

definition freeze_init :: "(flag_set \<Rightarrow> unit result) \<Rightarrow> flag_set result" where
  "freeze_init BindPFlags =
     bind_flags BindPFlags (Ok [])
       ([(''gcp-bucket'', FlagString []), (''hostname'', FlagString [])] @ signer_flags @ gcp_kms_flags)"

section \<open>Values of flags\<close>

text \<open>What the getters of \<open>viper\<close> return for a set of flags: values given come first.\<close>

definition viper_of :: "flag_set \<Rightarrow> viper" where
  "viper_of fl =
     \<lparr>GetString = (\<lambda>f. case map_of fl f of Some (FlagString s) \<Rightarrow> s | _ \<Rightarrow> []),
      GetBool = (\<lambda>f. case map_of fl f of Some (FlagBool b) \<Rightarrow> b | _ \<Rightarrow> False),
      GetInt = (\<lambda>f. case map_of fl f of Some (FlagInt i) \<Rightarrow> i | _ \<Rightarrow> 0),
      GetUint = (\<lambda>f. case map_of fl f of Some (FlagUint n) \<Rightarrow> n | _ \<Rightarrow> 0),
      GetUint32 = (\<lambda>f. case map_of fl f of Some (FlagUint32 n) \<Rightarrow> n | _ \<Rightarrow> 0),
      GetDuration = (\<lambda>f. case map_of fl f of Some (FlagDuration d) \<Rightarrow> d | _ \<Rightarrow> 0),
      GetStringSlice = (\<lambda>f. case map_of fl f of Some (FlagStringSlice l) \<Rightarrow> Some l | _ \<Rightarrow> None)\<rparr>"

text \<open>Two configurations agree on a flag at the type it is declared with.\<close>

fun agree_on :: "viper \<Rightarrow> viper \<Rightarrow> string \<times> flag_value \<Rightarrow> bool" where
  "agree_on v v' (f, FlagBool _) = (GetBool v f = GetBool v' f)"
| "agree_on v v' (f, FlagInt _) = (GetInt v f = GetInt v' f)"
| "agree_on v v' (f, FlagUint _) = (GetUint v f = GetUint v' f)"
| "agree_on v v' (f, FlagUint32 _) = (GetUint32 v f = GetUint32 v' f)"
| "agree_on v v' (f, FlagString _) = (GetString v f = GetString v' f)"
| "agree_on v v' (f, FlagDuration _) = (GetDuration v f = GetDuration v' f)"
| "agree_on v v' (f, FlagStringSlice _) = (GetStringSlice v f = GetStringSlice v' f)"

definition agree :: "flag_set \<Rightarrow> viper \<Rightarrow> viper \<Rightarrow> bool" where
  "agree fl v v' \<longleftrightarrow> list_all (agree_on v v') fl"

lemma bind_flags_Ok [go_result]:
  "bind_flags b i own = Ok fl \<longleftrightarrow> (\<exists>shared. i = Ok shared \<and> b (shared @ own) = Ok () \<and> fl = shared @ own)"
  by (auto simp: bind_flags_def go_bind_eq_Ok Let_def)

lemma agree_append [simp]: "agree (a @ b) v v' \<longleftrightarrow> agree a v v' \<and> agree b v v'"
  by (simp add: agree_def)

lemma signer_flags_agree:
  "agree signer_flags v v' \<longleftrightarrow>
     GetString v ''signer-filepath'' = GetString v' ''signer-filepath''
   \<and> GetString v ''signer-password'' = GetString v' ''signer-password''
   \<and> GetString v ''signer-kmskey'' = GetString v' ''signer-kmskey''
   \<and> GetString v ''signer-kmshash'' = GetString v' ''signer-kmshash''
   \<and> GetString v ''signer-tink-kek-uri'' = GetString v' ''signer-tink-kek-uri''
   \<and> GetString v ''signer-tink-keyset-path'' = GetString v' ''signer-tink-keyset-path''"
  by (simp add: agree_def signer_flags_def)

lemma signer_options_agree:
  "agree signer_flags v v' \<Longrightarrow> signer_options hs f k t v = signer_options hs f k t v'"
  "agree signer_flags v v' \<Longrightarrow> freeze_signer_options v r = freeze_signer_options v' r"
  unfolding signer_flags_agree signer_options_def freeze_signer_options_def
  by (elim conjE; simp only:)+

lemma cli_agree:
  assumes "cli_Initialize ss td host = Ok shared" "agree shared v v'"
  shows "GetBool v ''read-only'' = GetBool v' ''read-only''"
    "GetInt v ''http-port'' = GetInt v' ''http-port''"
    "GetString v ''http-address'' = GetString v' ''http-address''"
    "GetInt v ''http-metrics-port'' = GetInt v' ''http-metrics-port''"
    "GetInt v ''grpc-port'' = GetInt v' ''grpc-port''"
    "GetString v ''grpc-address'' = GetString v' ''grpc-address''"
    "GetDuration v ''server-timeout'' = GetDuration v' ''server-timeout''"
    "GetInt v ''max-request-body-size'' = GetInt v' ''max-request-body-size''"
    "GetString v ''log-level'' = GetString v' ''log-level''"
    "GetBool v ''request-response-logging'' = GetBool v' ''request-response-logging''"
    "GetString v ''grpc-tls-cert-file'' = GetString v' ''grpc-tls-cert-file''"
    "GetString v ''grpc-tls-key-file'' = GetString v' ''grpc-tls-key-file''"
    "GetString v ''http-tls-cert-file'' = GetString v' ''http-tls-cert-file''"
    "GetString v ''http-tls-key-file'' = GetString v' ''http-tls-key-file''"
    "GetString v ''hostname'' = GetString v' ''hostname''"
    "GetUint v ''batch-max-size'' = GetUint v' ''batch-max-size''"
    "GetDuration v ''batch-max-age'' = GetDuration v' ''batch-max-age''"
    "GetDuration v ''checkpoint-interval'' = GetDuration v' ''checkpoint-interval''"
    "GetUint v ''pushback-max-outstanding'' = GetUint v' ''pushback-max-outstanding''"
    "GetDuration v ''tlog-timeout'' = GetDuration v' ''tlog-timeout''"
    "GetBool v ''persistent-antispam'' = GetBool v' ''persistent-antispam''"
    "GetUint v ''antispam-max-batch-size'' = GetUint v' ''antispam-max-batch-size''"
    "GetUint v ''antispam-pushback-threshold'' = GetUint v' ''antispam-pushback-threshold''"
    "GetString v ''witness-policy-path'' = GetString v' ''witness-policy-path''"
    "GetStringSlice v ''client-signing-algorithms'' = GetStringSlice v' ''client-signing-algorithms''"
  using assms by (auto simp: cli_Initialize_def go_bind_eq_Ok Let_def agree_def)

lemma run_server_agree:
  assumes "cli_Initialize ss td host = Ok shared" "agree shared v v'"
  shows "run_server cm v l g drv sg = run_server cm v' l g drv sg"
  unfolding run_server_def load_identity_def start_storage_def http_options_def grpc_options_def
    cli_agree [OF assms] by (rule refl)

section \<open>The commands read only what they declare\<close>

lemma gcp_kms_agree:
  "agree gcp_kms_flags v v' \<Longrightarrow> GetUint v ''gcp-kms-retries'' = GetUint v' ''gcp-kms-retries''"
  "agree gcp_kms_flags v v' \<Longrightarrow> GetUint32 v ''gcp-kms-timeout'' = GetUint32 v' ''gcp-kms-timeout''"
  by (simp_all add: agree_def gcp_kms_flags_def)

lemma gcp_serve_agree:
  assumes "cli_Initialize ss td host = Ok shared" "gcp_init b (Ok shared) = Ok fl" "agree fl v v'"
  shows "gcp_serve cm sd ro gd v = gcp_serve cm sd ro gd v'"
proof -
  have "agree shared v v'" "agree signer_flags v v'" "agree gcp_kms_flags v v'"
      "GetString v ''gcp-bucket'' = GetString v' ''gcp-bucket''"
      "GetString v ''gcp-spanner'' = GetString v' ''gcp-spanner''"
    using assms(2,3) by (auto simp: gcp_init_def bind_flags_Ok) (simp_all add: agree_def)
  note own = signer_options_agree(1) [OF this(2)] gcp_kms_agree [OF this(3)] this(4,5)
    cli_agree(9,15,21-23) [OF assms(1) this(1)] run_server_agree [OF assms(1) this(1)]
  show ?thesis unfolding gcp_serve_def own by (rule refl)
qed

lemma aws_serve_agree:
  assumes "cli_Initialize ss td host = Ok shared" "aws_init b (Ok shared) = Ok fl" "agree fl v v'"
  shows "aws_serve cm sd md v = aws_serve cm sd md v'"
proof -
  have "agree shared v v'" "agree signer_flags v v'"
      "GetString v ''aws-bucket'' = GetString v' ''aws-bucket''"
      "GetString v ''aws-mysql-dsn'' = GetString v' ''aws-mysql-dsn''"
      "GetInt v ''aws-max-open-conns'' = GetInt v' ''aws-max-open-conns''"
      "GetInt v ''aws-max-idle-conns'' = GetInt v' ''aws-max-idle-conns''"
    using assms(2,3) by (auto simp: aws_init_def bind_flags_Ok) (simp_all add: agree_def)
  note own = signer_options_agree(1) [OF this(2)] this(3-6)
    cli_agree(9,15,21-23) [OF assms(1) this(1)] run_server_agree [OF assms(1) this(1)]
  show ?thesis unfolding aws_serve_def own by (rule refl)
qed

lemma gcpcloudsql_serve_agree:
  assumes "cli_Initialize ss td host = Ok shared" "gcpcloudsql_init b (Ok shared) = Ok fl"
    and "agree fl v v'"
  shows "gcpcloudsql_serve cm sd ro cq v = gcpcloudsql_serve cm sd ro cq v'"
proof -
  have "agree shared v v'" "agree signer_flags v v'" "agree gcp_kms_flags v v'"
      "GetString v ''gcp-bucket'' = GetString v' ''gcp-bucket''"
      "GetString v ''gcp-cloudsql-dsn'' = GetString v' ''gcp-cloudsql-dsn''"
    using assms(2,3) by (auto simp: gcpcloudsql_init_def bind_flags_Ok) (simp_all add: agree_def)
  note own = signer_options_agree(1) [OF this(2)] gcp_kms_agree [OF this(3)] this(4,5)
    cli_agree(9,15,21-23) [OF assms(1) this(1)] run_server_agree [OF assms(1) this(1)]
  show ?thesis unfolding gcpcloudsql_serve_def own by (rule refl)
qed

lemma posix_serve_agree:
  assumes "cli_Initialize ss td host = Ok shared" "posix_init b (Ok shared) = Ok fl" "agree fl v v'"
  shows "posix_serve cm sd pd v = posix_serve cm sd pd v'"
proof -
  have "agree shared v v'" "GetString v ''signer-filepath'' = GetString v' ''signer-filepath''"
      "GetString v ''signer-password'' = GetString v' ''signer-password''"
      "GetString v ''storage-dir'' = GetString v' ''storage-dir''"
    using assms(2,3) by (auto simp: posix_init_def bind_flags_Ok) (simp_all add: agree_def)
  note own = this(2-4) cli_agree(9,15,21-23) [OF assms(1) this(1)]
    run_server_agree [OF assms(1) this(1)]
  show ?thesis unfolding posix_serve_def own by (rule refl)
qed

lemma freeze_run_agree:
  assumes "freeze_init b = Ok fl" "agree fl v v'"
  shows "freeze_run fz sd ro v obj = freeze_run fz sd ro v' obj"
proof -
  have "agree signer_flags v v'" "agree gcp_kms_flags v v'"
      "GetString v ''gcp-bucket'' = GetString v' ''gcp-bucket''"
      "GetString v ''hostname'' = GetString v' ''hostname''"
    using assms by (auto simp: freeze_init_def bind_flags_Ok) (simp_all add: agree_def)
  note own = signer_options_agree(2) [OF this(1)] gcp_kms_agree [OF this(2)] this(3,4)
  show ?thesis
    unfolding freeze_run_def getSignerVerifier_def getNoteSigner_def getNoteVerifier_def own
    by (rule refl)
qed

text \<open>
  C40. Every flag a command reads is one it declares, at the type it declares it with: two
  configurations that agree on the declared flags give the same outcome of the command, for each of
  the four servers and for the freeze command.
\<close>

theorem commands_read_declared_flags:
  assumes "cli_Initialize ss td host = Ok shared" "agree fl v v'"
  shows "(gcp_init b (Ok shared) = Ok fl \<longrightarrow> gcp_serve cm sd ro gd v = gcp_serve cm sd ro gd v')
    \<and> (aws_init b (Ok shared) = Ok fl \<longrightarrow> aws_serve cm sd md v = aws_serve cm sd md v')
    \<and> (gcpcloudsql_init b (Ok shared) = Ok fl \<longrightarrow>
         gcpcloudsql_serve cm sd ro cq v = gcpcloudsql_serve cm sd ro cq v')
    \<and> (posix_init b (Ok shared) = Ok fl \<longrightarrow> posix_serve cm sd pd v = posix_serve cm sd pd v')
    \<and> (freeze_init b = Ok fl \<longrightarrow> freeze_run fz fsd ro v obj = freeze_run fz fsd ro v' obj)"
  by (intro conjI impI gcp_serve_agree [OF assms(1) _ assms(2)] aws_serve_agree [OF assms(1) _ assms(2)]
      gcpcloudsql_serve_agree [OF assms(1) _ assms(2)] posix_serve_agree [OF assms(1) _ assms(2)]
      freeze_run_agree [OF _ assms(2)])

section \<open>Command lines\<close>

text \<open>A flag that is not declared changes nothing.\<close>

lemma viper_of_extra: "agree fl (viper_of (fl @ extra)) (viper_of fl)"
proof -
  have "agree_on (viper_of (fl @ extra)) (viper_of fl) p" if "p \<in> set fl" for p
  proof -
    obtain f x where p: "p = (f, x)" by (cases p)
    have "map_of fl f \<noteq> None" using weak_map_of_SomeI [of f x fl] that p by auto
    then have "map_of (fl @ extra) f = map_of fl f" by (auto simp: map_add_def)
    then show ?thesis by (cases x) (simp_all add: p viper_of_def)
  qed
  then show ?thesis by (simp add: agree_def list_all_iff)
qed

text \<open>With every flag at its default no command starts: none of them has a signer.\<close>

lemma defaults_have_no_signer:
  assumes "cli_Initialize ss td host = Ok shared"
  shows "gcp_init b (Ok shared) = Ok fl \<Longrightarrow> gcp_serve cm sd ro gd (viper_of fl) =
      Err (ErrText ''no signer configured; must provide a signer using a file, KMS, or Tink'')"
    and "aws_init b (Ok shared) = Ok fl \<Longrightarrow> aws_serve cm sd md (viper_of fl) =
      Err (ErrText ''no signer configured; must provide a signer using a file, KMS, or Tink'')"
    and "posix_init b (Ok shared) = Ok fl \<Longrightarrow> posix_serve cm sd pd (viper_of fl) =
      Err (ErrText ''--signer-filepath must be set'')"
    and "freeze_init b = Ok fl \<Longrightarrow> freeze_run fz fsd ro (viper_of fl) obj =
      (Err (ErrText ''must provide --gcs-bucket''), obj)"
proof -
  have level: "level_UnmarshalText ''info'' = Ok 0"
    by code_simp
  note defs = bind_flags_Ok viper_of_def signer_flags_def gcp_kms_flags_def
  have "map_of shared ''log-level'' = Some (FlagString ''info'')
      \<and> map_of shared ''signer-filepath'' = None \<and> map_of shared ''signer-kmskey'' = None
      \<and> map_of shared ''signer-tink-kek-uri'' = None"
    using assms by (auto simp: cli_Initialize_def go_bind_eq_Ok Let_def)
  then have sh: "map_of shared ''log-level'' = Some (FlagString ''info'')"
      "map_of shared ''signer-filepath'' = None" "map_of shared ''signer-kmskey'' = None"
      "map_of shared ''signer-tink-kek-uri'' = None" by auto
  show "gcp_init b (Ok shared) = Ok fl \<Longrightarrow> gcp_serve cm sd ro gd (viper_of fl) =
      Err (ErrText ''no signer configured; must provide a signer using a file, KMS, or Tink'')"
    by (auto simp: gcp_init_def defs gcp_serve_def signer_options_def map_add_def sh level)
  show "aws_init b (Ok shared) = Ok fl \<Longrightarrow> aws_serve cm sd md (viper_of fl) =
      Err (ErrText ''no signer configured; must provide a signer using a file, KMS, or Tink'')"
    by (auto simp: aws_init_def defs aws_serve_def signer_options_def map_add_def sh level)
  show "posix_init b (Ok shared) = Ok fl \<Longrightarrow> posix_serve cm sd pd (viper_of fl) =
      Err (ErrText ''--signer-filepath must be set'')"
    by (auto simp: posix_init_def defs posix_serve_def map_add_def sh level)
  show "freeze_init b = Ok fl \<Longrightarrow> freeze_run fz fsd ro (viper_of fl) obj =
      (Err (ErrText ''must provide --gcs-bucket''), obj)"
    by (auto simp: freeze_init_def defs freeze_run_def)
qed

definition demo_signer_deps :: "(unit, unit, unit, unit, unit) log_signer_deps" where
  "demo_signer_deps =
     \<lparr>sd_SupportedProviders = [], sd_kms_Get = (\<lambda>k h r. Err (ErrText ''kms'')),
      sd_pem_Read = (\<lambda>p pw. Ok ()), sd_LoadDefaultSignerVerifier = (\<lambda>k. Ok demo_signer),
      sd_Open = (\<lambda>p. Ok []), sd_keyset_Read = (\<lambda>b a. Ok ()), sd_KeyHandleToSigner = (\<lambda>h. Ok ()),
      sd_NewKMSClient = (\<lambda>u. Ok ()), sd_GetAEAD = (\<lambda>c u. Ok ())\<rparr>"

definition demo_posix :: "(unit, unit) posix_deps" where
  "demo_posix = \<lparr>pd_New = (\<lambda>d. Ok ()), pd_NewAntispam = (\<lambda>d p. Ok ())\<rparr>"

theorem commands_read_declared_flags_witness:
  "\<exists>fl. posix_init (\<lambda>_. Ok ()) (cli_Initialize demo_sigstore
       \<lparr>DefaultBatchMaxSize = 1, DefaultBatchMaxAge = 1, DefaultCheckpointInterval = 1,
        DefaultPushbackMaxOutstanding = 1\<rparr> (Ok ''a.b'')) = Ok fl
     \<and> posix_serve demo_cmd demo_signer_deps demo_posix
         (viper_of (fl @ [(''gcp-bucket'', FlagString ''b'')])) =
       posix_serve demo_cmd demo_signer_deps demo_posix (viper_of fl)"
proof -
  let ?td = "\<lparr>DefaultBatchMaxSize = 1, DefaultBatchMaxAge = 1, DefaultCheckpointInterval = 1,
        DefaultPushbackMaxOutstanding = 1\<rparr>"
  obtain shared where sh: "cli_Initialize demo_sigstore ?td (Ok ''a.b'') = Ok shared"
    by (simp add: cli_Initialize_def Let_def defaultKeyAlgorithms_def demo_sigstore_def
        AllowedClientSigningAlgorithms_def demo_flag_def)
  obtain fl where fl: "posix_init (\<lambda>_. Ok ()) (Ok shared) = Ok fl"
    by (simp add: posix_init_def bind_flags_def)
  have "posix_serve demo_cmd demo_signer_deps demo_posix
      (viper_of (fl @ [(''gcp-bucket'', FlagString ''b'')])) =
    posix_serve demo_cmd demo_signer_deps demo_posix (viper_of fl)"
    by (rule commands_read_declared_flags [OF sh viper_of_extra, THEN conjunct2, THEN conjunct2,
          THEN conjunct2, THEN conjunct1, THEN mp, OF fl])
  then show ?thesis using sh fl by (intro exI [of _ fl]) simp
qed

end
