(* ===== verification/Command_Tree.thy ===== *)
theory Command_Tree
  imports Command_Flags
begin

text \<open>
  The command trees of the binaries: \<open>root.go\<close>, \<open>version.go\<close> and \<open>main.go\<close> under
  \<open>cmd/rekor-server\<close> and the \<open>Execute\<close> of \<open>cmd/freeze-checkpoint\<close>.  Go runs the
  \<open>init\<close> functions of a package in the order of its files, so \<open>serve\<close> is added before
  \<open>version\<close>, and \<open>main\<close> runs after them.  Cobra's \<open>Execute\<close> and the \<open>version\<close> command are
  parameters; the result of a process is its exit status.
\<close>

section \<open>Commands\<close>

datatype 'r Command =
  Command (cmd_Use: string) (cmd_Short: string) (cmd_Long: string) (cmd_Run: "'r option")
    (cmd_Commands: "'r Command list")

fun AddCommand :: "'r Command \<Rightarrow> 'r Command \<Rightarrow> 'r Command" where
  "AddCommand (Command use short long run subs) c = Command use short long run (subs @ [c])"

definition rekor_long :: "string \<Rightarrow> string" where
  "rekor_long backend =
     ''Rekor provides signature transparency for Sigstore'' @ [char_of (39 :: nat)] @ ''s software''
     @ [char_of (10 :: nat), char_of (9 :: nat)]
     @ ''signing infrastructure. Rekor stores log entries on '' @ backend"

definition gcp_rootCmd :: "'r Command" where
  "gcp_rootCmd = Command ''rekor-server'' ''Rekor signature transparency log server (GCP)''
     (rekor_long ''GCP Cloud Storage'') None []"

definition aws_rootCmd :: "'r Command" where
  "aws_rootCmd = Command ''rekor-server'' ''Rekor signature transparency log server (AWS)''
     (rekor_long ''AWS S3'') None []"

definition gcpcloudsql_rootCmd :: "'r Command" where
  "gcpcloudsql_rootCmd = Command ''rekor-server'' ''Rekor signature transparency log server (GCP Cloud SQL)''
     (rekor_long ''GCP Cloud Storage'') None []"

definition posix_rootCmd :: "'r Command" where
  "posix_rootCmd = Command ''rekor-server'' ''Rekor signature transparency log server (POSIX)''
     (rekor_long ''a POSIX-compliant filesystem'') None []"

definition serveCmd :: "'r \<Rightarrow> 'r Command" where
  "serveCmd run = Command ''serve'' ''start the Rekor server'' ''start the Rekor server'' (Some run) []"

section \<open>Start of a process\<close>

text \<open>\<open>os.Exit(1)\<close> on an error; a panic ends a Go process with status 2.\<close>

fun exit_status :: "'a result \<Rightarrow> nat" where
  "exit_status (Ok x) = 0"
| "exit_status (Err e) = 1"
| "exit_status Panic = 2"

definition gcp_Execute :: "('r Command \<Rightarrow> unit result) \<Rightarrow> 'r Command \<Rightarrow> nat" where
  "gcp_Execute cobra_Execute rootCmd = exit_status (cobra_Execute rootCmd)"

definition aws_Execute :: "('r Command \<Rightarrow> unit result) \<Rightarrow> 'r Command \<Rightarrow> nat" where
  "aws_Execute cobra_Execute rootCmd = exit_status (cobra_Execute rootCmd)"

definition gcpcloudsql_Execute :: "('r Command \<Rightarrow> unit result) \<Rightarrow> 'r Command \<Rightarrow> nat" where
  "gcpcloudsql_Execute cobra_Execute rootCmd = exit_status (cobra_Execute rootCmd)"

definition posix_Execute :: "('r Command \<Rightarrow> unit result) \<Rightarrow> 'r Command \<Rightarrow> nat" where
  "posix_Execute cobra_Execute rootCmd = exit_status (cobra_Execute rootCmd)"

definition gcp_version_init :: "'r Command \<Rightarrow> 'r Command \<Rightarrow> 'r Command" where
  "gcp_version_init version rootCmd = AddCommand rootCmd version"

definition aws_version_init :: "'r Command \<Rightarrow> 'r Command \<Rightarrow> 'r Command" where
  "aws_version_init version rootCmd = AddCommand rootCmd version"

definition gcpcloudsql_version_init :: "'r Command \<Rightarrow> 'r Command \<Rightarrow> 'r Command" where
  "gcpcloudsql_version_init version rootCmd = AddCommand rootCmd version"

definition posix_version_init :: "'r Command \<Rightarrow> 'r Command \<Rightarrow> 'r Command" where
  "posix_version_init version rootCmd = AddCommand rootCmd version"

text \<open>
  A process from the package initialization on: the flags are declared and bound, the two commands
  are added to the root, and \<open>main\<close> hands over to cobra.  \<open>serve\<close> gets the bound flags.
\<close>

definition gcp_main ::
    "flag_set result \<Rightarrow> (flag_set \<Rightarrow> 'r) \<Rightarrow> 'r Command \<Rightarrow> ('r Command \<Rightarrow> unit result) \<Rightarrow> nat" where
  "gcp_main inited serve version cobra_Execute =
     (case inited of
        Ok flags \<Rightarrow> gcp_Execute cobra_Execute
          (gcp_version_init version (AddCommand gcp_rootCmd (serveCmd (serve flags))))
      | r \<Rightarrow> exit_status r)"

definition aws_main ::
    "flag_set result \<Rightarrow> (flag_set \<Rightarrow> 'r) \<Rightarrow> 'r Command \<Rightarrow> ('r Command \<Rightarrow> unit result) \<Rightarrow> nat" where
  "aws_main inited serve version cobra_Execute =
     (case inited of
        Ok flags \<Rightarrow> aws_Execute cobra_Execute
          (aws_version_init version (AddCommand aws_rootCmd (serveCmd (serve flags))))
      | r \<Rightarrow> exit_status r)"

definition gcpcloudsql_main ::
    "flag_set result \<Rightarrow> (flag_set \<Rightarrow> 'r) \<Rightarrow> 'r Command \<Rightarrow> ('r Command \<Rightarrow> unit result) \<Rightarrow> nat" where
  "gcpcloudsql_main inited serve version cobra_Execute =
     (case inited of
        Ok flags \<Rightarrow> gcpcloudsql_Execute cobra_Execute
          (gcpcloudsql_version_init version (AddCommand gcpcloudsql_rootCmd (serveCmd (serve flags))))
      | r \<Rightarrow> exit_status r)"

definition posix_main ::
    "flag_set result \<Rightarrow> (flag_set \<Rightarrow> 'r) \<Rightarrow> 'r Command \<Rightarrow> ('r Command \<Rightarrow> unit result) \<Rightarrow> nat" where
  "posix_main inited serve version cobra_Execute =
     (case inited of
        Ok flags \<Rightarrow> posix_Execute cobra_Execute
          (posix_version_init version (AddCommand posix_rootCmd (serveCmd (serve flags))))
      | r \<Rightarrow> exit_status r)"

definition freeze_rootCmd :: "'r \<Rightarrow> 'r Command" where
  "freeze_rootCmd run = Command ''freeze-checkpoint'' ''Freeze the log checkpoint''
     (''Add an extension line to the final checkpoint to indicate to consumers that no more ''
      @ ''checkpoints are going to be published. Only supported for GCP.'') (Some run) []"

definition freeze_Execute :: "('r Command \<Rightarrow> unit result) \<Rightarrow> 'r Command \<Rightarrow> nat" where
  "freeze_Execute cobra_Execute rootCmd = exit_status (cobra_Execute rootCmd)"

definition freeze_main ::
    "flag_set result \<Rightarrow> (flag_set \<Rightarrow> 'r) \<Rightarrow> ('r Command \<Rightarrow> unit result) \<Rightarrow> nat" where
  "freeze_main inited run cobra_Execute =
     (case inited of
        Ok flags \<Rightarrow> freeze_Execute cobra_Execute (freeze_rootCmd (run flags))
      | r \<Rightarrow> exit_status r)"

lemmas main_defs = gcp_main_def aws_main_def gcpcloudsql_main_def posix_main_def
  gcp_Execute_def aws_Execute_def gcpcloudsql_Execute_def posix_Execute_def
  gcp_version_init_def aws_version_init_def gcpcloudsql_version_init_def posix_version_init_def
  gcp_rootCmd_def aws_rootCmd_def gcpcloudsql_rootCmd_def posix_rootCmd_def

section \<open>What cobra is given\<close>

text \<open>Every server binary offers exactly the commands \<open>serve\<close> and \<open>version\<close>, in this order.\<close>

lemma server_commands:
  assumes "\<And>root. cobra root = (if map cmd_Use (cmd_Commands root) = [''serve'', cmd_Use version]
      \<and> cmd_Use root = ''rekor-server'' then Ok () else Err (ErrText ''tree''))"
  shows "gcp_main (Ok fl) f version cobra = 0" "aws_main (Ok fl) f version cobra = 0"
    "gcpcloudsql_main (Ok fl) f version cobra = 0" "posix_main (Ok fl) f version cobra = 0"
  using assms by (simp_all add: main_defs serveCmd_def)

lemma exit_status_zero: "exit_status r = 0 \<longleftrightarrow> (\<exists>x. r = Ok x)"
  by (cases r) auto

text \<open>A process ends with status 0 only if its flags could be declared and bound.\<close>

lemma main_zero:
  assumes "gcp_main i f version cobra = 0 \<or> aws_main i f version cobra = 0
    \<or> gcpcloudsql_main i f version cobra = 0 \<or> posix_main i f version cobra = 0"
  shows "\<exists>fl. i = Ok fl"
  using assms by (cases i) (auto simp: main_defs)

end
