(* ===== verification/Client.thy ===== *)
theory Client
  imports Transparency_Log Server_Config Go_Path "HOL-Library.AList"
begin

text \<open>
  \<open>pkg/client\<close>: the options and the transport both clients share, the reader
  (\<open>pkg/client/read\<close>) and the writer (\<open>pkg/client/write\<close>).  A \<open>http.RoundTripper\<close> is
  the function from a request to a response.  Parsing and printing of URLs, the JSON codec and
  tessera's HTTP fetcher are parameters.
\<close>

section \<open>option.go and transport.go\<close>

record 'tls Config =
  cfg_UserAgent :: string
  cfg_Timeout :: int
  cfg_TLSConfig :: "'tls option"

definition WithUserAgent :: "string \<Rightarrow> 'tls Config \<Rightarrow> 'tls Config" where
  "WithUserAgent agent c = c \<lparr>cfg_UserAgent := agent\<rparr>"

definition WithTimeout :: "int \<Rightarrow> 'tls Config \<Rightarrow> 'tls Config" where
  "WithTimeout timeout c = c \<lparr>cfg_Timeout := timeout\<rparr>"

definition WithTLSConfig :: "'tls option \<Rightarrow> 'tls Config \<Rightarrow> 'tls Config" where
  "WithTLSConfig tlsConfig c = c \<lparr>cfg_TLSConfig := tlsConfig\<rparr>"

definition zero_Config :: "'tls Config" where
  "zero_Config = \<lparr>cfg_UserAgent = [], cfg_Timeout = 0, cfg_TLSConfig = None\<rparr>"

interpretation user_agent: config_field cfg_UserAgent WithUserAgent
  by unfold_locales (simp_all add: WithUserAgent_def)

interpretation client_timeout: config_field cfg_Timeout WithTimeout
  by unfold_locales (simp_all add: WithTimeout_def)

interpretation client_tls: config_field cfg_TLSConfig WithTLSConfig
  by unfold_locales (simp_all add: WithTLSConfig_def)

record http_request =
  req_Method :: string
  req_URL :: string
  req_Header :: "(string \<times> string list) list"
  req_Body :: bytes

record http_response =
  resp_StatusCode :: int
  resp_Body :: "bytes result"

type_synonym round_tripper = "http_request \<Rightarrow> http_response result"

definition Header_Set :: "string \<Rightarrow> string \<Rightarrow> http_request \<Rightarrow> http_request" where
  "Header_Set k v req = req \<lparr>req_Header := AList.update k [v] (req_Header req)\<rparr>"

definition RoundTrip :: "round_tripper \<Rightarrow> string \<Rightarrow> round_tripper" where
  "RoundTrip inner userAgent req =
     (let req = (if userAgent \<noteq> [] then Header_Set ''User-Agent'' userAgent req else req)
      in inner req)"

definition CreateRoundTripper :: "round_tripper \<Rightarrow> round_tripper option \<Rightarrow> string \<Rightarrow> round_tripper" where
  "CreateRoundTripper DefaultTransport inner userAgent =
     (let inner = (case inner of None \<Rightarrow> DefaultTransport | Some t \<Rightarrow> t)
      in if userAgent = [] then inner else RoundTrip inner userAgent)"

record http_client =
  hcl_Transport :: round_tripper
  hcl_Timeout :: int

record url =
  url_Path :: string
  url_rest :: string

text \<open>The packages of the standard library and of tessera the two clients call.\<close>

record ('tls, 'note) client_deps =
  cd_DefaultTransport :: round_tripper
  cd_TLSTransport :: "'tls \<Rightarrow> round_tripper"
  cd_Parse :: "string \<Rightarrow> url result"
  cd_String :: "url \<Rightarrow> string"
  cd_NewRequest :: "string \<Rightarrow> string \<Rightarrow> bytes \<Rightarrow> http_request result"
  cd_MarshalRequest :: "pb_CreateEntryRequest \<Rightarrow> bytes result"
  cd_UnmarshalEntry :: "bytes \<Rightarrow> pb_TransparencyLogEntry result"

definition build_http_client ::
    "('tls, 'note) client_deps \<Rightarrow> 'tls Config \<Rightarrow> http_client" where
  "build_http_client cd cfg =
     (let transport =
        (case cfg_TLSConfig cfg of
           None \<Rightarrow> cd_DefaultTransport cd
         | Some tls \<Rightarrow> cd_TLSTransport cd tls)
      in \<lparr>hcl_Transport =
            CreateRoundTripper (cd_DefaultTransport cd) (Some transport) (cfg_UserAgent cfg),
          hcl_Timeout = cfg_Timeout cfg\<rparr>)"

section \<open>read.go\<close>

record 'note http_fetcher =
  hf_ReadCheckpoint :: "bytes result"
  hf_ReadTile :: "uint64 \<Rightarrow> uint64 \<Rightarrow> uint8 \<Rightarrow> bytes result"
  hf_ReadEntryBundle :: "uint64 \<Rightarrow> uint8 \<Rightarrow> bytes result"
  hf_FetchCheckpoint ::
    "bytes result \<Rightarrow> noteVerifier \<Rightarrow> string \<Rightarrow> (Checkpoint \<times> bytes \<times> 'note) result"

record 'note readClient =
  rc_baseURL :: url
  rc_client :: "'note http_fetcher"
  rc_origin :: string
  rc_verifier :: noteVerifier

definition NewReader ::
    "('tls, 'note) client_deps \<Rightarrow> pki \<Rightarrow> (url \<Rightarrow> http_client \<Rightarrow> 'note http_fetcher result) \<Rightarrow>
     string \<Rightarrow> string \<Rightarrow> sig_verifier \<Rightarrow> ('tls Config \<Rightarrow> 'tls Config) list \<Rightarrow> 'note readClient result"
where
  "NewReader cd x NewHTTPFetcher readURL origin vf opts =
     (let cfg = apply_options opts zero_Config in
      go_bind (cd_Parse cd readURL) (Wrap (''parsing url '' @ readURL)) (\<lambda>baseURL.
      go_bind (NewNoteVerifier x origin vf) (Wrap ''creating note verifier'') (\<lambda>nv.
      let httpClient = build_http_client cd cfg in
      go_bind (NewHTTPFetcher baseURL httpClient) (Wrap ''creating tile client'') (\<lambda>tileClient.
      Ok \<lparr>rc_baseURL = baseURL, rc_client = tileClient, rc_origin = origin, rc_verifier = nv\<rparr>))))"

definition read_ReadCheckpoint :: "'note readClient \<Rightarrow> (Checkpoint \<times> 'note) result" where
  "read_ReadCheckpoint r =
     (let readCheckpoint = hf_ReadCheckpoint (rc_client r) in
      go_bind (hf_FetchCheckpoint (rc_client r) readCheckpoint (rc_verifier r) (rc_origin r))
        (Wrap ''fetching checkpoint'') (\<lambda>(cp, _, n). Ok (cp, n)))"

definition read_ReadTile :: "'note readClient \<Rightarrow> uint64 \<Rightarrow> uint64 \<Rightarrow> uint8 \<Rightarrow> bytes result" where
  "read_ReadTile r level index p =
     go_bind (hf_ReadTile (rc_client r) level index p) (Wrap ''reading tile'') Ok"

definition read_ReadEntryBundle :: "'note readClient \<Rightarrow> uint64 \<Rightarrow> uint8 \<Rightarrow> bytes result" where
  "read_ReadEntryBundle r index p =
     go_bind (hf_ReadEntryBundle (rc_client r) index p) (Wrap ''reading entry bundle'') Ok"

section \<open>write.go\<close>

definition addPath :: string where "addPath = ''/api/v2/log/entries''"

record writeClient =
  wc_baseURL :: url
  wc_client :: http_client

definition NewWriter ::
    "('tls, 'note) client_deps \<Rightarrow> string \<Rightarrow> ('tls Config \<Rightarrow> 'tls Config) list \<Rightarrow> writeClient result"
where
  "NewWriter cd writeURL opts =
     (let cfg = apply_options opts zero_Config in
      go_bind (cd_Parse cd writeURL) (Wrap (''parsing url '' @ writeURL)) (\<lambda>baseURL.
      let httpClient = build_http_client cd cfg in
      Ok \<lparr>wc_baseURL = baseURL, wc_client = httpClient\<rparr>))"

text \<open>The dynamic type of the \<open>entry any\<close> argument; other types by their Go name.\<close>

datatype any_entry =
    AnyHashedRekord "HashedRekordRequestV002 option"
  | AnyDSSE "DSSERequestV002 option"
  | AnyEntry string

definition createHashedRekordRequest :: "HashedRekordRequestV002 option \<Rightarrow> pb_CreateEntryRequest" where
  "createHashedRekordRequest h =
     \<lparr>CreateEntryRequest_Spec = Some (CreateEntryRequest_HashedRekordRequestV002 h)\<rparr>"

definition createDSSERequest :: "DSSERequestV002 option \<Rightarrow> pb_CreateEntryRequest" where
  "createDSSERequest d =
     \<lparr>CreateEntryRequest_Spec = Some (CreateEntryRequest_DsseRequestV002 d)\<rparr>"

fun createRequest :: "any_entry \<Rightarrow> pb_CreateEntryRequest result" where
  "createRequest (AnyHashedRekord e) = Ok (createHashedRekordRequest e)"
| "createRequest (AnyDSSE e) = Ok (createDSSERequest e)"
| "createRequest (AnyEntry ty) = Err (ErrText (''unsupported entry type: '' @ ty))"

definition write_Add ::
    "('tls, 'note) client_deps \<Rightarrow> writeClient \<Rightarrow> any_entry \<Rightarrow> pb_TransparencyLogEntry result" where
  "write_Add cd w entry =
     go_bind (createRequest entry) (Wrap ''creating request'') (\<lambda>cer.
     let endpoint = (wc_baseURL w) \<lparr>url_Path := path_Join (url_Path (wc_baseURL w)) addPath\<rparr> in
     go_bind (cd_MarshalRequest cd cer) (Wrap ''marshaling request'') (\<lambda>payload.
     go_bind (cd_NewRequest cd ''POST'' (cd_String cd endpoint) payload) (Wrap ''creating request'')
       (\<lambda>req.
     let req = Header_Set ''Content-Type'' ''application/json'' req in
     go_bind (hcl_Transport (wc_client w) req) (Wrap ''getting response'') (\<lambda>resp.
     go_bind (resp_Body resp) (Wrap ''reading response'') (\<lambda>body.
     if resp_StatusCode resp \<noteq> 201
     then Err (ErrText (''unexpected response: '' @ Itoa (resp_StatusCode resp) @ '' '' @ body))
     else
       go_bind (cd_UnmarshalEntry cd body) (Wrap ''unmarshaling response body'') Ok)))))"

section \<open>What the clients do\<close>

text \<open>
  The writer posts to the path of the configured URL followed by the API path, however that
  path is written: with or without a trailing slash, empty, or with dots.
\<close>

theorem write_path:
  "(\<exists>pre. path_Join p addPath = pre @ ''/api/v2/log/entries'')
     \<or> path_Join p addPath = ''api/v2/log/entries''"
proof -
  have plain: "list_all plain_element [''api'', ''v2'', ''log'', ''entries'']"
    by (simp add: plain_element_def)
  have add: "split_slash addPath = [] # [''api'', ''v2'', ''log'', ''entries'']"
    by (simp add: addPath_def)
  have "\<exists>qs. split_slash (if p = [] then addPath else p @ CHR ''/'' # addPath) =
      qs @ [''api'', ''v2'', ''log'', ''entries'']"
    by (simp add: split_slash_append add)
  moreover have "path_Join p addPath =
      path_Clean (if p = [] then addPath else p @ CHR ''/'' # addPath)"
    by (simp add: path_Join_def addPath_def)
  ultimately obtain pre where "path_Join p addPath = pre @ ''api/v2/log/entries''"
      "pre = [] \<or> (\<exists>q. pre = q @ ''/'')"
    using path_Clean_suffix [OF _ plain] by fastforce
  then show ?thesis by auto
qed

lemma RoundTrip_userAgent:
  "RoundTrip inner ua req =
     inner (if ua = [] then req
            else req \<lparr>req_Header := AList.update ''User-Agent'' [ua] (req_Header req)\<rparr>)"
  by (simp add: RoundTrip_def Header_Set_def)

lemma CreateRoundTripper_RoundTrip:
  "CreateRoundTripper dt inner ua = RoundTrip (case inner of None \<Rightarrow> dt | Some t \<Rightarrow> t) ua"
  by (auto simp: CreateRoundTripper_def RoundTrip_def Let_def fun_eq_iff split: option.splits)

text \<open>
  The writer returns an entry only if the server answered 201 with a body that decodes to it;
  any other status is an error that carries the status and the body, and the request is a JSON
  POST with the configured user agent.
\<close>

theorem write_Add_result:
  assumes "createRequest entry = Ok cer" "cd_MarshalRequest cd cer = Ok payload"
    and "cd_NewRequest cd ''POST''
      (cd_String cd ((wc_baseURL w) \<lparr>url_Path := path_Join (url_Path (wc_baseURL w)) addPath\<rparr>)) payload
      = Ok req"
    and "hcl_Transport (wc_client w)
      (req \<lparr>req_Header := AList.update ''Content-Type'' [''application/json''] (req_Header req)\<rparr>)
      = Ok \<lparr>resp_StatusCode = code, resp_Body = Ok body\<rparr>"
  shows "write_Add cd w entry =
    (if code = 201 then go_bind (cd_UnmarshalEntry cd body) (Wrap ''unmarshaling response body'') Ok
     else Err (ErrText (''unexpected response: '' @ Itoa code @ '' '' @ body)))"
  using assms by (simp add: write_Add_def Header_Set_def Let_def)

definition demo_client_deps :: "round_tripper \<Rightarrow> (unit, unit) client_deps" where
  "demo_client_deps t =
     \<lparr>cd_DefaultTransport = t, cd_TLSTransport = (\<lambda>_. t),
      cd_Parse = (\<lambda>u. Ok \<lparr>url_Path = ''/base/'', url_rest = u\<rparr>), cd_String = url_Path,
      cd_NewRequest = (\<lambda>m u b. Ok \<lparr>req_Method = m, req_URL = u, req_Header = [], req_Body = b\<rparr>),
      cd_MarshalRequest = (\<lambda>r. Ok ''{}''), cd_UnmarshalEntry = (\<lambda>b. Err (ErrText ''json''))\<rparr>"

definition demo_writer :: writeClient where
  "demo_writer = \<lparr>wc_baseURL = \<lparr>url_Path = ''/base/'', url_rest = []\<rparr>,
     wc_client = \<lparr>hcl_Transport = (\<lambda>req. Ok \<lparr>resp_StatusCode = 405, resp_Body = Ok (req_URL req)\<rparr>),
                  hcl_Timeout = 0\<rparr>\<rparr>"

theorem write_Add_result_witness:
  "write_Add (demo_client_deps (\<lambda>r. Panic)) demo_writer (AnyDSSE None) =
     Err (ErrText (''unexpected response: '' @ Itoa 405 @ '' '' @ ''/base/api/v2/log/entries''))"
proof -
  let ?d = "demo_client_deps (\<lambda>r. Panic)"
  have j: "path_Join ''/base/'' addPath = ''/base/api/v2/log/entries''"
    by (simp add: path_Join_def addPath_def path_Clean_def HasPrefix_def clean_step_def)
  show ?thesis
    using write_Add_result [of "AnyDSSE None" _ ?d "''{}''" demo_writer
        "\<lparr>req_Method = ''POST'', req_URL = ''/base/api/v2/log/entries'', req_Header = [],
          req_Body = ''{}''\<rparr>" 405 "''/base/api/v2/log/entries''"] j
    by (simp add: demo_client_deps_def demo_writer_def)
qed

lemma NewWriter_transport:
  assumes "NewWriter cd u opts = Ok w"
  shows "hcl_Transport (wc_client w) =
    RoundTrip (case cfg_TLSConfig (apply_options opts zero_Config) of
        None \<Rightarrow> cd_DefaultTransport cd | Some tls \<Rightarrow> cd_TLSTransport cd tls)
      (cfg_UserAgent (apply_options opts zero_Config))"
    and "cd_Parse cd u = Ok (wc_baseURL w)"
  using assms
  by (auto simp: NewWriter_def go_bind_eq_Ok Let_def build_http_client_def
      CreateRoundTripper_RoundTrip split: option.splits)

lemma NewReader_verifier:
  assumes "NewReader cd x fetch u origin vf opts = Ok r"
  shows "noteVerifier_Name (rc_verifier r) = origin" "rc_origin r = origin"
  using assms
  by (auto simp: NewReader_def go_bind_eq_Ok Let_def NewNoteVerifier_def note_method_defs
      split: if_splits)

end
