(* ===== verification/Service_Mock.thy ===== *)
theory Service_Mock
  imports Rekor_Rpc Lifecycle Client Server_Setup
begin

text \<open>
  \<open>internal/server/service_mock.go\<close>: the stand-in for the service that the end-to-end tests of
  the servers start, and the harness that starts it and waits until it answers.  \<open>t.Fatal\<close> is
  an error.  Parsing of tile paths is tessera's; the HTTP client of the health check is a function
  from the number of the attempt.  Key generation, X.509, PEM and the operating system's calls are
  parameters; the files are a map from paths to contents.
\<close>

section \<open>The mock service\<close>

definition testEntry :: pb_TransparencyLogEntry where
  "testEntry =
     \<lparr>TLE_LogIndex = 0, TLE_LogId = Some ''abc'',
      TLE_KindVersion = Some \<lparr>KindVersion_Kind = ''placeholder'', KindVersion_Version = ''1.2.3''\<rparr>,
      TLE_InclusionProof = Some
        \<lparr>InclusionProof_LogIndex = 0, InclusionProof_RootHash = ''abc'', InclusionProof_TreeSize = 0,
         InclusionProof_Hashes = [''def'', ''ghi''],
         InclusionProof_Checkpoint = Some ''placeholder''\<rparr>,
      TLE_CanonicalizedBody = ''abcd''\<rparr>"

record layout_api =
  layout_ParseTileLevelIndexPartial :: "string \<Rightarrow> string \<Rightarrow> (uint64 \<times> uint64 \<times> uint8) result"
  layout_ParseTileIndexPartial :: "string \<Rightarrow> (uint64 \<times> uint8) result"

definition octet_stream :: "bytes \<Rightarrow> pb_HttpBody" where
  "octet_stream b = \<lparr>HttpBody_ContentType = ''application/octet-stream'', HttpBody_Data = b\<rparr>"

text \<open>An error that is not a status error reaches the caller with the code \<open>Unknown\<close>.\<close>

fun rpc_of :: "'a result \<Rightarrow> 'a rpc" where
  "rpc_of (Ok x) = RpcOk x"
| "rpc_of (Err e) = RpcErr Unknown (err_Error e)"
| "rpc_of Panic = RpcPanic"

definition mock_CreateEntry ::
    "pb_CreateEntryRequest option \<Rightarrow> 's \<Rightarrow> pb_TransparencyLogEntry rpc \<times> 's" where
  "mock_CreateEntry req s = (RpcOk testEntry, s)"

definition mock_GetTile :: "layout_api \<Rightarrow> pb_TileRequest option \<Rightarrow> 's \<Rightarrow> pb_HttpBody rpc \<times> 's" where
  "mock_GetTile lay inp s =
     (rpc_of
       (go_bind (deref inp) id (\<lambda>t.
        go_bind (layout_ParseTileLevelIndexPartial lay (FormatUint (unat (TileRequest_L t))) (TileRequest_N t)) id
          (\<lambda>(l, i, w).
        Ok (octet_stream (''test-tile:'' @ FormatUint (unat l) @ '','' @ FormatUint (unat i) @ '',''
              @ FormatUint (unat w)))))), s)"

definition mock_GetEntryBundle ::
    "layout_api \<Rightarrow> pb_EntryBundleRequest option \<Rightarrow> 's \<Rightarrow> pb_HttpBody rpc \<times> 's" where
  "mock_GetEntryBundle lay inp s =
     (rpc_of
       (go_bind (deref inp) id (\<lambda>b.
        go_bind (layout_ParseTileIndexPartial lay (EntryBundleRequest_N b)) id (\<lambda>(i, w).
        Ok (octet_stream (''test-entries:'' @ FormatUint (unat i) @ '','' @ FormatUint (unat w)))))), s)"

definition mock_GetCheckpoint :: "unit \<Rightarrow> 's \<Rightarrow> pb_HttpBody rpc \<times> 's" where
  "mock_GetCheckpoint u s = (RpcOk (octet_stream ''test-checkpoint''), s)"

definition mock_Check :: "'s \<Rightarrow> serving_status rpc \<times> 's" where
  "mock_Check s = (RpcOk SERVING, s)"

definition mockRekorServer :: "layout_api \<Rightarrow> 's RekorServer" where
  "mockRekorServer lay =
     UnimplementedRekorServer
       \<lparr>rs_CreateEntry := mock_CreateEntry, rs_GetTile := mock_GetTile lay,
        rs_GetEntryBundle := mock_GetEntryBundle lay, rs_GetCheckpoint := mock_GetCheckpoint\<rparr>"

section \<open>The harness\<close>

record MockServer =
  ms_gc :: GRPCConfig
  ms_hc :: HTTPConfig
  ms_cleanupFiles :: "string list"

text \<open>
  The loop \<open>for i := range 6\<close> that polls the health endpoint: attempt \<open>5\<close> is fatal, an
  attempt that gets the expected status and a body with the expected text ends the loop.
\<close>

fun poll ::
    "nat \<Rightarrow> nat \<Rightarrow> (nat \<Rightarrow> http_response result) \<Rightarrow> int \<Rightarrow> string \<Rightarrow> string \<Rightarrow> unit result" where
  "poll 0 i get status needle fatal = Err (ErrText fatal)"
| "poll (Suc left) i get status needle fatal =
     (case get i of
        Ok resp \<Rightarrow>
          (if resp_StatusCode resp = status then
             go_bind (resp_Body resp) (errv ''parsing response body'') (\<lambda>body.
             if Contains body needle then Ok () else poll left (Suc i) get status needle fatal)
           else poll left (Suc i) get status needle fatal)
      | Err e \<Rightarrow> poll left (Suc i) get status needle fatal
      | Panic \<Rightarrow> Panic)"

definition MockServer_Start ::
    "(nat \<Rightarrow> http_response result) \<Rightarrow> MockServer \<Rightarrow> MockServer \<times> sys \<times> unit result" where
  "MockServer_Start get ms =
     (let ms = ms \<lparr>ms_gc := NewGRPCConfig [WithGRPCHost ''localhost'', WithGRPCPort 8081]\<rparr>;
          ms = ms \<lparr>ms_hc := NewHTTPConfig [WithHTTPHost ''localhost'', WithHTTPPort 8080]\<rparr>
      in (ms, Serve (ms_hc ms) (ms_gc ms),
          poll 5 0 get 200 (''{'' @ [char_of (34 :: nat)] @ ''status'' @ [char_of (34 :: nat)] @ '':''
            @ [char_of (34 :: nat)] @ ''SERVING'' @ [char_of (34 :: nat)] @ ''}'')
            ''mock server failed to startup''))"

definition MockServer_StartTLS ::
    "string \<times> string \<Rightarrow> (nat \<Rightarrow> http_response result) \<Rightarrow> MockServer \<Rightarrow> MockServer \<times> sys \<times> unit result" where
  "MockServer_StartTLS selfSigned get ms =
     (let (certFile, keyFile) = selfSigned;
          ms = ms \<lparr>ms_cleanupFiles := ms_cleanupFiles ms @ [certFile, keyFile]\<rparr>;
          ms = ms \<lparr>ms_gc := NewGRPCConfig [WithGRPCHost ''localhost'', WithGRPCPort 8081,
                 WithTLSCredentials certFile keyFile]\<rparr>;
          ms = ms \<lparr>ms_hc := NewHTTPConfig [WithHTTPHost ''localhost'', WithHTTPPort 8080,
                 WithHTTPTLSCredentials certFile keyFile, WithGRPCTLSCredentials certFile]\<rparr>
      in (ms, Serve (ms_hc ms) (ms_gc ms),
          poll 5 0 get 400 ''Client sent an HTTP request to an HTTPS server''
            ''mock TLS server failed to startup''))"

section \<open>The self-signed certificate\<close>

type_synonym files = "string \<rightharpoonup> bytes"

text \<open>The fields of the certificate template; times are in nanoseconds.\<close>

record cert_template =
  ct_SerialNumber :: int
  ct_Organization :: "string list"
  ct_NotBefore :: int
  ct_NotAfter :: int
  ct_KeyUsage :: "string list"
  ct_ExtKeyUsage :: "string list"
  ct_BasicConstraintsValid :: bool
  ct_DNSNames :: "string list"
  ct_IPAddresses :: "string list"

text \<open>
  A call that writes can fail before anything is written; \<open>pem.Encode\<close> writes the block's text.
\<close>

record ('key, 'pub) cert_deps =
  ce_TempDir :: string
  ce_Now :: int
  ce_GenerateKey :: "nat \<Rightarrow> 'key result"
  ce_Public :: "'key \<Rightarrow> 'pub"
  ce_CreateCertificate :: "cert_template \<Rightarrow> cert_template \<Rightarrow> 'pub \<Rightarrow> 'key \<Rightarrow> bytes result"
  ce_MarshalPKCS8PrivateKey :: "'key \<Rightarrow> bytes result"
  ce_pem :: "string \<Rightarrow> bytes \<Rightarrow> bytes"
  ce_Open :: "string \<Rightarrow> unit result"
  ce_Write :: "string \<Rightarrow> unit result"
  ce_Close :: "string \<Rightarrow> unit result"

definition self_signed_template :: "int \<Rightarrow> cert_template" where
  "self_signed_template now =
     \<lparr>ct_SerialNumber = 1, ct_Organization = [''Test Org''], ct_NotBefore = now,
      ct_NotAfter = now + 24 * 60 * 60 * 1000000000,
      ct_KeyUsage = [''KeyEncipherment'', ''DigitalSignature''], ct_ExtKeyUsage = [''ServerAuth''],
      ct_BasicConstraintsValid = True, ct_DNSNames = [''localhost''], ct_IPAddresses = [''127.0.0.1'']\<rparr>"

definition write_pem ::
    "('key, 'pub) cert_deps \<Rightarrow> string \<Rightarrow> string \<Rightarrow> string \<Rightarrow> bytes \<Rightarrow> files \<Rightarrow> files result" where
  "write_pem ce name path ty der fs =
     go_bind (ce_Write ce path) (errv (''failed to write data to '' @ name)) (\<lambda>_.
     go_bind (ce_Close ce path) (errv (''error closing '' @ name)) (\<lambda>_.
     Ok (fs(path \<mapsto> ce_pem ce ty der))))"

definition generateSelfSignedCert ::
    "('key, 'pub) cert_deps \<Rightarrow> files \<Rightarrow> ((string \<times> string) \<times> files) result" where
  "generateSelfSignedCert ce fs =
     (let tempDir = ce_TempDir ce in
      go_bind (ce_GenerateKey ce 2048) (errv ''failed to generate private key'') (\<lambda>priv.
      let tmpl = self_signed_template (ce_Now ce) in
      go_bind (ce_CreateCertificate ce tmpl tmpl (ce_Public ce priv) priv)
        (errv ''failed to create certificate'') (\<lambda>derBytes.
      let certFile = path_Join tempDir ''cert.pem'' in
      go_bind (ce_Open ce certFile) (errv ''failed to open cert.pem for writing'') (\<lambda>_.
      let fs = fs(certFile \<mapsto> []) in
      go_bind (write_pem ce ''cert.pem'' certFile ''CERTIFICATE'' derBytes fs) id (\<lambda>fs.
      let keyFile = path_Join tempDir ''key.pem'' in
      go_bind (ce_Open ce keyFile) (errv ''failed to open key.pem for writing'') (\<lambda>_.
      let fs = fs(keyFile \<mapsto> []) in
      go_bind (ce_MarshalPKCS8PrivateKey ce priv) (errv ''unable to marshal private key'') (\<lambda>privBytes.
      go_bind (write_pem ce ''key.pem'' keyFile ''PRIVATE KEY'' privBytes fs) id (\<lambda>fs.
      Ok ((certFile, keyFile), fs)))))))))"

section \<open>Stopping the harness\<close>

text \<open>
  \<open>Stop\<close>: a signal to the own process, waiting for \<open>Serve\<close> to return, and removal of the
  temporary files, whose failures are only logged.
\<close>

definition cleanup :: "(string \<Rightarrow> files \<Rightarrow> files result) \<Rightarrow> string list \<Rightarrow> files \<Rightarrow> files" where
  "cleanup os_Remove names fs =
     fold (\<lambda>f fs. case os_Remove f fs of Ok fs' \<Rightarrow> fs' | _ \<Rightarrow> fs) names fs"

inductive MockServer_Stop ::
    "(string \<Rightarrow> files \<Rightarrow> files result) \<Rightarrow> MockServer \<Rightarrow> sys \<times> files \<Rightarrow> sys \<times> files \<Rightarrow> bool"
  for os_Remove ms where
  stopped:
    "step Signal s s1 \<Longrightarrow> runs s1 s2 \<Longrightarrow> prog s2 = [] \<Longrightarrow>
     MockServer_Stop os_Remove ms (s, fs) (s2, cleanup os_Remove (ms_cleanupFiles ms) fs)"

section \<open>What the harness relies on\<close>

text \<open>An attempt of the health check that ends the loop.\<close>

definition healthy :: "int \<Rightarrow> string \<Rightarrow> http_response result \<Rightarrow> bool" where
  "healthy status needle r \<longleftrightarrow>
     (\<exists>resp body. r = Ok resp \<and> resp_StatusCode resp = status \<and> resp_Body resp = Ok body
        \<and> Contains body needle)"

lemma poll_healthy:
  assumes "\<forall>j<n. (\<exists>e. get (i + j) = Err e) \<or> (\<exists>resp. get (i + j) = Ok resp \<and> resp_StatusCode resp \<noteq> status)"
    and "healthy status needle (get (i + n))" "n < left"
  shows "poll left i get status needle fatal = Ok ()"
  using assms
proof (induction n arbitrary: i left)
  case 0
  then show ?case by (cases left) (auto simp: healthy_def)
next
  case (Suc n)
  obtain l where l: "left = Suc l" using Suc.prems(3) by (cases left) auto
  have "(\<exists>e. get i = Err e) \<or> (\<exists>resp. get i = Ok resp \<and> resp_StatusCode resp \<noteq> status)"
    using Suc.prems(1) by fastforce
  moreover have "poll l (Suc i) get status needle fatal = Ok ()"
  proof (rule Suc.IH)
    show "\<forall>j<n. (\<exists>e. get (Suc i + j) = Err e)
        \<or> (\<exists>resp. get (Suc i + j) = Ok resp \<and> resp_StatusCode resp \<noteq> status)"
      using Suc.prems(1) by (metis Suc_mono add_Suc add_Suc_right)
  qed (use Suc.prems l in simp_all)
  ultimately show ?case unfolding l by auto
qed

lemma poll_Ok:
  "poll left i get status needle fatal = Ok () \<Longrightarrow> \<exists>j<left. healthy status needle (get (i + j))"
proof (induction left arbitrary: i)
  case 0
  then show ?case by simp
next
  case (Suc left)
  show ?case
  proof (cases "healthy status needle (get i)")
    case True
    then show ?thesis by (intro exI [of _ 0]) simp
  next
    case False
    then have "poll left (Suc i) get status needle fatal = Ok ()"
      using Suc.prems by (auto simp: healthy_def go_bind_eq_Ok split: result.splits if_splits)
    then obtain j where "j < left" "healthy status needle (get (Suc i + j))" using Suc.IH by blast
    then show ?thesis by (intro exI [of _ "Suc j"]) simp
  qed
qed

text \<open>Both configurations pass the guards of \<open>Serve\<close>, and with TLS both servers use it.\<close>

lemma mock_serves:
  "exited (fst (snd (MockServer_Start get ms))) = None"
  "exited (fst (snd (MockServer_StartTLS (c, k) get ms))) = None"
  by (simp_all add: MockServer_Start_def MockServer_StartTLS_def Serve_def NewHTTPConfig_def
      NewGRPCConfig_def apply_options_def http_defaults_def grpc_defaults_def http_option_defs
      grpc_option_defs Let_def)

lemma mock_TLS:
  assumes "MockServer_StartTLS (c, k) get ms = (ms', r)" "c \<noteq> []" "k \<noteq> []"
  shows "http_HasTLS (ms_hc ms') \<and> grpc_HasTLS (ms_gc ms') \<and> HasGRPCTLS (ms_hc ms')"
  using assms
  by (auto simp: MockServer_StartTLS_def NewHTTPConfig_def NewGRPCConfig_def apply_options_def
      http_option_defs grpc_option_defs Let_def http_HasTLS_def grpc_HasTLS_def HasGRPCTLS_def)

text \<open>
  The mock answers the routes the service leaves unimplemented: over any connection to it the
  checkpoint route forwards the fixed checkpoint.
\<close>

lemma mock_checkpoint_route:
  assumes "conn_documented cc (mockRekorServer lay)"
    and "gw_AnnotateContext g Rekor_GetCheckpoint_FullMethodName q = None"
  shows "RegisterRekorHandlerClient g cc q GET_checkpoint w st =
    (gw_ForwardBody g no_md (octet_stream ''test-checkpoint'') w, st \<lparr>cs_headers := []\<rparr>)"
proof -
  have "md_of [] = no_md" by (simp add: fun_eq_iff md_of_def no_md_def)
  then show ?thesis
    using assms(2)
    by (simp add: gateway_respond_def request_Rekor_GetCheckpoint_0_def
        rekorClient_served [OF assms(1)] served_def recovered_def mockRekorServer_def
        mock_GetCheckpoint_def)
qed

text \<open>
  The certificate: two files in the temporary directory, the certificate signed with the key whose
  PEM text is in the other file, valid for a day; nothing else is written.
\<close>

lemma generateSelfSignedCert_Ok:
  assumes "generateSelfSignedCert ce fs = Ok ((c, k), fs')"
  shows "c = path_Join (ce_TempDir ce) ''cert.pem'' \<and> k = path_Join (ce_TempDir ce) ''key.pem''
    \<and> (\<exists>priv der p8. ce_GenerateKey ce 2048 = Ok priv
       \<and> ce_CreateCertificate ce (self_signed_template (ce_Now ce)) (self_signed_template (ce_Now ce))
           (ce_Public ce priv) priv = Ok der
       \<and> ce_MarshalPKCS8PrivateKey ce priv = Ok p8
       \<and> fs' = fs(c \<mapsto> ce_pem ce ''CERTIFICATE'' der, k \<mapsto> ce_pem ce ''PRIVATE KEY'' p8))"
  using assms by (auto simp: generateSelfSignedCert_def write_pem_def go_bind_eq_Ok Let_def)

text \<open>With removals that succeed, \<open>Stop\<close> leaves no file it was to clean up.\<close>

lemma cleanup_removes:
  assumes "\<And>f fs. os_Remove f fs = Ok (fs(f := None))"
  shows "cleanup os_Remove names fs f = (if f \<in> set names then None else fs f)"
  unfolding cleanup_def using assms by (induction names arbitrary: fs) auto

lemma mock_TLS_cleanup:
  assumes "MockServer_StartTLS (c, k) get ms = (ms', s, r)"
    and "\<And>f fs. os_Remove f fs = Ok (fs(f := None))"
    and "MockServer_Stop os_Remove ms' (s1, fs) (s2, fs')"
  shows "fs' c = None" "fs' k = None" "prog s2 = []"
  using assms(3,1)
  by (auto elim!: MockServer_Stop.cases simp: cleanup_removes [OF assms(2)] MockServer_StartTLS_def Let_def)

text \<open>A key pair loader that reads both files gives the gRPC server of the harness its credentials.\<close>

lemma mock_TLS_credentials:
  assumes "MockServer_StartTLS (c, k) get ms = (ms', s, r)" "c \<noteq> []" "k \<noteq> []" "lk c k = Ok cert"
  shows "\<exists>gs. newGRPCServer lk ext (ms_gc ms') = Ok gs
    \<and> grpc_creds gs = [\<lparr>tc_Certificates = [cert], tc_MinVersion = VersionTLS13, tc_InsecureSkipVerify = False\<rparr>]"
proof -
  have "gc_certFile (ms_gc ms') = c" "gc_keyFile (ms_gc ms') = k"
    using assms(1)
    by (auto simp: MockServer_StartTLS_def NewGRPCConfig_def apply_options_def grpc_option_defs Let_def)
  then show ?thesis
    using assms(2-4)
    by (simp add: newGRPCServer_def grpc_HasTLS_def loadTLSCredentials_def Let_def grpc_creds_def)
qed

end
