(* ===== verification/Abstract_Log.thy ===== *)
theory Abstract_Log
  imports Rekor_Prelude "HOL-Library.Sublist"
begin

text \<open>
  What a transparency log promises its writers, free of any detail of the service: a list of
  entries that only grows, and for each call at most one outcome.  A call that created an entry is
  told an index of its own that holds its data, a call that repeats an entry is told an index that
  holds the same data, and a call may be refused.
\<close>

section \<open>The abstract log\<close>

definition stored :: "bytes list \<Rightarrow> nat \<Rightarrow> bytes \<Rightarrow> bool" where
  "stored xs k b \<longleftrightarrow> k < length xs \<and> xs ! k = b"

datatype outcome = Created nat bytes | Existing nat bytes | Refused

record alog =
  al_entries :: "bytes list"
  al_outcomes :: "nat \<Rightarrow> outcome option"

inductive alog_step :: "alog \<Rightarrow> alog \<Rightarrow> bool" where
  grow: "prefix (al_entries a) xs \<Longrightarrow> alog_step a (a \<lparr>al_entries := xs\<rparr>)"
| create:
    "al_outcomes a i = None \<Longrightarrow> stored (al_entries a) k b \<Longrightarrow>
     (\<And>j b'. al_outcomes a j \<noteq> Some (Created k b')) \<Longrightarrow>
     alog_step a (a \<lparr>al_outcomes := (al_outcomes a)(i \<mapsto> Created k b)\<rparr>)"
| find:
    "al_outcomes a i = None \<Longrightarrow> stored (al_entries a) k b \<Longrightarrow>
     alog_step a (a \<lparr>al_outcomes := (al_outcomes a)(i \<mapsto> Existing k b)\<rparr>)"
| refuse:
    "al_outcomes a i = None \<Longrightarrow>
     alog_step a (a \<lparr>al_outcomes := (al_outcomes a)(i \<mapsto> Refused)\<rparr>)"

inductive_cases alog_step_elim: "alog_step a a'"

text \<open>
  The invariant of the abstract log: every answer is true of the entries, and no two calls are told
  that they created the same index.
\<close>

definition alog_inv :: "alog \<Rightarrow> bool" where
  "alog_inv a \<longleftrightarrow>
     (\<forall>i k b. al_outcomes a i = Some (Created k b) \<or> al_outcomes a i = Some (Existing k b) \<longrightarrow>
        stored (al_entries a) k b)
   \<and> (\<forall>i j k b b'. al_outcomes a i = Some (Created k b) \<longrightarrow>
        al_outcomes a j = Some (Created k b') \<longrightarrow> i = j)"

lemma stored_prefix: "stored xs k b \<Longrightarrow> prefix xs ys \<Longrightarrow> stored ys k b"
  by (auto simp: stored_def prefix_def nth_append)

lemma alog_step_inv: "alog_step a a' \<Longrightarrow> alog_inv a \<Longrightarrow> alog_inv a'"
proof (induction rule: alog_step.induct)
  case (grow a xs)
  then show ?case unfolding alog_inv_def by (auto intro: stored_prefix)
next
  case (create a i k b)
  then show ?case unfolding alog_inv_def by (auto split: if_splits)
qed (auto simp: alog_inv_def split: if_splits)

lemma alog_step_outcome:
  assumes "al_outcomes a i = None"
    and "\<And>k b. oc = Created k b \<Longrightarrow>
      stored (al_entries a) k b \<and> (\<forall>j b'. al_outcomes a j \<noteq> Some (Created k b'))"
    and "\<And>k b. oc = Existing k b \<Longrightarrow> stored (al_entries a) k b"
  shows "alog_step a (a \<lparr>al_outcomes := (al_outcomes a)(i \<mapsto> oc)\<rparr>)"
  using assms by (cases oc) (auto intro: alog_step.intros)

lemma alog_step_keeps:
  assumes "alog_step a a'"
  shows "prefix (al_entries a) (al_entries a')" "al_outcomes a i = Some x \<Longrightarrow> al_outcomes a' i = Some x"
  using assms by (auto elim!: alog_step_elim)

lemma alog_run_keeps:
  assumes "alog_step\<^sup>*\<^sup>* a a'"
  shows "prefix (al_entries a) (al_entries a')" "al_outcomes a i = Some x \<Longrightarrow> al_outcomes a' i = Some x"
    "alog_inv a \<Longrightarrow> alog_inv a'"
  using assms
  by (induction rule: rtranclp_induct)
     (auto dest: alog_step_keeps alog_step_inv prefix_order.order_trans)

end
