(* ===== verification/Concurrent_Service.thy ===== *)
theory Concurrent_Service
  imports Service Abstract_Log
begin

text \<open>
  Concurrent requests.  The gRPC server runs a handler goroutine per call, and the handlers share
  the log and the counters.  A call of \<open>CreateEntry\<close> touches the log three times: it hands the
  entry to the appender (\<open>addFn\<close>), it waits for the entry to be published (\<open>Await\<close>), and it
  reads tiles for the proof (\<open>buildProof\<close>).  Here the handler is cut at these points into three
  steps, and a transition system interleaves the steps of any number of calls with each other and
  with whatever else happens to the log (integration, other servers).  Response headers belong to
  one call; a counter is incremented atomically.

  Each step of the interleaved service is simulated by steps of the abstract log of theory
  \<open>Abstract_Log\<close>, given the documented behaviour of the log library.
\<close>

section \<open>The handler in three steps\<close>

datatype 'f phase =
    Submitted pb_KindVersion counter 'f
  | Published pb_KindVersion counter Index bytes
  | Answered "pb_TransparencyLogEntry rpc" "(string \<times> string) list"

text \<open>A call, with the entry it handed to the log, if it got there.\<close>

record 'f call =
  call_entry :: "tessera_Entry option"
  call_phase :: "'f phase"

definition answer ::
    "tessera_Entry option \<Rightarrow> pb_TransparencyLogEntry rpc \<times> 'w call_state \<Rightarrow> 'f call \<times> 'w call_state" where
  "answer en r =
     (let (x, st) = recovered r
      in (\<lparr>call_entry = en, call_phase = Answered x (cs_headers st)\<rparr>, st))"

definition call_begin ::
    "('reg, 'note) deps \<Rightarrow> ('reg, 'w) Server \<Rightarrow> ('w, 'f) storage \<Rightarrow> pb_CreateEntryRequest option \<Rightarrow>
     'w call_state \<Rightarrow> 'f call \<times> 'w call_state" where
  "call_begin d s stg req st =
     (if server_readOnly s then
        (let st = SetHeader httpStatusCodeHeader ''405'' st;
             st = SetHeader httpErrorMessageHeader
               ''This log has been frozen, please switch to the latest log.'' st
         in answer None (RpcErr Unimplemented ''log frozen'', st))
      else
        case select_entry d s req of
          RpcPanic \<Rightarrow> answer None (RpcPanic, st)
        | RpcErr c m \<Rightarrow> answer None (RpcErr c m, st)
        | RpcOk (kv, serialized, metricsCounter) \<Rightarrow>
            (case d_jsoncanonicalizer_Transform d serialized of
               Panic \<Rightarrow> answer None (RpcPanic, st)
             | Err e \<Rightarrow> answer None (RpcErr InvalidArgument ''invalid entry'', st)
             | Ok canonicalized \<Rightarrow>
                 (let entry = tl_NewEntry (d_tlog d) canonicalized in
                  case server_storage s of
                    None \<Rightarrow> answer None (RpcPanic, st)
                  | Some _ \<Rightarrow>
                      (let (future, w) = storage_addFn stg entry (cs_log st)
                       in (\<lparr>call_entry = Some entry, call_phase = Submitted kv metricsCounter future\<rparr>,
                           st \<lparr>cs_log := w\<rparr>)))))"

definition call_await ::
    "('w, 'f) storage \<Rightarrow> tessera_Entry \<Rightarrow> pb_KindVersion \<Rightarrow> counter \<Rightarrow> 'f \<Rightarrow> 'w call_state \<Rightarrow>
     'f call \<times> 'w call_state" where
  "call_await stg entry kv metricsCounter future st =
     (let (r, w) = storage_Await stg future (cs_log st);
          st = st \<lparr>cs_log := w\<rparr>
      in case r of
           Panic \<Rightarrow> answer (Some entry) (RpcPanic, st)
         | Err e \<Rightarrow> answer (Some entry) (add_failed (Wrap ''add entry'' (Wrap ''await'' e)) st)
         | Ok (idx, checkpointBody) \<Rightarrow>
             (\<lparr>call_entry = Some entry, call_phase = Published kv metricsCounter idx checkpointBody\<rparr>, st))"

text \<open>What \<open>storage.Add\<close> does once the entry is published.\<close>

definition published_result ::
    "'note tlog \<Rightarrow> ('w, 'f) storage \<Rightarrow> tessera_Entry \<Rightarrow> Index \<Rightarrow> bytes \<Rightarrow> 'w \<Rightarrow>
     pb_TransparencyLogEntry result" where
  "published_result lg stg entry idx checkpointBody w =
     go_bind (NewSafeInt64 (AnyUint64 (Index_Index idx)))
       (\<lambda>e. Wrap ''add entry'' (Wrap ''invalid index'' e)) (\<lambda>safeIdx.
     if Index_IsDup idx then Err (DuplicateError (SafeInt64_U safeIdx))
     else
       go_bind (buildProof lg stg w safeIdx checkpointBody (te_LeafHash entry))
         (Wrap ''building inclusion proof'') (\<lambda>inclusionProof.
       Ok \<lparr>TLE_LogIndex = SafeInt64_I safeIdx, TLE_LogId = None, TLE_KindVersion = None,
           TLE_InclusionProof = Some inclusionProof,
           TLE_CanonicalizedBody = te_Data entry\<rparr>))"

definition call_finish ::
    "('reg, 'note) deps \<Rightarrow> ('reg, 'w) Server \<Rightarrow> ('w, 'f) storage \<Rightarrow> tessera_Entry \<Rightarrow> pb_KindVersion \<Rightarrow>
     counter \<Rightarrow> Index \<Rightarrow> bytes \<Rightarrow> 'w call_state \<Rightarrow> 'f call \<times> 'w call_state" where
  "call_finish d s stg entry kv metricsCounter idx checkpointBody st =
     answer (Some entry)
       (case published_result (d_tlog d) stg entry idx checkpointBody (cs_log st) of
          Panic \<Rightarrow> (RpcPanic, st)
        | Err e \<Rightarrow> add_failed e st
        | Ok tle \<Rightarrow>
            (let tle = tle \<lparr>TLE_KindVersion := Some kv\<rparr>;
                 tle = tle \<lparr>TLE_LogId := Some (server_logID s)\<rparr>;
                 st = SetHeader httpStatusCodeHeader ''201'' st;
                 st = Inc metricsCounter st
             in (RpcOk tle, st)))"

text \<open>One step of a call that is not answered yet.\<close>

fun call_next ::
    "('reg, 'note) deps \<Rightarrow> ('reg, 'w) Server \<Rightarrow> ('w, 'f) storage \<Rightarrow> 'f call \<Rightarrow> 'w call_state \<Rightarrow>
     'f call \<times> 'w call_state" where
  "call_next d s stg \<lparr>call_entry = Some en, call_phase = Submitted kv c f\<rparr> st =
     call_await stg en kv c f st"
| "call_next d s stg \<lparr>call_entry = Some en, call_phase = Published kv c idx b\<rparr> st =
     call_finish d s stg en kv c idx b st"
| "call_next d s stg x st = (x, st)"

fun answered :: "'f phase \<Rightarrow> bool" where
  "answered (Answered x hs) = True"
| "answered _ = False"

text \<open>A call that nothing interleaves with is the handler with its recovery.\<close>

definition call_alone ::
    "('reg, 'note) deps \<Rightarrow> ('reg, 'w) Server \<Rightarrow> ('w, 'f) storage \<Rightarrow> pb_CreateEntryRequest option \<Rightarrow>
     'w call_state \<Rightarrow> 'f call \<times> 'w call_state" where
  "call_alone d s stg req st =
     (let (x1, st1) = call_begin d s stg req st;
          (x2, st2) = call_next d s stg x1 st1
      in call_next d s stg x2 st2)"

lemma cs_log_Inc [simp]: "cs_log (Inc c st) = cs_log st"
  by (cases c) simp_all

lemma call_next_answered [simp]:
  "answered (call_phase x) \<Longrightarrow> call_next d s stg x st = (x, st)"
  by (cases x; cases "call_phase x") auto

lemma go_bind_assoc:
  "go_bind (go_bind r f g) f' h = go_bind r (\<lambda>e. f' (f e)) (\<lambda>x. go_bind (g x) f' h)"
  by (cases r) simp_all

lemma storage_Add_published:
  "storage_Add lg stg en w =
     (case awaited stg en w of
        (Ok (idx, b), w') \<Rightarrow> (published_result lg stg en idx b w', w')
      | (Err e, w') \<Rightarrow> (Err (Wrap ''add entry'' (Wrap ''await'' e)), w')
      | (Panic, w') \<Rightarrow> (Panic, w'))"
  by (cases "awaited stg en w"; cases "fst (awaited stg en w)")
     (auto simp: storage_Add_def addEntry_awaited published_result_def Let_def go_bind_assoc)

section \<open>Interleaving\<close>

record ('w, 'f) service =
  sv_shared :: "'w call_state"
  sv_calls :: "nat \<Rightarrow> 'f call option"

text \<open>
  A new call arrives under an unused number; a call takes its next step, with the response headers
  of its own; the log moves on by itself, as \<open>env\<close> allows.
\<close>

inductive serve_step ::
    "('reg, 'note) deps \<Rightarrow> ('reg, 'w) Server \<Rightarrow> ('w, 'f) storage \<Rightarrow> ('w \<Rightarrow> 'w \<Rightarrow> bool) \<Rightarrow>
     ('w, 'f) service \<Rightarrow> ('w, 'f) service \<Rightarrow> bool" for d s stg env where
  arrive:
    "sv_calls \<sigma> i = None \<Longrightarrow>
     call_begin d s stg req ((sv_shared \<sigma>) \<lparr>cs_headers := []\<rparr>) = (x, st) \<Longrightarrow>
     serve_step d s stg env \<sigma> \<lparr>sv_shared = st, sv_calls = (sv_calls \<sigma>)(i \<mapsto> x)\<rparr>"
| advance:
    "sv_calls \<sigma> i = Some x \<Longrightarrow> \<not> answered (call_phase x) \<Longrightarrow>
     call_next d s stg x ((sv_shared \<sigma>) \<lparr>cs_headers := []\<rparr>) = (x', st) \<Longrightarrow>
     serve_step d s stg env \<sigma> \<lparr>sv_shared = st, sv_calls = (sv_calls \<sigma>)(i \<mapsto> x')\<rparr>"
| elsewhere:
    "env (cs_log (sv_shared \<sigma>)) w \<Longrightarrow>
     serve_step d s stg env \<sigma> (\<sigma> \<lparr>sv_shared := (sv_shared \<sigma>) \<lparr>cs_log := w\<rparr>\<rparr>)"

definition idle :: "'w call_state \<Rightarrow> ('w, 'f) service" where
  "idle st = \<lparr>sv_shared = st, sv_calls = (\<lambda>_. None)\<rparr>"

fun created :: "'f phase \<Rightarrow> bool" where
  "created (Answered (RpcOk tle) hs) = True"
| "created _ = False"

section \<open>What the log promises\<close>

text \<open>
  What can be said of a state of the log: its entries, the indices that were reported to a caller
  as new, and the data each outstanding future stands for.  All three only grow.
\<close>

record ('w, 'f) log_view =
  lv_entries :: "'w \<Rightarrow> bytes list"
  lv_claimed :: "'w \<Rightarrow> nat set"
  lv_promised :: "'w \<Rightarrow> 'f \<Rightarrow> bytes \<Rightarrow> bool"

definition grows :: "('w, 'f) log_view \<Rightarrow> 'w \<Rightarrow> 'w \<Rightarrow> bool" where
  "grows v w w' \<longleftrightarrow>
     prefix (lv_entries v w) (lv_entries v w') \<and> lv_claimed v w \<subseteq> lv_claimed v w'
     \<and> (\<forall>f b. lv_promised v w f b \<longrightarrow> lv_promised v w' f b)"

text \<open>
  The documented behaviour of a tessera appender: no operation removes or changes an entry; the
  future of an entry resolves to an index at which the log holds the entry's data, and an index
  reported as new is reported as new once.  This is stated for futures that are awaited once, as
  \<open>storage.addEntry\<close> awaits them; a second wait on the same future, which may repeat its answer,
  does not occur.
\<close>

definition sequenced_log ::
    "('w, 'f) log_view \<Rightarrow> ('w, 'f) storage \<Rightarrow> ('w \<Rightarrow> 'w \<Rightarrow> bool) \<Rightarrow> bool" where
  "sequenced_log v stg env \<longleftrightarrow>
     (\<forall>w w'. env w w' \<longrightarrow> grows v w w')
   \<and> (\<forall>en w f w'. storage_addFn stg en w = (f, w') \<longrightarrow>
        grows v w w' \<and> lv_promised v w' f (te_Data en))
   \<and> (\<forall>f w r w'. storage_Await stg f w = (r, w') \<longrightarrow> grows v w w')
   \<and> (\<forall>f w idx cp w' b. storage_Await stg f w = (Ok (idx, cp), w') \<longrightarrow> lv_promised v w f b \<longrightarrow>
        stored (lv_entries v w') (unat (Index_Index idx)) b
      \<and> (\<not> Index_IsDup idx \<longrightarrow> unat (Index_Index idx) \<notin> lv_claimed v w
           \<and> unat (Index_Index idx) \<in> lv_claimed v w'))"

text \<open>The libraries know nothing of \<open>DuplicateError\<close>: no error of theirs is one.\<close>

definition foreign :: "err \<Rightarrow> bool" where
  "foreign e \<longleftrightarrow> errors_As_Duplicate e = None"

definition foreign_errors :: "'note tlog \<Rightarrow> ('w, 'f) storage \<Rightarrow> bool" where
  "foreign_errors lg stg \<longleftrightarrow>
     (\<forall>f w e w'. storage_Await stg f w = (Err e, w') \<longrightarrow> foreign e)
   \<and> (\<forall>w l i p e. storage_readTileFn stg w l i p = Err e \<longrightarrow> foreign e)
   \<and> (\<forall>b e. tl_Unmarshal lg b = Err e \<longrightarrow> foreign e)
   \<and> (\<forall>n fetch. (\<forall>l i p e. fetch l i p = Err e \<longrightarrow> foreign e) \<longrightarrow>
        (\<forall>e. tl_NewProofBuilder lg n fetch = Err e \<longrightarrow> foreign e)
      \<and> (\<forall>pb i e. tl_NewProofBuilder lg n fetch = Ok pb \<longrightarrow> pb i = Err e \<longrightarrow> foreign e))
   \<and> (\<forall>i n leaf hs root e. tl_VerifyInclusion lg i n leaf hs root = Err e \<longrightarrow> foreign e)"

lemma foreign_simps [simp]:
  "foreign (Wrap p e) = foreign e" "foreign (ErrText t)" "\<not> foreign (DuplicateError i)"
  "foreign (InclusionProofVerificationError i e) = foreign e"
  by (simp_all add: foreign_def)

lemma foreign_await:
  "foreign_errors lg stg \<Longrightarrow> storage_Await stg f w = (Err e, w') \<Longrightarrow> foreign e"
  unfolding foreign_errors_def by (drule conjunct1) blast

lemma buildProof_foreign:
  assumes "foreign_errors lg stg" "buildProof lg stg w idx cp leaf = Err e"
  shows "foreign e"
proof -
  note lib = assms(1) [unfolded foreign_errors_def]
  have "\<And>l i p e. storage_readTileFn stg w l i p = Err e \<Longrightarrow> foreign e"
    using lib by blast
  then have tile: "\<forall>l i p e. storage_ReadTile stg w l i p = Err e \<longrightarrow> foreign e"
    by (auto simp: storage_ReadTile_def go_bind_eq_Err)
  have pb: "(\<forall>e. tl_NewProofBuilder lg n (storage_ReadTile stg w) = Err e \<longrightarrow> foreign e)
      \<and> (\<forall>pb i e. tl_NewProofBuilder lg n (storage_ReadTile stg w) = Ok pb \<longrightarrow> pb i = Err e \<longrightarrow> foreign e)"
    for n using lib tile by blast
  have steps: "\<And>b e. tl_Unmarshal lg b = Err e \<Longrightarrow> foreign e"
    "\<And>i n leaf hs root e. tl_VerifyInclusion lg i n leaf hs root = Err e \<Longrightarrow> foreign e"
    using lib by blast+
  show ?thesis
    using assms(2) pb
    by (auto simp: buildProof_def unmarshalCheckpoint_def go_bind_eq_Err dest: steps)
qed

lemma published_result_Err:
  assumes "foreign_errors lg stg" "published_result lg stg en idx cp w = Err e"
  shows "foreign e \<or> Index_IsDup idx \<and> e = DuplicateError (Index_Index idx)
    \<and> uint (Index_Index idx) < 2 ^ 63"
proof -
  have "NewSafeInt64 (AnyUint64 i) = Err e \<Longrightarrow> foreign e" for i e
    by (auto simp: NewSafeInt64.simps split: if_splits)
  then show ?thesis
    using assms(2) buildProof_foreign [OF assms(1)]
    by (auto simp: published_result_def go_bind_eq_Err NewSafeInt64_uint_Ok SafeInt64_U_def
        split: if_splits)
qed

lemma published_result_Ok:
  assumes "published_result lg stg en idx cp w = Ok tle"
  shows "\<not> Index_IsDup idx" "TLE_LogIndex tle = Index_Index idx" "TLE_CanonicalizedBody tle = te_Data en"
  using assms
  by (auto simp: published_result_def go_bind_eq_Ok NewSafeInt64_uint_Ok SafeInt64_I_def
      split: if_splits)

section \<open>The service refines the abstract log\<close>

text \<open>What a client reads off an answer: the entry, or the index in the header of a duplicate.\<close>

definition reported_index :: "(string \<times> string) list \<Rightarrow> nat option" where
  "reported_index hs =
     (case map_of hs duplicateEntryHeader of
        None \<Rightarrow> None
      | Some v \<Rightarrow> (case Atoi v of None \<Rightarrow> None | Some n \<Rightarrow> Some (nat n)))"

definition answer_outcome ::
    "tessera_Entry option \<Rightarrow> pb_TransparencyLogEntry rpc \<Rightarrow> (string \<times> string) list \<Rightarrow> outcome" where
  "answer_outcome en r hs =
     (case r of
        RpcOk tle \<Rightarrow> Created (unat (TLE_LogIndex tle)) (TLE_CanonicalizedBody tle)
      | _ \<Rightarrow> (case (en, reported_index hs) of
                (Some e, Some k) \<Rightarrow> Existing k (te_Data e)
              | _ \<Rightarrow> Refused))"

fun call_outcome :: "'f call \<Rightarrow> outcome option" where
  "call_outcome \<lparr>call_entry = en, call_phase = Answered r hs\<rparr> = Some (answer_outcome en r hs)"
| "call_outcome _ = None"

definition abs_log :: "('w, 'f) log_view \<Rightarrow> ('w, 'f) service \<Rightarrow> alog" where
  "abs_log v \<sigma> =
     \<lparr>al_entries = lv_entries v (cs_log (sv_shared \<sigma>)),
      al_outcomes = (\<lambda>i. case sv_calls \<sigma> i of None \<Rightarrow> None | Some x \<Rightarrow> call_outcome x)\<rparr>"

text \<open>The index a call has been given as its own, from publication on.\<close>

fun claim :: "'f call \<Rightarrow> nat option" where
  "claim \<lparr>call_entry = en, call_phase = Published kv c idx cp\<rparr> =
     (if Index_IsDup idx then None else Some (unat (Index_Index idx)))"
| "claim \<lparr>call_entry = en, call_phase = Answered (RpcOk tle) hs\<rparr> = Some (unat (TLE_LogIndex tle))"
| "claim _ = None"

fun call_ok :: "('w, 'f) log_view \<Rightarrow> 'w \<Rightarrow> 'f call \<Rightarrow> bool" where
  "call_ok v w \<lparr>call_entry = Some en, call_phase = Submitted kv c f\<rparr> = lv_promised v w f (te_Data en)"
| "call_ok v w \<lparr>call_entry = Some en, call_phase = Published kv c idx cp\<rparr> =
     stored (lv_entries v w) (unat (Index_Index idx)) (te_Data en)"
| "call_ok v w \<lparr>call_entry = en, call_phase = Answered r hs\<rparr> = True"
| "call_ok v w _ = False"

definition service_inv :: "('w, 'f) log_view \<Rightarrow> ('w, 'f) service \<Rightarrow> bool" where
  "service_inv v \<sigma> \<longleftrightarrow>
     (\<forall>i x. sv_calls \<sigma> i = Some x \<longrightarrow> call_ok v (cs_log (sv_shared \<sigma>)) x
        \<and> (\<forall>k. claim x = Some k \<longrightarrow> k \<in> lv_claimed v (cs_log (sv_shared \<sigma>))))
   \<and> (\<forall>i j x y k. sv_calls \<sigma> i = Some x \<longrightarrow> sv_calls \<sigma> j = Some y \<longrightarrow>
        claim x = Some k \<longrightarrow> claim y = Some k \<longrightarrow> i = j)"

lemma grows_refl [simp]: "grows v w w"
  by (simp add: grows_def)

lemma call_ok_grows: "call_ok v w x \<Longrightarrow> grows v w w' \<Longrightarrow> call_ok v w' x"
  by (induction v w x rule: call_ok.induct) (auto simp: grows_def intro: stored_prefix)

lemma sequenced_logD:
  assumes "sequenced_log v stg env"
  shows "env w w' \<Longrightarrow> grows v w w'"
    "storage_addFn stg en w = (f, w') \<Longrightarrow> grows v w w' \<and> lv_promised v w' f (te_Data en)"
    "storage_Await stg f w = (r, w') \<Longrightarrow> grows v w w'"
    "storage_Await stg f w = (Ok (idx, cp), w') \<Longrightarrow> lv_promised v w f b \<Longrightarrow>
       stored (lv_entries v w') (unat (Index_Index idx)) b
     \<and> (\<not> Index_IsDup idx \<longrightarrow> unat (Index_Index idx) \<notin> lv_claimed v w
          \<and> unat (Index_Index idx) \<in> lv_claimed v w')"
  using assms unfolding sequenced_log_def by blast+

text \<open>An answer without a log entry, and without the index of one.\<close>

definition refusal :: "'f call \<Rightarrow> bool" where
  "refusal x \<longleftrightarrow> call_outcome x = Some Refused \<and> claim x = None \<and> (\<exists>r hs. call_phase x = Answered r hs)"

lemma refusal_ok:
  assumes "refusal x"
  shows "call_ok v w x" "answered (call_phase x)"
  using assms by (cases x; auto simp: refusal_def)+

lemma answer_refusal:
  assumes "answer en (r, st) = (x, st')" "\<And>tle. r \<noteq> RpcOk tle" "cs_headers st = [] \<or> en = None"
  shows "refusal x" "cs_log st' = cs_log st"
  using assms
  by (auto simp: answer_def recovered_def grpcPanicRecoveryHandler_def refusal_def answer_outcome_def
      reported_index_def Let_def split: rpc.splits option.splits)

lemma add_failed_foreign:
  assumes "foreign e" "add_failed e st = (r, st')"
  shows "cs_headers st' = cs_headers st" "cs_log st' = cs_log st" "\<And>tle. r \<noteq> RpcOk tle"
  using assms by (auto simp: add_failed_def foreign_def Let_def split: if_splits)

lemma call_begin_cases:
  assumes "sequenced_log v stg env" "cs_headers st = []" "call_begin d s stg req st = (x, st')"
  shows "grows v (cs_log st) (cs_log st')"
    and "refusal x \<or> (\<exists>en kv c f. x = \<lparr>call_entry = Some en, call_phase = Submitted kv c f\<rparr>
           \<and> lv_promised v (cs_log st') f (te_Data en))"
proof -
  have refused: "refusal x \<and> cs_log st' = cs_log st"
    if "answer None (r, st1) = (x, st')" "\<And>tle. r \<noteq> RpcOk tle" "cs_log st1 = cs_log st"
    for r st1 using answer_refusal [OF that(1,2)] that(3) by simp
  have "refusal x \<and> cs_log st' = cs_log st \<or> (\<exists>en kv c f w.
      storage_addFn stg en (cs_log st) = (f, w) \<and> cs_log st' = w
      \<and> x = \<lparr>call_entry = Some en, call_phase = Submitted kv c f\<rparr>)"
    using assms(3)
    by (auto simp: call_begin_def Let_def SetHeader_def dest!: refused
        split: if_splits rpc.splits result.splits option.splits prod.splits)
  with sequenced_logD(2) [OF assms(1)]
  show "grows v (cs_log st) (cs_log st')"
    "refusal x \<or> (\<exists>en kv c f. x = \<lparr>call_entry = Some en, call_phase = Submitted kv c f\<rparr>
           \<and> lv_promised v (cs_log st') f (te_Data en))"
    by fastforce+
qed

lemma call_await_cases:
  assumes "sequenced_log v stg env" "foreign_errors lg stg" "cs_headers st = []"
    and "call_await stg en kv c f st = (x, st')"
  shows "(refusal x \<or> (\<exists>idx cp. x = \<lparr>call_entry = Some en, call_phase = Published kv c idx cp\<rparr>
           \<and> storage_Await stg f (cs_log st) = (Ok (idx, cp), cs_log st')))
    \<and> grows v (cs_log st) (cs_log st')"
proof -
  obtain r w where r: "storage_Await stg f (cs_log st) = (r, w)" by fastforce
  have g: "grows v (cs_log st) w" using sequenced_logD(3) [OF assms(1) r] .
  show ?thesis
  proof (cases r)
    case (Ok q)
    then show ?thesis using assms(4) r g by (cases q) (auto simp: call_await_def)
  next
    case (Err e)
    then have f: "foreign (Wrap ''add entry'' (Wrap ''await'' e))"
      using foreign_await [OF assms(2)] r by simp
    obtain a st1 where a: "add_failed (Wrap ''add entry'' (Wrap ''await'' e)) (st \<lparr>cs_log := w\<rparr>) = (a, st1)"
      by fastforce
    have "answer (Some en) (a, st1) = (x, st')" using assms(4) r Err a by (simp add: call_await_def)
    from answer_refusal [OF this] add_failed_foreign [OF f a] g assms(3) show ?thesis by simp
  next
    case Panic
    then have "answer (Some en) (RpcPanic, st \<lparr>cs_log := w\<rparr>) = (x, st')"
      using assms(4) r by (simp add: call_await_def)
    from answer_refusal [OF this] g assms(3) show ?thesis by simp
  qed
qed

lemma call_finish_cases:
  assumes "foreign_errors (d_tlog d) stg" "cs_headers st = []"
    and "call_finish d s stg en kv c idx cp st = (x, st')"
  shows "cs_log st' = cs_log st \<and> answered (call_phase x)
    \<and> (refusal x
       \<or> call_outcome x = Some (Created (unat (Index_Index idx)) (te_Data en))
         \<and> \<not> Index_IsDup idx \<and> claim x = Some (unat (Index_Index idx))
       \<or> call_outcome x = Some (Existing (unat (Index_Index idx)) (te_Data en))
         \<and> Index_IsDup idx \<and> claim x = None)"
proof (cases "published_result (d_tlog d) stg en idx cp (cs_log st)")
  case (Ok tle)
  show ?thesis
    using assms(3) Ok published_result_Ok [OF Ok]
    by (auto simp: call_finish_def answer_def recovered_def answer_outcome_def Let_def SetHeader_def)
next
  case (Err e)
  obtain a st1 where a: "add_failed e st = (a, st1)" by fastforce
  have x: "answer (Some en) (a, st1) = (x, st')" using assms(3) Err a by (simp add: call_finish_def)
  show ?thesis
  proof (cases "foreign e")
    case True
    from answer_refusal [OF x] add_failed_foreign [OF True a] assms(2) refusal_ok show ?thesis by auto
  next
    case False
    then have e: "Index_IsDup idx" "e = DuplicateError (Index_Index idx)" "uint (Index_Index idx) < 2 ^ 63"
      using published_result_Err [OF assms(1) Err] by auto
    have "Atoi (FormatUint (unat (Index_Index idx))) = Some (uint (Index_Index idx))"
      using uint_less_unat [OF e(3)] by (simp add: Atoi_FormatUint)
    then show ?thesis
      using x a e(1,2) assms(2)
      by (auto simp: add_failed_def answer_def recovered_def answer_outcome_def reported_index_def
          SetHeader_def DuplicateError_Index_def)
  qed
next
  case Panic
  then have "answer (Some en) (RpcPanic, st) = (x, st')" using assms(3) by (simp add: call_finish_def)
  from answer_refusal [OF this] assms(2) refusal_ok show ?thesis by auto
qed

text \<open>
  One step of the service, seen from the log: it grows, a call that was not answered becomes
  \<open>x'\<close>, and the outcome of \<open>x'\<close>, if it has one, is one the abstract log allows.
\<close>

definition good_move :: "('w, 'f) log_view \<Rightarrow> 'w \<Rightarrow> 'w \<Rightarrow> nat option \<Rightarrow> 'f call \<Rightarrow> bool" where
  "good_move v w w' k0 x' \<longleftrightarrow>
     grows v w w' \<and> call_ok v w' x'
   \<and> (\<forall>k. claim x' = Some k \<longrightarrow> k \<in> lv_claimed v w' \<and> (k0 = Some k \<or> k \<notin> lv_claimed v w))
   \<and> (\<forall>k b. call_outcome x' = Some (Created k b) \<longrightarrow> k0 = Some k \<and> stored (lv_entries v w') k b)
   \<and> (\<forall>k b. call_outcome x' = Some (Existing k b) \<longrightarrow> stored (lv_entries v w') k b)"

lemma refusal_move:
  assumes "refusal x" "grows v w w'"
  shows "good_move v w w' k0 x"
  using refusal_ok(1) [OF assms(1)] assms by (auto simp: good_move_def refusal_def)

lemma begin_move:
  assumes "sequenced_log v stg env" "cs_headers st = []" "call_begin d s stg req st = (x, st')"
  shows "good_move v (cs_log st) (cs_log st') None x"
  using call_begin_cases(2) [OF assms]
proof
  assume "refusal x"
  with call_begin_cases(1) [OF assms] show ?thesis by (rule refusal_move [rotated])
qed (use call_begin_cases(1) [OF assms] in \<open>auto simp: good_move_def\<close>)

lemma next_move:
  assumes "sequenced_log v stg env" "foreign_errors (d_tlog d) stg" "cs_headers st = []"
    and "call_next d s stg x st = (x', st')" "\<not> answered (call_phase x)"
    and "call_ok v (cs_log st) x" "\<And>k. claim x = Some k \<Longrightarrow> k \<in> lv_claimed v (cs_log st)"
  shows "good_move v (cs_log st) (cs_log st') (claim x) x'"
proof (cases "call_phase x")
  case (Submitted kv c f)
  then obtain en where x: "x = \<lparr>call_entry = Some en, call_phase = Submitted kv c f\<rparr>"
      "lv_promised v (cs_log st) f (te_Data en)"
    using assms(6) by (cases x; cases "call_entry x") auto
  have a: "call_await stg en kv c f st = (x', st')" using assms(4) x by simp
  show ?thesis
    using call_await_cases [OF assms(1-3) a] sequenced_logD(4) [OF assms(1) _ x(2)] x(1)
    by (auto intro: refusal_move) (auto simp: good_move_def)
next
  case (Published kv c idx cp)
  then obtain en where x: "x = \<lparr>call_entry = Some en, call_phase = Published kv c idx cp\<rparr>"
      "stored (lv_entries v (cs_log st)) (unat (Index_Index idx)) (te_Data en)"
    using assms(6) by (cases x; cases "call_entry x") auto
  have f: "call_finish d s stg en kv c idx cp st = (x', st')" using assms(4) x by simp
  have ok: "call_ok v (cs_log st') x'" if "answered (call_phase x')"
    using that by (cases x'; cases "call_phase x'") auto
  show ?thesis
    using call_finish_cases [OF assms(2,3) f] x assms(7) ok
    by (auto intro: refusal_move) (auto simp: good_move_def)
qed (use assms(5) in simp)

lemma service_inv_unique:
  "service_inv v \<sigma> \<Longrightarrow> sv_calls \<sigma> i = Some x \<Longrightarrow> sv_calls \<sigma> j = Some y \<Longrightarrow>
   claim x = Some k \<Longrightarrow> claim y = Some k \<Longrightarrow> i = j"
  unfolding service_inv_def by blast

lemma created_claim: "call_outcome x = Some (Created k b) \<Longrightarrow> claim x = Some k"
  by (cases x; cases "call_phase x")
     (auto simp: answer_outcome_def split: rpc.splits option.splits)

definition claimed_by :: "'f call option \<Rightarrow> nat option" where
  "claimed_by c = (case c of None \<Rightarrow> None | Some x \<Rightarrow> claim x)"

lemma claimed_by_Some: "claimed_by c = Some k \<longleftrightarrow> (\<exists>x. c = Some x \<and> claim x = Some k)"
  by (auto simp: claimed_by_def split: option.splits)

lemma service_inv_move:
  assumes "service_inv v \<sigma>"
    and "good_move v (cs_log (sv_shared \<sigma>)) (cs_log st) (claimed_by (sv_calls \<sigma> i)) x'"
  shows "service_inv v \<lparr>sv_shared = st, sv_calls = (sv_calls \<sigma>)(i \<mapsto> x')\<rparr>"
proof -
  let ?w = "cs_log (sv_shared \<sigma>)" and ?w' = "cs_log st"
  note m = assms(2) [unfolded good_move_def]
  have g: "grows v ?w ?w'" using m by simp
  have old: "call_ok v ?w' x" "claim x = Some k \<Longrightarrow> k \<in> lv_claimed v ?w'"
      "claim x = Some k \<Longrightarrow> k \<in> lv_claimed v ?w"
    if "sv_calls \<sigma> j = Some x" for j x k
    using assms(1) that g unfolding service_inv_def grows_def
    by (blast intro: call_ok_grows [OF _ g])+
  have "j = i" if "sv_calls \<sigma> j = Some x" "claim x = Some k" "claim x' = Some k" for j x k
  proof -
    have "claimed_by (sv_calls \<sigma> i) = Some k" using m that(3) old(3) [OF that(1,2)] by blast
    then show ?thesis
      using service_inv_unique [OF assms(1) that(1) _ that(2)] by (auto simp: claimed_by_Some)
  qed
  then show ?thesis
    unfolding service_inv_def using m old assms(1)
    by (fastforce simp: service_inv_def split: if_splits)
qed

lemma abs_log_move:
  assumes "service_inv v \<sigma>" "claimed_by (sv_calls \<sigma> i) = k0"
    and "\<And>x. sv_calls \<sigma> i = Some x \<Longrightarrow> call_outcome x = None"
    and "good_move v (cs_log (sv_shared \<sigma>)) (cs_log st) k0 x'"
  shows "alog_step\<^sup>*\<^sup>* (abs_log v \<sigma>)
    (abs_log v \<lparr>sv_shared = st, sv_calls = (sv_calls \<sigma>)(i \<mapsto> x')\<rparr>)" (is "alog_step\<^sup>*\<^sup>* _ ?b")
proof -
  note m = assms(4) [unfolded good_move_def]
  let ?a = "(abs_log v \<sigma>) \<lparr>al_entries := lv_entries v (cs_log st)\<rparr>"
  have grown: "alog_step (abs_log v \<sigma>) ?a"
    using m by (intro alog_step.grow) (simp add: abs_log_def grows_def)
  have o: "al_outcomes ?a i = None"
    using assms(3) by (auto simp: abs_log_def split: option.splits)
  have b: "?b = ?a \<lparr>al_outcomes := (al_outcomes ?a)(i := call_outcome x')\<rparr>"
    by (auto simp: abs_log_def fun_eq_iff)
  have unused: "al_outcomes ?a j \<noteq> Some (Created k b')" if k: "k0 = Some k" for j k b'
  proof
    assume "al_outcomes ?a j = Some (Created k b')"
    then obtain x where x: "sv_calls \<sigma> j = Some x" "call_outcome x = Some (Created k b')"
      by (auto simp: abs_log_def split: option.splits)
    obtain y where y: "sv_calls \<sigma> i = Some y" "claim y = Some k"
      using assms(2) k by (auto simp: claimed_by_Some)
    have "j = i" using service_inv_unique [OF assms(1) x(1) y(1) created_claim [OF x(2)] y(2)] .
    with x assms(3) show False by auto
  qed
  have "?b = ?a \<or> alog_step ?a ?b"
  proof (cases "call_outcome x'")
    case None
    then show ?thesis using o unfolding b by (simp add: fun_upd_idem)
  next
    case (Some oc)
    have "alog_step ?a (?a \<lparr>al_outcomes := (al_outcomes ?a)(i \<mapsto> oc)\<rparr>)"
      using m Some unused by (intro alog_step_outcome [OF o]) auto
    then show ?thesis unfolding b Some ..
  qed
  with grown show ?thesis by (auto intro: r_into_rtranclp rtranclp.rtrancl_into_rtrancl)
qed

lemma service_simulates:
  assumes "sequenced_log v stg env" "foreign_errors (d_tlog d) stg"
    and "serve_step d s stg env \<sigma> \<sigma>'" "service_inv v \<sigma>"
  shows "service_inv v \<sigma>' \<and> alog_step\<^sup>*\<^sup>* (abs_log v \<sigma>) (abs_log v \<sigma>')"
  using assms(3)
proof cases
  case (arrive i req x st)
  have "good_move v (cs_log (sv_shared \<sigma>)) (cs_log st) (claimed_by (sv_calls \<sigma> i)) x"
    using begin_move [OF assms(1) _ arrive(3)] arrive(2) by (simp add: claimed_by_def)
  then show ?thesis
    using service_inv_move [OF assms(4)] abs_log_move [OF assms(4) refl] arrive(2)
    unfolding arrive(1) by fastforce
next
  case (advance i x x' st)
  have n: "call_outcome x = None" using advance(3) by (cases x; cases "call_phase x") auto
  have "good_move v (cs_log (sv_shared \<sigma>)) (cs_log st) (claimed_by (sv_calls \<sigma> i)) x'"
    using next_move [OF assms(1,2) _ advance(4,3)] advance(2) assms(4)
    by (simp add: claimed_by_def service_inv_def)
  then show ?thesis
    using service_inv_move [OF assms(4)] abs_log_move [OF assms(4) refl] advance(2) n
    unfolding advance(1) by fastforce
next
  case (elsewhere w)
  have g: "grows v (cs_log (sv_shared \<sigma>)) w" using sequenced_logD(1) [OF assms(1) elsewhere(2)] .
  have "service_inv v \<sigma>'"
    using assms(4) call_ok_grows [OF _ g] g unfolding elsewhere(1) service_inv_def
    by (auto simp: grows_def)
  moreover have "alog_step (abs_log v \<sigma>) (abs_log v \<sigma>')"
    using alog_step.grow [of "abs_log v \<sigma>" "lv_entries v w"] g
    by (simp add: elsewhere(1) abs_log_def grows_def)
  ultimately show ?thesis by blast
qed

lemma service_run_simulates:
  assumes "sequenced_log v stg env" "foreign_errors (d_tlog d) stg"
    and "(serve_step d s stg env)\<^sup>*\<^sup>* \<sigma> \<sigma>'" "service_inv v \<sigma>"
  shows "service_inv v \<sigma>' \<and> alog_step\<^sup>*\<^sup>* (abs_log v \<sigma>) (abs_log v \<sigma>')"
  using assms(3,4)
  by (induction rule: rtranclp_induct)
     (auto dest: service_simulates [OF assms(1,2)] intro: rtranclp_trans)

lemma idle_inv: "service_inv v (idle st)" "alog_inv (abs_log v (idle st))"
  by (simp_all add: service_inv_def idle_def alog_inv_def abs_log_def)

end
