(* ===== verification/Concurrent_Runs.thy ===== *)
theory Concurrent_Runs
  imports Concurrent_Service
begin

text \<open>
  What holds in every run of the service with concurrent calls: it is a run of the abstract log, its
  answers stay true, the entries it hands out can be verified, its counters are exact; and a call
  that runs alone is the handler.  A schedule makes runs executable.
\<close>

section \<open>A call alone, and runs\<close>

lemma call_alone_submitted:
  assumes "server_storage s = Some (as_Storage (d_tlog d) stg)" "\<not> server_readOnly s"
    and "select_entry d s req = RpcOk (kv, b, c)" "d_jsoncanonicalizer_Transform d b = Ok body"
  shows "(case call_alone d s stg req st of (x, st') \<Rightarrow> (call_phase x, st')) =
    (case recovered (CreateEntry d s req st) of (r, st') \<Rightarrow> (Answered r (cs_headers st'), st'))"
proof -
  let ?en = "tl_NewEntry (d_tlog d) body"
  obtain f w1 where f: "storage_addFn stg ?en (cs_log st) = (f, w1)" by fastforce
  obtain r w2 where r: "storage_Await stg f w1 = (r, w2)" by fastforce
  have aw: "awaited stg ?en (cs_log st) = (r, w2)" using f r by (simp add: awaited_def)
  have b: "call_begin d s stg req st =
    (\<lparr>call_entry = Some ?en, call_phase = Submitted kv c f\<rparr>, st \<lparr>cs_log := w1\<rparr>)"
    using assms f by (simp add: call_begin_def)
  show ?thesis
  proof (cases r)
    case (Ok q)
    then show ?thesis using assms r aw
      by (cases q) (auto simp: call_alone_def b call_await_def call_finish_def CreateEntry_def
          storage_Add_published Let_def answer_def split: prod.splits result.splits)
  qed (use assms r aw in \<open>auto simp: call_alone_def b call_await_def CreateEntry_def
      storage_Add_published Let_def answer_def split: prod.splits\<close>)
qed

text \<open>
  The handler is cut faithfully: the three steps of a call that runs alone, in a row, give the
  answer and the state of the handler of \<open>Service\<close> followed by the panic recovery.
\<close>

lemma call_alone_is_handler:
  assumes "server_storage s = Some (as_Storage (d_tlog d) stg)"
  shows "(case call_alone d s stg req st of (x, st') \<Rightarrow> (call_phase x, st')) =
    (case recovered (CreateEntry d s req st) of (r, st') \<Rightarrow> (Answered r (cs_headers st'), st'))"
proof (cases "\<not> server_readOnly s \<and> (\<exists>kv b c body. select_entry d s req = RpcOk (kv, b, c)
      \<and> d_jsoncanonicalizer_Transform d b = Ok body)")
  case True
  then show ?thesis using call_alone_submitted [OF assms] by blast
next
  case False
  then show ?thesis
    by (auto simp: call_alone_def call_begin_def CreateEntry_def Let_def answer_def
        split: prod.splits rpc.splits result.splits)
qed

text \<open>
  C2. The service is a transparency log: whatever the interleaving of its calls, of the log's own
  work and of other writers, every run of the service is a run of the abstract log.  Answers are
  read as a client reads them, from the entry returned or from the header of a duplicate.
\<close>

theorem service_refines_log:
  assumes "sequenced_log v stg env" "foreign_errors (d_tlog d) stg"
    and "(serve_step d s stg env)\<^sup>*\<^sup>* (idle st) \<sigma>"
  shows "alog_step\<^sup>*\<^sup>* \<lparr>al_entries = lv_entries v (cs_log st), al_outcomes = (\<lambda>_. None)\<rparr> (abs_log v \<sigma>)"
proof -
  have "abs_log v (idle st) = \<lparr>al_entries = lv_entries v (cs_log st), al_outcomes = (\<lambda>_. None)\<rparr>"
    by (simp add: abs_log_def idle_def)
  then show ?thesis using service_run_simulates [OF assms idle_inv(1)] by simp
qed

lemma created_outcome:
  assumes "sv_calls \<sigma> i = Some x" "call_phase x = Answered (RpcOk tle) hs"
  shows "al_outcomes (abs_log v \<sigma>) i = Some (Created (unat (TLE_LogIndex tle)) (TLE_CanonicalizedBody tle))"
  using assms by (cases x) (simp add: abs_log_def answer_outcome_def)

lemma existing_outcome:
  assumes "sv_calls \<sigma> i = Some x" "call_phase x = Answered (RpcErr c m) hs"
    and "call_entry x = Some en" "reported_index hs = Some k"
  shows "al_outcomes (abs_log v \<sigma>) i = Some (Existing k (te_Data en))"
  using assms by (cases x) (simp add: abs_log_def answer_outcome_def)

text \<open>
  C1. Answers stay true: the log only grows; an entry a client was given stays in the log, with its
  body at its index, for ever; no other call, before or after, is given that index as new; and the
  index a client is told for a duplicate holds exactly the data that client submitted.
\<close>

theorem answers_stay_true:
  assumes "sequenced_log v stg env" "foreign_errors (d_tlog d) stg"
    and "(serve_step d s stg env)\<^sup>*\<^sup>* (idle st) \<sigma>" "(serve_step d s stg env)\<^sup>*\<^sup>* \<sigma> \<sigma>'"
    and "sv_calls \<sigma> i = Some x"
  shows "prefix (lv_entries v (cs_log (sv_shared \<sigma>))) (lv_entries v (cs_log (sv_shared \<sigma>')))
    \<and> (\<forall>tle hs. call_phase x = Answered (RpcOk tle) hs \<longrightarrow>
         stored (lv_entries v (cs_log (sv_shared \<sigma>'))) (unat (TLE_LogIndex tle)) (TLE_CanonicalizedBody tle)
         \<and> (\<forall>j y tle' hs'. sv_calls \<sigma>' j = Some y \<and> call_phase y = Answered (RpcOk tle') hs'
              \<and> TLE_LogIndex tle' = TLE_LogIndex tle \<longrightarrow> j = i))
    \<and> (\<forall>c m hs en k. call_phase x = Answered (RpcErr c m) hs \<and> call_entry x = Some en
         \<and> reported_index hs = Some k \<longrightarrow>
         stored (lv_entries v (cs_log (sv_shared \<sigma>'))) k (te_Data en))"
proof (intro conjI allI impI)
  have s: "service_inv v \<sigma>" "alog_step\<^sup>*\<^sup>* (abs_log v (idle st)) (abs_log v \<sigma>)"
    using service_run_simulates [OF assms(1-3) idle_inv(1)] by simp_all
  have s': "alog_step\<^sup>*\<^sup>* (abs_log v \<sigma>) (abs_log v \<sigma>')"
    using service_run_simulates [OF assms(1,2,4) s(1)] by simp
  have inv: "alog_inv (abs_log v \<sigma>')"
    using alog_run_keeps(3) [OF s'] alog_run_keeps(3) [OF s(2)] idle_inv(2) by blast
  have e: "al_entries (abs_log v \<tau>) = lv_entries v (cs_log (sv_shared \<tau>))" for \<tau>
    by (simp add: abs_log_def)
  show "prefix (lv_entries v (cs_log (sv_shared \<sigma>))) (lv_entries v (cs_log (sv_shared \<sigma>')))"
    using alog_run_keeps(1) [OF s'] by (simp add: e)
  show "stored (lv_entries v (cs_log (sv_shared \<sigma>'))) k (te_Data en)"
    if "call_phase x = Answered (RpcErr c m) hs \<and> call_entry x = Some en \<and> reported_index hs = Some k"
    for c m hs en k
    using inv alog_run_keeps(2) [OF s' existing_outcome [OF assms(5)]] that unfolding alog_inv_def e
    by blast
  fix tle hs
  assume x: "call_phase x = Answered (RpcOk tle) hs"
  have o: "al_outcomes (abs_log v \<sigma>') i =
      Some (Created (unat (TLE_LogIndex tle)) (TLE_CanonicalizedBody tle))"
    using alog_run_keeps(2) [OF s' created_outcome [OF assms(5) x]] .
  then show "stored (lv_entries v (cs_log (sv_shared \<sigma>'))) (unat (TLE_LogIndex tle)) (TLE_CanonicalizedBody tle)"
    using inv unfolding alog_inv_def e by blast
  show "j = i" if "sv_calls \<sigma>' j = Some y \<and> call_phase y = Answered (RpcOk tle') hs'
      \<and> TLE_LogIndex tle' = TLE_LogIndex tle" for j y tle' hs'
    using inv o created_outcome [of \<sigma>' j y tle' hs' v] that unfolding alog_inv_def by metis
qed

section \<open>Proofs and counters under interleaving\<close>

text \<open>The tail of \<open>Add\<close> alone keeps the contract of the storage interface.\<close>

interpretation pub: entry_storage lg "\<lambda>en w. (published_result lg stg en idx cp w, w)" for lg stg idx cp
proof unfold_locales
  fix en w tle w'
  assume "(published_result lg stg en idx cp w, w) = (Ok tle, w')"
  then obtain p where a: "uint (Index_Index idx) < 2 ^ 63"
      "buildProof lg stg w \<lparr>safe_u = Index_Index idx, safe_i = Index_Index idx\<rparr> cp (te_LeafHash en) = Ok p"
      "tle = \<lparr>TLE_LogIndex = Index_Index idx, TLE_LogId = None, TLE_KindVersion = None,
              TLE_InclusionProof = Some p, TLE_CanonicalizedBody = te_Data en\<rparr>"
    by (auto simp: published_result_def go_bind_eq_Ok NewSafeInt64_uint_Ok SafeInt64_I_def
        split: if_splits)
  then show "TLE_CanonicalizedBody tle = te_Data en" by simp
  show "0 \<le> sint (TLE_LogIndex tle)" using a msb_clear_sint_eq_uint by simp
  show "\<exists>p c cp. TLE_InclusionProof tle = Some p \<and> InclusionProof_Checkpoint p = Some c
        \<and> tl_Unmarshal lg c = Ok cp
        \<and> tl_VerifyInclusion lg (TLE_LogIndex tle) (cp_Size cp) (te_LeafHash en)
            (InclusionProof_Hashes p) (cp_Hash cp) = Ok ()"
    using a by (auto simp: buildProof_Ok)
qed

definition verifiable :: "'note tlog \<Rightarrow> pb_TransparencyLogEntry \<Rightarrow> bool" where
  "verifiable lg tle \<longleftrightarrow>
     (\<forall>nv cp. VerifyCheckpoint lg (TLE_checkpoint_envelope tle) nv = Ok cp \<longrightarrow>
        VerifyLogEntry lg (Some tle) nv = Ok ())"

lemma published_verifiable:
  assumes "new_entry_documented lg" "parse_agrees lg"
    and "published_result lg stg (tl_NewEntry lg b) idx cp w = Ok tle"
  shows "verifiable lg (tle \<lparr>TLE_KindVersion := kv, TLE_LogId := li\<rparr>)"
  unfolding verifiable_def
proof (intro allI impI)
  fix nv c
  assume "VerifyCheckpoint lg (TLE_checkpoint_envelope (tle \<lparr>TLE_KindVersion := kv, TLE_LogId := li\<rparr>)) nv = Ok c"
  then have "VerifyCheckpoint lg (TLE_checkpoint_envelope tle) nv = Ok c"
    by (simp add: TLE_checkpoint_envelope_def)
  then show "VerifyLogEntry lg (Some (tle \<lparr>TLE_KindVersion := kv, TLE_LogId := li\<rparr>)) nv = Ok ()"
    using pub.added_verifies [OF assms(1,2), of stg b idx cp w tle w] assms(3) by simp
qed

text \<open>A call whose entry comes from \<open>NewEntry\<close> and whose answer, if it has an entry, is verifiable.\<close>

definition call_sound :: "'note tlog \<Rightarrow> 'f call \<Rightarrow> bool" where
  "call_sound lg x \<longleftrightarrow>
     (\<forall>en. call_entry x = Some en \<longrightarrow> (\<exists>b. en = tl_NewEntry lg b))
   \<and> (\<forall>tle hs. call_phase x = Answered (RpcOk tle) hs \<longrightarrow> verifiable lg tle)"

lemma answer_sound:
  assumes "answer en (r, st) = (x, st')" "\<And>e. en = Some e \<Longrightarrow> \<exists>b. e = tl_NewEntry lg b"
    and "\<And>tle. r = RpcOk tle \<Longrightarrow> verifiable lg tle"
  shows "call_sound lg x"
  using assms
  by (auto simp: answer_def recovered_def grpcPanicRecoveryHandler_def call_sound_def split: rpc.splits)

lemma begin_sound: "call_begin d s stg req st = (x, st') \<Longrightarrow> call_sound (d_tlog d) x"
  by (auto simp: call_begin_def Let_def elim!: answer_sound
      split: if_splits rpc.splits result.splits option.splits prod.splits)
     (auto simp: call_sound_def)

lemma await_sound:
  assumes "call_await stg (tl_NewEntry lg b) kv c f st = (x, st')"
  shows "call_sound lg x"
proof -
  obtain r w where r: "storage_Await stg f (cs_log st) = (r, w)" by fastforce
  show ?thesis
  proof (cases r)
    case (Ok q)
    then show ?thesis using assms r by (cases q) (auto simp: call_await_def call_sound_def)
  next
    case (Err e)
    obtain a st1 where a: "add_failed (Wrap ''add entry'' (Wrap ''await'' e)) (st \<lparr>cs_log := w\<rparr>) = (a, st1)"
      by fastforce
    have "answer (Some (tl_NewEntry lg b)) (a, st1) = (x, st')"
      using assms r Err a by (simp add: call_await_def)
    then show ?thesis using add_failed_code [OF a] by (auto elim!: answer_sound)
  next
    case Panic
    then have "answer (Some (tl_NewEntry lg b)) (RpcPanic, st \<lparr>cs_log := w\<rparr>) = (x, st')"
      using assms r by (simp add: call_await_def)
    then show ?thesis by (auto elim!: answer_sound)
  qed
qed

lemma finish_sound:
  assumes "new_entry_documented (d_tlog d)" "parse_agrees (d_tlog d)"
    and "call_finish d s stg (tl_NewEntry (d_tlog d) b) kv c idx cp st = (x, st')"
  shows "call_sound (d_tlog d) x"
proof (cases "published_result (d_tlog d) stg (tl_NewEntry (d_tlog d) b) idx cp (cs_log st)")
  case (Ok tle)
  then show ?thesis
    using assms(3) published_verifiable [OF assms(1,2) Ok]
    by (auto simp: call_finish_def Let_def elim!: answer_sound)
next
  case (Err e)
  obtain a st1 where a: "add_failed e st = (a, st1)" by fastforce
  then show ?thesis
    using assms(3) Err add_failed_code [OF a] by (auto simp: call_finish_def elim!: answer_sound)
next
  case Panic
  then show ?thesis using assms(3) by (auto simp: call_finish_def elim!: answer_sound)
qed

lemma next_sound:
  assumes "new_entry_documented (d_tlog d)" "parse_agrees (d_tlog d)"
    and "call_next d s stg x st = (x', st')" "call_sound (d_tlog d) x"
  shows "call_sound (d_tlog d) x'"
proof (cases "call_entry x")
  case None
  then have "call_next d s stg x st = (x, st)" by (cases x; cases "call_phase x") auto
  then show ?thesis using assms(3,4) by simp
next
  case (Some en)
  then obtain b where "en = tl_NewEntry (d_tlog d) b" using assms(4) by (auto simp: call_sound_def)
  then show ?thesis
    using assms(3,4) Some
    by (cases x; cases "call_phase x")
       (auto intro: await_sound finish_sound [OF assms(1,2)])
qed

text \<open>
  C3. Every entry handed out can be verified offline, also under concurrency: in every reachable
  state, an entry in any answer passes \<open>VerifyLogEntry\<close> with each verifier that accepts the
  checkpoint inside it, although tiles were read while other entries were being added.
\<close>

theorem concurrent_entries_verify:
  assumes "new_entry_documented (d_tlog d)" "parse_agrees (d_tlog d)"
    and "(serve_step d s stg env)\<^sup>*\<^sup>* (idle st) \<sigma>"
    and "sv_calls \<sigma> i = Some x" "call_phase x = Answered (RpcOk tle) hs"
    and "VerifyCheckpoint (d_tlog d) (TLE_checkpoint_envelope tle) nv = Ok cp"
  shows "VerifyLogEntry (d_tlog d) (Some tle) nv = Ok ()"
proof -
  have "\<forall>i x. sv_calls \<sigma> i = Some x \<longrightarrow> call_sound (d_tlog d) x"
    using assms(3)
  proof (induction rule: rtranclp_induct)
    case (step \<tau> \<tau>')
    show ?case using step.hyps(2) step.IH
      by cases (auto dest: begin_sound next_sound [OF assms(1,2)] split: if_splits)
  qed (simp add: idle_def)
  then show ?thesis using assms(4-6) by (auto simp: call_sound_def verifiable_def)
qed

definition created_calls :: "('w, 'f) service \<Rightarrow> nat set" where
  "created_calls \<sigma> = {i. \<exists>x. sv_calls \<sigma> i = Some x \<and> created (call_phase x)}"

text \<open>A call that will increment one of the two entry counters, and is never answered by a panic.\<close>

fun phase_counts :: "'f phase \<Rightarrow> bool" where
  "phase_counts (Submitted kv c f) \<longleftrightarrow> c \<in> {HashedRekordCounter, DsseCounter}"
| "phase_counts (Published kv c idx cp) \<longleftrightarrow> c \<in> {HashedRekordCounter, DsseCounter}"
| "phase_counts (Answered r hs) \<longleftrightarrow> r \<noteq> RpcPanic"

lemma answer_counted:
  assumes "answer en (r, st) = (x, st')"
  shows "entries_counted st' = entries_counted st \<and> created (call_phase x) = rpc_created r
    \<and> phase_counts (call_phase x)"
proof -
  obtain r' where r: "recovered (r, st) = (r', st')" "call_phase x = Answered r' (cs_headers st')"
    using assms by (auto simp: answer_def split: prod.splits)
  then show ?thesis using recovered_counted [OF r(1)] by (cases r') auto
qed

lemma begin_counted:
  assumes "call_begin d s stg req st = (x, st')"
  shows "entries_counted st' = entries_counted st \<and> \<not> created (call_phase x)
    \<and> phase_counts (call_phase x)"
proof -
  have ans: "entries_counted st' = entries_counted st1 \<and> \<not> created (call_phase x)
      \<and> phase_counts (call_phase x)"
    if "answer None (r, st1) = (x, st')" "\<not> rpc_created r" for r st1
    using answer_counted [OF that(1)] that(2) by simp
  show ?thesis
    using assms
    by (auto simp: call_begin_def Let_def select_entry_Ok request_entry_iff dest!: ans
        split: if_splits rpc.splits result.splits option.splits prod.splits)
qed

lemma next_counted:
  assumes "call_next d s stg x st = (x', st')" "phase_counts (call_phase x)" "\<not> answered (call_phase x)"
  shows "entries_counted st' = entries_counted st + (if created (call_phase x') then 1 else 0)
    \<and> phase_counts (call_phase x')"
proof -
  have failed: "entries_counted st' = entries_counted st1 \<and> \<not> created (call_phase x')
      \<and> phase_counts (call_phase x')"
    if "answer en (add_failed e st1) = (x', st')" for en e st1
  proof -
    obtain r st2 where r: "add_failed e st1 = (r, st2)" by fastforce
    then show ?thesis
      using answer_counted [of en r st2 x' st'] that add_failed_counted [OF r] add_failed_code [OF r] by auto
  qed
  have panic: "entries_counted st' = entries_counted st1 \<and> \<not> created (call_phase x')
      \<and> phase_counts (call_phase x')"
    if "answer en (RpcPanic, st1) = (x', st')" for en st1
    using answer_counted [OF that] by simp
  have made: "entries_counted st' = Suc (entries_counted st) \<and> created (call_phase x')
      \<and> phase_counts (call_phase x')"
    if "answer en (RpcOk tle, Inc c (SetHeader k v st)) = (x', st')" "c \<in> {HashedRekordCounter, DsseCounter}"
    for en tle c k v
    using answer_counted [OF that(1)] that(2) by (auto simp del: Inc.simps)
  show ?thesis
  proof (cases "call_entry x")
    case None
    then have "call_next d s stg x st = (x, st)" by (cases x; cases "call_phase x") auto
    then show ?thesis using assms by (cases "call_phase x") auto
  next
    case (Some en)
    then show ?thesis
      using assms
      by (cases x; cases "call_phase x")
         (auto simp: call_await_def call_finish_def Let_def simp del: Inc.simps
           dest!: failed panic made split: prod.splits result.splits)
  qed
qed

lemma created_calls_upd:
  "created_calls \<lparr>sv_shared = st, sv_calls = (sv_calls \<sigma>)(i \<mapsto> x)\<rparr> =
     (if created (call_phase x) then insert i (created_calls \<sigma>) else created_calls \<sigma> - {i})"
  by (auto simp: created_calls_def)

text \<open>
  C13. The counters are exact under concurrency: in every reachable state the two entry counters
  together have grown by the number of calls answered with a log entry, and no call was answered by
  a panic.
\<close>

theorem concurrent_counters_exact:
  assumes "(serve_step d s stg env)\<^sup>*\<^sup>* (idle st) \<sigma>"
  shows "entries_counted (sv_shared \<sigma>) = entries_counted st + card (created_calls \<sigma>)
    \<and> finite (created_calls \<sigma>)
    \<and> (\<forall>i x. sv_calls \<sigma> i = Some x \<longrightarrow> phase_counts (call_phase x))"
  using assms
proof (induction rule: rtranclp_induct)
  case base
  then show ?case by (simp add: idle_def created_calls_def)
next
  case (step \<tau> \<tau>')
  show ?case using step.hyps(2)
  proof cases
    case (arrive i req x st1)
    have n: "i \<notin> created_calls \<tau>" using arrive(2) by (simp add: created_calls_def)
    show ?thesis
      using step.IH begin_counted [OF arrive(3)] n
      by (auto simp: arrive(1) created_calls_upd)
  next
    case (advance i x x' st1)
    have n: "i \<notin> created_calls \<tau>" using advance(2,3) by (cases "call_phase x") (auto simp: created_calls_def)
    show ?thesis
      using step.IH next_counted [OF advance(4) _ advance(3)] advance(2) n
      by (auto simp: advance(1) created_calls_upd)
  next
    case (elsewhere w)
    then show ?thesis using step.IH by (simp add: created_calls_def)
  qed
qed

section \<open>Schedules\<close>

text \<open>A schedule names, step by step, the call that arrives or takes its next step.\<close>

datatype event = Arrive nat "pb_CreateEntryRequest option" | Advance nat

fun exec_event ::
    "('reg, 'note) deps \<Rightarrow> ('reg, 'w) Server \<Rightarrow> ('w, 'f) storage \<Rightarrow> event \<Rightarrow>
     ('w, 'f) service \<Rightarrow> ('w, 'f) service" where
  "exec_event d s stg (Arrive i req) \<sigma> =
     (case sv_calls \<sigma> i of
        Some x \<Rightarrow> \<sigma>
      | None \<Rightarrow>
          (let (x, st) = call_begin d s stg req ((sv_shared \<sigma>) \<lparr>cs_headers := []\<rparr>)
           in \<lparr>sv_shared = st, sv_calls = (sv_calls \<sigma>)(i \<mapsto> x)\<rparr>))"
| "exec_event d s stg (Advance i) \<sigma> =
     (case sv_calls \<sigma> i of
        None \<Rightarrow> \<sigma>
      | Some x \<Rightarrow>
          (if answered (call_phase x) then \<sigma>
           else
             (let (x', st) = call_next d s stg x ((sv_shared \<sigma>) \<lparr>cs_headers := []\<rparr>)
              in \<lparr>sv_shared = st, sv_calls = (sv_calls \<sigma>)(i \<mapsto> x')\<rparr>)))"

definition exec_schedule :: 
    "('reg, 'note) deps \<Rightarrow> ('reg, 'w) Server \<Rightarrow> ('w, 'f) storage \<Rightarrow> event list \<Rightarrow>
     ('w, 'f) service \<Rightarrow> ('w, 'f) service" where
  "exec_schedule d s stg evs \<sigma> = fold (exec_event d s stg) evs \<sigma>"

lemma exec_event_step: "(serve_step d s stg env)\<^sup>*\<^sup>* \<sigma> (exec_event d s stg e \<sigma>)"
proof (cases e)
  case (Arrive i req)
  then show ?thesis
    by (auto simp: Let_def split: option.splits prod.splits
        intro!: r_into_rtranclp serve_step.arrive)
next
  case (Advance i)
  then show ?thesis
    by (auto simp: Let_def split: option.splits prod.splits
        intro!: r_into_rtranclp serve_step.advance)
qed

lemma exec_runs: "(serve_step d s stg env)\<^sup>*\<^sup>* \<sigma> (exec_schedule d s stg evs \<sigma>)"
  unfolding exec_schedule_def
  by (induction evs arbitrary: \<sigma>) (auto intro: rtranclp_trans [OF exec_event_step])

section \<open>A concrete run\<close>

text \<open>
  A log with room for one entry whose futures are the submitted data, and two calls that submit the
  same entry at the same time: both are handed to the log before either is published.
\<close>

definition sim_storage :: "(bytes list, bytes) storage" where
  "sim_storage =
     \<lparr>storage_origin = ''a.b'',
      storage_Await = (\<lambda>f w. case w of
          [] \<Rightarrow> (Ok (\<lparr>Index_Index = 0, Index_IsDup = False\<rparr>, CHR ''L'' # f), [f])
        | l # _ \<Rightarrow> (if l = f then Ok (\<lparr>Index_Index = 0, Index_IsDup = True\<rparr>, CHR ''L'' # f)
                   else Err ErrPushback, w)),
      storage_addFn = (\<lambda>en w. (te_Data en, w)),
      storage_readTileFn = (\<lambda>w level index p. Ok (concat w))\<rparr>"

definition sim_view :: "(bytes list, bytes) log_view" where
  "sim_view = \<lparr>lv_entries = id, lv_claimed = (\<lambda>w. if w = [] then {} else {0}),
     lv_promised = (\<lambda>w f b. f = b)\<rparr>"

definition sim_server :: "(PublicKeyDetails list, bytes list) Server" where
  "sim_server = NewServer (Some (as_Storage demo_tlog sim_storage)) False (Some [PKIX_ED25519]) ''id''"

definition sim_schedule :: "event list" where
  "sim_schedule = [Arrive 0 demo_create, Arrive 1 demo_create, Advance 1, Advance 0, Advance 0, Advance 1]"

definition sim_state :: "(bytes list, bytes) service" where
  "sim_state = exec_schedule demo_deps sim_server sim_storage sim_schedule (idle (demo_call []))"

lemma sim_sequenced: "sequenced_log sim_view sim_storage prefix"
  unfolding sequenced_log_def
proof (intro conjI allI impI)
  fix f w idx cp w' b
  assume "storage_Await sim_storage f w = (Ok (idx, cp), w')" "lv_promised sim_view w f b"
  then show "stored (lv_entries sim_view w') (unat (Index_Index idx)) b"
    "\<not> Index_IsDup idx \<Longrightarrow> unat (Index_Index idx) \<notin> lv_claimed sim_view w"
    "\<not> Index_IsDup idx \<Longrightarrow> unat (Index_Index idx) \<in> lv_claimed sim_view w'"
    by (auto simp: sim_storage_def sim_view_def stored_def split: list.splits if_splits)
qed (auto simp: sim_storage_def sim_view_def grows_def split: list.splits if_splits)

lemma sim_foreign: "foreign_errors (d_tlog demo_deps) sim_storage"
  by (auto simp: foreign_errors_def sim_storage_def demo_deps_def demo_tlog_def foreign_def
      split: list.splits if_splits)

lemma select_entry_registry:
  "server_algorithmRegistry s = server_algorithmRegistry s' \<Longrightarrow> select_entry d s req = select_entry d s' req"
  by (simp add: select_entry_def split: option.split CreateEntryRequest_oneof.split)

lemma sim_begin:
  "call_begin demo_deps sim_server sim_storage demo_create st =
     (\<lparr>call_entry = Some (tl_NewEntry demo_tlog ''dsse''), call_phase = Submitted
        \<lparr>KindVersion_Kind = ''dsse'', KindVersion_Version = ''0.0.2''\<rparr> DsseCounter ''dsse''\<rparr>, st)"
proof -
  have "select_entry demo_deps sim_server demo_create = select_entry demo_deps demo_server demo_create"
    by (rule select_entry_registry) (simp add: sim_server_def demo_server_def NewServer_def)
  then show ?thesis
    using demo_select
    by (simp add: call_begin_def sim_server_def NewServer_def demo_deps_def sim_storage_def demo_tlog_def)
qed

lemma sim_await:
  "call_await sim_storage en kv c f st =
     (case cs_log st of
        [] \<Rightarrow> (\<lparr>call_entry = Some en, call_phase =
                  Published kv c \<lparr>Index_Index = 0, Index_IsDup = False\<rparr> (CHR ''L'' # f)\<rparr>,
               st \<lparr>cs_log := [f]\<rparr>)
      | l # w \<Rightarrow>
          (if l = f
           then (\<lparr>call_entry = Some en, call_phase =
                   Published kv c \<lparr>Index_Index = 0, Index_IsDup = True\<rparr> (CHR ''L'' # f)\<rparr>, st)
           else answer (Some en) (add_failed (Wrap ''add entry'' (Wrap ''await'' ErrPushback)) st)))"
  by (cases st) (auto simp: call_await_def sim_storage_def split: list.splits)

lemma sim_published:
  "published_result demo_tlog sim_storage (tl_NewEntry demo_tlog b) \<lparr>Index_Index = 0, Index_IsDup = dup\<rparr>
     (CHR ''L'' # b) w =
   (if dup then Err (DuplicateError 0)
    else Ok \<lparr>TLE_LogIndex = 0, TLE_LogId = None, TLE_KindVersion = None,
          TLE_InclusionProof = Some \<lparr>InclusionProof_LogIndex = 0,
            InclusionProof_RootHash = CHR ''L'' # b, InclusionProof_TreeSize = 1,
            InclusionProof_Hashes = [], InclusionProof_Checkpoint = Some (CHR ''L'' # b)\<rparr>,
          TLE_CanonicalizedBody = b\<rparr>)"
  by (simp add: published_result_def buildProof_def unmarshalCheckpoint_def demo_tlog_def
      NewSafeInt64.simps SafeInt64_U_def SafeInt64_I_def)

lemma sim_tlog: "d_tlog demo_deps = demo_tlog"
  by (simp add: demo_deps_def)

lemma sim_reported: "reported_index [(duplicateEntryHeader, FormatUint 0)] = Some 0"
  using Atoi_FormatUint [of 0] by (simp add: reported_index_def)

lemma sim_end:
  "cs_log (sv_shared sim_state) = [''dsse'']"
  "\<exists>x tle hs. sv_calls sim_state 1 = Some x \<and> call_phase x = Answered (RpcOk tle) hs
     \<and> TLE_LogIndex tle = 0 \<and> TLE_checkpoint_envelope tle = ''Ldsse''"
  "\<exists>x c m hs. sv_calls sim_state 0 = Some x \<and> call_phase x = Answered (RpcErr c m) hs
     \<and> call_entry x = Some (tl_NewEntry demo_tlog ''dsse'') \<and> reported_index hs = Some 0"
  by (simp_all add: sim_state_def sim_schedule_def exec_schedule_def sim_begin idle_def sim_await demo_call_def
      call_finish_def sim_tlog sim_published answer_def add_failed_def recovered_def SetHeader_def
      DuplicateError_Index_def sim_reported TLE_checkpoint_envelope_def)

lemma sim_runs:
  "(serve_step demo_deps sim_server sim_storage prefix)\<^sup>*\<^sup>* (idle (demo_call [])) sim_state"
  unfolding sim_state_def by (rule exec_runs)

theorem service_refines_log_witness:
  "alog_step\<^sup>*\<^sup>* \<lparr>al_entries = [], al_outcomes = (\<lambda>_. None)\<rparr> (abs_log sim_view sim_state)
   \<and> al_entries (abs_log sim_view sim_state) = [''dsse'']"
  using service_refines_log [OF sim_sequenced sim_foreign sim_runs] sim_end(1)
  by (simp add: sim_view_def demo_call_def abs_log_def)

theorem answers_stay_true_witness:
  "\<exists>x tle hs. sv_calls sim_state 1 = Some x \<and> call_phase x = Answered (RpcOk tle) hs
     \<and> stored (lv_entries sim_view (cs_log (sv_shared sim_state))) (unat (TLE_LogIndex tle))
         (TLE_CanonicalizedBody tle)"
proof -
  obtain x tle hs where x: "sv_calls sim_state 1 = Some x" "call_phase x = Answered (RpcOk tle) hs"
    using sim_end(2) by blast
  show ?thesis
    using answers_stay_true [OF sim_sequenced sim_foreign sim_runs rtranclp.rtrancl_refl x(1)] x
    by blast
qed

theorem concurrent_entries_verify_witness:
  "\<exists>x tle hs nv. sv_calls sim_state 1 = Some x \<and> call_phase x = Answered (RpcOk tle) hs
     \<and> VerifyLogEntry (d_tlog demo_deps) (Some tle) nv = Ok ()"
proof -
  obtain x tle hs where x: "sv_calls sim_state 1 = Some x" "call_phase x = Answered (RpcOk tle) hs"
      "TLE_checkpoint_envelope tle = ''Ldsse''"
    using sim_end(2) by blast
  let ?nv = "\<lparr>noteVerifier_name = ''a.b'', noteVerifier_hash = 0,
     noteVerifier_verify = (\<lambda>msg sig. Ok True)\<rparr>"
  have "\<exists>cp. VerifyCheckpoint (d_tlog demo_deps) (TLE_checkpoint_envelope tle) ?nv = Ok cp"
    by (simp add: x(3) sim_tlog VerifyCheckpoint_Ok demo_tlog_def noteVerifier_Verify_def)
  then obtain cp where "VerifyCheckpoint (d_tlog demo_deps) (TLE_checkpoint_envelope tle) ?nv = Ok cp" ..
  then show ?thesis
    using concurrent_entries_verify [OF _ _ sim_runs x(1,2)] demo_tlog_documented x(1,2)
    by (auto simp: sim_tlog)
qed

theorem concurrent_counters_exact_witness:
  "entries_counted (sv_shared sim_state) = card (created_calls sim_state)
   \<and> 1 \<in> created_calls sim_state \<and> 0 \<notin> created_calls sim_state"
proof -
  have "1 \<in> created_calls sim_state" "0 \<notin> created_calls sim_state"
    using sim_end(2,3) by (auto simp: created_calls_def)
  then show ?thesis
    using concurrent_counters_exact [OF sim_runs]
    by (simp add: entries_counted_def demo_call_def)
qed

text \<open>One call, right after its arrival.\<close>

end
