(* ===== verification/Deployment.thy ===== *)
theory Deployment
  imports Serve_Cmd Concurrent_Runs
begin

text \<open>
  From the command line to the answers: the server a command starts, on the storage that
  \<open>tessera.NewStorage\<close> builds, and the shape of every entry it hands out, also with concurrent
  calls.
\<close>

section \<open>The storage of a started server\<close>

text \<open>\<open>NewStorage\<close> as the commands call it: the result is used through the interface.\<close>

definition tessera_NewStorage ::
    "'note tlog \<Rightarrow>
     ('d \<Rightarrow> 'o \<Rightarrow> ((tessera_Entry \<Rightarrow> 'w \<Rightarrow> 'f \<times> 'w) \<times> 'sh \<times> 'w log_reader) result) \<Rightarrow>
     (('w \<Rightarrow> bytes result) \<Rightarrow> int \<Rightarrow> 'f \<Rightarrow> 'w \<Rightarrow> (Index \<times> bytes) result \<times> 'w) \<Rightarrow>
     string \<Rightarrow> 'd \<Rightarrow> 'o \<Rightarrow> ('w Storage \<times> 'sh) result" where
  "tessera_NewStorage lg na npa origin driver opts =
     go_bind (NewStorage na npa origin driver opts) id (\<lambda>(stg, shutdown). Ok (as_Storage lg stg, shutdown))"

lemma start_storage_Ok:
  "start_storage api rf ns v drv opts = Ok r \<Longrightarrow>
   \<exists>driver opts'. ns (GetString v ''hostname'') driver opts' = Ok r"
  by (auto simp: start_storage_def go_bind_eq_Ok Let_def)

lemma started_storage:
  fixes npa :: "('w \<Rightarrow> bytes result) \<Rightarrow> int \<Rightarrow> 'f \<Rightarrow> 'w \<Rightarrow> (Index \<times> bytes) result \<times> 'w"
  assumes "run_server cm v l g drv sg = Ok a" "cm_NewStorage cm = tessera_NewStorage lg na npa"
    and "\<not> server_readOnly (sa_server a)"
  shows "\<exists>stg :: ('w, 'f) storage. server_storage (sa_server a) = Some (as_Storage lg stg)
    \<and> storage_origin stg = GetString v ''hostname''"
proof -
  obtain opts stg sh reg logID where s:
      "start_storage (cm_api cm) (cm_ReadFile cm) (cm_NewStorage cm) v drv opts = Ok (stg, sh)"
      "sa_server a = NewServer (Some stg) False reg logID"
    using assms(1) by (rule run_server_parts) (use assms(3) in auto)
  from start_storage_Ok [OF s(1)] obtain driver opts' where
      "tessera_NewStorage lg na npa (GetString v ''hostname'') driver opts' = Ok (stg, sh)"
    unfolding assms(2) by blast
  then obtain stg' :: "('w, 'f) storage"
    where "stg = as_Storage lg stg'" "storage_origin stg' = GetString v ''hostname''"
    by (auto simp: go_bind_eq_Ok Let_def tessera_NewStorage_def NewStorage_def)
  then show ?thesis using s(2) by (auto simp: NewServer_def)
qed

lemma started_log_id:
  assumes "run_server cm v l g drv sg = Ok a"
  shows "length (server_logID (sa_server a)) = 32"
proof -
  obtain opts where "load_identity (cm_pki cm) (cm_api cm) v sg = Ok (opts, server_logID (sa_server a))"
    using assms by (rule run_server_parts) blast
  then show ?thesis using load_identity_Ok by (fastforce simp: KeyHash_preimage)
qed

section \<open>Well-formed entries\<close>

text \<open>
  What a consumer of the entry may rely on without checking anything: the identifier of the log is
  a SHA-256 digest, kind and version are those of a known type, the index is inside the tree, the
  proof speaks about the same index and carries a checkpoint.
\<close>

definition wellformed_entry :: "pb_TransparencyLogEntry \<Rightarrow> bool" where
  "wellformed_entry tle \<longleftrightarrow>
     (\<exists>i. TLE_LogId tle = Some i \<and> length i = 32)
   \<and> (\<exists>kv. TLE_KindVersion tle = Some kv \<and> KindVersion_Version kv = ''0.0.2''
        \<and> KindVersion_Kind kv \<in> {''hashedrekord'', ''dsse''})
   \<and> (\<exists>p c. TLE_InclusionProof tle = Some p \<and> InclusionProof_Checkpoint p = Some c
        \<and> InclusionProof_LogIndex p = TLE_LogIndex tle
        \<and> 0 \<le> sint (TLE_LogIndex tle) \<and> sint (TLE_LogIndex tle) < sint (InclusionProof_TreeSize p))"

text \<open>The Merkle library accepts no proof for an index outside the tree.\<close>

definition inclusion_in_range :: "'note tlog \<Rightarrow> bool" where
  "inclusion_in_range lg \<longleftrightarrow>
     (\<forall>i n leaf hs root. tl_VerifyInclusion lg i n leaf hs root = Ok () \<longrightarrow> i < n)"

lemma published_wellformed:
  assumes "inclusion_in_range lg" "published_result lg stg en idx cp w = Ok tle"
    and "length logID = 32" "KindVersion_Version kv = ''0.0.2''"
    and "KindVersion_Kind kv \<in> {''hashedrekord'', ''dsse''}"
  shows "wellformed_entry (tle \<lparr>TLE_KindVersion := Some kv, TLE_LogId := Some logID\<rparr>)"
proof -
  let ?i = "Index_Index idx"
  obtain p where a: "uint ?i < 2 ^ 63"
      "buildProof lg stg w \<lparr>safe_u = ?i, safe_i = ?i\<rparr> cp (te_LeafHash en) = Ok p"
      "tle = \<lparr>TLE_LogIndex = ?i, TLE_LogId = None, TLE_KindVersion = None,
              TLE_InclusionProof = Some p, TLE_CanonicalizedBody = te_Data en\<rparr>"
    using assms(2)
    by (auto simp: published_result_def go_bind_eq_Ok NewSafeInt64_uint_Ok SafeInt64_I_def
        split: if_splits)
  from a(2) [unfolded buildProof_Ok SafeInt64.select_convs] obtain c :: Checkpoint and hs
    where c: "uint (cp_Size c) < 2 ^ 63"
      "tl_VerifyInclusion lg ?i (cp_Size c) (te_LeafHash en) hs (cp_Hash c) = Ok ()"
      "p = \<lparr>InclusionProof_LogIndex = ?i, InclusionProof_RootHash = cp_Hash c,
            InclusionProof_TreeSize = cp_Size c, InclusionProof_Hashes = hs,
            InclusionProof_Checkpoint = Some cp\<rparr>"
    by blast
  have "?i < cp_Size c" using assms(1) c(2) unfolding inclusion_in_range_def by blast
  then show ?thesis
    using assms(3-5) a c msb_clear_sint_eq_uint [OF a(1)] msb_clear_sint_eq_uint [OF c(1)]
    by (simp add: wellformed_entry_def word_less_def)
qed

lemma storage_Add_awaited:
  assumes "storage_Add lg stg en w = (Ok t, w')"
  shows "\<exists>idx cp. published_result lg stg en idx cp w' = Ok t"
  using assms by (auto simp: storage_Add_published split: prod.splits result.splits)

text \<open>
  C12. Every entry a started server hands out is well formed: whatever the flags and the request, an
  entry returned by \<open>CreateEntry\<close> carries a 32-byte log identifier, the kind and version of a
  known type, and an inclusion proof with a checkpoint for its own index inside the tree.
\<close>

theorem served_entry_wellformed:
  fixes npa :: "('w \<Rightarrow> bytes result) \<Rightarrow> int \<Rightarrow> 'f \<Rightarrow> 'w \<Rightarrow> (Index \<times> bytes) result \<times> 'w"
  assumes "run_server cm v l g drv sg = Ok a" "cm_NewStorage cm = tessera_NewStorage (d_tlog d) na npa"
    and "inclusion_in_range (d_tlog d)"
    and "CreateEntry d (sa_server a) req st = (RpcOk tle, st')"
  shows "wellformed_entry tle"
proof -
  obtain e c body stg t w where p: "\<not> server_readOnly (sa_server a)" "request_entry d (sa_server a) req e c"
      "server_storage (sa_server a) = Some stg"
      "Storage_Add stg (tl_NewEntry (d_tlog d) body) (cs_log st) = (Ok t, w)"
      "tle = t \<lparr>TLE_KindVersion := Some \<lparr>KindVersion_Kind = Entry_Kind e,
           KindVersion_Version = Entry_ApiVersion e\<rparr>, TLE_LogId := Some (server_logID (sa_server a))\<rparr>"
    using assms(4) by (rule CreateEntry_parts)
  obtain stg' :: "('w, 'f) storage" where "stg = as_Storage (d_tlog d) stg'"
    using started_storage [OF assms(1,2) p(1)] p(3) by auto
  then obtain idx cp where r: "published_result (d_tlog d) stg' (tl_NewEntry (d_tlog d) body) idx cp w = Ok t"
    using storage_Add_awaited p(4) by fastforce
  have "c \<in> {HashedRekordCounter, DsseCounter}" using p(2) by (auto simp: request_entry_iff)
  then show ?thesis
    unfolding p(5) using request_entry_kind [OF p(2)]
    by (intro published_wellformed [OF assms(3) r started_log_id [OF assms(1)]]) auto
qed

section \<open>A concrete deployment\<close>

definition sim_appender ::
    "unit \<Rightarrow> noteSigner option \<Rightarrow>
     ((tessera_Entry \<Rightarrow> bytes list \<Rightarrow> bytes \<times> bytes list) \<times> unit \<times> bytes list log_reader) result" where
  "sim_appender drv opts =
     Ok (storage_addFn sim_storage, (), \<lparr>reader_ReadCheckpoint = (\<lambda>w. Ok (concat w)),
       reader_ReadTile = storage_readTileFn sim_storage\<rparr>)"

definition sim_cmd :: "(PublicKeyDetails list, noteSigner option, unit, unit, unit, bytes list, unit) cmd_deps" where
  "sim_cmd = demo_cmd
     \<lparr>cm_NewStorage := tessera_NewStorage demo_tlog sim_appender (\<lambda>rc interval. storage_Await sim_storage)\<rparr>"

lemma sim_run:
  "\<exists>a. run_server sim_cmd (demo_viper False []) 0 False (Ok ((), None)) demo_signer = Ok a"
proof -
  have "cm_pki sim_cmd = cm_pki demo_cmd" "cm_api sim_cmd = cm_api demo_cmd" "cm_ReadFile sim_cmd = cm_ReadFile demo_cmd"
      "cm_sigstore sim_cmd = cm_sigstore demo_cmd"
    by (simp_all add: sim_cmd_def)
  moreover obtain a where
      "run_server demo_cmd (demo_viper False []) 0 False (Ok ((), None)) demo_signer = Ok a"
    using demo_run by blast
  ultimately obtain opts logID reg where p:
      "load_identity (cm_pki sim_cmd) (cm_api sim_cmd) (demo_viper False []) demo_signer = Ok (opts, logID)"
      "AlgorithmRegistry (cm_sigstore sim_cmd) (GetStringSlice (demo_viper False []) ''client-signing-algorithms'') = Ok reg"
    by (auto elim!: run_server_parts)
  have "\<exists>stg sh. start_storage (cm_api sim_cmd) (cm_ReadFile sim_cmd) (cm_NewStorage sim_cmd)
      (demo_viper False []) (Ok ((), None)) opts = Ok (stg, sh)"
    by (simp add: start_storage_def sim_cmd_def demo_cmd_def demo_viper_def Let_def tessera_NewStorage_def
        NewStorage_def sim_appender_def)
  then obtain stg sh where "start_storage (cm_api sim_cmd) (cm_ReadFile sim_cmd) (cm_NewStorage sim_cmd)
      (demo_viper False []) (Ok ((), None)) opts = Ok (stg, sh)" by blast
  then show ?thesis using p by (simp add: run_server_def Let_def)
qed

lemma sim_registry:
  "AlgorithmRegistry (cm_sigstore sim_cmd) None = Ok reg \<Longrightarrow> \<exists>l. reg = Some l"
  by (auto simp: AlgorithmRegistry_def sim_cmd_def demo_cmd_def go_bind_eq_Ok)

lemma demo_select_registry:
  assumes "server_algorithmRegistry s = Some l"
  shows "select_entry demo_deps s demo_create =
     RpcOk (\<lparr>KindVersion_Kind = ''dsse'', KindVersion_Version = ''0.0.2''\<rparr>, ''dsse'', DsseCounter)"
  using assms
  by (simp add: select_entry_def demo_create_def demo_deps_def
      CreateEntryRequest_GetDsseRequestV002_def prepare_entry_def demo_eval dsse_entry_def
      del: EncodeToString.simps)

lemma sim_transform: "d_jsoncanonicalizer_Transform demo_deps = Ok"
  by (simp add: demo_deps_def)

lemma sim_Add:
  "\<exists>t. storage_Add demo_tlog sim_storage (tl_NewEntry demo_tlog b) [] = (Ok t, [b])"
proof -
  have "awaited sim_storage (tl_NewEntry demo_tlog b) [] =
      (Ok (\<lparr>Index_Index = 0, Index_IsDup = False\<rparr>, CHR ''L'' # b), [b])"
    by (simp add: awaited_def sim_storage_def demo_tlog_def)
  then show ?thesis by (simp add: storage_Add_published sim_published)
qed

theorem served_entry_wellformed_witness:
  "\<exists>a tle st'. run_server sim_cmd (demo_viper False []) 0 False (Ok ((), None)) demo_signer = Ok a
     \<and> CreateEntry demo_deps (sa_server a) demo_create (demo_call []) = (RpcOk tle, st')
     \<and> wellformed_entry tle"
proof -
  obtain a where a: "run_server sim_cmd (demo_viper False []) 0 False (Ok ((), None)) demo_signer = Ok a"
    using sim_run by blast
  have ns: "cm_NewStorage sim_cmd =
      tessera_NewStorage (d_tlog demo_deps) sim_appender (\<lambda>rc interval. storage_Await sim_storage)"
    by (simp add: sim_cmd_def sim_tlog)
  have rng: "inclusion_in_range (d_tlog demo_deps)"
    by (auto simp: inclusion_in_range_def sim_tlog demo_tlog_def split: if_splits)
  obtain reg stg sh opts logID where r: "sa_server a = NewServer (Some stg) False reg logID"
      "AlgorithmRegistry (cm_sigstore sim_cmd) None = Ok reg"
      "start_storage (cm_api sim_cmd) (cm_ReadFile sim_cmd) (cm_NewStorage sim_cmd) (demo_viper False [])
         (Ok ((), None)) opts = Ok (stg, sh)"
    using a by (rule run_server_parts) (auto simp: demo_viper_def)
  obtain l where l: "reg = Some l" using sim_registry r(2) by blast
  have stg: "stg = as_Storage demo_tlog sim_storage"
    using r(3) by (simp add: start_storage_def sim_cmd_def demo_cmd_def demo_viper_def Let_def
        tessera_NewStorage_def NewStorage_def sim_appender_def sim_storage_def)
  have "\<exists>tle st'. CreateEntry demo_deps (sa_server a) demo_create (demo_call []) = (RpcOk tle, st')"
    using sim_Add [of "''dsse''"] demo_select_registry [of "sa_server a" l]
    by (auto simp: CreateEntry_def r(1) l NewServer_def stg demo_call_def Let_def
        sim_transform sim_tlog)
  then show ?thesis using a served_entry_wellformed [OF a ns rng] by blast
qed

end
