(* ===== verification/Spec2Isabelle.thy ===== *)
theory Spec2Isabelle
  imports Server_Setup Route_Table Command_Tree Service_Mock Deployment
begin

text \<open>
  A verification library for rekor-tiles, the tile-based transparency log server of Sigstore: a
  service that checks signed statements, appends them to a tiled Merkle log and returns proofs of
  inclusion; the clients that write to it, read it and verify its proofs; and the commands that
  start and freeze a log.  Paths below are relative to the repository's root.

  \<^bold>\<open>The parts and how they interact.\<close>  A client (\<open>pkg/client/write\<close>) posts a request to the
  HTTP proxy (\<open>internal/server/http.go\<close>), whose gateway stubs
  (\<open>pkg/generated/protobuf/rekor_service.pb.gw.go\<close>) call the gRPC service
  (\<open>internal/server/service.go\<close>).  The service validates the request by its type
  (\<open>pkg/types/hashedrekord\<close>, \<open>pkg/types/dsse\<close>) with the verifiers of \<open>pkg/verifier\<close> and the policy
  of \<open>internal/algorithmregistry\<close>, canonicalizes it, and adds it to the storage
  (\<open>internal/tessera\<close>), which waits for a checkpoint signed under the note format of
  \<open>pkg/note\<close> and builds the inclusion proof.  A client checks the result with \<open>pkg/verify\<close>.
  The four server commands (\<open>cmd/rekor-server\<close>) choose a signer
  (\<open>internal/signerverifier\<close>, \<open>internal/tessera/*/signerverifier\<close>) and a driver
  (\<open>internal/tessera/aws\<close>, \<open>gcp\<close>, \<open>gcpcloudsql\<close>, \<open>posix\<close>) and run three servers until a signal
  (\<open>internal/server/serve.go\<close>); \<open>cmd/freeze-checkpoint\<close> marks a log as finished.

  \<^bold>\<open>The model.\<close>  A Go function that returns an error is a function into \<open>result\<close>, whose third
  outcome is a panic; a pointer that may be nil is an \<open>option\<close>; a byte slice and a string are
  lists of characters; \<open>uint64\<close> and \<open>int64\<close> are 64-bit words; a Go \<open>int\<close> of the configuration
  and a duration (in nanoseconds) are integers.  The iteration order of a Go map is a parameter.
  \<open>os.Exit(1)\<close> with its log line is an error; log lines are not modelled otherwise.  Packages
  outside the repository (the tessera library, the Merkle proofs, the note format, cryptography,
  JSON, gRPC and its gateway, the cloud SDKs) are parameters, gathered in records, and what a
  theorem relies on of them is a named hypothesis.  What the program uses of Go's own libraries is
  defined: decimal numbers and strings (\<open>Go_Strings\<close>), error chains (\<open>Go_Errors\<close>), UTF-8
  (\<open>Go_Utf8\<close>), base64 (\<open>Go_Base64\<close>), SHA-256 (\<open>Go_SHA256\<close>), paths (\<open>Go_Path\<close>).

  \<^bold>\<open>Theories.\<close>
  \<^item> \<open>Rekor_Prelude\<close>: types, collections of rules, generic lemmas.
  \<^item> \<open>SafeInt\<close>: \<open>internal/safeint\<close>; exact range on words.
  \<^item> \<open>Protobuf\<close>: the messages and getters of \<open>pkg/generated/protobuf\<close>.
  \<^item> \<open>Verifiers\<close>, \<open>Algorithm_Registry\<close>: \<open>pkg/verifier\<close>, \<open>pkg/types/verifier\<close>,
    \<open>internal/algorithmregistry\<close>; both verifier implementations keep one contract.
  \<^item> \<open>Log_Entry_Type\<close>, \<open>Hashedrekord\<close>, \<open>Dsse\<close>: the two request types; soundness and completeness of
    \<open>ToLogEntry\<close>, the policy check, dependence on the map order, round trips of the conversions.
  \<^item> \<open>Note\<close>, \<open>Transparency_Log\<close>, \<open>Verify\<close>: signed notes, the interface of the log libraries,
    \<open>pkg/verify\<close>; what a successful verification has checked.
  \<^item> \<open>Tessera_Storage\<close>, \<open>Service\<close>: \<open>internal/tessera/tessera.go\<close> and \<open>service.go\<close>; a created entry
    is new and provably included, every failure is classified, the counters are exact, a frozen
    log accepts nothing.
  \<^item> \<open>Abstract_Log\<close>, \<open>Concurrent_Service\<close>, \<open>Concurrent_Runs\<close>: concurrent calls.  The handler
    is cut at the three points where it touches the log, and the steps of any number of calls
    interleave with each other and with the log.  The service refines an abstract append-only log,
    its answers stay true, its entries verify, its counters are exact, and a call that runs alone
    is the handler of \<open>Service\<close>.
  \<^item> \<open>Deployment\<close>: the server a command starts, on the storage \<open>NewStorage\<close> builds; every entry it
    hands out is well formed.
  \<^item> \<open>Http_Gateway\<close>, \<open>Rekor_Rpc\<close>, \<open>Route_Table\<close>: the hooks of the proxy, the generated stubs on
    both sides of the gRPC connection, and the URL patterns with the order of their registration;
    nothing internal leaks, every documented URL reaches its handler, reads are refused, serving
    in process and over a connection differ in panics only.
  \<^item> \<open>Server_Config\<close>, \<open>Server_Setup\<close>, \<open>Observability\<close>: configuration and construction of the
    servers, metrics, statistics, log filter; the servers of a command fit together.
  \<^item> \<open>Lifecycle\<close>: start, signals and shutdown as a transition system of interleaved goroutines;
    tessera stops last, the wait group is exact, a signal to servers that are registered ends the
    process, the states where nothing can move are the intended ones, and two schedules in which
    something is missed.
  \<^item> \<open>Signing_Stack\<close>, \<open>Drivers\<close>: the back ends, and the middlewares one of them puts around the
    signer of the AWS SDK; the signer does not see the headers they hide.
  \<^item> \<open>Signer\<close>, \<open>Serve_Cmd\<close>, \<open>Command_Flags\<close>, \<open>Command_Tree\<close>, \<open>Freeze_Checkpoint\<close>: the choice
    of the signer, the commands, their flags and their trees, freezing.
  \<^item> \<open>Client\<close>, \<open>Service_Mock\<close>: the client library, the mock service of the tests and its harness.
  \<^item> This theory: the path from the writer to the log and back, over the URL it posts to.

  The interfaces between components are locales, interpreted on the model: \<open>verifier_impl\<close> (keys
  and certificates), \<open>log_entry_type\<close> (both request types), \<open>entry_storage\<close> (the storage towards
  the service), \<open>config_field\<close> (every functional option) and \<open>tessera_driver\<close> (all four back ends).

  \<^bold>\<open>Bounds and fuel.\<close>  No definition uses fuel.  Loops of the program are recursion over the list
  they range over; the polling loop of the mock counts its five attempts; decimal printing and
  UTF-8 decoding terminate by a measure.  The servers run until a signal, so the life cycle is
  a step relation, and every step that is not a signal decreases \<open>work_left\<close>.  A call takes
  three steps; waiting for the log is one of them, so nothing is said about how long it takes.
  DSSE requests are bounded by the program's own limit of ten verifiers and ten signatures.

  \<^bold>\<open>Not modelled.\<close>  Reflection, descriptors and wire encoding of the protobuf messages are the
  protobuf runtime's, and the generated getters that no code of the program calls are left out;
  cobra's parsing of the command line and the output of the version command are parameters; the
  helpers under \<open>tests/\<close> drive an end-to-end test.  What is left of the implementation beyond
  that is licence texts, import lists, empty marker types and interface declarations.  Tiles that
  one proof reads are read in one step: published tiles do not change.

  Concrete instances, named \<open>demo\<close> and \<open>sim\<close>, show that the hypotheses of the theorems can hold together.
\<close>

section \<open>From the writer to the log and back\<close>

text \<open>
  What the parts outside the repository do between the two ends: the client's transport delivers
  method, path and body to the gateway's mux and brings back status and body; the request to post
  to the log's URL keeps its method, URL and body, and the path of that URL survives printing; the
  gateway decodes what the client encoded; a forwarded entry is written as JSON after the response
  hook;
  and the client decodes that JSON.
\<close>

definition transport_delivers ::
    "round_tripper \<Rightarrow> (string \<Rightarrow> string) \<Rightarrow> mux_runtime \<Rightarrow> 'q gateway_runtime \<Rightarrow> 's conn \<Rightarrow> 'q \<Rightarrow>
     http_headers \<Rightarrow> 's \<Rightarrow> bool" where
  "transport_delivers t path_of mx g cc q hs st \<longleftrightarrow>
     (\<forall>req w st'. gateway_ServeHTTP mx g cc q (req_Method req) (path_of (req_URL req)) (req_Body req)
          (fresh_response hs) st = (Ok w, st') \<longrightarrow>
      t req = Ok \<lparr>resp_StatusCode = (case rw_status w of None \<Rightarrow> 200 | Some c \<Rightarrow> c),
                  resp_Body = Ok (rw_body w)\<rparr>)"

definition request_codec ::
    "('tls, 'note) client_deps \<Rightarrow> (string \<Rightarrow> string) \<Rightarrow> 'q gateway_runtime \<Rightarrow> url \<Rightarrow>
     pb_CreateEntryRequest \<Rightarrow> bool" where
  "request_codec cd path_of g u cer \<longleftrightarrow>
     path_of (cd_String cd u) = url_Path u
   \<and> (\<exists>payload req. cd_MarshalRequest cd cer = Ok payload \<and> gw_Decode g payload = (cer, None)
        \<and> cd_NewRequest cd ''POST'' (cd_String cd u) payload = Ok req
        \<and> req_Method req = ''POST'' \<and> req_URL req = cd_String cd u \<and> req_Body req = payload)"

text \<open>The URL under which the API of a log takes entries.\<close>

definition entries_url :: "writeClient \<Rightarrow> url" where
  "entries_url wr = (wc_baseURL wr) \<lparr>url_Path := ''/api/v2/log/entries''\<rparr>"

text \<open>The writer is configured with the URL of the host, with or without a final slash.\<close>

definition at_host_root :: "writeClient \<Rightarrow> bool" where
  "at_host_root wr \<longleftrightarrow> url_Path (wc_baseURL wr) \<in> {[], ''/''}"

definition entry_forwarded ::
    "('tls, 'note) client_deps \<Rightarrow> 'q gateway_runtime \<Rightarrow> pb_TransparencyLogEntry \<Rightarrow> bool" where
  "entry_forwarded cd g tle \<longleftrightarrow>
     (\<exists>json. cd_UnmarshalEntry cd json = Ok tle
        \<and> (\<forall>md w w' md'. httpResponseModifier (Some md) w = Ok (w', md', None) \<longrightarrow>
             gw_ForwardEntry g md tle w = Ok (fst (Write json w'))))"

lemma root_path:
  "at_host_root wr \<Longrightarrow> path_Join (url_Path (wc_baseURL wr)) addPath = ''/api/v2/log/entries''"
  by (auto simp: at_host_root_def path_Join_def addPath_def path_Clean_def HasPrefix_def clean_step_def)

lemma entries_route: "api_route ''POST'' (split_slash ''api/v2/log/entries'') = Some (H_CreateEntry, Map.empty)"
  by (simp add: api_route_def)

lemma write_Add_delivered:
  assumes "createRequest entry = Ok cer" "request_codec cd path_of g (entries_url wr) cer" "at_host_root wr"
    and "mux_documented mx"
    and "transport_delivers (hcl_Transport (wc_client wr)) path_of mx g cc q hs st"
    and "\<And>body. gw_Decode g body = (cer, None) \<Longrightarrow>
      RegisterRekorHandlerClient g cc q (POST_entries body) (fresh_response hs) st = (Ok w, st')"
    and "rw_status w = Some code"
  shows "write_Add cd wr entry =
    (if code = 201 then go_bind (cd_UnmarshalEntry cd (rw_body w)) (Wrap ''unmarshaling response body'') Ok
     else Err (ErrText (''unexpected response: '' @ Itoa code @ '' '' @ rw_body w)))"
proof -
  obtain payload req where p: "cd_MarshalRequest cd cer = Ok payload" "gw_Decode g payload = (cer, None)"
    and r: "cd_NewRequest cd ''POST'' (cd_String cd (entries_url wr)) payload = Ok req"
      "req_Method req = ''POST''" "req_URL req = cd_String cd (entries_url wr)" "req_Body req = payload"
    using assms(2) unfolding request_codec_def by blast
  have u: "path_of (cd_String cd (entries_url wr)) = CHR ''/'' # ''api/v2/log/entries''"
    using assms(2) by (simp add: request_codec_def entries_url_def)
  have "gateway_ServeHTTP mx g cc q (req_Method req) (path_of (req_URL req)) (req_Body req)
      (fresh_response hs) st = (Ok w, st')"
    unfolding r(2-4) u
    by (rule trans [OF ServeHTTP_selected [OF mux_selects_api [OF assms(4) entries_route]]])
       (use assms(6) [OF p(2)] in simp)
  then have "hcl_Transport (wc_client wr) (Header_Set ''Content-Type'' ''application/json'' req) =
      Ok \<lparr>resp_StatusCode = code, resp_Body = Ok (rw_body w)\<rparr>"
    using assms(5,7) by (simp add: transport_delivers_def Header_Set_def)
  then show ?thesis
    using assms(1) p(1) r(1) root_path [OF assms(3)] by (simp add: write_Add_def entries_url_def Let_def)
qed

lemma gateway_create:
  assumes "conn_documented cc (rekor_server d s)" "gw_AnnotateContext g Rekor_CreateEntry_FullMethodName q = None"
    and "gw_Decode g body = (cer, None)"
    and "CreateEntry d s (Some cer) (st \<lparr>cs_headers := []\<rparr>) = (r, st')" "r \<noteq> RpcPanic"
  shows "RegisterRekorHandlerClient g cc q (POST_entries body) w st =
    (case r of
       RpcOk tle \<Rightarrow> gw_ForwardEntry g (md_of (cs_headers st')) tle w
     | RpcErr c m \<Rightarrow> customHTTPErrorHandler (gw_DefaultHTTPErrorHandler g)
         (Some (md_of (cs_headers st'))) w (StatusError c m)
     | RpcPanic \<Rightarrow> Panic, st')"
  using assms
  by (auto simp: gateway_respond_def request_Rekor_CreateEntry_0_def rekorClient_served [OF assms(1)]
      served_def recovered_def split: rpc.splits)

lemma Itoa_405: "Itoa 405 = ''405''"
  by code_simp

text \<open>
  C5. A log that is frozen tells its writers: over the whole path from the client library through
  the gateway to a read-only server, adding any entry fails with the status 405 and the message
  that names the reason.
\<close>

theorem frozen_log_tells_writer:
  assumes "createRequest entry = Ok cer" "request_codec cd path_of g (entries_url wr) cer" "at_host_root wr"
    and "mux_documented mx" "conn_documented cc (rekor_server d (NewServer stg True reg logID))"
    and "gw_AnnotateContext g Rekor_CreateEntry_FullMethodName q = None"
    and "transport_delivers (hcl_Transport (wc_client wr)) path_of mx g cc q hs st"
  shows "write_Add cd wr entry = Err (ErrText (''unexpected response: 405 ''
    @ ''This log has been frozen, please switch to the latest log.'' @ newline))"
proof -
  obtain r st' where c: "CreateEntry d (NewServer stg True reg logID) (Some cer) (st \<lparr>cs_headers := []\<rparr>)
      = (r, st')" by fastforce
  then have r: "r = RpcErr Unimplemented ''log frozen''"
      "cs_headers st' = [(httpStatusCodeHeader, ''405''), (httpErrorMessageHeader,
        ''This log has been frozen, please switch to the latest log.'')]"
    by (auto simp: CreateEntry_def NewServer_def SetHeader_def Let_def)
  let ?w = "\<lparr>rw_Header = filter (\<lambda>(h, _). \<not> isGrpcHeader h) hs, rw_status = Some 405,
      rw_body = ''This log has been frozen, please switch to the latest log.'' @ newline,
      rw_broken = False\<rparr>"
  have "RegisterRekorHandlerClient g cc q (POST_entries body) (fresh_response hs) st = (Ok ?w, st')"
    if "gw_Decode g body = (cer, None)" for body
    using gateway_create [OF assms(5,6) that c, of "fresh_response hs"] r
    by (simp add: customHTTPErrorHandler_def gateway_defs)
  from write_Add_delivered [OF assms(1-4,7) this]
  show ?thesis by (simp add: Itoa_405)
qed

text \<open>
  C4. An entry the server creates is the entry the writer gets: if the handler answers the
  writer's request with a log entry, \<open>Add\<close> returns exactly that entry.
\<close>

theorem created_entry_reaches_writer:
  assumes "createRequest entry = Ok cer" "request_codec cd path_of g (entries_url wr) cer" "at_host_root wr"
    and "entry_forwarded cd g tle" "mux_documented mx" "conn_documented cc (rekor_server d s)"
    and "gw_AnnotateContext g Rekor_CreateEntry_FullMethodName q = None"
    and "transport_delivers (hcl_Transport (wc_client wr)) path_of mx g cc q hs st"
    and "CreateEntry d s (Some cer) (st \<lparr>cs_headers := []\<rparr>) = (RpcOk tle, st')"
  shows "write_Add cd wr entry = Ok tle"
proof -
  obtain json where j: "cd_UnmarshalEntry cd json = Ok tle"
      "\<And>md w w' md'. httpResponseModifier (Some md) w = Ok (w', md', None) \<Longrightarrow>
       gw_ForwardEntry g md tle w = Ok (fst (Write json w'))"
    using assms(4) unfolding entry_forwarded_def by blast
  obtain c w where "st' = Inc c (SetHeader httpStatusCodeHeader ''201''
      (st \<lparr>cs_headers := [], cs_log := w\<rparr>))"
    using assms(9) by (rule CreateEntry_parts) auto
  then have md: "md_of (cs_headers st') = md_of [(httpStatusCodeHeader, ''201'')]"
    by (cases c) (simp_all add: SetHeader_def)
  let ?w = "\<lparr>rw_Header = filter (\<lambda>(h, _). \<not> isGrpcHeader h) hs, rw_status = Some 201,
      rw_body = [], rw_broken = False\<rparr>"
  have hook: "\<exists>md'. httpResponseModifier (Some (md_of (cs_headers st'))) (fresh_response hs) =
      Ok (?w, md', None)"
    unfolding md by (simp add: gateway_defs)
  have "RegisterRekorHandlerClient g cc q (POST_entries body) (fresh_response hs) st =
      (Ok (?w \<lparr>rw_body := json\<rparr>), st')"
    if "gw_Decode g body = (cer, None)" for body
    using gateway_create [OF assms(6,7) that assms(9), of "fresh_response hs"] hook j(2)
    by (auto simp: Write_def bodyAllowedForStatus_def)
  from write_Add_delivered [OF assms(1-3,5,8) this]
  show ?thesis by (simp add: j(1))
qed

text \<open>
  What the server creates, clients can verify offline: a log entry that \<open>CreateEntry\<close>
  returns from the tessera storage passes \<open>VerifyLogEntry\<close> with every verifier that accepts
  the checkpoint inside the entry.
\<close>

theorem created_entry_verifies:
  assumes "server_storage s = Some (as_Storage (d_tlog d) stg)"
    and "CreateEntry d s req st = (RpcOk tle, st')"
    and "new_entry_documented (d_tlog d)" "parse_agrees (d_tlog d)"
    and "VerifyCheckpoint (d_tlog d) (TLE_checkpoint_envelope tle) v = Ok cp"
  shows "VerifyLogEntry (d_tlog d) (Some tle) v = Ok ()"
proof -
  obtain body t w where t: "storage_Add (d_tlog d) stg (tl_NewEntry (d_tlog d) body) (cs_log st) = (Ok t, w)"
      "TLE_InclusionProof tle = TLE_InclusionProof t" "TLE_LogIndex tle = TLE_LogIndex t"
      "TLE_CanonicalizedBody tle = TLE_CanonicalizedBody t"
    using assms(2) by (rule CreateEntry_parts) (use assms(1) in auto)
  have "TLE_checkpoint_envelope t = TLE_checkpoint_envelope tle"
    using t(2) by (simp add: TLE_checkpoint_envelope_def)
  then show ?thesis
    using ts.added_verifies [OF assms(3,4) t(1)] assms(5) t(2-4) by simp
qed

section \<open>A concrete deployment\<close>

text \<open>
  The concrete server of theory \<open>Service\<close> behind the gateway runtime of theory
  \<open>Rekor_Rpc\<close>, and a writer whose transport hands the request to the gateway.  The codec
  knows the one request and the one entry of the example.
\<close>

definition demo_tle :: pb_TransparencyLogEntry where
  "demo_tle =
     \<lparr>TLE_LogIndex = 0, TLE_LogId = Some ''id'',
      TLE_KindVersion = Some \<lparr>KindVersion_Kind = ''dsse'', KindVersion_Version = ''0.0.2''\<rparr>,
      TLE_InclusionProof = Some \<lparr>InclusionProof_LogIndex = 0, InclusionProof_RootHash = ''Ldsse'',
        InclusionProof_TreeSize = 1, InclusionProof_Hashes = [],
        InclusionProof_Checkpoint = Some ''Ldsse''\<rparr>,
      TLE_CanonicalizedBody = ''dsse''\<rparr>"

definition demo_transport :: "(PublicKeyDetails list, bytes list) Server \<Rightarrow> round_tripper" where
  "demo_transport s req =
     (case fst (gateway_ServeHTTP demo_mux demo_gateway (direct_conn (rekor_server demo_deps s)) ()
         (req_Method req) (req_URL req) (req_Body req) (fresh_response []) (demo_call [])) of
        Ok w \<Rightarrow> Ok \<lparr>resp_StatusCode = (case rw_status w of None \<Rightarrow> 200 | Some c \<Rightarrow> c),
                   resp_Body = Ok (rw_body w)\<rparr>
      | Err e \<Rightarrow> Err e | Panic \<Rightarrow> Err EOF)"

definition demo_cd :: "(unit, unit) client_deps" where
  "demo_cd = (demo_client_deps (\<lambda>r. Panic))
     \<lparr>cd_MarshalRequest := (\<lambda>r. Ok ''{}''), cd_UnmarshalEntry := (\<lambda>b. Ok demo_tle)\<rparr>"

definition demo_write_client :: "(PublicKeyDetails list, bytes list) Server \<Rightarrow> writeClient" where
  "demo_write_client s = \<lparr>wc_baseURL = \<lparr>url_Path = ''/'', url_rest = []\<rparr>,
     wc_client = \<lparr>hcl_Transport = demo_transport s, hcl_Timeout = 0\<rparr>\<rparr>"

definition demo_entry :: any_entry where
  "demo_entry = AnyDSSE (Some (demo_request [''a''] [''a'']))"

lemma demo_create_request: "createRequest demo_entry = Ok (the demo_create)"
  by (simp add: demo_entry_def demo_create_def createDSSERequest_def)

lemma demo_codec: "request_codec demo_cd id demo_gateway (entries_url wr) (the demo_create)"
  by (simp add: request_codec_def demo_cd_def demo_client_deps_def demo_gateway_def)

lemma demo_delivers:
  "transport_delivers (hcl_Transport (wc_client (demo_write_client s))) id demo_mux demo_gateway
     (direct_conn (rekor_server demo_deps s)) () [] (demo_call [])"
  by (simp add: transport_delivers_def demo_write_client_def demo_transport_def)

lemma demo_at_root: "at_host_root (demo_write_client s)"
  by (simp add: at_host_root_def demo_write_client_def)

lemma demo_annotate: "gw_AnnotateContext demo_gateway m () = None"
  by (simp add: demo_gateway_def)

lemma demo_forwarded: "entry_forwarded demo_cd demo_gateway demo_tle"
  unfolding entry_forwarded_def
  by (rule exI [of _ "TLE_CanonicalizedBody demo_tle"]) (simp add: demo_cd_def demo_gateway_def)

lemma demo_created_tle:
  "\<exists>st'. CreateEntry demo_deps demo_server demo_create (demo_call []) = (RpcOk demo_tle, st')"
  using demo_select demo_server_storage demo_Add(1) [of "''dsse''"]
  by (simp add: CreateEntry_def demo_call_def Let_def demo_deps_def demo_tle_def demo_server_def
      NewServer_def)

lemma demo_fresh: "(demo_call w) \<lparr>cs_headers := []\<rparr> = demo_call w"
  by (simp add: demo_call_def)

theorem frozen_log_tells_writer_witness:
  "write_Add demo_cd (demo_write_client (NewServer None True None ''id'')) demo_entry =
     Err (ErrText (''unexpected response: 405 ''
       @ ''This log has been frozen, please switch to the latest log.'' @ newline))"
  by (rule frozen_log_tells_writer [OF demo_create_request demo_codec demo_at_root
        demo_mux_documented direct_conn_documented
        demo_annotate demo_delivers])

theorem created_entry_reaches_writer_witness:
  "write_Add demo_cd (demo_write_client demo_server) demo_entry = Ok demo_tle"
proof -
  obtain st' where "CreateEntry demo_deps demo_server (Some (the demo_create))
      ((demo_call []) \<lparr>cs_headers := []\<rparr>) = (RpcOk demo_tle, st')"
    using demo_created_tle by (auto simp: demo_fresh demo_create_def)
  from created_entry_reaches_writer [OF demo_create_request demo_codec demo_at_root
      demo_forwarded demo_mux_documented direct_conn_documented demo_annotate demo_delivers this]
  show ?thesis .
qed

definition demo_note_verifier :: noteVerifier where
  "demo_note_verifier = \<lparr>noteVerifier_name = ''a.b'', noteVerifier_hash = 0,
     noteVerifier_verify = (\<lambda>msg sig. Ok True)\<rparr>"

theorem created_entry_verifies_witness:
  "\<exists>st'. CreateEntry demo_deps demo_server demo_create (demo_call []) = (RpcOk demo_tle, st')
     \<and> VerifyLogEntry demo_tlog (Some demo_tle) demo_note_verifier = Ok ()"
proof -
  obtain st' where c: "CreateEntry demo_deps demo_server demo_create (demo_call []) = (RpcOk demo_tle, st')"
    using demo_created_tle by blast
  have d: "d_tlog demo_deps = demo_tlog" by (simp add: demo_deps_def)
  have "\<exists>cp. VerifyCheckpoint demo_tlog (TLE_checkpoint_envelope demo_tle) demo_note_verifier = Ok cp"
    by (simp add: VerifyCheckpoint_def demo_tlog_def demo_note_verifier_def note_method_defs)
  then show ?thesis
    using created_entry_verifies [of demo_server demo_deps demo_storage] c demo_server_storage(1)
      demo_tlog_documented d by metis
qed

end
